(* ===== verification/Prelude.thy ===== *)
theory Prelude
  imports Main "HOL-Library.Word" "HOL-Library.AList" "HOL-Library.Char_ord"
    "HOL-Library.List_Lexorder"
begin

text \<open>
  Shared vocabulary of the development. Go values are translated as follows.

  \<^item> A Go \<open>string\<close> and a \<open>[]byte\<close> are both byte sequences: \<^typ>\<open>string\<close>, a list of
    8-bit characters. Slicing \<open>s[i:j]\<close> is \<open>slice\<close>.
  \<^item> A Go \<open>error\<close> is a value of \<open>error\<close>, whose constructors keep how it was built
    (\<open>errors.New\<close>, \<open>fmt.Errorf\<close> with \<open>%w\<close>, with \<open>%v\<close>, \<open>errors.Join\<close>), so that
    \<open>errors.Unwrap\<close> can be read off. A function that returns only an \<open>error\<close> returns an
    \<^typ>\<open>'e option\<close> (\<^const>\<open>None\<close> is \<open>nil\<close>).
  \<^item> A function that returns a value and an \<open>error\<close> returns a \<open>res\<close>: the value, the error,
    or a panic.
  \<^item> A Go map is an association list with distinct keys. The order of the list stands for
    the iteration order, which Go leaves unspecified: theorems quantify over every list.
\<close>

section \<open>Named collections\<close>

named_theorems go_defs "unfoldings of the short wrappers of the source"
named_theorems inv_intros "operations keep the invariants"

section \<open>Errors and results\<close>

datatype error =
    New string
  | Errorf string "string list"
  | Wrap string "string list" error
  | Opaque string "string list" error
  | Join "error list"

text \<open>
  \<open>Errorf fmt args\<close> is \<open>fmt.Errorf\<close> with arguments that are not errors, \<open>Wrap fmt args e\<close> is
  \<open>fmt.Errorf\<close> with the error \<open>e\<close> behind its \<open>%w\<close>, \<open>Opaque fmt args e\<close> renders \<open>e\<close> with
  \<open>%v\<close> and cuts the chain; \<open>args\<close> are the other arguments.
\<close>

fun errors_Unwrap :: "error \<Rightarrow> error option" where
  "errors_Unwrap (Wrap _ _ e) = Some e"
| "errors_Unwrap _ = None"

fun errors_Is :: "error \<Rightarrow> error \<Rightarrow> bool" where
  "errors_Is (Wrap f a e) t = (Wrap f a e = t \<or> errors_Is e t)"
| "errors_Is (Join es) t = (Join es = t \<or> (\<exists>e \<in> set es. errors_Is e t))"
| "errors_Is e t = (e = t)"

text \<open>\<open>errors.Join\<close> discards nil errors and is nil when nothing is left.\<close>

definition errors_Join :: "error option list \<Rightarrow> error option" where
  "errors_Join es = (case List.map_filter id es of [] \<Rightarrow> None | e # es' \<Rightarrow> Some (Join (e # es')))"

text \<open>\<open>fmt.Errorf\<close> with \<open>%v\<close> or \<open>%w\<close> on the result of \<open>errors.Unwrap\<close>, which may be nil.\<close>

fun errorf_v :: "string \<Rightarrow> string list \<Rightarrow> error option \<Rightarrow> error" where
  "errorf_v f args (Some e) = Opaque f args e"
| "errorf_v f args None = Errorf f (args @ [''<nil>''])"

fun errorf_w :: "string \<Rightarrow> string list \<Rightarrow> error option \<Rightarrow> error" where
  "errorf_w f args (Some e) = Wrap f args e"
| "errorf_w f args None = Errorf f (args @ [''%!w(<nil>)''])"

datatype 'a res = Ok 'a | Err error | Panic error

primrec bind_res :: "'a res \<Rightarrow> ('a \<Rightarrow> 'b res) \<Rightarrow> 'b res" where
  "bind_res (Ok x) f = f x"
| "bind_res (Err e) f = Err e"
| "bind_res (Panic m) f = Panic m"

primrec map_err :: "(error \<Rightarrow> error) \<Rightarrow> 'a res \<Rightarrow> 'a res" where
  "map_err g (Ok x) = Ok x"
| "map_err g (Err e) = Err (g e)"
| "map_err g (Panic m) = Panic m"

primrec is_Ok :: "'a res \<Rightarrow> bool" where
  "is_Ok (Ok _) = True"
| "is_Ok (Err _) = False"
| "is_Ok (Panic _) = False"

primrec is_Panic :: "'a res \<Rightarrow> bool" where
  "is_Panic (Ok _) = False"
| "is_Panic (Err _) = False"
| "is_Panic (Panic _) = True"

text \<open>\<open>mapM_res f xs\<close>: a loop that appends \<open>f x\<close> for every \<open>x\<close> and returns at the first error.\<close>

fun mapM_res :: "('a \<Rightarrow> 'b res) \<Rightarrow> 'a list \<Rightarrow> 'b list res" where
  "mapM_res f [] = Ok []"
| "mapM_res f (x # xs) = bind_res (f x) (\<lambda>y. bind_res (mapM_res f xs) (\<lambda>ys. Ok (y # ys)))"

section \<open>Slices\<close>

text \<open>Decimal rendering of a count, for the \<open>%d\<close> of error messages.\<close>

fun itoa :: "nat \<Rightarrow> string" where
  "itoa n = (if n < 10 then [char_of (48 + n)] else itoa (n div 10) @ [char_of (48 + n mod 10)])"

declare itoa.simps [simp del]

definition slice :: "'a list \<Rightarrow> nat \<Rightarrow> nat \<Rightarrow> 'a list" where
  "slice xs i j = take (j - i) (drop i xs)"

definition has_prefix :: "'a list \<Rightarrow> 'a list \<Rightarrow> bool" where
  "has_prefix s p \<longleftrightarrow> take (length p) s = p"

fun contains_sub :: "'a list \<Rightarrow> 'a list \<Rightarrow> bool" where
  "contains_sub [] p = (p = [])"
| "contains_sub (x # xs) p = (has_prefix (x # xs) p \<or> contains_sub xs p)"

section \<open>Go maps\<close>

type_synonym ('k, 'v) gomap = "('k \<times> 'v) list"

abbreviation gm_get :: "('k, 'v) gomap \<Rightarrow> 'k \<Rightarrow> 'v option" where
  "gm_get \<equiv> map_of"

abbreviation gm_set :: "'k \<Rightarrow> 'v \<Rightarrow> ('k, 'v) gomap \<Rightarrow> ('k, 'v) gomap" where
  "gm_set \<equiv> AList.update"

abbreviation gm_delete :: "'k \<Rightarrow> ('k, 'v) gomap \<Rightarrow> ('k, 'v) gomap" where
  "gm_delete \<equiv> AList.delete"

definition gm_wf :: "('k, 'v) gomap \<Rightarrow> bool" where
  "gm_wf m \<longleftrightarrow> distinct (map fst m)"

definition gm_has :: "('k, 'v) gomap \<Rightarrow> 'k \<Rightarrow> bool" where
  "gm_has m k \<longleftrightarrow> gm_get m k \<noteq> None"

text \<open>\<open>for k, v := range m { out[k] = v }\<close> with \<open>out\<close> initially empty.\<close>

definition gm_copy :: "('k, 'v) gomap \<Rightarrow> ('k, 'v) gomap" where
  "gm_copy m = fold (\<lambda>(k, v). gm_set k v) m []"

section \<open>Lemmas\<close>

subsection \<open>Results\<close>

lemma bind_res_Ok_iff [simp]:
  "bind_res r f = Ok y \<longleftrightarrow> (\<exists>x. r = Ok x \<and> f x = Ok y)"
  by (cases r) auto

lemma bind_res_Panic_iff:
  "bind_res r f = Panic m \<longleftrightarrow> r = Panic m \<or> (\<exists>x. r = Ok x \<and> f x = Panic m)"
  by (cases r) auto

lemma map_err_Ok_iff [simp]: "map_err g r = Ok x \<longleftrightarrow> r = Ok x"
  by (cases r) auto

lemma is_Ok_iff: "is_Ok r \<longleftrightarrow> (\<exists>x. r = Ok x)"
  by (cases r) auto

lemma is_Panic_iff: "is_Panic r \<longleftrightarrow> (\<exists>m. r = Panic m)"
  by (cases r) auto

lemma map_err_Panic_iff: "map_err g r = Panic m \<longleftrightarrow> r = Panic m"
  by (cases r) auto

lemma mapM_res_Ok_iff:
  "mapM_res f xs = Ok ys \<longleftrightarrow> list_all2 (\<lambda>x y. f x = Ok y) xs ys"
proof (induction xs arbitrary: ys)
  case Nil
  then show ?case by (auto simp: eq_commute)
next
  case (Cons x xs)
  then show ?case by (cases ys) (auto simp: list_all2_Cons1)
qed

lemma mapM_res_length: "mapM_res f xs = Ok ys \<Longrightarrow> length ys = length xs"
  by (simp add: mapM_res_Ok_iff list_all2_lengthD)

lemma mapM_res_total:
  "(\<And>x. x \<in> set xs \<Longrightarrow> f x = Ok (g x)) \<Longrightarrow> mapM_res f xs = Ok (map g xs)"
  by (induction xs) auto

lemma mapM_res_no_panic:
  "(\<And>x. x \<in> set xs \<Longrightarrow> \<not> is_Panic (f x)) \<Longrightarrow> \<not> is_Panic (mapM_res f xs)"
proof (induction xs)
  case (Cons x xs)
  then have "\<not> is_Panic (f x)" "\<not> is_Panic (mapM_res f xs)" by auto
  then show ?case by (cases "f x"; cases "mapM_res f xs") auto
qed simp

lemma is_Panic_bind_res [simp]: "is_Panic (bind_res r f) \<longleftrightarrow> is_Panic r \<or> (\<exists>x. r = Ok x \<and> is_Panic (f x))"
  by (cases r) auto

lemma is_Panic_mapM_res: "is_Panic (mapM_res f xs) \<Longrightarrow> \<exists>x \<in> set xs. is_Panic (f x)"
  using mapM_res_no_panic [of xs f] by auto

lemma is_Panic_map_err [simp]: "is_Panic (map_err g r) = is_Panic r"
  by (cases r) auto

subsection \<open>Slices and prefixes\<close>

lemma slice_append_left [simp]: "j \<le> length xs \<Longrightarrow> slice (xs @ ys) i j = slice xs i j"
  by (simp add: slice_def)

lemma slice_append_right: "slice (xs @ ys) (length xs) (length xs + n) = take n ys"
  by (simp add: slice_def)

lemma slice_full [simp]: "slice xs 0 (length xs) = xs"
  by (simp add: slice_def)

lemma slice_snoc:
  "i \<le> j \<Longrightarrow> j < length xs \<Longrightarrow> slice xs i (Suc j) = slice xs i j @ [xs ! j]"
  by (simp add: slice_def Suc_diff_le take_Suc_conv_app_nth)

lemma slice_drop_append: "i \<le> j \<Longrightarrow> slice xs i j @ drop j xs = drop i xs"
  by (metis slice_def append_take_drop_id drop_drop le_add_diff_inverse2)

lemma take_slice_append: "i \<le> j \<Longrightarrow> take i xs @ slice xs i j = take j xs"
  by (metis slice_def take_add le_add_diff_inverse)

lemma has_prefix_append [simp]: "has_prefix (p @ s) p"
  by (simp add: has_prefix_def)

lemma has_prefix_iff: "has_prefix s p \<longleftrightarrow> (\<exists>t. s = p @ t)"
  by (auto simp: has_prefix_def) (metis append_take_drop_id)

lemma contains_sub_iff: "contains_sub s p \<longleftrightarrow> (\<exists>a b. s = a @ p @ b)"
proof (induction s)
  case (Cons x xs)
  note IH = Cons.IH
  show ?case
  proof
    assume "contains_sub (x # xs) p"
    then consider "has_prefix (x # xs) p" | "contains_sub xs p" by auto
    then show "\<exists>a b. x # xs = a @ p @ b"
    proof cases
      case 1
      then show ?thesis by (metis append_Nil has_prefix_iff)
    next
      case 2
      then show ?thesis using Cons.IH by (metis append_Cons)
    qed
  next
    assume "\<exists>a b. x # xs = a @ p @ b"
    then obtain a b where ab: "x # xs = a @ p @ b" by blast
    then show "contains_sub (x # xs) p"
    proof (cases a)
      case Nil
      then have "has_prefix (x # xs) p" using ab unfolding has_prefix_iff by auto
      then show ?thesis by simp
    next
      case (Cons y a')
      then show ?thesis using ab IH by auto
    qed
  qed
qed auto

subsection \<open>Go maps\<close>

lemma gm_get_set [simp]: "gm_get (gm_set k v m) = (gm_get m)(k \<mapsto> v)"
  by (rule AList.update_conv')

lemma gm_get_delete [simp]: "gm_get (gm_delete k m) = (gm_get m)(k := None)"
  by (rule AList.delete_conv')

lemma gm_wf_Nil [simp, inv_intros]: "gm_wf []"
  by (simp add: gm_wf_def)

lemma gm_wf_set [simp, inv_intros]: "gm_wf m \<Longrightarrow> gm_wf (gm_set k v m)"
  by (simp add: gm_wf_def AList.distinct_update)

lemma gm_wf_delete [simp, inv_intros]: "gm_wf m \<Longrightarrow> gm_wf (gm_delete k m)"
  by (simp add: gm_wf_def AList.distinct_delete)

lemma gm_wf_Cons [simp]: "gm_wf ((k, v) # m) \<longleftrightarrow> k \<notin> fst ` set m \<and> gm_wf m"
  by (simp add: gm_wf_def)

lemma gm_has_iff: "gm_has m k \<longleftrightarrow> k \<in> fst ` set m"
  by (simp add: gm_has_def map_of_eq_None_iff)

lemma gm_len_card: "gm_wf m \<Longrightarrow> length m = card (dom (gm_get m))"
  by (metis dom_map_of_conv_image_fst distinct_card gm_wf_def length_map list.set_map)

lemma gm_set_fresh: "k \<notin> fst ` set m \<Longrightarrow> gm_set k v m = m @ [(k, v)]"
  by (induction m) auto

lemma gm_copy_append:
  assumes "gm_wf (m0 @ m)"
  shows "fold (\<lambda>(k, v). gm_set k v) m m0 = m0 @ m"
  using assms
proof (induction m arbitrary: m0)
  case (Cons kv m)
  obtain k v where kv: "kv = (k, v)" by force
  have "k \<notin> fst ` set m0" using Cons.prems kv by (auto simp: gm_wf_def)
  then show ?case using Cons.IH [of "m0 @ [(k, v)]"] Cons.prems kv
    by (simp add: gm_set_fresh)
qed simp

lemma gm_copy_id [simp]: "gm_wf m \<Longrightarrow> gm_copy m = m"
  using gm_copy_append [of "[]" m] by (simp add: gm_copy_def)

lemma gm_fold_wf:
  "gm_wf m0 \<Longrightarrow> gm_wf (fold (\<lambda>(k, v). gm_set k v) m m0)"
  by (induction m arbitrary: m0) auto

lemma gm_wf_copy [simp, inv_intros]: "gm_wf (gm_copy m)"
  by (simp add: gm_copy_def gm_fold_wf)

lemma map_of_fold_set:
  "map_of (fold (\<lambda>(k, v). gm_set k v) m m0) = map_of m0 ++ map_of (rev m)"
  by (induction m arbitrary: m0) auto

lemma map_of_eq_rev: "distinct (map fst m) \<Longrightarrow> map_of (rev m) = map_of m"
  by (metis distinct_rev map_of_inject_set rev_map set_rev)

lemma list_all2_left: "list_all2 P xs ys \<Longrightarrow> x \<in> set xs \<Longrightarrow> \<exists>y \<in> set ys. P x y"
  by (induction rule: list_all2_induct) auto

lemma list_all2_right: "list_all2 P xs ys \<Longrightarrow> y \<in> set ys \<Longrightarrow> \<exists>x \<in> set xs. P x y"
  by (induction rule: list_all2_induct) auto

lemma fold_snd: "fold (\<lambda>(_, v) out. out @ [v]) m acc = acc @ map snd m"
  by (induction m arbitrary: acc) auto

lemma fold_snoc_pairs: "fold (\<lambda>(k, v) out. out @ [f k v]) m acc = acc @ map (\<lambda>(k, v). f k v) m"
  by (induction m arbitrary: acc) auto

lemma sorted_key_unique:
  fixes f :: "'a \<Rightarrow> 'b :: linorder"
  assumes "sorted (map f xs)" "sorted (map f ys)" "set xs = set ys"
    and "distinct (map f xs)" "distinct (map f ys)"
  shows "xs = ys"
proof -
  have "map f xs = map f ys"
    using assms by (intro sorted_distinct_set_unique) auto
  moreover have "inj_on f (set xs \<union> set ys)"
    using assms by (auto simp: distinct_map)
  ultimately show ?thesis by (metis map_inj_on)
qed

subsection \<open>Signed 64-bit integers\<close>

lemma sint_of_int64: "- (2 ^ 63) \<le> k \<Longrightarrow> k < 2 ^ 63 \<Longrightarrow> sint (word_of_int k :: 64 word) = k"
  by (simp add: signed_of_int signed_take_bit_int_eq_self)

lemma sint_add64:
  fixes a b :: "64 word"
  assumes "- (2 ^ 63) \<le> sint a + sint b" "sint a + sint b < 2 ^ 63"
  shows "sint (a + b) = sint a + sint b"
proof -
  have "a + b = word_of_int (sint a + sint b)" by (simp add: wi_hom_syms)
  then show ?thesis using sint_of_int64 [OF assms] by simp
qed

lemma sint_mult64:
  fixes a b :: "64 word"
  assumes "- (2 ^ 63) \<le> sint a * sint b" "sint a * sint b < 2 ^ 63"
  shows "sint (a * b) = sint a * sint b"
proof -
  have "a * b = word_of_int (sint a * sint b)" by (simp add: wi_hom_syms)
  then show ?thesis using sint_of_int64 [OF assms] by simp
qed

end
