(* ===== verification/Spiffeid_Path.thy ===== *)
theory Spiffeid_Path
  imports Prelude
begin

text \<open>
  The character sets, error values and path functions of package \<open>spiffeid\<close>
  (\<open>charset_backcompat_deny.go\<close>, \<open>charset_backcompat_allow.go\<close>, \<open>errors.go\<close>, \<open>path.go\<close>).

  The build tag \<open>spiffeid_charset_backcompat\<close> selects one of two files that define the
  backwards-compatible characters. The tag is a parameter of the model: a value of
  \<open>charset\<close> that every function that looks at a character takes as its first argument. The
  locale \<open>segment_charset\<close> states what path validation relies on; it is interpreted for both
  builds.
\<close>

section \<open>Definitions\<close>

subsection \<open>Character sets\<close>

datatype charset = Backcompat_Deny | Backcompat_Allow

definition isSubDelim :: "char \<Rightarrow> bool" where
  "isSubDelim c \<longleftrightarrow> c \<in> set ''!$&'' \<or> c = CHR 0x27 \<or> c \<in> set ''()*+,;=''"

fun isBackcompatTrustDomainChar :: "charset \<Rightarrow> char \<Rightarrow> bool" where
  "isBackcompatTrustDomainChar Backcompat_Deny c = False"
| "isBackcompatTrustDomainChar Backcompat_Allow c =
     (if isSubDelim c then True else c = CHR ''~'')"

fun isBackcompatPathChar :: "charset \<Rightarrow> char \<Rightarrow> bool" where
  "isBackcompatPathChar Backcompat_Deny c = False"
| "isBackcompatPathChar Backcompat_Allow c =
     (if isSubDelim c then True
      else if c = CHR ''~'' then True
      else c \<in> set '':[]@'')"

definition isValidPathSegmentChar :: "charset \<Rightarrow> char \<Rightarrow> bool" where
  "isValidPathSegmentChar cs c =
     (if CHR ''a'' \<le> c \<and> c \<le> CHR ''z'' then True
      else if CHR ''A'' \<le> c \<and> c \<le> CHR ''Z'' then True
      else if CHR ''0'' \<le> c \<and> c \<le> CHR ''9'' then True
      else if c = CHR ''-'' \<or> c = CHR ''.'' \<or> c = CHR ''_'' then True
      else isBackcompatPathChar cs c)"

subsection \<open>Error values\<close>

definition errBadTrustDomainChar :: error where
  "errBadTrustDomainChar = New ''trust domain characters are limited to lowercase letters, numbers, dots, dashes, and underscores''"

definition errBadPathSegmentChar :: error where
  "errBadPathSegmentChar = New ''path segment characters are limited to letters, numbers, dots, dashes, and underscores''"

definition errDotSegment :: error where
  "errDotSegment = New ''path cannot contain dot segments''"

definition errNoLeadingSlash :: error where
  "errNoLeadingSlash = New ''path must have a leading slash''"

definition errEmpty :: error where
  "errEmpty = New ''cannot be empty''"

definition errEmptySegment :: error where
  "errEmptySegment = New ''path cannot contain empty segments''"

definition errMissingTrustDomain :: error where
  "errMissingTrustDomain = New ''trust domain is missing''"

definition errTrailingSlash :: error where
  "errTrailingSlash = New ''path cannot have a trailing slash''"

definition errWrongScheme :: error where
  "errWrongScheme = New ''scheme is missing or invalid''"

subsection \<open>Paths\<close>

text \<open>
  The loop of \<open>ValidatePath\<close>, with the two indices of the source, and the switch that
  follows it.
\<close>

function ValidatePath_loop :: "charset \<Rightarrow> string \<Rightarrow> nat \<Rightarrow> nat \<Rightarrow> error option" where
  "ValidatePath_loop cs path segmentStart segmentEnd =
     (if segmentEnd < length path then
        let c = path ! segmentEnd in
        if c = CHR ''/'' then
          (let seg = slice path segmentStart segmentEnd in
           if seg = ''/'' then Some errEmptySegment
           else if seg = ''/.'' \<or> seg = ''/..'' then Some errDotSegment
           else ValidatePath_loop cs path segmentEnd (Suc segmentEnd))
        else if \<not> isValidPathSegmentChar cs c then Some errBadPathSegmentChar
        else ValidatePath_loop cs path segmentStart (Suc segmentEnd)
      else
        let seg = slice path segmentStart segmentEnd in
        if seg = ''/'' then Some errTrailingSlash
        else if seg = ''/.'' \<or> seg = ''/..'' then Some errDotSegment
        else None)"
  by pat_completeness auto
termination
  by (relation "measure (\<lambda>(cs, path, s, e). length path - e)") auto

declare ValidatePath_loop.simps [simp del]

definition ValidatePath :: "charset \<Rightarrow> string \<Rightarrow> error option" where
  "ValidatePath cs path =
     (if path = '''' then None
      else if path ! 0 \<noteq> CHR ''/'' then Some errNoLeadingSlash
      else ValidatePath_loop cs path 0 0)"

definition ValidatePathSegment :: "charset \<Rightarrow> string \<Rightarrow> error option" where
  "ValidatePathSegment cs segment =
     (if segment = '''' then Some errEmptySegment
      else if segment = ''.'' \<or> segment = ''..'' then Some errDotSegment
      else if \<exists>c \<in> set segment. \<not> isValidPathSegmentChar cs c then Some errBadPathSegmentChar
      else None)"

text \<open>The accumulator is the contents of the \<open>strings.Builder\<close>.\<close>

fun JoinPathSegments_loop :: "charset \<Rightarrow> string \<Rightarrow> string list \<Rightarrow> string res" where
  "JoinPathSegments_loop cs builder [] = Ok builder"
| "JoinPathSegments_loop cs builder (segment # segments) =
     (case ValidatePathSegment cs segment of
        Some e \<Rightarrow> Err e
      | None \<Rightarrow> JoinPathSegments_loop cs (builder @ [CHR ''/''] @ segment) segments)"

definition JoinPathSegments :: "charset \<Rightarrow> string list \<Rightarrow> string res" where
  "JoinPathSegments cs segments = JoinPathSegments_loop cs '''' segments"

text \<open>\<open>fmt.Sprintf\<close> is the parameter \<open>sprintf\<close>.\<close>

definition FormatPath ::
  "charset \<Rightarrow> (string \<Rightarrow> 'arg list \<Rightarrow> string) \<Rightarrow> string \<Rightarrow> 'arg list \<Rightarrow> string res" where
  "FormatPath cs sprintf format args =
     (let path = sprintf format args in
      case ValidatePath cs path of Some e \<Rightarrow> Err e | None \<Rightarrow> Ok path)"

section \<open>Specification of paths\<close>

text \<open>
  The SPIFFE-ID standard's description of a path: empty, or slash-prefixed non-empty
  segments over the allowed characters, none of them a dot segment.
\<close>

definition valid_segment :: "charset \<Rightarrow> string \<Rightarrow> bool" where
  "valid_segment cs s \<longleftrightarrow>
     s \<noteq> '''' \<and> s \<noteq> ''.'' \<and> s \<noteq> ''..'' \<and> (\<forall>c \<in> set s. isValidPathSegmentChar cs c)"

definition join_segments :: "string list \<Rightarrow> string" where
  "join_segments segs = concat (map (\<lambda>s. CHR ''/'' # s) segs)"

definition valid_path :: "charset \<Rightarrow> string \<Rightarrow> bool" where
  "valid_path cs p \<longleftrightarrow> (\<exists>segs. list_all (valid_segment cs) segs \<and> p = join_segments segs)"

lemma join_segments_Nil [simp]: "join_segments [] = ''''"
  by (simp add: join_segments_def)

lemma join_segments_Cons [simp]: "join_segments (s # ss) = CHR ''/'' # s @ join_segments ss"
  by (simp add: join_segments_def)

lemma join_segments_append [simp]:
  "join_segments (xs @ ys) = join_segments xs @ join_segments ys"
  by (simp add: join_segments_def)

lemma join_segments_total:
  "\<exists>segs. list_all (list_all (\<lambda>c. c \<noteq> CHR ''/'')) segs \<and> CHR ''/'' # r = join_segments segs"
proof (induction "length r" arbitrary: r rule: less_induct)
  case less
  define s t where "s = takeWhile (\<lambda>c. c \<noteq> CHR ''/'') r" and "t = dropWhile (\<lambda>c. c \<noteq> CHR ''/'') r"
  have r: "r = s @ t" by (simp add: s_def t_def)
  have s: "list_all (\<lambda>c. c \<noteq> CHR ''/'') s" by (auto simp: s_def list_all_iff dest: set_takeWhileD)
  show ?case
  proof (cases t)
    case Nil
    then show ?thesis using r s by (intro exI [of _ "[s]"]) simp
  next
    case (Cons c t')
    then have "dropWhile (\<lambda>c. c \<noteq> CHR ''/'') r = c # t'" by (simp add: t_def)
    then have "c = CHR ''/''" by (simp only: dropWhile_eq_Cons_conv) blast
    moreover have "length t' < length r" using r Cons by simp
    ultimately obtain segs where "list_all (list_all (\<lambda>c. c \<noteq> CHR ''/'')) segs" "t = join_segments segs"
      using less Cons by blast
    then show ?thesis using r s by (intro exI [of _ "s # segs"]) simp
  qed
qed

section \<open>The contract of a segment character set\<close>

text \<open>
  All that path validation needs of a character set: the slash is not a segment character.
\<close>

locale segment_charset =
  fixes ok :: "char \<Rightarrow> bool"
  assumes no_slash: "\<not> ok (CHR ''/'')"
begin

lemma ok_noslash: "list_all ok s \<Longrightarrow> CHR ''/'' \<notin> set s"
  using no_slash by (auto simp: list_all_iff)

lemma takeWhile_segment:
  "list_all ok s \<Longrightarrow> takeWhile (\<lambda>c. c \<noteq> CHR ''/'') (s @ join_segments ss) = s"
  using ok_noslash [of s] by (cases ss) (auto simp: takeWhile_append)

lemma join_segments_inj:
  assumes "list_all (list_all ok) xs" "list_all (list_all ok) ys"
    and "join_segments xs = join_segments ys"
  shows "xs = ys"
  using assms
proof (induction xs arbitrary: ys)
  case Nil
  then show ?case by (cases ys) auto
next
  case (Cons x xs)
  obtain y ys' where ys: "ys = y # ys'"
    using Cons.prems by (cases ys) auto
  have eq: "x @ join_segments xs = y @ join_segments ys'"
    using Cons.prems(3) ys by simp
  have "x = y"
    using takeWhile_segment [of x xs] takeWhile_segment [of y ys'] eq Cons.prems ys by auto
  then show ?case using Cons.IH [of ys'] Cons.prems eq ys by auto
qed

end

section \<open>Lemmas\<close>

lemma no_slash_path_char [simp]: "\<not> isValidPathSegmentChar cs (CHR ''/'')"
  by (cases cs) (simp_all add: isValidPathSegmentChar_def isSubDelim_def)

interpretation seg: segment_charset "isValidPathSegmentChar cs" for cs
  by unfold_locales simp

interpretation noslash: segment_charset "\<lambda>c. c \<noteq> CHR ''/''"
  by unfold_locales simp

lemma ValidatePathSegment_None_iff:
  "ValidatePathSegment cs s = None \<longleftrightarrow> valid_segment cs s"
  by (auto simp: ValidatePathSegment_def valid_segment_def)

lemma JoinPathSegments_loop_Ok_iff:
  "JoinPathSegments_loop cs b segs = Ok p \<longleftrightarrow>
     list_all (valid_segment cs) segs \<and> p = b @ join_segments segs"
  by (induction cs b segs rule: JoinPathSegments_loop.induct)
    (auto simp: join_segments_def ValidatePathSegment_None_iff [symmetric] split: option.splits)

lemma JoinPathSegments_Ok_iff:
  "JoinPathSegments cs segs = Ok p \<longleftrightarrow>
     list_all (valid_segment cs) segs \<and> p = join_segments segs"
  by (simp add: JoinPathSegments_def JoinPathSegments_loop_Ok_iff)

lemma valid_path_append:
  "valid_path cs p \<Longrightarrow> valid_path cs q \<Longrightarrow> valid_path cs (p @ q)"
  unfolding valid_path_def by (metis join_segments_append list_all_append)

lemma valid_path_Nil [simp]: "valid_path cs ''''"
  unfolding valid_path_def by (rule exI [of _ "[]"]) simp

lemma valid_segment_noslash: "valid_segment cs s \<Longrightarrow> list_all (\<lambda>c. c \<noteq> CHR ''/'') s"
  by (auto simp: valid_segment_def list_all_iff)

lemma valid_segments_noslash:
  "list_all (valid_segment cs) segs \<Longrightarrow> list_all (list_all (\<lambda>c. c \<noteq> CHR ''/'')) segs"
  by (induction segs) (auto intro: valid_segment_noslash)

lemma valid_path_chars:
  "valid_path cs p \<Longrightarrow> c \<in> set p \<Longrightarrow> c = CHR ''/'' \<or> isValidPathSegmentChar cs c"
  by (auto simp: valid_path_def join_segments_def valid_segment_def list_all_iff split: if_splits)

lemma valid_path_join_iff:
  assumes "list_all (list_all (\<lambda>c. c \<noteq> CHR ''/'')) segs"
  shows "valid_path cs (join_segments segs) \<longleftrightarrow> list_all (valid_segment cs) segs"
proof
  assume "valid_path cs (join_segments segs)"
  then obtain segs' where *: "list_all (valid_segment cs) segs'" "join_segments segs = join_segments segs'"
    by (auto simp: valid_path_def)
  then have "list_all (list_all (\<lambda>c. c \<noteq> CHR ''/'')) segs'"
    by (simp add: valid_segments_noslash)
  then have "segs = segs'" using assms *(2) by (metis noslash.join_segments_inj)
  then show "list_all (valid_segment cs) segs" using *(1) by simp
qed (auto simp: valid_path_def)

text \<open>
  The loop invariant: everything before \<open>segmentStart\<close> is a sequence of valid segments, and
  the current slice is a slash followed by segment characters.
\<close>

definition scan_inv :: "charset \<Rightarrow> string \<Rightarrow> nat \<Rightarrow> nat \<Rightarrow> string list \<Rightarrow> string \<Rightarrow> bool" where
  "scan_inv cs p s e pre cur \<longleftrightarrow>
     s < e \<and> e \<le> length p \<and> list_all (valid_segment cs) pre \<and>
     take s p = join_segments pre \<and> slice p s e = CHR ''/'' # cur \<and>
     (\<forall>c \<in> set cur. isValidPathSegmentChar cs c)"

lemma scan_inv_char:
  assumes "scan_inv cs p s e pre cur" "e < length p" "isValidPathSegmentChar cs (p ! e)"
  shows "scan_inv cs p s (Suc e) pre (cur @ [p ! e])"
  using assms by (auto simp: scan_inv_def slice_snoc)

lemma scan_inv_slash:
  assumes inv: "scan_inv cs p s e pre cur" and e: "e < length p" "p ! e = CHR ''/''"
    and cur: "valid_segment cs cur"
  shows "scan_inv cs p e (Suc e) (pre @ [cur]) ''''"
proof -
  have "take e p = join_segments (pre @ [cur])"
    using inv take_slice_append [of s e p] by (auto simp: scan_inv_def)
  moreover have "slice p e (Suc e) = [CHR ''/'']"
    using e by (simp add: slice_snoc) (simp add: slice_def)
  ultimately show ?thesis using inv e cur by (simp add: scan_inv_def)
qed

lemma scan_inv_split:
  assumes "scan_inv cs p s e pre cur"
  shows "p = join_segments (pre @ [cur]) @ drop e p"
  using assms take_slice_append [of s e p] append_take_drop_id [of e p]
  by (auto simp: scan_inv_def)

lemma scan_inv_noslash:
  "scan_inv cs p s e pre cur \<Longrightarrow> list_all (list_all (\<lambda>c. c \<noteq> CHR ''/'')) (pre @ [cur])"
  by (auto simp: scan_inv_def valid_segments_noslash list_all_iff [of _ cur])

text \<open>When the scan reaches a slash or the end, the current segment is one of the path's segments.\<close>

lemma scan_inv_segment:
  assumes inv: "scan_inv cs p s e pre cur"
    and stop: "e < length p \<Longrightarrow> p ! e = CHR ''/''"
    and bad: "\<not> valid_segment cs cur"
  shows "\<not> valid_path cs p"
proof -
  obtain more where more: "list_all (list_all (\<lambda>c. c \<noteq> CHR ''/'')) more" "drop e p = join_segments more"
  proof (cases "e < length p")
    case True
    then have "drop e p = CHR ''/'' # drop (Suc e) p" using stop by (metis Cons_nth_drop_Suc)
    then show ?thesis using join_segments_total that by metis
  next
    case False
    then show ?thesis using that [of "[]"] by simp
  qed
  then have "p = join_segments (pre @ [cur] @ more)"
    using scan_inv_split [OF inv] by simp
  then show ?thesis
    using valid_path_join_iff [of "pre @ [cur] @ more" cs] scan_inv_noslash [OF inv] more bad by auto
qed

lemma cur_invalid_iff:
  "scan_inv cs p s e pre cur \<Longrightarrow>
   valid_segment cs cur \<longleftrightarrow> slice p s e \<notin> {''/'', ''/.'', ''/..''}"
  by (auto simp: scan_inv_def valid_segment_def)

lemma ValidatePath_loop_correct:
  "scan_inv cs p s e pre cur \<Longrightarrow> ValidatePath_loop cs p s e = None \<longleftrightarrow> valid_path cs p"
proof (induction cs p s e arbitrary: pre cur rule: ValidatePath_loop.induct)
  case (1 cs p s e)
  note inv = "1.prems"
  note unf = ValidatePath_loop.simps [of cs p s e] Let_def
  have cur: "valid_segment cs cur \<longleftrightarrow> slice p s e \<notin> {''/'', ''/.'', ''/..''}"
    by (rule cur_invalid_iff [OF inv])
  consider (slash) "e < length p" "p ! e = CHR ''/''"
    | (char) "e < length p" "p ! e \<noteq> CHR ''/''" | (stop) "\<not> e < length p" by blast
  then show ?case
  proof cases
    case slash
    show ?thesis
    proof (cases "valid_segment cs cur")
      case True
      then show ?thesis
        using "1.IH"(1) [OF _ refl _ refl, of "pre @ [cur]" "''''"] slash cur
          scan_inv_slash [OF inv slash True] by (simp add: unf)
    next
      case False
      then show ?thesis using slash cur scan_inv_segment [OF inv _ False] by (auto simp: unf)
    qed
  next
    case char
    show ?thesis
    proof (cases "isValidPathSegmentChar cs (p ! e)")
      case True
      then show ?thesis
        using "1.IH"(2) [OF _ refl] char scan_inv_char [OF inv char(1) True] by (simp add: unf)
    next
      case False
      then have "\<not> valid_path cs p" using char valid_path_chars [of cs p "p ! e"] by auto
      then show ?thesis using False char by (simp add: unf)
    qed
  next
    case stop
    have p: "p = join_segments (pre @ [cur])" using scan_inv_split [OF inv] stop by simp
    show ?thesis
    proof (cases "valid_segment cs cur")
      case True
      then have "valid_path cs p"
        using inv p unfolding valid_path_def by (intro exI [of _ "pre @ [cur]"]) (simp add: scan_inv_def)
      then show ?thesis using stop True cur by (simp add: unf)
    next
      case False
      then show ?thesis using stop cur scan_inv_segment [OF inv _ False] by (auto simp: unf)
    qed
  qed
qed

lemma ValidatePath_None_iff: "ValidatePath cs p = None \<longleftrightarrow> valid_path cs p"
proof (cases "p = '''' \<or> p ! 0 \<noteq> CHR ''/''")
  case True
  have "\<not> valid_path cs p" if "p \<noteq> ''''" "p ! 0 \<noteq> CHR ''/''"
  proof
    assume "valid_path cs p"
    then obtain segs where "p = join_segments segs" by (auto simp: valid_path_def)
    then show False using that by (cases segs) auto
  qed
  then show ?thesis using True by (auto simp: ValidatePath_def)
next
  case False
  then have "scan_inv cs p 0 1 [] ''''"
    by (auto simp: scan_inv_def slice_def take_Suc_conv_app_nth Suc_le_eq)
  then have "ValidatePath_loop cs p 0 1 = None \<longleftrightarrow> valid_path cs p"
    by (rule ValidatePath_loop_correct)
  moreover have "ValidatePath_loop cs p 0 0 = ValidatePath_loop cs p 0 1"
    using False by (subst ValidatePath_loop.simps) (simp add: slice_def)
  ultimately show ?thesis using False by (simp add: ValidatePath_def)
qed

lemma FormatPath_Ok_iff:
  "FormatPath cs sprintf f args = Ok p \<longleftrightarrow> p = sprintf f args \<and> valid_path cs p"
  by (auto simp: FormatPath_def Let_def ValidatePath_None_iff [symmetric] split: option.splits)

end
