(* ===== verification/Go_URL.thy ===== *)
theory Go_URL
  imports Prelude
begin

text \<open>
  The part of Go's \<open>net/url\<close> that the library calls: the \<open>URL\<close> struct, \<open>URL.String\<close> with
  its escaping, and the accessors \<open>Hostname\<close> and \<open>Port\<close>. The functions follow the standard
  library's algorithm (\<open>shouldEscape\<close>, \<open>escape\<close>, \<open>unescape\<close>, \<open>validEncoded\<close>,
  \<open>EscapedPath\<close>, \<open>EscapedFragment\<close>, \<open>splitHostPort\<close>) for the encodings those entry points use.
\<close>

section \<open>Definitions\<close>

record Userinfo =
  ui_username :: string
  ui_password :: "string option"

record URL =
  url_Scheme :: string
  url_Opaque :: string
  url_User :: "Userinfo option"
  url_Host :: string
  url_Path :: string
  url_RawPath :: string
  url_OmitHost :: bool
  url_ForceQuery :: bool
  url_RawQuery :: string
  url_Fragment :: string
  url_RawFragment :: string

definition zero_URL :: URL where
  "zero_URL = \<lparr>url_Scheme = '''', url_Opaque = '''', url_User = None, url_Host = '''',
     url_Path = '''', url_RawPath = '''', url_OmitHost = False, url_ForceQuery = False,
     url_RawQuery = '''', url_Fragment = '''', url_RawFragment = ''''\<rparr>"

datatype encoding = encodePath | encodeHost | encodeUserPassword | encodeFragment

definition is_alnum :: "char \<Rightarrow> bool" where
  "is_alnum c \<longleftrightarrow> (CHR ''a'' \<le> c \<and> c \<le> CHR ''z'') \<or> (CHR ''A'' \<le> c \<and> c \<le> CHR ''Z'')
     \<or> (CHR ''0'' \<le> c \<and> c \<le> CHR ''9'')"

definition shouldEscape :: "char \<Rightarrow> encoding \<Rightarrow> bool" where
  "shouldEscape c mode =
     (if is_alnum c then False
      else if mode = encodeHost \<and> (c \<in> set ''!$&()*+,;=:[]<>'' \<or> c = CHR 0x27 \<or> c = CHR 0x22)
      then False
      else if c \<in> set ''-_.~'' then False
      else if c \<in> set ''$&+,/:;=?@'' \<and> mode = encodePath then c = CHR ''?''
      else if c \<in> set ''$&+,/:;=?@'' \<and> mode = encodeUserPassword then c \<in> set ''@/?:''
      else if c \<in> set ''$&+,/:;=?@'' \<and> mode = encodeFragment then False
      else if mode = encodeFragment \<and> c \<in> set ''!()*'' then False
      else True)"

definition upperhex :: "nat \<Rightarrow> char" where
  "upperhex n = ''0123456789ABCDEF'' ! n"

definition escape :: "string \<Rightarrow> encoding \<Rightarrow> string" where
  "escape s mode =
     concat (map (\<lambda>c. if shouldEscape c mode
                      then [CHR ''%'', upperhex (of_char c div 16), upperhex (of_char c mod 16)]
                      else [c]) s)"

definition unhex :: "char \<Rightarrow> nat option" where
  "unhex c =
     (if CHR ''0'' \<le> c \<and> c \<le> CHR ''9'' then Some (of_char c - 48)
      else if CHR ''a'' \<le> c \<and> c \<le> CHR ''f'' then Some (of_char c - 87)
      else if CHR ''A'' \<le> c \<and> c \<le> CHR ''F'' then Some (of_char c - 55)
      else None)"

text \<open>\<open>unescape\<close> in the modes \<open>encodePath\<close> and \<open>encodeFragment\<close>; \<^const>\<open>None\<close> is an error.\<close>

fun unescape :: "string \<Rightarrow> string option" where
  "unescape [] = Some []"
| "unescape (c # s) =
     (if c = CHR ''%'' then
        (case s of
           a # b # s' \<Rightarrow>
             (case (unhex a, unhex b) of
                (Some x, Some y) \<Rightarrow> map_option (\<lambda>t. char_of (16 * x + y) # t) (unescape s')
              | _ \<Rightarrow> None)
         | _ \<Rightarrow> None)
      else map_option (\<lambda>t. c # t) (unescape s))"

definition validEncoded :: "string \<Rightarrow> encoding \<Rightarrow> bool" where
  "validEncoded s mode \<longleftrightarrow>
     (\<forall>c \<in> set s. c \<in> set ''!$&()*+,;=:@[]%'' \<or> c = CHR 0x27 \<or> \<not> shouldEscape c mode)"

definition EscapedPath :: "URL \<Rightarrow> string" where
  "EscapedPath u =
     (if url_RawPath u \<noteq> '''' \<and> validEncoded (url_RawPath u) encodePath
         \<and> unescape (url_RawPath u) = Some (url_Path u)
      then url_RawPath u
      else if url_Path u = ''*'' then ''*''
      else escape (url_Path u) encodePath)"

definition EscapedFragment :: "URL \<Rightarrow> string" where
  "EscapedFragment u =
     (if url_RawFragment u \<noteq> '''' \<and> validEncoded (url_RawFragment u) encodeFragment
         \<and> unescape (url_RawFragment u) = Some (url_Fragment u)
      then url_RawFragment u
      else escape (url_Fragment u) encodeFragment)"

definition Userinfo_String :: "Userinfo \<Rightarrow> string" where
  "Userinfo_String ui =
     escape (ui_username ui) encodeUserPassword
     @ (case ui_password ui of None \<Rightarrow> '''' | Some p \<Rightarrow> '':'' @ escape p encodeUserPassword)"

definition URL_authority :: "URL \<Rightarrow> string" where
  "URL_authority u =
     (if url_Scheme u \<noteq> '''' \<or> url_Host u \<noteq> '''' \<or> url_User u \<noteq> None then
        (if url_OmitHost u \<and> url_Host u = '''' \<and> url_User u = None then ''''
         else (if url_Host u \<noteq> '''' \<or> url_Path u \<noteq> '''' \<or> url_User u \<noteq> None then ''//'' else '''')
              @ (case url_User u of None \<Rightarrow> '''' | Some ui \<Rightarrow> Userinfo_String ui @ ''@'')
              @ escape (url_Host u) encodeHost)
      else '''')"

definition URL_String :: "URL \<Rightarrow> string" where
  "URL_String u =
     (let scheme = (if url_Scheme u \<noteq> '''' then url_Scheme u @ '':'' else '''');
          main =
            (if url_Opaque u \<noteq> '''' then scheme @ url_Opaque u
             else
               (let buf = scheme @ URL_authority u;
                    path = EscapedPath u;
                    buf1 = (if path \<noteq> '''' \<and> path ! 0 \<noteq> CHR ''/'' \<and> url_Host u \<noteq> ''''
                            then buf @ ''/'' else buf);
                    buf2 = (if buf1 = '''' \<and> CHR '':'' \<in> set (takeWhile (\<lambda>c. c \<noteq> CHR ''/'') path)
                            then ''./'' else buf1)
                in buf2 @ path));
          query = (if url_ForceQuery u \<or> url_RawQuery u \<noteq> '''' then ''?'' @ url_RawQuery u else '''');
          frag = (if url_Fragment u \<noteq> '''' then ''#'' @ EscapedFragment u else '''')
      in main @ query @ frag)"

text \<open>
  \<open>splitHostPort\<close>: the port follows the last colon if everything after that colon is a digit;
  square brackets around the host are removed.
\<close>

definition validOptionalPort :: "string \<Rightarrow> bool" where
  "validOptionalPort port \<longleftrightarrow>
     port = '''' \<or> (port ! 0 = CHR '':'' \<and> (\<forall>c \<in> set (tl port). CHR ''0'' \<le> c \<and> c \<le> CHR ''9''))"

definition splitHostPort :: "string \<Rightarrow> string \<times> string" where
  "splitHostPort hostPort =
     (let after = rev (takeWhile (\<lambda>c. c \<noteq> CHR '':'') (rev hostPort));
          colon = CHR '':'' \<in> set hostPort;
          n = length hostPort - length after - 1;
          split = colon \<and> validOptionalPort (drop n hostPort);
          host = (if split then take n hostPort else hostPort);
          port = (if split then drop (Suc n) hostPort else '''');
          host' = (if host \<noteq> '''' \<and> hd host = CHR ''['' \<and> last host = CHR '']''
                   then butlast (tl host) else host)
      in (host', port))"

definition URL_Hostname :: "URL \<Rightarrow> string" where
  "URL_Hostname u = fst (splitHostPort (url_Host u))"

definition URL_Port :: "URL \<Rightarrow> string" where
  "URL_Port u = snd (splitHostPort (url_Host u))"

section \<open>Lemmas\<close>

lemma escape_id: "(\<And>c. c \<in> set s \<Longrightarrow> \<not> shouldEscape c mode) \<Longrightarrow> escape s mode = s"
  by (induction s) (auto simp: escape_def)

lemma escape_Nil [simp]: "escape '''' mode = ''''"
  by (simp add: escape_def)

text \<open>A URL with only a scheme, a host and an absolute path prints without surprises.\<close>

lemma URL_String_hier:
  assumes "h \<noteq> ''''" "p = '''' \<or> p ! 0 = CHR ''/''"
    and "\<And>c. c \<in> set h \<Longrightarrow> \<not> shouldEscape c encodeHost"
    and "\<And>c. c \<in> set p \<Longrightarrow> \<not> shouldEscape c encodePath"
    and "sc \<noteq> ''''"
  shows "URL_String (zero_URL\<lparr>url_Scheme := sc, url_Host := h, url_Path := p\<rparr>) = sc @ ''://'' @ h @ p"
proof -
  have "p \<noteq> ''*''" using assms(2) by auto
  then show ?thesis
    using assms
    by (auto simp: URL_String_def URL_authority_def EscapedPath_def zero_URL_def escape_id Let_def)
qed

end
