(* ===== verification/Spiffeid.thy ===== *)
theory Spiffeid
  imports Spiffeid_Path Go_URL
begin

text \<open>
  Trust domains, SPIFFE IDs, matchers and the panicking constructors of package \<open>spiffeid\<close>
  (\<open>trustdomain.go\<close>, \<open>id.go\<close>, \<open>match.go\<close>, \<open>require.go\<close>).

  \<open>ID\<close> is the source's struct: the whole string and the index where the path starts. Its
  fields are not exported, so every value a program can hold is the zero value or came from
  the functions below; \<open>ID_wf\<close> is the invariant they keep, and it makes every slice of the
  accessors fall inside the string.
\<close>

section \<open>Trust domains\<close>

datatype TrustDomain = TrustDomain (td_name: string)

abbreviation zero_TrustDomain :: TrustDomain where
  "zero_TrustDomain \<equiv> TrustDomain ''''"

instantiation TrustDomain :: linorder
begin

definition less_eq_TrustDomain :: "TrustDomain \<Rightarrow> TrustDomain \<Rightarrow> bool" where
  "a \<le> b \<longleftrightarrow> td_name a \<le> td_name b"

definition less_TrustDomain :: "TrustDomain \<Rightarrow> TrustDomain \<Rightarrow> bool" where
  "a < b \<longleftrightarrow> td_name a < td_name b"

instance
  by standard
    (auto simp: less_eq_TrustDomain_def less_TrustDomain_def TrustDomain.expand)

end

definition isValidTrustDomainChar :: "charset \<Rightarrow> char \<Rightarrow> bool" where
  "isValidTrustDomainChar cs c =
     (if CHR ''a'' \<le> c \<and> c \<le> CHR ''z'' then True
      else if CHR ''0'' \<le> c \<and> c \<le> CHR ''9'' then True
      else if c = CHR ''-'' \<or> c = CHR ''.'' \<or> c = CHR ''_'' then True
      else isBackcompatTrustDomainChar cs c)"

definition TrustDomain_Name :: "TrustDomain \<Rightarrow> string" where
  "TrustDomain_Name td = td_name td"

definition TrustDomain_String :: "TrustDomain \<Rightarrow> string" where
  "TrustDomain_String td = td_name td"

definition TrustDomain_IsZero :: "TrustDomain \<Rightarrow> bool" where
  "TrustDomain_IsZero td \<longleftrightarrow> td_name td = ''''"

text \<open>\<open>strings.Compare\<close>: lexicographic order of the bytes.\<close>

definition TrustDomain_Compare :: "TrustDomain \<Rightarrow> TrustDomain \<Rightarrow> int" where
  "TrustDomain_Compare td other =
     (if td_name td = td_name other then 0 else if td_name td < td_name other then -1 else 1)"

section \<open>SPIFFE IDs\<close>

record ID =
  id_id :: string
  id_pathidx :: nat

definition zero_ID :: ID where
  "zero_ID = \<lparr>id_id = '''', id_pathidx = 0\<rparr>"

definition schemePrefix :: string where
  "schemePrefix = ''spiffe://''"

definition schemePrefixLen :: nat where
  "schemePrefixLen = length schemePrefix"

definition makeID :: "TrustDomain \<Rightarrow> string \<Rightarrow> ID res" where
  "makeID td path =
     (if TrustDomain_IsZero td then Err (New ''trust domain is empty'')
      else Ok \<lparr>id_id = schemePrefix @ td_name td @ path,
               id_pathidx = schemePrefixLen + length (td_name td)\<rparr>)"

definition FromPath :: "charset \<Rightarrow> TrustDomain \<Rightarrow> string \<Rightarrow> ID res" where
  "FromPath cs td path =
     (case ValidatePath cs path of Some e \<Rightarrow> Err e | None \<Rightarrow> makeID td path)"

definition FromPathf ::
  "charset \<Rightarrow> (string \<Rightarrow> 'arg list \<Rightarrow> string) \<Rightarrow> TrustDomain \<Rightarrow> string \<Rightarrow> 'arg list \<Rightarrow> ID res" where
  "FromPathf cs sprintf td format args =
     bind_res (FormatPath cs sprintf format args) (\<lambda>path. makeID td path)"

definition FromSegments :: "charset \<Rightarrow> TrustDomain \<Rightarrow> string list \<Rightarrow> ID res" where
  "FromSegments cs td segments =
     bind_res (JoinPathSegments cs segments) (\<lambda>path. makeID td path)"

text \<open>The loop of \<open>FromString\<close> that looks for the end of the trust domain.\<close>

function FromString_scan :: "charset \<Rightarrow> string \<Rightarrow> nat \<Rightarrow> nat res" where
  "FromString_scan cs spid pathidx =
     (if pathidx < length spid then
        let c = spid ! pathidx in
        if c = CHR ''/'' then Ok pathidx
        else if \<not> isValidTrustDomainChar cs c then Err errBadTrustDomainChar
        else FromString_scan cs spid (Suc pathidx)
      else Ok pathidx)"
  by pat_completeness auto
termination
  by (relation "measure (\<lambda>(cs, spid, i). length spid - i)") auto

declare FromString_scan.simps [simp del]

definition FromString :: "charset \<Rightarrow> string \<Rightarrow> ID res" where
  "FromString cs spid =
     (if spid = '''' then Err errEmpty
      else if \<not> has_prefix spid schemePrefix then Err errWrongScheme
      else bind_res (FromString_scan cs spid schemePrefixLen) (\<lambda>pathidx.
        if pathidx = schemePrefixLen then Err errMissingTrustDomain
        else case ValidatePath cs (drop pathidx spid) of
          Some e \<Rightarrow> Err e
        | None \<Rightarrow> Ok \<lparr>id_id = spid, id_pathidx = pathidx\<rparr>))"

definition FromStringf ::
  "charset \<Rightarrow> (string \<Rightarrow> 'arg list \<Rightarrow> string) \<Rightarrow> string \<Rightarrow> 'arg list \<Rightarrow> ID res" where
  "FromStringf cs sprintf format args = FromString cs (sprintf format args)"

definition FromURI :: "charset \<Rightarrow> URL \<Rightarrow> ID res" where
  "FromURI cs uri = FromString cs (URL_String uri)"

definition ID_IsZero :: "ID \<Rightarrow> bool" where
  "ID_IsZero spid \<longleftrightarrow> id_id spid = ''''"

definition ID_TrustDomain :: "ID \<Rightarrow> TrustDomain" where
  "ID_TrustDomain spid =
     (if ID_IsZero spid then zero_TrustDomain
      else TrustDomain (slice (id_id spid) schemePrefixLen (id_pathidx spid)))"

definition ID_MemberOf :: "ID \<Rightarrow> TrustDomain \<Rightarrow> bool" where
  "ID_MemberOf spid td \<longleftrightarrow> ID_TrustDomain spid = td"

definition ID_Path :: "ID \<Rightarrow> string" where
  "ID_Path spid = drop (id_pathidx spid) (id_id spid)"

definition ID_String :: "ID \<Rightarrow> string" where
  "ID_String spid = id_id spid"

definition ID_URL :: "ID \<Rightarrow> URL" where
  "ID_URL spid =
     (if ID_IsZero spid then zero_URL
      else zero_URL\<lparr>url_Scheme := ''spiffe'', url_Host := TrustDomain_String (ID_TrustDomain spid),
                    url_Path := ID_Path spid\<rparr>)"

definition ID_AppendPath :: "charset \<Rightarrow> ID \<Rightarrow> string \<Rightarrow> ID res" where
  "ID_AppendPath cs spid path =
     (if ID_IsZero spid then Err (New ''cannot append path on a zero ID value'')
      else case ValidatePath cs path of
        Some e \<Rightarrow> Err e
      | None \<Rightarrow> Ok (spid\<lparr>id_id := id_id spid @ path\<rparr>))"

definition ID_AppendPathf ::
  "charset \<Rightarrow> (string \<Rightarrow> 'arg list \<Rightarrow> string) \<Rightarrow> ID \<Rightarrow> string \<Rightarrow> 'arg list \<Rightarrow> ID res" where
  "ID_AppendPathf cs sprintf spid format args =
     (if ID_IsZero spid then Err (New ''cannot append path on a zero ID value'')
      else bind_res (FormatPath cs sprintf format args)
             (\<lambda>path. Ok (spid\<lparr>id_id := id_id spid @ path\<rparr>)))"

definition ID_AppendSegments :: "charset \<Rightarrow> ID \<Rightarrow> string list \<Rightarrow> ID res" where
  "ID_AppendSegments cs spid segments =
     (if ID_IsZero spid then Err (New ''cannot append path segments on a zero ID value'')
      else bind_res (JoinPathSegments cs segments)
             (\<lambda>path. Ok (spid\<lparr>id_id := id_id spid @ path\<rparr>)))"

definition ID_ReplacePath :: "charset \<Rightarrow> ID \<Rightarrow> string \<Rightarrow> ID res" where
  "ID_ReplacePath cs spid path =
     (if ID_IsZero spid then Err (New ''cannot replace path on a zero ID value'')
      else FromPath cs (ID_TrustDomain spid) path)"

definition ID_ReplacePathf ::
  "charset \<Rightarrow> (string \<Rightarrow> 'arg list \<Rightarrow> string) \<Rightarrow> ID \<Rightarrow> string \<Rightarrow> 'arg list \<Rightarrow> ID res" where
  "ID_ReplacePathf cs sprintf spid format args =
     (if ID_IsZero spid then Err (New ''cannot replace path on a zero ID value'')
      else FromPathf cs sprintf (ID_TrustDomain spid) format args)"

definition ID_ReplaceSegments :: "charset \<Rightarrow> ID \<Rightarrow> string list \<Rightarrow> ID res" where
  "ID_ReplaceSegments cs spid segments =
     (if ID_IsZero spid then Err (New ''cannot replace path segments on a zero ID value'')
      else FromSegments cs (ID_TrustDomain spid) segments)"

text \<open>
  \<open>MarshalText\<close> returns nil bytes for the zero value; nil and empty bytes are the same list.
  \<open>UnmarshalText\<close> writes the receiver only on success: the result is the receiver afterwards
  and the returned error.
\<close>

definition ID_MarshalText :: "ID \<Rightarrow> string res" where
  "ID_MarshalText spid = (if ID_IsZero spid then Ok '''' else Ok (ID_String spid))"

definition ID_UnmarshalText :: "charset \<Rightarrow> ID \<Rightarrow> string \<Rightarrow> ID \<times> error option" where
  "ID_UnmarshalText cs spid text =
     (if length text = 0 then (zero_ID, None)
      else case FromString cs text of
        Ok unmarshaled \<Rightarrow> (unmarshaled, None)
      | Err e \<Rightarrow> (spid, Some e)
      | Panic e \<Rightarrow> (spid, Some e))"

section \<open>Trust domains from strings and URIs\<close>

definition TrustDomainFromString :: "charset \<Rightarrow> string \<Rightarrow> TrustDomain res" where
  "TrustDomainFromString cs idOrName =
     (if idOrName = '''' then Err errMissingTrustDomain
      else if contains_sub idOrName '':/'' then
        bind_res (FromString cs idOrName) (\<lambda>spid. Ok (ID_TrustDomain spid))
      else if \<exists>c \<in> set idOrName. \<not> isValidTrustDomainChar cs c then Err errBadTrustDomainChar
      else Ok (TrustDomain idOrName))"

definition TrustDomainFromURI :: "charset \<Rightarrow> URL \<Rightarrow> TrustDomain res" where
  "TrustDomainFromURI cs uri = bind_res (FromURI cs uri) (\<lambda>spid. Ok (ID_TrustDomain spid))"

definition TrustDomain_ID :: "TrustDomain \<Rightarrow> ID" where
  "TrustDomain_ID td = (case makeID td '''' of Ok spid \<Rightarrow> spid | _ \<Rightarrow> zero_ID)"

definition TrustDomain_IDString :: "TrustDomain \<Rightarrow> string" where
  "TrustDomain_IDString td = ID_String (TrustDomain_ID td)"

definition TrustDomain_MarshalText :: "TrustDomain \<Rightarrow> string res" where
  "TrustDomain_MarshalText td =
     (if TrustDomain_IsZero td then Ok '''' else Ok (TrustDomain_String td))"

definition TrustDomain_UnmarshalText ::
  "charset \<Rightarrow> TrustDomain \<Rightarrow> string \<Rightarrow> TrustDomain \<times> error option" where
  "TrustDomain_UnmarshalText cs td text =
     (if length text = 0 then (zero_TrustDomain, None)
      else case TrustDomainFromString cs text of
        Ok unmarshaled \<Rightarrow> (unmarshaled, None)
      | Err e \<Rightarrow> (td, Some e)
      | Panic e \<Rightarrow> (td, Some e))"

section \<open>Matchers\<close>

type_synonym Matcher = "ID \<Rightarrow> error option"

definition MatchAny :: Matcher where
  "MatchAny = (\<lambda>actual. None)"

definition MatchID :: "ID \<Rightarrow> Matcher" where
  "MatchID expected = (\<lambda>actual.
     if actual \<noteq> expected then Some (Errorf ''unexpected ID %q'' [ID_String actual]) else None)"

definition MatchOneOf :: "ID list \<Rightarrow> Matcher" where
  "MatchOneOf expected =
     (let s = fold (\<lambda>spid m. gm_set spid () m) expected [] in
      (\<lambda>actual. if \<not> gm_has s actual
                then Some (Errorf ''unexpected ID %q'' [ID_String actual]) else None))"

definition MatchMemberOf :: "TrustDomain \<Rightarrow> Matcher" where
  "MatchMemberOf expected = (\<lambda>actual.
     if \<not> ID_MemberOf actual expected
     then Some (Errorf ''unexpected trust domain %q'' [TrustDomain_String (ID_TrustDomain actual)])
     else None)"

section \<open>Constructors that panic\<close>

definition panicOnErr :: "error option \<Rightarrow> unit res" where
  "panicOnErr err = (case err of None \<Rightarrow> Ok () | Some e \<Rightarrow> Panic e)"

text \<open>\<open>v, err := f(); panicOnErr(err); return v\<close>\<close>

definition require_res :: "'a res \<Rightarrow> 'a res" where
  "require_res r =
     (case r of
        Ok v \<Rightarrow> bind_res (panicOnErr None) (\<lambda>_. Ok v)
      | Err e \<Rightarrow> bind_res (panicOnErr (Some e)) (\<lambda>_. Err e)
      | Panic e \<Rightarrow> Panic e)"

definition RequireFromPath :: "charset \<Rightarrow> TrustDomain \<Rightarrow> string \<Rightarrow> ID res" where
  "RequireFromPath cs td path = require_res (FromPath cs td path)"

definition RequireFromPathf ::
  "charset \<Rightarrow> (string \<Rightarrow> 'arg list \<Rightarrow> string) \<Rightarrow> TrustDomain \<Rightarrow> string \<Rightarrow> 'arg list \<Rightarrow> ID res" where
  "RequireFromPathf cs sprintf td format args = require_res (FromPathf cs sprintf td format args)"

definition RequireFromSegments :: "charset \<Rightarrow> TrustDomain \<Rightarrow> string list \<Rightarrow> ID res" where
  "RequireFromSegments cs td segments = require_res (FromSegments cs td segments)"

definition RequireFromString :: "charset \<Rightarrow> string \<Rightarrow> ID res" where
  "RequireFromString cs s = require_res (FromString cs s)"

definition RequireFromStringf ::
  "charset \<Rightarrow> (string \<Rightarrow> 'arg list \<Rightarrow> string) \<Rightarrow> string \<Rightarrow> 'arg list \<Rightarrow> ID res" where
  "RequireFromStringf cs sprintf format args = require_res (FromStringf cs sprintf format args)"

definition RequireFromURI :: "charset \<Rightarrow> URL \<Rightarrow> ID res" where
  "RequireFromURI cs uri = require_res (FromURI cs uri)"

definition RequireTrustDomainFromString :: "charset \<Rightarrow> string \<Rightarrow> TrustDomain res" where
  "RequireTrustDomainFromString cs s = require_res (TrustDomainFromString cs s)"

definition RequireTrustDomainFromURI :: "charset \<Rightarrow> URL \<Rightarrow> TrustDomain res" where
  "RequireTrustDomainFromURI cs uri = require_res (TrustDomainFromURI cs uri)"

definition RequireFormatPath ::
  "charset \<Rightarrow> (string \<Rightarrow> 'arg list \<Rightarrow> string) \<Rightarrow> string \<Rightarrow> 'arg list \<Rightarrow> string res" where
  "RequireFormatPath cs sprintf format args = require_res (FormatPath cs sprintf format args)"

definition RequireJoinPathSegments :: "charset \<Rightarrow> string list \<Rightarrow> string res" where
  "RequireJoinPathSegments cs segments = require_res (JoinPathSegments cs segments)"

section \<open>Specification\<close>

definition valid_td :: "charset \<Rightarrow> string \<Rightarrow> bool" where
  "valid_td cs n \<longleftrightarrow> n \<noteq> '''' \<and> (\<forall>c \<in> set n. isValidTrustDomainChar cs c)"

definition TD_wf :: "charset \<Rightarrow> TrustDomain \<Rightarrow> bool" where
  "TD_wf cs td \<longleftrightarrow> td = zero_TrustDomain \<or> valid_td cs (td_name td)"

definition mk_ID :: "string \<Rightarrow> string \<Rightarrow> ID" where
  "mk_ID n p = \<lparr>id_id = schemePrefix @ n @ p, id_pathidx = schemePrefixLen + length n\<rparr>"

definition ID_wf :: "charset \<Rightarrow> ID \<Rightarrow> bool" where
  "ID_wf cs spid \<longleftrightarrow> spid = zero_ID \<or> (\<exists>n p. valid_td cs n \<and> valid_path cs p \<and> spid = mk_ID n p)"

text \<open>The values a program can obtain from the package, one rule per function that returns one.\<close>

inductive ID_obtainable :: "charset \<Rightarrow> (string \<Rightarrow> 'arg list \<Rightarrow> string) \<Rightarrow> ID \<Rightarrow> bool"
  and TD_obtainable :: "charset \<Rightarrow> (string \<Rightarrow> 'arg list \<Rightarrow> string) \<Rightarrow> TrustDomain \<Rightarrow> bool"
  for cs sprintf where
  "ID_obtainable cs sprintf zero_ID"
| "FromString cs s = Ok spid \<Longrightarrow> ID_obtainable cs sprintf spid"
| "FromStringf cs sprintf f args = Ok spid \<Longrightarrow> ID_obtainable cs sprintf spid"
| "FromURI cs u = Ok spid \<Longrightarrow> ID_obtainable cs sprintf spid"
| "TD_obtainable cs sprintf td \<Longrightarrow> FromPath cs td p = Ok spid \<Longrightarrow> ID_obtainable cs sprintf spid"
| "TD_obtainable cs sprintf td \<Longrightarrow> FromPathf cs sprintf td f args = Ok spid \<Longrightarrow>
     ID_obtainable cs sprintf spid"
| "TD_obtainable cs sprintf td \<Longrightarrow> FromSegments cs td segs = Ok spid \<Longrightarrow>
     ID_obtainable cs sprintf spid"
| "TD_obtainable cs sprintf td \<Longrightarrow> ID_obtainable cs sprintf (TrustDomain_ID td)"
| "ID_obtainable cs sprintf i \<Longrightarrow> ID_AppendPath cs i p = Ok spid \<Longrightarrow> ID_obtainable cs sprintf spid"
| "ID_obtainable cs sprintf i \<Longrightarrow> ID_AppendPathf cs sprintf i f args = Ok spid \<Longrightarrow>
     ID_obtainable cs sprintf spid"
| "ID_obtainable cs sprintf i \<Longrightarrow> ID_AppendSegments cs i segs = Ok spid \<Longrightarrow>
     ID_obtainable cs sprintf spid"
| "ID_obtainable cs sprintf i \<Longrightarrow> ID_ReplacePath cs i p = Ok spid \<Longrightarrow> ID_obtainable cs sprintf spid"
| "ID_obtainable cs sprintf i \<Longrightarrow> ID_ReplacePathf cs sprintf i f args = Ok spid \<Longrightarrow>
     ID_obtainable cs sprintf spid"
| "ID_obtainable cs sprintf i \<Longrightarrow> ID_ReplaceSegments cs i segs = Ok spid \<Longrightarrow>
     ID_obtainable cs sprintf spid"
| unmarshal_id: "ID_obtainable cs sprintf i \<Longrightarrow> ID_UnmarshalText cs i t = (spid, e) \<Longrightarrow>
     ID_obtainable cs sprintf spid"
| "TD_obtainable cs sprintf zero_TrustDomain"
| "TrustDomainFromString cs s = Ok td \<Longrightarrow> TD_obtainable cs sprintf td"
| "TrustDomainFromURI cs u = Ok td \<Longrightarrow> TD_obtainable cs sprintf td"
| "ID_obtainable cs sprintf i \<Longrightarrow> TD_obtainable cs sprintf (ID_TrustDomain i)"
| unmarshal_td: "TD_obtainable cs sprintf t0 \<Longrightarrow> TrustDomain_UnmarshalText cs t0 t = (td, e) \<Longrightarrow>
     TD_obtainable cs sprintf td"

section \<open>The text codec contract\<close>

text \<open>
  What \<open>encoding.TextMarshaler\<close> and \<open>encoding.TextUnmarshaler\<close> promise of a type: a
  well-formed value survives the round trip, a decoded value is well-formed, and a failed
  decoding leaves the receiver alone.
\<close>

locale text_codec =
  fixes wf :: "'a \<Rightarrow> bool"
    and marshal :: "'a \<Rightarrow> string res"
    and unmarshal :: "'a \<Rightarrow> string \<Rightarrow> 'a \<times> error option"
  assumes marshal_total: "\<exists>t. marshal v = Ok t"
    and decode_encode: "wf v \<Longrightarrow> marshal v = Ok t \<Longrightarrow> unmarshal old t = (v, None)"
    and decode_wf: "unmarshal old t = (v, None) \<Longrightarrow> wf v"
    and decode_fail: "unmarshal old t = (v, Some e) \<Longrightarrow> v = old"
begin

lemma marshal_inj: "wf v \<Longrightarrow> wf w \<Longrightarrow> marshal v = marshal w \<Longrightarrow> v = w"
  by (metis marshal_total decode_encode prod.inject)

lemma unmarshal_idem:
  "unmarshal old t = (v, None) \<Longrightarrow> marshal v = Ok t' \<Longrightarrow> unmarshal old' t' = (v, None)"
  using decode_wf decode_encode by blast

lemma unmarshal_keeps_wf: "wf old \<Longrightarrow> wf (fst (unmarshal old t))"
  by (metis decode_fail decode_wf option.exhaust prod.collapse)

end

section \<open>Lemmas\<close>

subsection \<open>Characters\<close>

lemma no_slash_td_char [simp]: "\<not> isValidTrustDomainChar cs (CHR ''/'')"
  by (cases cs) (simp_all add: isValidTrustDomainChar_def isSubDelim_def)

lemma no_colon_td_char [simp]: "\<not> isValidTrustDomainChar cs (CHR '':'')"
  by (cases cs) (simp_all add: isValidTrustDomainChar_def isSubDelim_def)

lemma schemePrefixLen_eq [simp]: "schemePrefixLen = 9"
  by (simp add: schemePrefixLen_def schemePrefix_def)

lemma length_schemePrefix [simp]: "length schemePrefix = 9"
  by (simp add: schemePrefix_def)

lemma schemePrefix_not_Nil [simp]: "schemePrefix \<noteq> []"
  by (simp add: schemePrefix_def)

subsection \<open>Accessors on well-formed values\<close>

lemma mk_ID_accessors [simp]:
  "ID_String (mk_ID n p) = schemePrefix @ n @ p"
  "ID_Path (mk_ID n p) = p"
  "ID_TrustDomain (mk_ID n p) = TrustDomain n"
  "\<not> ID_IsZero (mk_ID n p)"
  "id_id (mk_ID n p) = schemePrefix @ n @ p"
  by (simp_all add: mk_ID_def ID_String_def ID_Path_def ID_TrustDomain_def ID_IsZero_def slice_def)

lemma zero_ID_accessors [simp]:
  "ID_String zero_ID = ''''" "ID_Path zero_ID = ''''" "ID_TrustDomain zero_ID = zero_TrustDomain"
  "ID_IsZero zero_ID" "id_id zero_ID = ''''"
  by (simp_all add: zero_ID_def ID_String_def ID_Path_def ID_TrustDomain_def ID_IsZero_def)

lemma mk_ID_neq_zero [simp]: "mk_ID n p \<noteq> zero_ID" "zero_ID \<noteq> mk_ID n p"
  by (auto simp: mk_ID_def zero_ID_def)

lemma mk_ID_inject: "mk_ID n p = mk_ID m q \<longleftrightarrow> n = m \<and> p = q"
  by (auto simp: mk_ID_def)

lemma mk_ID_append: "(mk_ID n p)\<lparr>id_id := schemePrefix @ n @ p @ q\<rparr> = mk_ID n (p @ q)"
  by (simp add: mk_ID_def)

lemma ID_wf_cases [consumes 1, case_names zero mk]:
  assumes "ID_wf cs spid"
  obtains "spid = zero_ID" | n p where "valid_td cs n" "valid_path cs p" "spid = mk_ID n p"
  using assms by (auto simp: ID_wf_def)

lemma ID_wf_zero [simp, inv_intros]: "ID_wf cs zero_ID"
  by (simp add: ID_wf_def)

lemma ID_wf_mk [simp]: "ID_wf cs (mk_ID n p) \<longleftrightarrow> valid_td cs n \<and> valid_path cs p"
  by (auto simp: ID_wf_def mk_ID_inject)

lemma TD_wf_zero [simp, inv_intros]: "TD_wf cs zero_TrustDomain"
  by (simp add: TD_wf_def)

lemma ID_TrustDomain_wf [inv_intros]: "ID_wf cs spid \<Longrightarrow> TD_wf cs (ID_TrustDomain spid)"
  by (auto simp: TD_wf_def elim!: ID_wf_cases)

subsection \<open>Constructors\<close>

lemma makeID_eq: "td_name td \<noteq> '''' \<Longrightarrow> makeID td p = Ok (mk_ID (td_name td) p)"
  by (simp add: makeID_def TrustDomain_IsZero_def mk_ID_def)

lemma makeID_Ok_iff: "makeID td p = Ok spid \<longleftrightarrow> td_name td \<noteq> '''' \<and> spid = mk_ID (td_name td) p"
  by (auto simp: makeID_def TrustDomain_IsZero_def mk_ID_def)

lemma FromPath_Ok_iff:
  "FromPath cs td p = Ok spid \<longleftrightarrow> valid_path cs p \<and> td_name td \<noteq> '''' \<and> spid = mk_ID (td_name td) p"
  by (auto simp: FromPath_def makeID_Ok_iff ValidatePath_None_iff [symmetric] split: option.splits)

lemma FromString_scan_Ok:
  "FromString_scan cs spid i = Ok j \<Longrightarrow> i \<le> length spid \<Longrightarrow>
   i \<le> j \<and> j \<le> length spid \<and> (\<forall>c \<in> set (slice spid i j). isValidTrustDomainChar cs c) \<and>
   (j < length spid \<longrightarrow> spid ! j = CHR ''/'')"
proof (induction cs spid i rule: FromString_scan.induct)
  case (1 cs spid i)
  note unf = FromString_scan.simps [of cs spid i] Let_def
  show ?case
  proof (cases "i < length spid \<and> spid ! i \<noteq> CHR ''/''")
    case True
    then have c: "isValidTrustDomainChar cs (spid ! i)" and rec: "FromString_scan cs spid (Suc i) = Ok j"
      using "1.prems" by (auto simp: unf split: if_splits)
    have IH: "Suc i \<le> j \<and> j \<le> length spid \<and> (\<forall>c \<in> set (slice spid (Suc i) j). isValidTrustDomainChar cs c)
      \<and> (j < length spid \<longrightarrow> spid ! j = CHR ''/'')"
      using "1.IH" [OF _ refl] True c rec by auto
    then have "slice spid i j = spid ! i # slice spid (Suc i) j"
      using True by (simp add: slice_def Cons_nth_drop_Suc [symmetric] take_Cons' Suc_diff_Suc)
    then show ?thesis using IH c by auto
  next
    case False
    then show ?thesis using "1.prems" by (auto simp: unf slice_def split: if_splits)
  qed
qed

lemma FromString_scan_run:
  assumes "\<forall>c \<in> set n. isValidTrustDomainChar cs c" "r = '''' \<or> r ! 0 = CHR ''/''"
  shows "FromString_scan cs (a @ n @ r) (length a) = Ok (length a + length n)"
  using assms
proof (induction n arbitrary: a)
  case Nil
  then show ?case by (subst FromString_scan.simps) (auto simp: nth_append)
next
  case (Cons c n)
  then have "c \<noteq> CHR ''/''" by auto
  then show ?case
    using Cons.IH [of "a @ [c]"] Cons.prems by (subst FromString_scan.simps) (auto simp: nth_append)
qed

lemma valid_path_head: "valid_path cs p \<Longrightarrow> p = '''' \<or> p ! 0 = CHR ''/''"
proof -
  assume "valid_path cs p"
  then obtain segs where "p = join_segments segs" by (auto simp: valid_path_def)
  then show ?thesis by (cases segs) auto
qed

lemma FromString_mk:
  assumes "valid_td cs n" "valid_path cs p"
  shows "FromString cs (schemePrefix @ n @ p) = Ok (mk_ID n p)"
proof -
  have "FromString_scan cs (schemePrefix @ n @ p) 9 = Ok (9 + length n)"
    using FromString_scan_run [of n cs p schemePrefix] assms valid_path_head [OF assms(2)]
    by (simp add: valid_td_def)
  moreover have "n \<noteq> ''''" using assms by (simp add: valid_td_def)
  moreover have "ValidatePath cs p = None" using assms by (simp add: ValidatePath_None_iff)
  ultimately show ?thesis by (simp add: FromString_def mk_ID_def)
qed

lemma FromString_Ok_iff:
  "FromString cs s = Ok spid \<longleftrightarrow>
     (\<exists>n p. valid_td cs n \<and> valid_path cs p \<and> s = schemePrefix @ n @ p \<and> spid = mk_ID n p)"
proof
  assume a: "FromString cs s = Ok spid"
  then obtain t where s: "s = schemePrefix @ t"
    by (auto simp: FromString_def has_prefix_iff split: if_splits)
  from a obtain j where j: "FromString_scan cs s 9 = Ok j" "j \<noteq> 9"
      "ValidatePath cs (drop j s) = None" "spid = \<lparr>id_id = s, id_pathidx = j\<rparr>"
    by (auto simp: FromString_def split: if_splits option.splits)
  have b: "9 \<le> j" "j \<le> length s" "\<forall>c \<in> set (slice s 9 j). isValidTrustDomainChar cs c"
    using FromString_scan_Ok [OF j(1)] s by auto
  define n where "n = slice s 9 j"
  have "s = schemePrefix @ n @ drop j s"
    using s slice_drop_append [OF b(1), of s] by (simp add: n_def)
  moreover have len: "length n = j - 9" using b s by (simp add: n_def slice_def)
  moreover have "valid_td cs n" using b j(2) len by (auto simp: valid_td_def n_def)
  ultimately show "\<exists>n p. valid_td cs n \<and> valid_path cs p \<and> s = schemePrefix @ n @ p \<and> spid = mk_ID n p"
    using j b by (intro exI [of _ n] exI [of _ "drop j s"])
      (simp add: ValidatePath_None_iff mk_ID_def)
qed (auto simp: FromString_mk)

lemma FromString_scan_no_panic: "FromString_scan cs s i \<noteq> Panic e"
  by (induction cs s i rule: FromString_scan.induct)
    (subst FromString_scan.simps, auto simp: Let_def)

lemma FromString_no_panic: "FromString cs s \<noteq> Panic e"
  by (auto simp: FromString_def bind_res_Panic_iff FromString_scan_no_panic split: option.splits)

lemma FromString_wf [inv_intros]: "FromString cs s = Ok spid \<Longrightarrow> ID_wf cs spid"
  by (auto simp: FromString_Ok_iff)

lemma FromString_nonempty: "FromString cs s = Ok spid \<Longrightarrow> ID_String spid = s \<and> spid \<noteq> zero_ID"
  by (auto simp: FromString_Ok_iff mk_ID_def ID_String_def zero_ID_def)

lemma FromURI_wf [inv_intros]: "FromURI cs u = Ok spid \<Longrightarrow> ID_wf cs spid"
  by (simp add: FromURI_def FromString_wf)

lemma FromString_String:
  "ID_wf cs spid \<Longrightarrow> \<not> ID_IsZero spid \<Longrightarrow> FromString cs (ID_String spid) = Ok spid"
  by (auto simp: FromString_mk elim!: ID_wf_cases)

lemma ID_wf_String_inj:
  assumes "ID_wf cs a" "ID_wf cs b" "ID_String a = ID_String b"
  shows "a = b"
proof (cases "ID_IsZero a")
  case True
  then show ?thesis using assms by (auto elim!: ID_wf_cases)
next
  case False
  then have "\<not> ID_IsZero b" using assms(3) by (simp add: ID_IsZero_def ID_String_def)
  then have "Ok a = Ok b" using FromString_String assms False by metis
  then show ?thesis by simp
qed

subsection \<open>Appending and replacing paths\<close>

lemma ID_append_ops_Ok:
  "ID_AppendPath cs i q = Ok spid \<Longrightarrow> \<not> ID_IsZero i \<and> valid_path cs q \<and> spid = i\<lparr>id_id := id_id i @ q\<rparr>"
  "ID_AppendPathf cs sprintf i f args = Ok spid \<Longrightarrow>
     \<not> ID_IsZero i \<and> valid_path cs (sprintf f args) \<and> spid = i\<lparr>id_id := id_id i @ sprintf f args\<rparr>"
  "ID_AppendSegments cs i segs = Ok spid \<Longrightarrow>
     \<not> ID_IsZero i \<and> valid_path cs (join_segments segs) \<and> spid = i\<lparr>id_id := id_id i @ join_segments segs\<rparr>"
  by (auto simp: ID_AppendPath_def ID_AppendPathf_def ID_AppendSegments_def FormatPath_Ok_iff
      JoinPathSegments_Ok_iff ValidatePath_None_iff valid_path_def
      split: if_splits option.splits)

lemma ID_append_wf:
  assumes "ID_wf cs i" "\<not> ID_IsZero i \<and> valid_path cs q \<and> spid = i\<lparr>id_id := id_id i @ q\<rparr>"
  shows "ID_wf cs spid \<and> ID_TrustDomain spid = ID_TrustDomain i \<and> ID_Path spid = ID_Path i @ q"
  using assms by (auto simp: mk_ID_append valid_path_append elim!: ID_wf_cases)

lemma FromPathf_Ok_iff:
  "FromPathf cs sprintf td f args = Ok spid \<longleftrightarrow> FromPath cs td (sprintf f args) = Ok spid"
  by (auto simp: FromPathf_def FormatPath_Ok_iff FromPath_Ok_iff makeID_Ok_iff)

lemma FromSegments_Ok_iff:
  "FromSegments cs td segs = Ok spid \<longleftrightarrow>
     list_all (valid_segment cs) segs \<and> FromPath cs td (join_segments segs) = Ok spid"
  by (auto simp: FromSegments_def JoinPathSegments_Ok_iff FromPath_Ok_iff makeID_Ok_iff valid_path_def)

lemma FromPath_wf: "TD_wf cs td \<Longrightarrow> FromPath cs td p = Ok spid \<Longrightarrow> ID_wf cs spid"
  by (auto simp: FromPath_Ok_iff TD_wf_def)

lemma ID_replace_ops_Ok:
  "ID_ReplacePath cs i p = Ok spid \<Longrightarrow> FromPath cs (ID_TrustDomain i) p = Ok spid"
  "ID_ReplacePathf cs sprintf i f args = Ok spid \<Longrightarrow> FromPath cs (ID_TrustDomain i) (sprintf f args) = Ok spid"
  "ID_ReplaceSegments cs i segs = Ok spid \<Longrightarrow> FromPath cs (ID_TrustDomain i) (join_segments segs) = Ok spid"
  by (auto simp: ID_ReplacePath_def ID_ReplacePathf_def ID_ReplaceSegments_def FromPathf_Ok_iff
      FromSegments_Ok_iff split: if_splits)

subsection \<open>Trust domains\<close>

lemma TrustDomain_ID_eq:
  "td_name td \<noteq> [] \<Longrightarrow> TrustDomain_ID td = mk_ID (td_name td) []"
  by (simp add: TrustDomain_ID_def makeID_eq)

lemma TrustDomain_ID_zero [simp]: "TrustDomain_ID zero_TrustDomain = zero_ID"
  by (simp add: TrustDomain_ID_def makeID_def TrustDomain_IsZero_def)

lemma TrustDomain_ID_wf: "TD_wf cs td \<Longrightarrow> ID_wf cs (TrustDomain_ID td)"
  by (auto simp: TD_wf_def TrustDomain_ID_eq valid_td_def)

lemma valid_td_no_sep: "valid_td cs n \<Longrightarrow> \<not> contains_sub n '':/''"
  by (force simp: contains_sub_iff valid_td_def)

lemma TrustDomainFromString_Ok_iff:
  "TrustDomainFromString cs s = Ok td \<longleftrightarrow>
     valid_td cs s \<and> td = TrustDomain s \<or>
     (\<exists>n p. valid_td cs n \<and> valid_path cs p \<and> s = schemePrefix @ n @ p \<and> td = TrustDomain n)"
    (is "?L \<longleftrightarrow> ?N \<or> ?I")
proof -
  have sep: "contains_sub (schemePrefix @ t) '':/''" for t
    unfolding contains_sub_iff schemePrefix_def
    by (rule exI [of _ "''spiffe''"], rule exI [of _ "''/'' @ t"]) simp
  have "?L \<longleftrightarrow> (\<exists>i. FromString cs s = Ok i \<and> td = ID_TrustDomain i)" if "contains_sub s '':/''"
    using that by (auto simp: TrustDomainFromString_def)
  then have "?L \<longleftrightarrow> ?I" if "contains_sub s '':/''"
    using that unfolding FromString_Ok_iff by (metis mk_ID_accessors(3))
  moreover have "?L \<longleftrightarrow> ?N" if "\<not> contains_sub s '':/''"
    using that by (auto simp: TrustDomainFromString_def valid_td_def)
  moreover have "\<not> ?N" if "contains_sub s '':/''" using that valid_td_no_sep by blast
  moreover have "\<not> ?I" if "\<not> contains_sub s '':/''" using that sep by blast
  ultimately show ?thesis by blast
qed

lemma valid_td_not_prefixed: "\<not> valid_td cs (schemePrefix @ t)"
  by (auto simp: valid_td_def schemePrefix_def)

lemma TrustDomainFromString_name_iff:
  "TrustDomainFromString cs n = Ok (TrustDomain n) \<longleftrightarrow> valid_td cs n"
  unfolding TrustDomainFromString_Ok_iff by (auto simp: schemePrefix_def)

lemma TrustDomainFromString_IDString_iff:
  "TrustDomainFromString cs (TrustDomain_IDString (TrustDomain n)) = Ok (TrustDomain n) \<longleftrightarrow> valid_td cs n"
proof (cases "n = []")
  case True
  then show ?thesis
    by (simp add: TrustDomain_IDString_def TrustDomainFromString_def valid_td_def)
next
  case False
  then have "TrustDomain_IDString (TrustDomain n) = schemePrefix @ n"
    by (simp add: TrustDomain_IDString_def TrustDomain_ID_eq)
  then show ?thesis
    unfolding TrustDomainFromString_Ok_iff using valid_td_not_prefixed by auto
qed

lemma TrustDomainFromString_wf [inv_intros]: "TrustDomainFromString cs s = Ok td \<Longrightarrow> TD_wf cs td"
  by (auto simp: TrustDomainFromString_Ok_iff TD_wf_def)

lemma TrustDomainFromString_no_panic: "TrustDomainFromString cs s \<noteq> Panic e"
  by (auto simp: TrustDomainFromString_def bind_res_Panic_iff FromString_no_panic)

lemma TrustDomainFromURI_wf: "TrustDomainFromURI cs u = Ok td \<Longrightarrow> TD_wf cs td"
  by (auto simp: TrustDomainFromURI_def FromURI_wf ID_TrustDomain_wf)

interpretation id_codec: text_codec "ID_wf cs" ID_MarshalText "ID_UnmarshalText cs" for cs
proof unfold_locales
  fix v old :: ID and t
  show "\<exists>t. ID_MarshalText v = Ok t" by (simp add: ID_MarshalText_def)
  show "ID_UnmarshalText cs old t = (v, None)" if "ID_wf cs v" "ID_MarshalText v = Ok t"
    using that by (auto simp: ID_MarshalText_def ID_UnmarshalText_def FromString_mk elim!: ID_wf_cases)
  show "ID_wf cs v" if "ID_UnmarshalText cs old t = (v, None)"
    using that by (auto simp: ID_UnmarshalText_def intro: FromString_wf split: if_splits res.splits)
qed (auto simp: ID_UnmarshalText_def split: if_splits res.splits)

interpretation td_codec: text_codec "TD_wf cs" TrustDomain_MarshalText "TrustDomain_UnmarshalText cs" for cs
proof unfold_locales
  fix v old :: TrustDomain and t
  show "\<exists>t. TrustDomain_MarshalText v = Ok t" by (simp add: TrustDomain_MarshalText_def)
  show "TrustDomain_UnmarshalText cs old t = (v, None)"
    if "TD_wf cs v" "TrustDomain_MarshalText v = Ok t"
  proof (cases "td_name v = ''''")
    case True
    then show ?thesis using that
      by (simp add: TrustDomain_MarshalText_def TrustDomain_UnmarshalText_def TrustDomain_IsZero_def
          TrustDomain.expand)
  next
    case False
    then have "valid_td cs (td_name v)" "t = td_name v"
      using that by (auto simp: TD_wf_def TrustDomain_MarshalText_def TrustDomain_String_def TrustDomain_IsZero_def)
    then have "TrustDomainFromString cs t = Ok v" by (simp add: TrustDomainFromString_Ok_iff)
    then show ?thesis using False \<open>t = _\<close> by (simp add: TrustDomain_UnmarshalText_def)
  qed
  show "TD_wf cs v" if "TrustDomain_UnmarshalText cs old t = (v, None)"
    using that
    by (auto simp: TrustDomain_UnmarshalText_def intro: TrustDomainFromString_wf split: if_splits res.splits)
qed (auto simp: TrustDomain_UnmarshalText_def split: if_splits res.splits)

subsection \<open>Every obtainable value is well-formed\<close>

lemma ID_ops_wf [inv_intros]:
  assumes "ID_wf cs i"
  shows "ID_AppendPath cs i p = Ok spid \<Longrightarrow> ID_wf cs spid"
    "ID_AppendPathf cs sprintf i f args = Ok spid \<Longrightarrow> ID_wf cs spid"
    "ID_AppendSegments cs i segs = Ok spid \<Longrightarrow> ID_wf cs spid"
    "ID_ReplacePath cs i p = Ok spid \<Longrightarrow> ID_wf cs spid"
    "ID_ReplacePathf cs sprintf i f args = Ok spid \<Longrightarrow> ID_wf cs spid"
    "ID_ReplaceSegments cs i segs = Ok spid \<Longrightarrow> ID_wf cs spid"
proof -
  note td = FromPath_wf [OF ID_TrustDomain_wf [OF assms]]
  show "ID_AppendPath cs i p = Ok spid \<Longrightarrow> ID_wf cs spid"
    "ID_AppendPathf cs sprintf i f args = Ok spid \<Longrightarrow> ID_wf cs spid"
    "ID_AppendSegments cs i segs = Ok spid \<Longrightarrow> ID_wf cs spid"
    by (drule ID_append_ops_Ok, drule ID_append_wf [OF assms], simp)+
  show "ID_ReplacePath cs i p = Ok spid \<Longrightarrow> ID_wf cs spid"
    "ID_ReplacePathf cs sprintf i f args = Ok spid \<Longrightarrow> ID_wf cs spid"
    "ID_ReplaceSegments cs i segs = Ok spid \<Longrightarrow> ID_wf cs spid"
    by (drule ID_replace_ops_Ok, erule td)+
qed

lemma FromPathf_wf [inv_intros]:
  "TD_wf cs td \<Longrightarrow> FromPathf cs sprintf td f args = Ok spid \<Longrightarrow> ID_wf cs spid"
  by (simp add: FromPathf_Ok_iff FromPath_wf)

lemma FromSegments_wf [inv_intros]:
  "TD_wf cs td \<Longrightarrow> FromSegments cs td segs = Ok spid \<Longrightarrow> ID_wf cs spid"
  by (auto simp: FromSegments_Ok_iff intro: FromPath_wf)

lemma FromStringf_wf [inv_intros]: "FromStringf cs sprintf f args = Ok spid \<Longrightarrow> ID_wf cs spid"
  by (simp add: FromStringf_def FromString_wf)

lemmas constructors_wf = FromString_wf FromStringf_wf FromURI_wf FromPath_wf FromPathf_wf
  FromSegments_wf TrustDomain_ID_wf ID_TrustDomain_wf TrustDomainFromString_wf
  TrustDomainFromURI_wf ID_ops_wf

lemma obtainable_wf:
  "ID_obtainable cs sprintf spid \<Longrightarrow> ID_wf cs spid"
  "TD_obtainable cs sprintf td \<Longrightarrow> TD_wf cs td"
proof (induction rule: ID_obtainable_TD_obtainable.inducts)
  case (unmarshal_id i t spid e)
  then show ?case using id_codec.unmarshal_keeps_wf [of cs i t] by simp
next
  case (unmarshal_td t0 t td e)
  then show ?case using td_codec.unmarshal_keeps_wf [of cs t0 t] by simp
qed (simp_all, (erule (1) constructors_wf | erule constructors_wf)+)

subsection \<open>Matchers\<close>

lemma MatchOneOf_None_iff: "MatchOneOf ids spid = None \<longleftrightarrow> spid \<in> set ids"
proof -
  have "fst ` set (fold (\<lambda>spid m. gm_set spid () m) ids m) = set ids \<union> fst ` set m" for m
    by (induction ids arbitrary: m) (auto simp: AList.dom_update)
  then show ?thesis by (simp add: MatchOneOf_def Let_def gm_has_iff)
qed

lemma MatchID_None_iff: "MatchID i spid = None \<longleftrightarrow> spid = i"
  by (simp add: MatchID_def)

lemma MatchMemberOf_None_iff: "MatchMemberOf td spid = None \<longleftrightarrow> ID_TrustDomain spid = td"
  by (simp add: MatchMemberOf_def ID_MemberOf_def)

lemma TrustDomain_Compare_less: "TrustDomain_Compare a b < 0 \<longleftrightarrow> a < b"
  by (auto simp: TrustDomain_Compare_def less_TrustDomain_def)

subsection \<open>URLs\<close>

lemma strict_chars_not_escaped:
  "isValidTrustDomainChar Backcompat_Deny c \<Longrightarrow> \<not> shouldEscape c encodeHost"
  "isValidPathSegmentChar Backcompat_Deny c \<Longrightarrow> \<not> shouldEscape c encodePath"
  by (auto simp: isValidTrustDomainChar_def isValidPathSegmentChar_def shouldEscape_def is_alnum_def
      split: if_splits)

lemma slash_not_escaped: "\<not> shouldEscape (CHR ''/'') encodePath"
  by (simp add: shouldEscape_def is_alnum_def)

lemma URL_String_ID_URL:
  assumes "valid_td Backcompat_Deny n" "valid_path Backcompat_Deny p"
  shows "URL_String (ID_URL (mk_ID n p)) = schemePrefix @ n @ p"
proof -
  have "\<not> shouldEscape c encodePath" if "c \<in> set p" for c
    using valid_path_chars [OF assms(2) that] strict_chars_not_escaped(2) slash_not_escaped by metis
  moreover have "\<not> shouldEscape c encodeHost" if "c \<in> set n" for c
    using assms(1) that strict_chars_not_escaped(1) by (auto simp: valid_td_def)
  ultimately show ?thesis
    using URL_String_hier [of n p "''spiffe''"] assms valid_path_head [OF assms(2)]
    by (simp add: ID_URL_def valid_td_def TrustDomain_String_def schemePrefix_def)
qed

section \<open>Properties\<close>

text \<open>
  C12: \<open>FromString\<close> accepts exactly the strings of the SPIFFE ID grammar -- the scheme, a
  non-empty trust domain name over the allowed characters, and a valid path -- and the ID it
  returns gives back that trust domain, that path and the whole string.
\<close>

theorem FromString_grammar:
  "FromString cs s = Ok i \<longleftrightarrow>
     (\<exists>n p. valid_td cs n \<and> valid_path cs p \<and> s = ''spiffe://'' @ n @ p \<and> i = mk_ID n p \<and>
            ID_TrustDomain i = TrustDomain n \<and> ID_Path i = p \<and> ID_String i = s)"
  unfolding FromString_Ok_iff schemePrefix_def [symmetric] by auto

text \<open>
  The scanning loop of \<open>ValidatePath\<close> accepts exactly the paths that are empty or a
  sequence of slash-prefixed segments, each of them non-empty, not a dot segment and made of
  allowed characters.
\<close>

theorem ValidatePath_grammar:
  "ValidatePath cs p = None \<longleftrightarrow>
     (\<exists>segs. list_all (\<lambda>s. ValidatePathSegment cs s = None) segs \<and>
             p = concat (map (\<lambda>s. CHR ''/'' # s) segs))"
  unfolding ValidatePath_None_iff ValidatePathSegment_None_iff
  by (simp add: valid_path_def join_segments_def)

text \<open>
  C13: every ID a program can obtain from the package, through any sequence of its
  constructors, appends, replacements and decodings, is well-formed: the slices that
  \<open>TrustDomain\<close> and \<open>Path\<close> take are inside the string, and parsing the ID's own string
  gives the same ID back.
\<close>

theorem ID_obtainable_sound:
  assumes "ID_obtainable cs sprintf i"
  shows "ID_wf cs i \<and>
    (ID_IsZero i \<and> i = zero_ID \<or>
     schemePrefixLen < id_pathidx i \<and> id_pathidx i \<le> length (id_id i) \<and>
     FromString cs (ID_String i) = Ok i)"
proof -
  have "ID_wf cs i" using assms by (rule obtainable_wf)
  then show ?thesis
    by (cases rule: ID_wf_cases) (auto simp: FromString_mk, auto simp: mk_ID_def valid_td_def)
qed

theorem ID_obtainable_sound_witness:
  "ID_wf Backcompat_Deny (mk_ID ''example.org'' ''/a/b'') \<and>
   FromString Backcompat_Deny ''spiffe://example.org/a/b'' = Ok (mk_ID ''example.org'' ''/a/b'')"
proof -
  have a: "FromString Backcompat_Deny ''spiffe://example.org/a/b'' = Ok (mk_ID ''example.org'' ''/a/b'')"
    by code_simp
  then have "ID_obtainable Backcompat_Deny (\<lambda>f (_ :: unit list). f) (mk_ID ''example.org'' ''/a/b'')"
    by (rule ID_obtainable_TD_obtainable.intros)
  from ID_obtainable_sound [OF this] a show ?thesis by simp
qed

text \<open>
  appending a path to an ID keeps its trust domain, extends its path by exactly the given
  path, and gives the ID that parsing the concatenated string gives.
\<close>

theorem AppendPath_correct:
  assumes "ID_wf cs i" and "ID_AppendPath cs i p = Ok j"
  shows "ID_TrustDomain j = ID_TrustDomain i \<and> ID_Path j = ID_Path i @ p \<and>
    FromString cs (ID_String i @ p) = Ok j"
proof -
  note a = ID_append_ops_Ok(1) [OF assms(2)]
  have j: "ID_wf cs j \<and> ID_TrustDomain j = ID_TrustDomain i \<and> ID_Path j = ID_Path i @ p"
    by (rule ID_append_wf [OF assms(1) a])
  have "ID_String j = ID_String i @ p" "\<not> ID_IsZero j"
    using a by (auto simp: ID_String_def ID_IsZero_def)
  then show ?thesis using j FromString_String [of cs j] by simp
qed

theorem AppendPath_correct_witness:
  "ID_AppendPath Backcompat_Deny (mk_ID ''td'' ''/a'') ''/b'' = Ok (mk_ID ''td'' ''/a/b'') \<and>
   ID_TrustDomain (mk_ID ''td'' ''/a/b'') = TrustDomain ''td''"
proof -
  have f: "FromString Backcompat_Deny ''spiffe://td/a'' = Ok (mk_ID ''td'' ''/a'')" by code_simp
  have a: "ID_AppendPath Backcompat_Deny (mk_ID ''td'' ''/a'') ''/b'' = Ok (mk_ID ''td'' ''/a/b'')"
    by code_simp
  show ?thesis using a AppendPath_correct [OF FromString_wf [OF f] a] by simp
qed

text \<open>
  with the default character set, an ID survives the trip through its URL:
  \<open>FromURI(id.URL())\<close> is the same ID.
\<close>

theorem FromURI_URL_roundtrip:
  assumes "ID_wf Backcompat_Deny i" and "\<not> ID_IsZero i"
  shows "FromURI Backcompat_Deny (ID_URL i) = Ok i"
  using assms by (auto simp: FromURI_def URL_String_ID_URL FromString_mk elim!: ID_wf_cases)

theorem FromURI_URL_roundtrip_witness:
  "FromURI Backcompat_Deny (ID_URL (mk_ID ''td'' ''/a'')) = Ok (mk_ID ''td'' ''/a'')"
proof -
  have f: "FromString Backcompat_Deny ''spiffe://td/a'' = Ok (mk_ID ''td'' ''/a'')" by code_simp
  show ?thesis by (rule FromURI_URL_roundtrip [OF FromString_wf [OF f]]) simp
qed

text \<open>
  With the build tag \<open>spiffeid_charset_backcompat\<close> that round trip is lost: the path
  character \<open>!\<close> is accepted, but \<open>ID.URL\<close> leaves \<open>RawPath\<close> empty, so the URL prints it as
  \<open>%21\<close> and \<open>FromURI\<close> rejects the ID's own URL.
\<close>

theorem FromURI_URL_backcompat_fails:
  "FromString Backcompat_Allow ''spiffe://td/a!b'' = Ok (mk_ID ''td'' ''/a!b'') \<and>
   URL_String (ID_URL (mk_ID ''td'' ''/a!b'')) = ''spiffe://td/a%21b'' \<and>
   FromURI Backcompat_Allow (ID_URL (mk_ID ''td'' ''/a!b'')) = Err errBadPathSegmentChar"
  by code_simp

text \<open>
  \<open>TrustDomainFromString\<close> accepts exactly trust domain names and SPIFFE IDs, and takes the
  trust domain of an ID; a trust domain is recovered from its name and from its ID string.
\<close>

theorem TrustDomainFromString_correct:
  "(TrustDomainFromString cs s = Ok td \<longleftrightarrow>
      valid_td cs s \<and> td = TrustDomain s \<or>
      (\<exists>i. FromString cs s = Ok i \<and> ID_TrustDomain i = td)) \<and>
   (TrustDomainFromString cs (TrustDomain_Name (TrustDomain n)) = Ok (TrustDomain n) \<longleftrightarrow> valid_td cs n) \<and>
   (TrustDomainFromString cs (TrustDomain_IDString (TrustDomain n)) = Ok (TrustDomain n) \<longleftrightarrow> valid_td cs n)"
  unfolding TrustDomain_Name_def TrustDomain.sel TrustDomainFromString_name_iff
    TrustDomainFromString_IDString_iff
  unfolding TrustDomainFromString_Ok_iff FromString_Ok_iff by (metis mk_ID_accessors(3))

text \<open>
  the text encodings of IDs and trust domains are codecs: whatever the receiver holds,
  decoding the encoding of a well-formed value gives that value, a failed decoding leaves the
  receiver unchanged, and two well-formed values with the same text are equal.
\<close>

theorem text_roundtrip:
  assumes "ID_wf cs i" and "TD_wf cs td" and "ID_MarshalText i = Ok t" and "TrustDomain_MarshalText td = Ok u"
  shows "ID_UnmarshalText cs old t = (i, None) \<and> TrustDomain_UnmarshalText cs oldtd u = (td, None) \<and>
    (ID_UnmarshalText cs old w = (j, Some e) \<longrightarrow> j = old) \<and>
    (ID_wf cs j \<and> ID_MarshalText j = Ok t \<longrightarrow> j = i)"
  using assms id_codec.decode_encode td_codec.decode_encode id_codec.decode_fail id_codec.marshal_inj
  by metis

theorem text_roundtrip_witness:
  "ID_UnmarshalText Backcompat_Deny zero_ID ''spiffe://td/a'' = (mk_ID ''td'' ''/a'', None) \<and>
   TrustDomain_UnmarshalText Backcompat_Deny (TrustDomain ''x'') ''td'' = (TrustDomain ''td'', None)"
proof -
  have f: "FromString Backcompat_Deny ''spiffe://td/a'' = Ok (mk_ID ''td'' ''/a'')"
    "TrustDomainFromString Backcompat_Deny ''td'' = Ok (TrustDomain ''td'')" by code_simp+
  have m: "ID_MarshalText (mk_ID ''td'' ''/a'') = Ok ''spiffe://td/a''"
    "TrustDomain_MarshalText (TrustDomain ''td'') = Ok ''td''" by code_simp+
  show ?thesis
    using text_roundtrip [OF FromString_wf [OF f(1)] TrustDomainFromString_wf [OF f(2)] m] by blast
qed

text \<open>
  on well-formed IDs the matchers decide by what the ID says: \<open>MatchID\<close> and
  \<open>MatchOneOf\<close> by the ID string, although the source compares structs, and
  \<open>MatchMemberOf\<close> by the trust domain; a refusal is an error, never a panic.
\<close>

theorem matchers_correct:
  assumes "ID_wf cs a" and "ID_wf cs e" and "\<forall>x \<in> set es. ID_wf cs x"
  shows "(MatchID e a = None \<longleftrightarrow> ID_String a = ID_String e) \<and>
    (MatchOneOf es a = None \<longleftrightarrow> ID_String a \<in> ID_String ` set es) \<and>
    (MatchMemberOf td a = None \<longleftrightarrow> ID_TrustDomain a = td) \<and> MatchAny a = None"
  using assms ID_wf_String_inj
  by (auto simp: MatchID_None_iff MatchOneOf_None_iff MatchMemberOf_None_iff MatchAny_def)

theorem matchers_correct_witness:
  "MatchID (mk_ID ''td'' ''/a'') (mk_ID ''td'' ''/a'') = None \<and>
   MatchOneOf [mk_ID ''td'' ''/a''] zero_ID \<noteq> None"
proof -
  have f: "FromString Backcompat_Deny ''spiffe://td/a'' = Ok (mk_ID ''td'' ''/a'')" by code_simp
  have w: "ID_wf Backcompat_Deny (mk_ID ''td'' ''/a'')" by (rule FromString_wf [OF f])
  have l: "\<forall>x \<in> set [mk_ID ''td'' ''/a'']. ID_wf Backcompat_Deny x" using w by simp
  show ?thesis
    using matchers_correct [OF w w l] matchers_correct [OF ID_wf_zero w l] by simp
qed

end
