(* ===== verification/Crypto_Types.thy ===== *)
theory Crypto_Types
  imports Prelude Go_URL
begin

text \<open>
  The standard-library types that the packages pass around: public and private keys,
  certificates, PEM blocks, and the X.509 and PEM entry points the code calls.

  Keys are the three types the code switches on, plus one constructor for every other dynamic
  type behind \<open>crypto.PublicKey\<close> and \<open>crypto.PrivateKey\<close>. A certificate has the fields the
  code reads; \<open>Certificate.Equal\<close> compares the raw bytes. Parsing, PEM and chain building are
  not under the repository: they are the fields of \<open>x509_lib\<close>, a parameter of every
  definition that calls them.
\<close>

section \<open>Keys\<close>

datatype public_key =
    RSA_PublicKey (rsa_N: int) (rsa_E: int)
  | ECDSA_PublicKey (ec_Curve: string) (ec_X: int) (ec_Y: int)
  | Ed25519_PublicKey string
  | Other_PublicKey (pub_type: string)

datatype private_key =
    RSA_PrivateKey public_key
  | ECDSA_PrivateKey public_key
  | Ed25519_PrivateKey string string
  | Other_PrivateKey (priv_type: string) (priv_is_signer: bool)

text \<open>
  An RSA or ECDSA private key embeds its public key. An Ed25519 private key is a seed and the
  public half, which \<open>Public\<close> returns. Some other private key may or may not implement
  \<open>crypto.Signer\<close>.
\<close>

section \<open>Certificates\<close>

record certificate =
  cert_Raw :: string
  cert_URIs :: "URL list"
  cert_IsCA :: bool
  cert_KeyUsage :: "64 word"
  cert_PublicKey :: public_key

definition KeyUsageDigitalSignature :: "64 word" where "KeyUsageDigitalSignature = push_bit 0 1"
definition KeyUsageCertSign :: "64 word" where "KeyUsageCertSign = push_bit 5 1"
definition KeyUsageCRLSign :: "64 word" where "KeyUsageCRLSign = push_bit 6 1"

definition Certificate_Equal :: "certificate \<Rightarrow> certificate \<Rightarrow> bool" where
  "Certificate_Equal c other \<longleftrightarrow> cert_Raw c = cert_Raw other"

text \<open>A certificate pool keeps the first of several certificates with the same bytes.\<close>

type_synonym CertPool = "certificate list"

definition CertPool_AddCert :: "certificate \<Rightarrow> CertPool \<Rightarrow> CertPool" where
  "CertPool_AddCert c pool =
     (if list_ex (\<lambda>d. cert_Raw d = cert_Raw c) pool then pool else pool @ [c])"

section \<open>Library entry points\<close>

record pem_block =
  pem_Type :: string
  pem_Bytes :: string

text \<open>\<open>CurrentTime\<close> is \<^const>\<open>None\<close> for the zero time, which means the time of the call.\<close>

record 'time verify_options =
  vo_Roots :: CertPool
  vo_Intermediates :: CertPool
  vo_AnyKeyUsage :: bool
  vo_CurrentTime :: "'time option"

record 'time x509_lib =
  lib_pem_Decode :: "string \<Rightarrow> (pem_block \<times> string) option"
  lib_pem_EncodeToMemory :: "pem_block \<Rightarrow> string"
  lib_ParseCertificate :: "string \<Rightarrow> certificate res"
  lib_ParseCertificates :: "string \<Rightarrow> certificate list res"
  lib_ParsePKCS8PrivateKey :: "string \<Rightarrow> private_key res"
  lib_MarshalPKCS8PrivateKey :: "private_key \<Rightarrow> string res"
  lib_Verify :: "certificate \<Rightarrow> 'time verify_options \<Rightarrow> certificate list list res"

text \<open>
  What the documentation of \<open>encoding/pem\<close> and \<open>crypto/x509\<close> promises, as named hypotheses:
  a decoded block uses up input; an encoded block (of the two types in use) at the front of the input is decoded and
  the remainder returned; a certificate's raw bytes parse to that certificate; a marshaled
  private key parses to that key.
\<close>

definition pem_decode_shrinks :: "'t x509_lib \<Rightarrow> bool" where
  "pem_decode_shrinks lib \<longleftrightarrow>
     (\<forall>b blk rest. lib_pem_Decode lib b = Some (blk, rest) \<longrightarrow> length rest < length b)"

definition pem_decode_encode :: "'t x509_lib \<Rightarrow> bool" where
  "pem_decode_encode lib \<longleftrightarrow>
     (\<forall>blk rest. pem_Type blk \<in> {''CERTIFICATE'', ''PRIVATE KEY''} \<longrightarrow>
        lib_pem_EncodeToMemory lib blk \<noteq> [] \<and>
        lib_pem_Decode lib (lib_pem_EncodeToMemory lib blk @ rest) = Some (blk, rest))"

definition cert_parses :: "'t x509_lib \<Rightarrow> certificate \<Rightarrow> bool" where
  "cert_parses lib c \<longleftrightarrow> lib_ParseCertificate lib (cert_Raw c) = Ok c"

definition key_parses :: "'t x509_lib \<Rightarrow> private_key \<Rightarrow> string \<Rightarrow> bool" where
  "key_parses lib k b \<longleftrightarrow>
     lib_MarshalPKCS8PrivateKey lib k = Ok b \<and> lib_ParsePKCS8PrivateKey lib b = Ok k"

section \<open>Lemmas\<close>

lemma pem_decode_encodeD:
  assumes "pem_decode_encode lib" "pem_Type blk \<in> {''CERTIFICATE'', ''PRIVATE KEY''}"
  shows "lib_pem_EncodeToMemory lib blk \<noteq> []"
    and "lib_pem_Decode lib (lib_pem_EncodeToMemory lib blk @ rest) = Some (blk, rest)"
  using assms unfolding pem_decode_encode_def by blast+

lemma KeyUsage_bits:
  "and u KeyUsageDigitalSignature = 0 \<longleftrightarrow> \<not> bit u 0"
  "sint (and u KeyUsageCertSign) > 0 \<longleftrightarrow> bit u 5"
  "sint (and u KeyUsageCRLSign) > 0 \<longleftrightarrow> bit u 6"
  "and u KeyUsageCertSign = 0 \<longleftrightarrow> \<not> bit u 5"
proof -
  have mask: "and u (push_bit n 1) = (if bit u n then push_bit n 1 else 0)" for n and u :: "64 word"
    by (rule bit_eqI) (auto simp: bit_simps)
  show "and u KeyUsageDigitalSignature = 0 \<longleftrightarrow> \<not> bit u 0"
    "sint (and u KeyUsageCertSign) > 0 \<longleftrightarrow> bit u 5"
    "sint (and u KeyUsageCRLSign) > 0 \<longleftrightarrow> bit u 6"
    "and u KeyUsageCertSign = 0 \<longleftrightarrow> \<not> bit u 5"
    unfolding KeyUsageDigitalSignature_def KeyUsageCertSign_def KeyUsageCRLSign_def mask
    by simp_all
qed

lemma Certificate_Equal_refl [simp]: "Certificate_Equal c c"
  by (simp add: Certificate_Equal_def)

lemma Certificate_Equal_sym: "Certificate_Equal c d \<longleftrightarrow> Certificate_Equal d c"
  by (auto simp: Certificate_Equal_def)

lemma Certificate_Equal_trans:
  "Certificate_Equal c d \<Longrightarrow> Certificate_Equal d e \<Longrightarrow> Certificate_Equal c e"
  by (simp add: Certificate_Equal_def)

end
