(* ===== verification/Internal_Utils.thy ===== *)
theory Internal_Utils
  imports Crypto_Types
begin

text \<open>
  The packages under \<open>internal/\<close>: \<open>cryptoutil\<close> (key comparison), \<open>jwtutil\<close> (maps of
  authorities), \<open>x509util\<close> (lists of certificates) and \<open>pemutil\<close> (PEM blocks).
\<close>

section \<open>cryptoutil and jwtutil\<close>

definition RSAPublicKeyEqual :: "public_key \<Rightarrow> public_key \<Rightarrow> bool" where
  "RSAPublicKeyEqual a b \<longleftrightarrow> rsa_E a = rsa_E b \<and> rsa_N a = rsa_N b"

definition ECDSAPublicKeyEqual :: "public_key \<Rightarrow> public_key \<Rightarrow> bool" where
  "ECDSAPublicKeyEqual a b \<longleftrightarrow> ec_Curve a = ec_Curve b \<and> ec_X a = ec_X b \<and> ec_Y a = ec_Y b"

fun PublicKeyEqual :: "public_key \<Rightarrow> public_key \<Rightarrow> bool \<times> error option" where
  "PublicKeyEqual (RSA_PublicKey n e) b =
     ((case b of RSA_PublicKey _ _ \<Rightarrow> RSAPublicKeyEqual (RSA_PublicKey n e) b | _ \<Rightarrow> False), None)"
| "PublicKeyEqual (ECDSA_PublicKey c x y) b =
     ((case b of ECDSA_PublicKey _ _ _ \<Rightarrow> ECDSAPublicKeyEqual (ECDSA_PublicKey c x y) b | _ \<Rightarrow> False), None)"
| "PublicKeyEqual (Ed25519_PublicKey k) b =
     ((case b of Ed25519_PublicKey k' \<Rightarrow> k = k' | _ \<Rightarrow> False), None)"
| "PublicKeyEqual (Other_PublicKey t) b = (False, Some (Errorf ''unsupported public key type %T'' [t]))"

type_synonym authorities = "(string, public_key) gomap"

definition CopyJWTAuthorities :: "authorities \<Rightarrow> authorities" where
  "CopyJWTAuthorities jwtAuthorities = fold (\<lambda>(k, a) m. gm_set k a m) jwtAuthorities []"

definition JWTAuthoritiesEqual :: "authorities \<Rightarrow> authorities \<Rightarrow> bool" where
  "JWTAuthoritiesEqual a b \<longleftrightarrow>
     length a = length b \<and>
     list_all (\<lambda>(k, pka). case gm_get b k of
        None \<Rightarrow> False
      | Some pkb \<Rightarrow> fst (PublicKeyEqual pka pkb)) a"

section \<open>x509util\<close>

definition NewCertPool :: "certificate list \<Rightarrow> CertPool" where
  "NewCertPool certs = fold CertPool_AddCert certs []"

definition CopyX509Authorities :: "certificate list \<Rightarrow> certificate list" where
  "CopyX509Authorities x509Authorities = map (\<lambda>i. x509Authorities ! i) [0 ..< length x509Authorities]"

definition CertsEqual :: "certificate list \<Rightarrow> certificate list \<Rightarrow> bool" where
  "CertsEqual a b \<longleftrightarrow>
     (if length a \<noteq> length b then False
      else list_all (\<lambda>i. Certificate_Equal (a ! i) (b ! i)) [0 ..< length a])"

definition RawCertsFromCerts :: "certificate list \<Rightarrow> string list" where
  "RawCertsFromCerts certs = fold (\<lambda>cert rawCerts. rawCerts @ [cert_Raw cert]) certs []"

definition ConcatRawCertsFromCerts :: "certificate list \<Rightarrow> string" where
  "ConcatRawCertsFromCerts certs = fold (\<lambda>cert rawCerts. rawCerts @ cert_Raw cert) certs []"

section \<open>pemutil\<close>

definition certType :: string where "certType = ''CERTIFICATE''"
definition keyType :: string where "keyType = ''PRIVATE KEY''"

datatype pem_object = Obj_Certificate certificate | Obj_PrivateKey private_key

text \<open>The four results of \<open>parseBlock\<close>: the object (nil or not), the rest, whether a block was
  found, and the error.\<close>

definition parseBlock ::
  "'t x509_lib \<Rightarrow> string \<Rightarrow> string \<Rightarrow> pem_object option \<times> string \<times> bool \<times> error option" where
  "parseBlock lib pemBytes pemType =
     (case lib_pem_Decode lib pemBytes of
        None \<Rightarrow> (None, [], False, None)
      | Some (pemBlock, rest) \<Rightarrow>
          (if pem_Type pemBlock \<noteq> pemType then (None, rest, True, None)
           else
             let r = (if pemType = certType then
                        (case lib_ParseCertificate lib (pem_Bytes pemBlock) of
                           Ok c \<Rightarrow> Inr (Obj_Certificate c) | Err e \<Rightarrow> Inl e | Panic e \<Rightarrow> Inl e)
                      else if pemType = keyType then
                        (case lib_ParsePKCS8PrivateKey lib (pem_Bytes pemBlock) of
                           Ok k \<Rightarrow> Inr (Obj_PrivateKey k) | Err e \<Rightarrow> Inl e | Panic e \<Rightarrow> Inl e)
                      else Inl (Errorf ''PEM type not supported: %q'' [pemType]))
             in case r of
                  Inl e \<Rightarrow> (None, [], False, Some e)
                | Inr ob \<Rightarrow> (Some ob, rest, True, None)))"

text \<open>
  The \<open>for\<close> loop of \<open>parseBlocks\<close> ends when the input is used up, which depends on
  \<open>pem.Decode\<close>: \<^const>\<open>None\<close> is a loop that does not end.
\<close>

partial_function (option) parseBlocks_loop ::
  "'t x509_lib \<Rightarrow> string \<Rightarrow> string \<Rightarrow> pem_object list \<Rightarrow> bool \<Rightarrow> pem_object list res option" where
  "parseBlocks_loop lib blocksBytes expectedType objects foundBlocks =
     (if length blocksBytes = 0 then
        (if length objects = 0 \<and> \<not> foundBlocks then Some (Err (New ''no PEM blocks found''))
         else Some (Ok objects))
      else
        (let r = parseBlock lib blocksBytes expectedType in
         case snd (snd (snd r)) of
           Some e \<Rightarrow> Some (Err e)
         | None \<Rightarrow>
             parseBlocks_loop lib (fst (snd r)) expectedType
               (case fst r of None \<Rightarrow> objects | Some ob \<Rightarrow> objects @ [ob])
               (if fst (snd (snd r)) then True else foundBlocks)))"

definition parseBlocks :: "'t x509_lib \<Rightarrow> string \<Rightarrow> string \<Rightarrow> pem_object list res option" where
  "parseBlocks lib blocksBytes expectedType = parseBlocks_loop lib blocksBytes expectedType [] False"

definition ParseCertificates :: "'t x509_lib \<Rightarrow> string \<Rightarrow> certificate list res option" where
  "ParseCertificates lib certsBytes =
     map_option (\<lambda>r. bind_res r (\<lambda>objects.
       mapM_res (\<lambda>object. case object of
           Obj_Certificate cert \<Rightarrow> Ok cert
         | Obj_PrivateKey _ \<Rightarrow> Err (Errorf ''expected *x509.Certificate; got %T'' [])) objects))
     (parseBlocks lib certsBytes certType)"

text \<open>\<open>crypto.PrivateKey\<close> is the empty interface, so the type assertion of the source always
  succeeds; the key itself is what the PKCS#8 parser returned.\<close>

definition ParsePrivateKey :: "'t x509_lib \<Rightarrow> string \<Rightarrow> private_key option res option" where
  "ParsePrivateKey lib keyBytes =
     map_option (\<lambda>r. bind_res r (\<lambda>objects.
       case objects of
         [] \<Rightarrow> Ok None
       | Obj_PrivateKey k # _ \<Rightarrow> Ok (Some k)
       | Obj_Certificate _ # _ \<Rightarrow> Err (Errorf ''expected crypto.PrivateKey; got %T'' [])))
     (parseBlocks lib keyBytes keyType)"

definition EncodePKCS8PrivateKey :: "'t x509_lib \<Rightarrow> private_key \<Rightarrow> string res" where
  "EncodePKCS8PrivateKey lib privateKey =
     bind_res (lib_MarshalPKCS8PrivateKey lib privateKey) (\<lambda>keyBytes.
       Ok (lib_pem_EncodeToMemory lib \<lparr>pem_Type = keyType, pem_Bytes = keyBytes\<rparr>))"

definition EncodeCertificates :: "'t x509_lib \<Rightarrow> certificate list \<Rightarrow> string" where
  "EncodeCertificates lib certificates =
     fold (\<lambda>cert pemBytes.
       pemBytes @ lib_pem_EncodeToMemory lib \<lparr>pem_Type = certType, pem_Bytes = cert_Raw cert\<rparr>)
     certificates []"

section \<open>Lemmas\<close>

subsection \<open>Keys and authority maps\<close>

fun supported_key :: "public_key \<Rightarrow> bool" where
  "supported_key (Other_PublicKey _) = False"
| "supported_key _ = True"

lemma PublicKeyEqual_iff: "fst (PublicKeyEqual a b) \<longleftrightarrow> supported_key a \<and> a = b"
  by (cases a; cases b) (auto simp: RSAPublicKeyEqual_def ECDSAPublicKeyEqual_def)

lemma PublicKeyEqual_err_iff: "snd (PublicKeyEqual a b) = None \<longleftrightarrow> supported_key a"
  by (cases a) auto

lemma CopyJWTAuthorities_eq: "CopyJWTAuthorities m = gm_copy m"
  by (simp add: CopyJWTAuthorities_def gm_copy_def case_prod_unfold)

lemma CopyJWTAuthorities_id [simp]: "gm_wf m \<Longrightarrow> CopyJWTAuthorities m = m"
  by (simp add: CopyJWTAuthorities_eq)

lemma CopyJWTAuthorities_wf [simp, inv_intros]: "gm_wf (CopyJWTAuthorities m)"
  by (simp add: CopyJWTAuthorities_eq)

text \<open>
  Comparing the lengths and checking one inclusion is enough: the authority maps are equal as
  maps, and every key is of a type that can be compared.
\<close>

lemma JWTAuthoritiesEqual_iff:
  assumes "gm_wf a" "gm_wf b"
  shows "JWTAuthoritiesEqual a b \<longleftrightarrow> gm_get a = gm_get b \<and> list_all (supported_key \<circ> snd) a"
proof
  assume eq: "JWTAuthoritiesEqual a b"
  have sub: "gm_get b k = Some v \<and> supported_key v" if "gm_get a k = Some v" for k v
    using eq map_of_SomeD [OF that]
    by (force simp: JWTAuthoritiesEqual_def list_all_iff PublicKeyEqual_iff split: option.splits)
  then have "dom (gm_get a) \<subseteq> dom (gm_get b)" by (auto simp: dom_def)
  moreover have "card (dom (gm_get a)) = card (dom (gm_get b))"
    using eq gm_len_card [OF assms(1)] gm_len_card [OF assms(2)] by (simp add: JWTAuthoritiesEqual_def)
  ultimately have "dom (gm_get a) = dom (gm_get b)"
    by (metis card_subset_eq finite_dom_map_of)
  then have "gm_get a = gm_get b"
    by (intro ext) (metis domIff not_None_eq sub)
  moreover have "supported_key v" if "(k, v) \<in> set a" for k v
    using sub [of k v] that assms(1) by (simp add: gm_wf_def)
  ultimately show "gm_get a = gm_get b \<and> list_all (supported_key \<circ> snd) a"
    by (auto simp: list_all_iff)
next
  assume r: "gm_get a = gm_get b \<and> list_all (supported_key \<circ> snd) a"
  then have "length a = length b" using assms gm_len_card by metis
  moreover have "gm_get b k = Some v" if "(k, v) \<in> set a" for k v
    using r that assms(1) by (metis gm_wf_def map_of_is_SomeI)
  ultimately show "JWTAuthoritiesEqual a b"
    using r by (auto simp: JWTAuthoritiesEqual_def list_all_iff PublicKeyEqual_iff)
qed

subsection \<open>Certificate lists\<close>

lemma CopyX509Authorities_id [simp]: "CopyX509Authorities xs = xs"
  by (simp add: CopyX509Authorities_def map_nth)

lemma CertsEqual_iff: "CertsEqual a b \<longleftrightarrow> map cert_Raw a = map cert_Raw b"
  unfolding CertsEqual_def list_eq_iff_nth_eq [of "map cert_Raw a" "map cert_Raw b"]
  by (auto simp: list_all_iff Certificate_Equal_def)

lemma fold_append_concat: "fold (\<lambda>x acc. acc @ f x) xs acc = acc @ concat (map f xs)"
  by (induction xs arbitrary: acc) auto

lemma RawCertsFromCerts_eq: "RawCertsFromCerts certs = map cert_Raw certs"
  using fold_append_concat [of "\<lambda>c. [cert_Raw c]" certs "[]"] by (simp add: RawCertsFromCerts_def)

lemma ConcatRawCertsFromCerts_eq: "ConcatRawCertsFromCerts certs = concat (map cert_Raw certs)"
  using fold_append_concat [of cert_Raw certs "[]"] by (simp add: ConcatRawCertsFromCerts_def)

lemma EncodeCertificates_eq:
  "EncodeCertificates lib certs =
     concat (map (\<lambda>c. lib_pem_EncodeToMemory lib \<lparr>pem_Type = certType, pem_Bytes = cert_Raw c\<rparr>) certs)"
  using fold_append_concat [of "\<lambda>c. lib_pem_EncodeToMemory lib \<lparr>pem_Type = certType, pem_Bytes = cert_Raw c\<rparr>" certs "[]"]
  by (simp add: EncodeCertificates_def)

lemma NewCertPool_subset: "set (NewCertPool certs) \<subseteq> set certs"
proof -
  have "set (fold CertPool_AddCert certs pool) \<subseteq> set pool \<union> set certs" for pool
    by (induction certs arbitrary: pool) (fastforce simp: CertPool_AddCert_def split: if_splits)+
  then show ?thesis unfolding NewCertPool_def by fastforce
qed

lemma NewCertPool_raw: "cert_Raw ` set (NewCertPool certs) = cert_Raw ` set certs"
proof -
  have "cert_Raw ` set (fold CertPool_AddCert certs pool) = cert_Raw ` set pool \<union> cert_Raw ` set certs" for pool
  proof (induction certs arbitrary: pool)
    case (Cons c certs)
    have "cert_Raw ` set (CertPool_AddCert c pool) = insert (cert_Raw c) (cert_Raw ` set pool)"
      by (cases "\<exists>d\<in>set pool. cert_Raw d = cert_Raw c")
        (auto simp: CertPool_AddCert_def list_ex_iff image_iff, metis)
    then show ?case using Cons.IH [of "CertPool_AddCert c pool"] by simp
  qed simp
  then show ?thesis by (simp add: NewCertPool_def)
qed

subsection \<open>PEM blocks\<close>

lemma parseBlock_rest:
  assumes "pem_decode_shrinks lib" "b \<noteq> []" "parseBlock lib b t = (ob, rest, f, None)"
  shows "length rest < length b"
  using assms
  by (auto simp: parseBlock_def pem_decode_shrinks_def Let_def
      split: option.splits prod.splits if_splits sum.splits)

lemma parseBlocks_loop_total:
  assumes "pem_decode_shrinks lib"
  shows "\<exists>r. parseBlocks_loop lib b t obs f = Some r"
proof (induction "length b" arbitrary: b obs f rule: less_induct)
  case less
  show ?case
  proof (cases "b = []")
    case True
    then show ?thesis by (subst parseBlocks_loop.simps) simp
  next
    case False
    obtain ob rest fb err where r: "parseBlock lib b t = (ob, rest, fb, err)" by (metis prod.exhaust)
    show ?thesis
    proof (cases err)
      case None
      then have "length rest < length b" using parseBlock_rest [OF assms False] r by simp
      then show ?thesis using less r None False by (subst parseBlocks_loop.simps) (simp add: Let_def)
    next
      case (Some e)
      then show ?thesis using r False by (subst parseBlocks_loop.simps) (simp add: Let_def)
    qed
  qed
qed

lemma parseBlocks_loop_block:
  assumes "pem_decode_encode lib" "pem_Type blk \<in> {certType, keyType}"
    and "parseBlock lib (lib_pem_EncodeToMemory lib blk @ rest) t = (ob, rest, True, None)"
  shows "parseBlocks_loop lib (lib_pem_EncodeToMemory lib blk @ rest) t obs f =
    parseBlocks_loop lib rest t (case ob of None \<Rightarrow> obs | Some ob' \<Rightarrow> obs @ [ob']) True"
  using assms(3) pem_decode_encodeD(1) [of lib blk] assms(1,2)
  by (subst parseBlocks_loop.simps) (simp add: Let_def certType_def keyType_def)

lemma parseBlocks_loop_certs:
  assumes "pem_decode_encode lib" "list_all (cert_parses lib) certs"
  shows "parseBlocks_loop lib (EncodeCertificates lib certs) certType obs (f \<or> certs = []) =
    parseBlocks_loop lib [] certType (obs @ map Obj_Certificate certs) True"
  using assms(2)
proof (induction certs arbitrary: obs f)
  case Nil
  then show ?case by (simp add: EncodeCertificates_eq)
next
  case (Cons c certs)
  let ?rest = "EncodeCertificates lib certs"
  have "parseBlock lib (EncodeCertificates lib (c # certs)) certType
      = (Some (Obj_Certificate c), ?rest, True, None)"
    using assms(1) Cons.prems
    by (simp add: parseBlock_def EncodeCertificates_eq pem_decode_encode_def cert_parses_def certType_def)
  then show ?case
    using parseBlocks_loop_block [OF assms(1), of "\<lparr>pem_Type = certType, pem_Bytes = cert_Raw c\<rparr>"
        ?rest certType "Some (Obj_Certificate c)"]
      Cons.IH [of "obs @ [Obj_Certificate c]" True] Cons.prems
    by (simp add: EncodeCertificates_eq)
qed

lemma ParseCertificates_Encode:
  assumes "pem_decode_encode lib" "list_all (cert_parses lib) certs" "certs \<noteq> []"
  shows "ParseCertificates lib (EncodeCertificates lib certs) = Some (Ok certs)"
proof -
  have "parseBlocks lib (EncodeCertificates lib certs) certType = Some (Ok (map Obj_Certificate certs))"
    using parseBlocks_loop_certs [OF assms(1,2), of "[]" False] assms(3)
    by (simp add: parseBlocks_def parseBlocks_loop.simps)
  moreover have "mapM_res (\<lambda>object. case object of Obj_Certificate cert \<Rightarrow> Ok cert
      | Obj_PrivateKey _ \<Rightarrow> Err (Errorf ''expected *x509.Certificate; got %T'' [])) (map Obj_Certificate certs)
      = Ok certs" by (induction certs) auto
  ultimately show ?thesis by (simp add: ParseCertificates_def)
qed

lemma ParsePrivateKey_Encode:
  assumes "pem_decode_encode lib" "key_parses lib k b" "EncodePKCS8PrivateKey lib k = Ok p"
  shows "ParsePrivateKey lib p = Some (Ok (Some k))"
proof -
  let ?blk = "\<lparr>pem_Type = keyType, pem_Bytes = b\<rparr>"
  have p: "p = lib_pem_EncodeToMemory lib ?blk @ []"
    using assms by (auto simp: EncodePKCS8PrivateKey_def key_parses_def)
  have "lib_pem_Decode lib p = Some (?blk, [])"
    using pem_decode_encodeD(2) [OF assms(1), of ?blk "[]"] unfolding p by (simp add: keyType_def)
  moreover have "keyType \<noteq> certType" by (simp add: keyType_def certType_def)
  ultimately have "parseBlock lib p keyType = (Some (Obj_PrivateKey k), [], True, None)"
    using assms(2) by (simp add: parseBlock_def key_parses_def)
  then have "parseBlocks lib p keyType = Some (Ok [Obj_PrivateKey k])"
    using parseBlocks_loop_block [OF assms(1), of ?blk "[]" keyType] p
    by (simp add: parseBlocks_def) (simp add: parseBlocks_loop.simps)
  then show ?thesis by (simp add: ParsePrivateKey_def)
qed

end
