(* ===== verification/Bundle_Interfaces.thy ===== *)
theory Bundle_Interfaces
  imports Spiffeid Internal_Utils
begin

text \<open>
  The contracts that the bundle packages share, as locales. \<open>keyed_authorities\<close> is what
  \<open>jwtbundle.Bundle\<close>, \<open>witbundle.Bundle\<close> and the JWT and WIT halves of
  \<open>spiffebundle.Bundle\<close> promise; \<open>listed_authorities\<close> is the X.509 counterpart;
  \<open>bundle_set\<close> is what the four \<open>Set\<close> types promise; \<open>bundle_source\<close> is the \<open>Source\<close>
  interface of the validating packages. The theories of the packages interpret them.
\<close>

section \<open>Authorities under a key ID\<close>

locale keyed_authorities =
  fixes inv :: "'b \<Rightarrow> bool"
    and td_of :: "'b \<Rightarrow> TrustDomain"
    and auths :: "'b \<Rightarrow> authorities"
    and find :: "'b \<Rightarrow> string \<Rightarrow> public_key option"
    and has :: "'b \<Rightarrow> string \<Rightarrow> bool"
    and new :: "TrustDomain \<Rightarrow> 'b"
    and add :: "'b \<Rightarrow> string \<Rightarrow> public_key \<Rightarrow> 'b \<times> error option"
    and remove :: "'b \<Rightarrow> string \<Rightarrow> 'b"
    and replace :: "'b \<Rightarrow> authorities \<Rightarrow> 'b"
  assumes inv_new: "inv (new t)"
    and td_new: "td_of (new t) = t"
    and find_new: "find (new t) = Map.empty"
    and auths_wf: "inv b \<Longrightarrow> gm_wf (auths b)"
    and auths_find: "inv b \<Longrightarrow> gm_get (auths b) = find b"
    and has_iff: "has b k \<longleftrightarrow> find b k \<noteq> None"
    and add_empty: "\<exists>e e'. add b '''' a = (b, Some e) \<and> errors_Unwrap e = Some e'"
    and add_ok: "k \<noteq> '''' \<Longrightarrow> inv b \<Longrightarrow> \<exists>b'. add b k a = (b', None) \<and> inv b' \<and>
        find b' = (find b)(k \<mapsto> a) \<and> td_of b' = td_of b"
    and remove_ok: "inv b \<Longrightarrow> inv (remove b k) \<and> find (remove b k) = (find b)(k := None) \<and>
        td_of (remove b k) = td_of b"
    and replace_ok: "gm_wf m \<Longrightarrow> inv b \<Longrightarrow> inv (replace b m) \<and> find (replace b m) = gm_get m \<and>
        td_of (replace b m) = td_of b"
begin

lemma add_then_remove:
  assumes "inv b" "add b k a = (b', None)"
  shows "find (remove b' k) = (find b)(k := None) \<and> \<not> has (remove b' k) k"
proof -
  have "k \<noteq> ''''" using add_empty [of b a] assms(2) by auto
  then show ?thesis using add_ok [of k b a] assms remove_ok [of b' k] by (auto simp: has_iff)
qed

lemma find_add_other:
  "inv b \<Longrightarrow> add b k a = (b', e) \<Longrightarrow> j \<noteq> k \<Longrightarrow> find b' j = find b j"
  by (cases "k = ''''") (use add_empty [of b a] add_ok [of k b a] in auto)

text \<open>Feeding a list of keys to \<open>add\<close>: it stops at the first empty key ID, and otherwise a
  later key replaces an earlier one with the same ID.\<close>

fun add_all :: "'b \<Rightarrow> (string \<times> public_key) list \<Rightarrow> 'b \<times> error option" where
  "add_all b [] = (b, None)"
| "add_all b ((k, a) # ks) = (case add b k a of (b', None) \<Rightarrow> add_all b' ks | (b', Some e) \<Rightarrow> (b', Some e))"

lemma add_all_ok:
  assumes "inv b" "'''' \<notin> fst ` set ks"
  shows "\<exists>b'. add_all b ks = (b', None) \<and> inv b' \<and> find b' = find b ++ map_of (rev ks) \<and> td_of b' = td_of b"
  using assms
proof (induction ks arbitrary: b)
  case (Cons x ks)
  obtain k a where x: "x = (k, a)" by force
  with Cons.prems obtain b1 where b1: "add b k a = (b1, None)" "inv b1"
      "find b1 = (find b)(k \<mapsto> a)" "td_of b1 = td_of b"
    using add_ok [of k b a] by auto
  obtain b2 where "add_all b1 ks = (b2, None)" "inv b2" "find b2 = find b1 ++ map_of (rev ks)"
      "td_of b2 = td_of b1"
    using Cons.IH [OF b1(2)] Cons.prems by auto
  then show ?case using b1 x by (auto simp: map_add_assoc)
qed simp

lemma add_all_fail:
  assumes "inv b" "'''' \<in> fst ` set ks"
  shows "\<exists>b' e. add_all b ks = (b', Some e)"
  using assms
proof (induction ks arbitrary: b)
  case (Cons x ks)
  obtain k a where x: "x = (k, a)" by force
  show ?case
  proof (cases "k = ''''")
    case True
    then show ?thesis using add_empty [of b a] x by auto
  next
    case False
    then show ?thesis using add_ok [OF False Cons.prems(1), of a] Cons x by auto
  qed
qed simp

end

section \<open>A list of certificates\<close>

locale listed_authorities =
  fixes td_of :: "'b \<Rightarrow> TrustDomain"
    and auths :: "'b \<Rightarrow> certificate list"
    and has :: "'b \<Rightarrow> certificate \<Rightarrow> bool"
    and new :: "TrustDomain \<Rightarrow> 'b"
    and add :: "'b \<Rightarrow> certificate \<Rightarrow> 'b"
    and remove :: "'b \<Rightarrow> certificate \<Rightarrow> 'b"
    and replace :: "'b \<Rightarrow> certificate list \<Rightarrow> 'b"
  assumes new_ok: "td_of (new t) = t \<and> auths (new t) = []"
    and has_iff: "has b c \<longleftrightarrow> cert_Raw c \<in> cert_Raw ` set (auths b)"
    and add_ok: "td_of (add b c) = td_of b \<and>
      auths (add b c) = (if has b c then auths b else auths b @ [c])"
    and remove_ok: "td_of (remove b c) = td_of b \<and>
      map cert_Raw (auths (remove b c)) = remove1 (cert_Raw c) (map cert_Raw (auths b))"
    and replace_ok: "td_of (replace b cs) = td_of b \<and> auths (replace b cs) = cs"
begin

definition no_dups :: "'b \<Rightarrow> bool" where
  "no_dups b \<longleftrightarrow> distinct (map cert_Raw (auths b))"

lemma no_dups_new: "no_dups (new t)"
  by (simp add: no_dups_def new_ok)

lemma no_dups_add: "no_dups b \<Longrightarrow> no_dups (add b c)"
  by (auto simp: no_dups_def add_ok has_iff)

lemma no_dups_remove: "no_dups b \<Longrightarrow> no_dups (remove b c)"
  by (simp add: no_dups_def remove_ok distinct_remove1)

lemma has_add: "has (add b c) d \<longleftrightarrow> has b d \<or> Certificate_Equal d c"
  by (auto simp: add_ok has_iff Certificate_Equal_def)

lemma add_idem: "auths (add (add b c) c) = auths (add b c)"
  using add_ok [of "add b c" c] has_add [of b c c] by simp

lemma has_remove_iff:
  "has (remove b c) c \<longleftrightarrow> 2 \<le> count_list (map cert_Raw (auths b)) (cert_Raw c)"
proof -
  have "x \<in> set (remove1 x xs) \<longleftrightarrow> 2 \<le> count_list xs x" for x and xs :: "string list"
    by (induction xs) (auto simp: Suc_le_eq count_list_0_iff zero_less_iff_neq_zero)
  then show ?thesis by (metis has_iff list.set_map remove_ok)
qed

lemma has_remove_other: "\<not> Certificate_Equal d c \<Longrightarrow> has (remove b c) d \<longleftrightarrow> has b d"
  by (metis Certificate_Equal_def has_iff in_set_remove1 list.set_map remove_ok)

lemma remove_removes: "no_dups b \<Longrightarrow> \<not> has (remove b c) c"
  by (metis has_iff list.set_map no_dups_def remove_ok set_remove1_eq DiffE singletonI)

lemma auths_add_all:
  "map cert_Raw (auths (fold (\<lambda>c b. add b c) cs b)) =
   fold (\<lambda>r rs. if r \<in> set rs then rs else rs @ [r]) (map cert_Raw cs) (map cert_Raw (auths b))"
  by (induction cs arbitrary: b) (auto simp: add_ok has_iff)

lemma td_add_all: "td_of (fold (\<lambda>c b. add b c) cs b) = td_of b"
  by (induction cs arbitrary: b) (auto simp: add_ok)

lemma no_dups_add_all: "no_dups b \<Longrightarrow> no_dups (fold (\<lambda>c b. add b c) cs b)"
  by (induction cs arbitrary: b) (auto simp: no_dups_add)

lemma auths_add_all_distinct:
  "distinct (map cert_Raw (auths b @ cs)) \<Longrightarrow> auths (fold (\<lambda>c b. add b c) cs b) = auths b @ cs"
proof (induction cs arbitrary: b)
  case (Cons c cs)
  then have "\<not> has b c" by (auto simp: has_iff)
  then have "auths (add b c) = auths b @ [c]" by (simp add: add_ok)
  then show ?case using Cons.IH [of "add b c"] Cons.prems by simp
qed simp

end

section \<open>Sets of bundles\<close>

locale bundle_set =
  fixes inv :: "'s \<Rightarrow> bool"
    and td_of :: "'b \<Rightarrow> TrustDomain"
    and get :: "'s \<Rightarrow> TrustDomain \<Rightarrow> 'b option"
    and has :: "'s \<Rightarrow> TrustDomain \<Rightarrow> bool"
    and new :: "'b option list \<Rightarrow> 's"
    and add :: "'s \<Rightarrow> 'b option \<Rightarrow> 's"
    and remove :: "'s \<Rightarrow> TrustDomain \<Rightarrow> 's"
    and bundles :: "'s \<Rightarrow> 'b list"
    and len :: "'s \<Rightarrow> nat"
  assumes new_fold: "new bs = fold (\<lambda>b s. add s b) bs (new [])"
    and inv_new: "inv (new [])"
    and get_new: "get (new []) = Map.empty"
    and add_nil: "add s None = s"
    and add_ok: "inv s \<Longrightarrow> inv (add s (Some b)) \<and> get (add s (Some b)) = (get s)(td_of b \<mapsto> b)"
    and remove_ok: "inv s \<Longrightarrow> inv (remove s t) \<and> get (remove s t) = (get s)(t := None)"
    and has_iff: "has s t \<longleftrightarrow> get s t \<noteq> None"
    and get_key: "inv s \<Longrightarrow> get s t = Some b \<Longrightarrow> td_of b = t"
    and bundles_ok: "inv s \<Longrightarrow> sorted (map td_of (bundles s)) \<and> distinct (map td_of (bundles s)) \<and>
      set (bundles s) = ran (get s)"
    and len_ok: "inv s \<Longrightarrow> len s = card (dom (get s))"
begin

lemma inv_new_all: "inv (new bs)"
proof -
  have "inv (fold (\<lambda>b s. add s b) bs s)" if "inv s" for s
    using that
  proof (induction bs arbitrary: s)
    case (Cons b bs)
    then show ?case by (cases b) (auto simp: add_nil add_ok)
  qed simp
  then show ?thesis by (subst new_fold) (simp add: inv_new)
qed

text \<open>A set built from a list holds, for every trust domain, the last bundle given for it.\<close>

lemma get_new_all:
  "get (new bs) = map_of (rev (map (\<lambda>b. (td_of b, b)) (List.map_filter (\<lambda>x. x) bs)))"
proof -
  have "get (fold (\<lambda>b s. add s b) bs s) =
      get s ++ map_of (rev (map (\<lambda>b. (td_of b, b)) (List.map_filter (\<lambda>x. x) bs)))" if "inv s" for s
    using that
  proof (induction bs arbitrary: s)
    case (Cons b bs)
    then show ?case
      by (cases b) (auto simp: add_nil add_ok map_filter_simps map_add_def fun_eq_iff split: option.splits)
  qed (simp add: map_filter_simps)
  then show ?thesis by (subst new_fold) (simp add: inv_new get_new)
qed

lemma len_bundles: "inv s \<Longrightarrow> len s = length (bundles s)"
proof -
  assume inv: "inv s"
  have "dom (get s) = set (map td_of (bundles s))"
    using bundles_ok [OF inv] get_key [OF inv] by (force simp: ran_def dom_def)
  then show ?thesis
    using len_ok [OF inv] bundles_ok [OF inv] distinct_card [of "map td_of (bundles s)"] by simp
qed

text \<open>The listing depends only on what the set holds, not on how it was built.\<close>

lemma bundles_canonical: "inv s \<Longrightarrow> inv s' \<Longrightarrow> get s = get s' \<Longrightarrow> bundles s = bundles s'"
  using bundles_ok [of s] bundles_ok [of s'] sorted_key_unique [of td_of] by metis

lemma get_new_distinct:
  assumes "distinct (map td_of bs)"
  shows "get (new (map Some bs)) t = Some b \<longleftrightarrow> b \<in> set bs \<and> td_of b = t"
proof -
  have "List.map_filter (\<lambda>x. x) (map Some bs) = bs" by (induction bs) (auto simp: map_filter_simps)
  moreover have "map_of (rev (map (\<lambda>b. (td_of b, b)) bs)) = map_of (map (\<lambda>b. (td_of b, b)) bs)"
    using assms by (intro map_of_eq_rev) (simp add: comp_def)
  ultimately show ?thesis
    using assms by (auto simp: get_new_all comp_def)
qed

lemma bundles_mem: "inv s \<Longrightarrow> b \<in> set (bundles s) \<longleftrightarrow> get s (td_of b) = Some b"
  using bundles_ok [of s] get_key [of s] by (fastforce simp: ran_def)

end

section \<open>Bundles of a response\<close>

text \<open>
  The Workload API sends bundles as a map from trust domain names to encoded bundles, and the
  client ranges over the map. \<open>parse_td\<close> reads a key, \<open>parse\<close> a value.
\<close>

locale bundle_response = bundle_set inv td_of get has new add remove bundles len
  for inv :: "'s \<Rightarrow> bool" and td_of :: "'b \<Rightarrow> TrustDomain" and get has new add remove bundles len +
  fixes parse_td :: "string \<Rightarrow> TrustDomain res"
    and parse :: "TrustDomain \<Rightarrow> string \<Rightarrow> 'b res"
  assumes parse_td_of: "parse t v = Ok b \<Longrightarrow> td_of b = t"
begin

definition entry :: "string \<times> string \<Rightarrow> 'b res" where
  "entry = (\<lambda>(k, v). bind_res (parse_td k) (\<lambda>td. parse td v))"

definition response :: "(string, string) gomap \<Rightarrow> 's res" where
  "response m = bind_res (mapM_res entry m) (\<lambda>bs. Ok (new (map Some bs)))"

definition same_td :: "(string, string) gomap \<Rightarrow> bool" where
  "same_td m \<longleftrightarrow> (\<exists>k k' t. k \<in> fst ` set m \<and> k' \<in> fst ` set m \<and> k \<noteq> k' \<and> parse_td k = Ok t \<and> parse_td k' = Ok t)"

lemma entry_td: "entry (k, v) = Ok b \<Longrightarrow> parse_td k = Ok (td_of b)"
  by (auto simp: entry_def parse_td_of)

lemma response_entries:
  assumes "gm_wf m" "\<not> same_td m" "response m = Ok s"
  shows "get s t = Some b \<longleftrightarrow> (\<exists>kv \<in> set m. entry kv = Ok b \<and> td_of b = t)" and "inv s"
proof -
  from assms(3) obtain bs where bs: "list_all2 (\<lambda>kv b. entry kv = Ok b) m bs" "s = new (map Some bs)"
    by (auto simp: response_def mapM_res_Ok_iff)
  show "inv s" using bs(2) inv_new_all by simp
  have "distinct (map td_of bs)"
    using bs(1) assms(1,2)
  proof (induction m bs rule: list_all2_induct)
    case (Cons kv m b bs)
    obtain k v where kv: "kv = (k, v)" by force
    have "td_of b' \<noteq> td_of b" if b': "b' \<in> set bs" for b'
    proof
      assume eq: "td_of b' = td_of b"
      obtain k' v' where e: "(k', v') \<in> set m" "entry (k', v') = Ok b'"
        using list_all2_right [OF Cons.hyps(2) b'] by auto
      have "parse_td k = Ok (td_of b)" "parse_td k' = Ok (td_of b)"
        using entry_td e(2) eq Cons.hyps(1) kv by auto
      moreover have "k' \<in> fst ` set m" using e(1) by force
      moreover have "k \<noteq> k'" using \<open>k' \<in> fst ` set m\<close> Cons.prems(1) kv by auto
      ultimately show False using Cons.prems(2) kv unfolding same_td_def by auto
    qed
    then have "td_of b \<notin> td_of ` set bs" by force
    moreover have "\<not> same_td m" using Cons.prems(2) unfolding same_td_def by auto
    ultimately show ?case using Cons.IH Cons.prems(1) kv by simp
  qed simp
  note get = get_new_distinct [OF this]
  have "b \<in> set bs \<longleftrightarrow> (\<exists>kv \<in> set m. entry kv = Ok b)"
    using list_all2_right [OF bs(1)] list_all2_left [OF bs(1)] by force
  then show "get s t = Some b \<longleftrightarrow> (\<exists>kv \<in> set m. entry kv = Ok b \<and> td_of b = t)"
    unfolding bs(2) get by auto
qed

text \<open>Two orders of the same map: both succeed or both fail, and the sets agree.\<close>

lemma response_order:
  assumes "gm_wf m" "gm_wf m'" "gm_get m = gm_get m'" "\<not> same_td m" "response m = Ok s"
  shows "\<exists>s'. response m' = Ok s' \<and> get s' = get s \<and> bundles s' = bundles s"
proof -
  have set_eq: "set m' = set m"
    using assms(1-3) by (metis gm_wf_def map_of_inject_set)
  obtain bs where bs: "list_all2 (\<lambda>kv b. entry kv = Ok b) m bs"
    using assms(5) by (auto simp: response_def mapM_res_Ok_iff)
  have "\<forall>kv \<in> set m. \<exists>b. entry kv = Ok b" using list_all2_left [OF bs] by blast
  then obtain g where "\<forall>kv \<in> set m. entry kv = Ok (g kv)" by (rule bchoice [THEN exE])
  then have "mapM_res entry m' = Ok (map g m')" using set_eq by (intro mapM_res_total) simp
  then obtain s' where s': "response m' = Ok s'" by (auto simp: response_def)
  have "\<not> same_td m'" using assms(4) set_eq by (simp add: same_td_def)
  note e = response_entries(1) [OF assms(1,4,5)] response_entries(1) [OF assms(2) this s']
  have "get s' t = Some b \<longleftrightarrow> get s t = Some b" for t b using e set_eq by simp
  then have "get s' = get s" by (intro ext) (metis not_None_eq)
  then show ?thesis
    using s' bundles_canonical response_entries(2) [OF assms(1,4,5)] response_entries(2) [OF assms(2) \<open>\<not> same_td m'\<close> s']
    by blast
qed

end

section \<open>Sources\<close>

text \<open>
  A \<open>Source\<close> answers for a trust domain with a bundle of that trust domain, or with an
  error. \<open>valid\<close> is the invariant of the implementation.
\<close>

locale bundle_source =
  fixes valid :: "'s \<Rightarrow> bool"
    and td_of :: "'b \<Rightarrow> TrustDomain"
    and get_for :: "'s \<Rightarrow> TrustDomain \<Rightarrow> 'b res"
  assumes get_for_td: "valid s \<Longrightarrow> get_for s t = Ok b \<Longrightarrow> td_of b = t"
    and get_for_no_panic: "valid s \<Longrightarrow> \<not> is_Panic (get_for s t)"
begin

lemma get_for_exclusive:
  "valid s \<Longrightarrow> get_for s t = Ok b \<Longrightarrow> get_for s t' = Ok b \<Longrightarrow> t = t'"
  using get_for_td by metis

lemma get_for_cases:
  assumes "valid s"
  obtains (found) b where "get_for s t = Ok b" | (failed) e where "get_for s t = Err e"
  using get_for_no_panic [OF assms, of t] by (cases "get_for s t") auto

end

section \<open>The map implementation of a bundle set\<close>

text \<open>
  The four \<open>Set\<close> types keep a map from trust domains to bundles. The lemma says that any such
  map meets the contract; each package rewrites its own definitions to this form.
\<close>

definition gset_inv :: "('b \<Rightarrow> TrustDomain) \<Rightarrow> (TrustDomain, 'b) gomap \<Rightarrow> bool" where
  "gset_inv td_of s \<longleftrightarrow> gm_wf s \<and> list_all (\<lambda>(t, b). td_of b = t) s"

definition gset_add :: "('b \<Rightarrow> TrustDomain) \<Rightarrow> (TrustDomain, 'b) gomap \<Rightarrow> 'b option \<Rightarrow> (TrustDomain, 'b) gomap" where
  "gset_add td_of s b = (case b of None \<Rightarrow> s | Some b' \<Rightarrow> gm_set (td_of b') b' s)"

lemma gset_inv_get: "gset_inv td_of s \<Longrightarrow> gm_get s t = Some b \<Longrightarrow> td_of b = t"
  by (auto simp: gset_inv_def list_all_iff dest!: map_of_SomeD)

lemma gset_inv_set: "gset_inv td_of s \<Longrightarrow> td_of b = t \<Longrightarrow> gset_inv td_of (gm_set t b s)"
proof -
  have "list_all (\<lambda>(t, b). td_of b = t) (gm_set t b s)"
    if "td_of b = t" "list_all (\<lambda>(t, b). td_of b = t) s" for t b s
    using that by (induction s) auto
  then show "gset_inv td_of s \<Longrightarrow> td_of b = t \<Longrightarrow> gset_inv td_of (gm_set t b s)"
    by (simp add: gset_inv_def)
qed

lemma gset_inv_delete:
  assumes "gset_inv td_of s"
  shows "gset_inv td_of (gm_delete t s)"
proof -
  have "list_all P (gm_delete t s)" if "list_all P s" for P
    using that by (simp add: AList.delete_eq list_all_iff)
  then show ?thesis using assms by (simp add: gset_inv_def)
qed

lemma gset_bundle_set:
  fixes td_of :: "'b \<Rightarrow> TrustDomain"
  shows "bundle_set (gset_inv td_of) td_of gm_get gm_has
     (\<lambda>bs. fold (\<lambda>b s. gset_add td_of s b) bs []) (gset_add td_of) (\<lambda>s t. gm_delete t s)
     (\<lambda>s. sort_key td_of (map snd s)) length"
proof
  fix s :: "(TrustDomain, 'b) gomap" and b :: 'b and t
  show "gset_inv td_of (gset_add td_of s (Some b)) \<and> gm_get (gset_add td_of s (Some b)) = (gm_get s)(td_of b \<mapsto> b)"
    if "gset_inv td_of s" using that by (simp add: gset_add_def gset_inv_set)
  show "gset_inv td_of (gm_delete t s) \<and> gm_get (gm_delete t s) = (gm_get s)(t := None)"
    if "gset_inv td_of s" using that by (simp add: gset_inv_delete)
  show "sorted (map td_of (sort_key td_of (map snd s))) \<and> distinct (map td_of (sort_key td_of (map snd s)))
      \<and> set (sort_key td_of (map snd s)) = ran (gm_get s)" if inv: "gset_inv td_of s"
  proof -
    have "map td_of (map snd s) = map fst s" using inv by (auto simp: gset_inv_def list_all_iff)
    moreover have "distinct (map fst s)" using inv by (simp add: gset_inv_def gm_wf_def)
    ultimately have "distinct (map td_of (map snd s))" by metis
    then have "distinct (map td_of (sort_key td_of (map snd s)))"
      by (metis distinct_map distinct_sort set_sort)
    then show ?thesis using inv by (simp add: ran_distinct gset_inv_def gm_wf_def)
  qed
  show "length s = card (dom (gm_get s))" if "gset_inv td_of s"
    using that by (simp add: gset_inv_def gm_len_card)
  show "td_of b = t" if "gset_inv td_of s" "gm_get s t = Some b" using gset_inv_get that .
qed (simp_all add: gset_add_def gset_inv_def gm_has_def)

end
