(* ===== verification/Jose_Types.thy ===== *)
theory Jose_Types
  imports Crypto_Types
begin

text \<open>
  JSON Web Keys as \<open>go-jose\<close> represents them, with the fields the bundle packages use.
  \<open>jwks.Keys\<close> is a slice: \<^const>\<open>None\<close> is the nil slice, which \<open>encoding/json\<close> writes as
  \<open>null\<close>, and \<open>Some []\<close> is the empty one. Encoding and decoding of the documents are
  parameters of the definitions that call \<open>json.Marshal\<close> and \<open>json.Unmarshal\<close>;
  \<open>json_roundtrips\<close> is the hypothesis that a document that was encoded decodes to itself.
\<close>

record jwk =
  jwk_Key :: public_key
  jwk_KeyID :: string
  jwk_Use :: string
  jwk_Certificates :: "certificate list"

type_synonym jwks = "jwk list option"

definition zero_jwk :: "public_key \<Rightarrow> string \<Rightarrow> jwk" where
  "zero_jwk key kid = \<lparr>jwk_Key = key, jwk_KeyID = kid, jwk_Use = '''', jwk_Certificates = []\<rparr>"

definition jwks_list :: "jwks \<Rightarrow> jwk list" where
  "jwks_list ks = (case ks of None \<Rightarrow> [] | Some l \<Rightarrow> l)"

definition json_roundtrips :: "('d \<Rightarrow> string res) \<Rightarrow> (string \<Rightarrow> 'd res) \<Rightarrow> 'd \<Rightarrow> bool" where
  "json_roundtrips marshal unmarshal d \<longleftrightarrow> (\<forall>s. marshal d = Ok s \<longrightarrow> unmarshal s = Ok d)"

lemma json_roundtripsD: "json_roundtrips marshal unmarshal d \<Longrightarrow> marshal d = Ok s \<Longrightarrow> unmarshal s = Ok d"
  by (simp add: json_roundtrips_def)

text \<open>Adding the keys of a document built from a map, one by one, gives the map back.\<close>

lemma fold_set_jwks:
  assumes "gm_wf m" "\<And>k a. jwk_KeyID (f k a) = k" "\<And>k a. jwk_Key (f k a) = a"
  shows "fold (\<lambda>k m. gm_set (jwk_KeyID k) (jwk_Key k) m) (map (\<lambda>(k, a). f k a) m) [] = m"
proof -
  have "fold (\<lambda>k m. gm_set (jwk_KeyID k) (jwk_Key k) m) (map (\<lambda>(k, a). f k a) m) acc
      = fold (\<lambda>(k, v). gm_set k v) m acc" for acc
    by (induction m arbitrary: acc) (auto simp: assms(2,3))
  then show ?thesis using gm_copy_id [OF assms(1)] by (simp add: gm_copy_def)
qed

end
