(* ===== verification/Jwtbundle.thy ===== *)
theory Jwtbundle
  imports Bundle_Interfaces Jose_Types
begin

text \<open>
  Package \<open>bundle/jwtbundle\<close>: \<open>Bundle\<close> (a trust domain and a map of JWT authorities) and
  \<open>Set\<close> (bundles by trust domain). The methods take and return the bundle; the mutex of the
  source makes each of them atomic. Receivers that may be nil are options.
\<close>

section \<open>Definitions\<close>

subsection \<open>Bundles\<close>

record jwtbundle_Bundle =
  jb_trustDomain :: TrustDomain
  jb_jwtAuthorities :: authorities

definition wrapJwtbundleErr :: "error \<Rightarrow> error" where
  "wrapJwtbundleErr err = Wrap ''jwtbundle: %w'' [] err"

definition jwtbundle_New :: "TrustDomain \<Rightarrow> jwtbundle_Bundle" where
  "jwtbundle_New trustDomain = \<lparr>jb_trustDomain = trustDomain, jb_jwtAuthorities = []\<rparr>"

definition jwtbundle_FromJWTAuthorities :: "TrustDomain \<Rightarrow> authorities \<Rightarrow> jwtbundle_Bundle" where
  "jwtbundle_FromJWTAuthorities trustDomain jwtAuthorities =
     \<lparr>jb_trustDomain = trustDomain, jb_jwtAuthorities = CopyJWTAuthorities jwtAuthorities\<rparr>"

definition jwtbundle_TrustDomain :: "jwtbundle_Bundle \<Rightarrow> TrustDomain" where
  "jwtbundle_TrustDomain b = jb_trustDomain b"

definition jwtbundle_JWTAuthorities :: "jwtbundle_Bundle \<Rightarrow> authorities" where
  "jwtbundle_JWTAuthorities b = CopyJWTAuthorities (jb_jwtAuthorities b)"

definition jwtbundle_FindJWTAuthority :: "jwtbundle_Bundle \<Rightarrow> string \<Rightarrow> public_key option" where
  "jwtbundle_FindJWTAuthority b keyID =
     (case gm_get (jb_jwtAuthorities b) keyID of Some jwtAuthority \<Rightarrow> Some jwtAuthority | None \<Rightarrow> None)"

definition jwtbundle_HasJWTAuthority :: "jwtbundle_Bundle \<Rightarrow> string \<Rightarrow> bool" where
  "jwtbundle_HasJWTAuthority b keyID = gm_has (jb_jwtAuthorities b) keyID"

definition jwtbundle_AddJWTAuthority ::
  "jwtbundle_Bundle \<Rightarrow> string \<Rightarrow> public_key \<Rightarrow> jwtbundle_Bundle \<times> error option" where
  "jwtbundle_AddJWTAuthority b keyID jwtAuthority =
     (if keyID = '''' then (b, Some (wrapJwtbundleErr (New ''keyID cannot be empty'')))
      else (b\<lparr>jb_jwtAuthorities := gm_set keyID jwtAuthority (jb_jwtAuthorities b)\<rparr>, None))"

definition jwtbundle_RemoveJWTAuthority :: "jwtbundle_Bundle \<Rightarrow> string \<Rightarrow> jwtbundle_Bundle" where
  "jwtbundle_RemoveJWTAuthority b keyID =
     b\<lparr>jb_jwtAuthorities := gm_delete keyID (jb_jwtAuthorities b)\<rparr>"

definition jwtbundle_SetJWTAuthorities :: "jwtbundle_Bundle \<Rightarrow> authorities \<Rightarrow> jwtbundle_Bundle" where
  "jwtbundle_SetJWTAuthorities b jwtAuthorities =
     b\<lparr>jb_jwtAuthorities := CopyJWTAuthorities jwtAuthorities\<rparr>"

definition jwtbundle_Empty :: "jwtbundle_Bundle \<Rightarrow> bool" where
  "jwtbundle_Empty b \<longleftrightarrow> length (jb_jwtAuthorities b) = 0"

fun jwtbundle_Parse_loop :: "nat \<Rightarrow> jwk list \<Rightarrow> jwtbundle_Bundle \<Rightarrow> jwtbundle_Bundle res" where
  "jwtbundle_Parse_loop i [] bundle = Ok bundle"
| "jwtbundle_Parse_loop i (key # keys) bundle =
     (case jwtbundle_AddJWTAuthority bundle (jwk_KeyID key) (jwk_Key key) of
        (bundle', None) \<Rightarrow> jwtbundle_Parse_loop (Suc i) keys bundle'
      | (_, Some err) \<Rightarrow>
          Err (wrapJwtbundleErr (errorf_v ''error adding authority %d of JWKS: %v'' [itoa i] (errors_Unwrap err))))"

definition jwtbundle_Parse ::
  "(string \<Rightarrow> jwks res) \<Rightarrow> TrustDomain \<Rightarrow> string \<Rightarrow> jwtbundle_Bundle res" where
  "jwtbundle_Parse unmarshal trustDomain bundleBytes =
     bind_res (map_err (\<lambda>err. wrapJwtbundleErr (Opaque ''unable to parse JWKS: %v'' [] err)) (unmarshal bundleBytes))
       (\<lambda>ks. jwtbundle_Parse_loop 0 (jwks_list ks) (jwtbundle_New trustDomain))"

text \<open>\<open>os.ReadFile\<close> is a parameter; a reader is the result of reading it to its end.\<close>

definition jwtbundle_Load ::
  "(string \<Rightarrow> string res) \<Rightarrow> (string \<Rightarrow> jwks res) \<Rightarrow> TrustDomain \<Rightarrow> string \<Rightarrow> jwtbundle_Bundle res" where
  "jwtbundle_Load readFile unmarshal trustDomain path =
     bind_res (map_err (\<lambda>err. wrapJwtbundleErr (Wrap ''unable to read JWT bundle: %w'' [] err)) (readFile path))
       (jwtbundle_Parse unmarshal trustDomain)"

definition jwtbundle_Read ::
  "(string \<Rightarrow> jwks res) \<Rightarrow> TrustDomain \<Rightarrow> string res \<Rightarrow> jwtbundle_Bundle res" where
  "jwtbundle_Read unmarshal trustDomain r =
     bind_res (map_err (\<lambda>err. wrapJwtbundleErr (Opaque ''unable to read: %v'' [] err)) r)
       (jwtbundle_Parse unmarshal trustDomain)"

definition jwtbundle_Marshal :: "(jwks \<Rightarrow> string res) \<Rightarrow> jwtbundle_Bundle \<Rightarrow> string res" where
  "jwtbundle_Marshal marshal b =
     marshal (Some (fold (\<lambda>(keyID, jwtAuthority) ks. ks @ [zero_jwk jwtAuthority keyID])
       (jb_jwtAuthorities b) []))"

definition jwtbundle_Clone :: "jwtbundle_Bundle \<Rightarrow> jwtbundle_Bundle" where
  "jwtbundle_Clone b = jwtbundle_FromJWTAuthorities (jb_trustDomain b) (jb_jwtAuthorities b)"

fun jwtbundle_Equal :: "jwtbundle_Bundle option \<Rightarrow> jwtbundle_Bundle option \<Rightarrow> bool" where
  "jwtbundle_Equal (Some b) (Some other) =
     (jb_trustDomain b = jb_trustDomain other \<and>
      JWTAuthoritiesEqual (jb_jwtAuthorities b) (jb_jwtAuthorities other))"
| "jwtbundle_Equal b other = (b = None \<and> other = None)"

definition jwtbundle_GetJWTBundleForTrustDomain ::
  "jwtbundle_Bundle \<Rightarrow> TrustDomain \<Rightarrow> jwtbundle_Bundle res" where
  "jwtbundle_GetJWTBundleForTrustDomain b trustDomain =
     (if jb_trustDomain b \<noteq> trustDomain
      then Err (wrapJwtbundleErr (Errorf ''no JWT bundle for trust domain %q'' [TrustDomain_String trustDomain]))
      else Ok b)"

subsection \<open>Sets\<close>

type_synonym jwtbundle_Set = "(TrustDomain, jwtbundle_Bundle) gomap"

definition jwtbundle_NewSet :: "jwtbundle_Bundle option list \<Rightarrow> jwtbundle_Set" where
  "jwtbundle_NewSet bundles =
     fold (\<lambda>b bundlesMap. case b of None \<Rightarrow> bundlesMap | Some b' \<Rightarrow> gm_set (jb_trustDomain b') b' bundlesMap)
       bundles []"

definition jwtbundle_Set_Add :: "jwtbundle_Set \<Rightarrow> jwtbundle_Bundle option \<Rightarrow> jwtbundle_Set" where
  "jwtbundle_Set_Add s bundle =
     (case bundle of None \<Rightarrow> s | Some b \<Rightarrow> gm_set (jb_trustDomain b) b s)"

definition jwtbundle_Set_Remove :: "jwtbundle_Set \<Rightarrow> TrustDomain \<Rightarrow> jwtbundle_Set" where
  "jwtbundle_Set_Remove s trustDomain = gm_delete trustDomain s"

definition jwtbundle_Set_Has :: "jwtbundle_Set \<Rightarrow> TrustDomain \<Rightarrow> bool" where
  "jwtbundle_Set_Has s trustDomain = gm_has s trustDomain"

definition jwtbundle_Set_Get :: "jwtbundle_Set \<Rightarrow> TrustDomain \<Rightarrow> jwtbundle_Bundle option" where
  "jwtbundle_Set_Get s trustDomain = gm_get s trustDomain"

definition jwtbundle_Set_Bundles :: "jwtbundle_Set \<Rightarrow> jwtbundle_Bundle list" where
  "jwtbundle_Set_Bundles s = sort_key jwtbundle_TrustDomain (fold (\<lambda>(_, bundle) out. out @ [bundle]) s [])"

definition jwtbundle_Set_Len :: "jwtbundle_Set \<Rightarrow> nat" where
  "jwtbundle_Set_Len s = length s"

definition jwtbundle_Set_GetJWTBundleForTrustDomain ::
  "jwtbundle_Set \<Rightarrow> TrustDomain \<Rightarrow> jwtbundle_Bundle res" where
  "jwtbundle_Set_GetJWTBundleForTrustDomain s trustDomain =
     (case gm_get s trustDomain of
        None \<Rightarrow> Err (wrapJwtbundleErr (Errorf ''no JWT bundle for trust domain %q'' [TrustDomain_String trustDomain]))
      | Some bundle \<Rightarrow> Ok bundle)"

section \<open>Lemmas\<close>

definition jwtbundle_wf :: "jwtbundle_Bundle \<Rightarrow> bool" where
  "jwtbundle_wf b \<longleftrightarrow> gm_wf (jb_jwtAuthorities b)"

lemmas jwtbundle_defs =
  jwtbundle_wf_def jwtbundle_New_def jwtbundle_TrustDomain_def jwtbundle_JWTAuthorities_def
  jwtbundle_FindJWTAuthority_def jwtbundle_HasJWTAuthority_def jwtbundle_AddJWTAuthority_def
  jwtbundle_RemoveJWTAuthority_def jwtbundle_SetJWTAuthorities_def wrapJwtbundleErr_def

interpretation jwt_auth: keyed_authorities jwtbundle_wf jwtbundle_TrustDomain jwtbundle_JWTAuthorities
  jwtbundle_FindJWTAuthority jwtbundle_HasJWTAuthority jwtbundle_New jwtbundle_AddJWTAuthority
  jwtbundle_RemoveJWTAuthority jwtbundle_SetJWTAuthorities
  by unfold_locales (auto simp: jwtbundle_defs gm_has_def fun_eq_iff split: option.splits)

interpretation jwt_set: bundle_set "gset_inv jwtbundle_TrustDomain" jwtbundle_TrustDomain
  jwtbundle_Set_Get jwtbundle_Set_Has jwtbundle_NewSet jwtbundle_Set_Add jwtbundle_Set_Remove
  jwtbundle_Set_Bundles jwtbundle_Set_Len
proof -
  have *: "jwtbundle_Set_Get = gm_get" "jwtbundle_Set_Has = gm_has"
    "jwtbundle_Set_Add = gset_add jwtbundle_TrustDomain" "jwtbundle_Set_Remove = (\<lambda>s t. gm_delete t s)"
    "jwtbundle_NewSet = (\<lambda>bs. fold (\<lambda>b s. gset_add jwtbundle_TrustDomain s b) bs [])"
    "jwtbundle_Set_Bundles = (\<lambda>s. sort_key jwtbundle_TrustDomain (map snd s))" "jwtbundle_Set_Len = length"
    by (simp_all add: fun_eq_iff jwtbundle_Set_Get_def jwtbundle_Set_Has_def jwtbundle_Set_Add_def
        jwtbundle_Set_Remove_def jwtbundle_NewSet_def jwtbundle_Set_Bundles_def jwtbundle_Set_Len_def
        gset_add_def jwtbundle_TrustDomain_def fold_snd cong: option.case_cong)
  show "bundle_set (gset_inv jwtbundle_TrustDomain) jwtbundle_TrustDomain
      jwtbundle_Set_Get jwtbundle_Set_Has jwtbundle_NewSet jwtbundle_Set_Add jwtbundle_Set_Remove
      jwtbundle_Set_Bundles jwtbundle_Set_Len"
    unfolding * by (rule gset_bundle_set)
qed

interpretation jwt_bundle_source: bundle_source "\<lambda>_. True" jwtbundle_TrustDomain
  jwtbundle_GetJWTBundleForTrustDomain
  by unfold_locales
    (auto simp: jwtbundle_GetJWTBundleForTrustDomain_def jwtbundle_TrustDomain_def split: if_splits)

interpretation jwt_set_source: bundle_source "gset_inv jwtbundle_TrustDomain" jwtbundle_TrustDomain
  jwtbundle_Set_GetJWTBundleForTrustDomain
  by unfold_locales
    (auto simp: jwtbundle_Set_GetJWTBundleForTrustDomain_def gset_inv_get split: option.splits)

subsection \<open>Parsing and printing\<close>

lemma jwtbundle_Parse_loop_iff:
  "jwtbundle_Parse_loop i keys b = Ok b' \<longleftrightarrow>
     jwt_auth.add_all b (map (\<lambda>k. (jwk_KeyID k, jwk_Key k)) keys) = (b', None)"
  by (induction i keys b rule: jwtbundle_Parse_loop.induct) (auto split: prod.splits option.splits)

lemma jwtbundle_Parse_loop_fresh:
  "'''' \<notin> jwk_KeyID ` set keys \<Longrightarrow>
   jwtbundle_Parse_loop i keys b =
     Ok (b\<lparr>jb_jwtAuthorities := fold (\<lambda>k m. gm_set (jwk_KeyID k) (jwk_Key k) m) keys (jb_jwtAuthorities b)\<rparr>)"
  by (induction i keys b rule: jwtbundle_Parse_loop.induct) (auto simp: jwtbundle_AddJWTAuthority_def)

lemma jwtbundle_Marshal_eq:
  "jwtbundle_Marshal marshal b = marshal (Some (map (\<lambda>(k, a). zero_jwk a k) (jb_jwtAuthorities b)))"
  by (simp add: jwtbundle_Marshal_def fold_snoc_pairs)

lemma jwtbundle_roundtrip:
  assumes "jwtbundle_wf b" "[] \<notin> fst ` set (jb_jwtAuthorities b)"
    and "json_roundtrips marshal unmarshal (Some (map (\<lambda>(k, a). zero_jwk a k) (jb_jwtAuthorities b)))"
    and "jwtbundle_Marshal marshal b = Ok s"
  shows "jwtbundle_Parse unmarshal (jb_trustDomain b) s = Ok b"
proof -
  have "unmarshal s = Ok (Some (map (\<lambda>(k, a). zero_jwk a k) (jb_jwtAuthorities b)))"
    using assms(3,4) by (simp add: jwtbundle_Marshal_eq json_roundtripsD)
  moreover have "[] \<notin> jwk_KeyID ` set (map (\<lambda>(k, a). zero_jwk a k) (jb_jwtAuthorities b))"
    using assms(2) by (force simp: zero_jwk_def)
  ultimately show ?thesis using assms(1) fold_set_jwks [of "jb_jwtAuthorities b" "\<lambda>k a. zero_jwk a k"]
    by (simp add: jwtbundle_Parse_def jwks_list_def jwtbundle_Parse_loop_fresh
        jwtbundle_New_def jwtbundle_wf_def zero_jwk_def)
qed

lemma jwtbundle_Find_get: "jwtbundle_FindJWTAuthority b = gm_get (jb_jwtAuthorities b)"
  by (simp add: jwtbundle_FindJWTAuthority_def fun_eq_iff split: option.splits)

lemma jwtbundle_Equal_iff:
  "jwtbundle_wf a \<Longrightarrow> jwtbundle_wf b \<Longrightarrow>
   jwtbundle_Equal (Some a) (Some b) \<longleftrightarrow>
     jb_trustDomain a = jb_trustDomain b \<and>
     jwtbundle_FindJWTAuthority a = jwtbundle_FindJWTAuthority b \<and>
     list_all (supported_key \<circ> snd) (jb_jwtAuthorities a)"
  by (auto simp: JWTAuthoritiesEqual_iff jwtbundle_wf_def jwtbundle_Find_get)

lemma jwtbundle_Clone_id: "jwtbundle_wf b \<Longrightarrow> jwtbundle_Clone b = b"
  by (simp add: jwtbundle_Clone_def jwtbundle_FromJWTAuthorities_def jwtbundle_wf_def)

end
