(* ===== verification/Witbundle.thy ===== *)
theory Witbundle
  imports Bundle_Interfaces Jose_Types
begin

text \<open>
  Package \<open>exp/bundle/witbundle\<close>: \<open>Bundle\<close> (a trust domain and a map of WIT authorities) and
  \<open>Set\<close> (bundles by trust domain). The methods take and return the bundle; the mutex of the
  source makes each of them atomic. Receivers that may be nil are options.
\<close>

section \<open>Definitions\<close>

subsection \<open>Bundles\<close>

record witbundle_Bundle =
  wb_trustDomain :: TrustDomain
  wb_witAuthorities :: authorities

definition witSVIDUse :: string where "witSVIDUse = ''wit-svid''"

definition witbundle_wrapErr :: "error \<Rightarrow> error" where
  "witbundle_wrapErr err = Wrap ''witbundle: %w'' [] err"

definition witbundle_New :: "TrustDomain \<Rightarrow> witbundle_Bundle" where
  "witbundle_New trustDomain = \<lparr>wb_trustDomain = trustDomain, wb_witAuthorities = []\<rparr>"

definition witbundle_FromWITAuthorities :: "TrustDomain \<Rightarrow> authorities \<Rightarrow> witbundle_Bundle" where
  "witbundle_FromWITAuthorities trustDomain witAuthorities =
     \<lparr>wb_trustDomain = trustDomain, wb_witAuthorities = CopyJWTAuthorities witAuthorities\<rparr>"

definition witbundle_TrustDomain :: "witbundle_Bundle \<Rightarrow> TrustDomain" where
  "witbundle_TrustDomain b = wb_trustDomain b"

definition witbundle_WITAuthorities :: "witbundle_Bundle \<Rightarrow> authorities" where
  "witbundle_WITAuthorities b = CopyJWTAuthorities (wb_witAuthorities b)"

definition witbundle_FindWITAuthority :: "witbundle_Bundle \<Rightarrow> string \<Rightarrow> public_key option" where
  "witbundle_FindWITAuthority b keyID =
     (case gm_get (wb_witAuthorities b) keyID of Some witAuthority \<Rightarrow> Some witAuthority | None \<Rightarrow> None)"

definition witbundle_HasWITAuthority :: "witbundle_Bundle \<Rightarrow> string \<Rightarrow> bool" where
  "witbundle_HasWITAuthority b keyID = gm_has (wb_witAuthorities b) keyID"

definition witbundle_AddWITAuthority ::
  "witbundle_Bundle \<Rightarrow> string \<Rightarrow> public_key \<Rightarrow> witbundle_Bundle \<times> error option" where
  "witbundle_AddWITAuthority b keyID witAuthority =
     (if keyID = '''' then (b, Some (witbundle_wrapErr (New ''keyID cannot be empty'')))
      else (b\<lparr>wb_witAuthorities := gm_set keyID witAuthority (wb_witAuthorities b)\<rparr>, None))"

definition witbundle_RemoveWITAuthority :: "witbundle_Bundle \<Rightarrow> string \<Rightarrow> witbundle_Bundle" where
  "witbundle_RemoveWITAuthority b keyID =
     b\<lparr>wb_witAuthorities := gm_delete keyID (wb_witAuthorities b)\<rparr>"

definition witbundle_SetWITAuthorities :: "witbundle_Bundle \<Rightarrow> authorities \<Rightarrow> witbundle_Bundle" where
  "witbundle_SetWITAuthorities b witAuthorities =
     b\<lparr>wb_witAuthorities := CopyJWTAuthorities witAuthorities\<rparr>"

definition witbundle_Empty :: "witbundle_Bundle \<Rightarrow> bool" where
  "witbundle_Empty b \<longleftrightarrow> length (wb_witAuthorities b) = 0"

fun witbundle_Parse_loop :: "nat \<Rightarrow> jwk list \<Rightarrow> witbundle_Bundle \<Rightarrow> witbundle_Bundle res" where
  "witbundle_Parse_loop i [] bundle = Ok bundle"
| "witbundle_Parse_loop i (key # keys) bundle =
     (case witbundle_AddWITAuthority bundle (jwk_KeyID key) (jwk_Key key) of
        (bundle', None) \<Rightarrow> witbundle_Parse_loop (Suc i) keys bundle'
      | (_, Some err) \<Rightarrow>
          Err (witbundle_wrapErr (errorf_v ''error adding authority %d of JWKS: %v'' [itoa i] (errors_Unwrap err))))"

definition witbundle_Parse ::
  "(string \<Rightarrow> jwks res) \<Rightarrow> TrustDomain \<Rightarrow> string \<Rightarrow> witbundle_Bundle res" where
  "witbundle_Parse unmarshal trustDomain bundleBytes =
     bind_res (map_err (\<lambda>err. witbundle_wrapErr (Opaque ''unable to parse JWKS: %v'' [] err)) (unmarshal bundleBytes))
       (\<lambda>ks. witbundle_Parse_loop 0 (jwks_list ks) (witbundle_New trustDomain))"

text \<open>\<open>os.ReadFile\<close> is a parameter; a reader is the result of reading it to its end.\<close>

definition witbundle_Load ::
  "(string \<Rightarrow> string res) \<Rightarrow> (string \<Rightarrow> jwks res) \<Rightarrow> TrustDomain \<Rightarrow> string \<Rightarrow> witbundle_Bundle res" where
  "witbundle_Load readFile unmarshal trustDomain path =
     bind_res (map_err (\<lambda>err. witbundle_wrapErr (Wrap ''unable to read WIT bundle: %w'' [] err)) (readFile path))
       (witbundle_Parse unmarshal trustDomain)"

definition witbundle_Read ::
  "(string \<Rightarrow> jwks res) \<Rightarrow> TrustDomain \<Rightarrow> string res \<Rightarrow> witbundle_Bundle res" where
  "witbundle_Read unmarshal trustDomain r =
     bind_res (map_err (\<lambda>err. witbundle_wrapErr (Opaque ''unable to read: %v'' [] err)) r)
       (witbundle_Parse unmarshal trustDomain)"

definition witbundle_Marshal :: "(jwks \<Rightarrow> string res) \<Rightarrow> witbundle_Bundle \<Rightarrow> string res" where
  "witbundle_Marshal marshal b =
     marshal (Some (fold (\<lambda>(keyID, witAuthority) ks. ks @ [(zero_jwk witAuthority keyID)\<lparr>jwk_Use := witSVIDUse\<rparr>])
       (wb_witAuthorities b) []))"

definition witbundle_Clone :: "witbundle_Bundle \<Rightarrow> witbundle_Bundle" where
  "witbundle_Clone b = witbundle_FromWITAuthorities (wb_trustDomain b) (wb_witAuthorities b)"

fun witbundle_Equal :: "witbundle_Bundle option \<Rightarrow> witbundle_Bundle option \<Rightarrow> bool" where
  "witbundle_Equal (Some b) (Some other) =
     (wb_trustDomain b = wb_trustDomain other \<and>
      JWTAuthoritiesEqual (wb_witAuthorities b) (wb_witAuthorities other))"
| "witbundle_Equal b other = (b = None \<and> other = None)"

definition witbundle_GetWITBundleForTrustDomain ::
  "witbundle_Bundle \<Rightarrow> TrustDomain \<Rightarrow> witbundle_Bundle res" where
  "witbundle_GetWITBundleForTrustDomain b trustDomain =
     (if wb_trustDomain b \<noteq> trustDomain
      then Err (witbundle_wrapErr (Errorf ''no WIT bundle for trust domain %q'' [TrustDomain_String trustDomain]))
      else Ok b)"

subsection \<open>Sets\<close>

type_synonym witbundle_Set = "(TrustDomain, witbundle_Bundle) gomap"

definition witbundle_NewSet :: "witbundle_Bundle option list \<Rightarrow> witbundle_Set" where
  "witbundle_NewSet bundles =
     fold (\<lambda>b bundlesMap. case b of None \<Rightarrow> bundlesMap | Some b' \<Rightarrow> gm_set (wb_trustDomain b') b' bundlesMap)
       bundles []"

definition witbundle_Set_Add :: "witbundle_Set \<Rightarrow> witbundle_Bundle option \<Rightarrow> witbundle_Set" where
  "witbundle_Set_Add s bundle =
     (case bundle of None \<Rightarrow> s | Some b \<Rightarrow> gm_set (wb_trustDomain b) b s)"

definition witbundle_Set_Remove :: "witbundle_Set \<Rightarrow> TrustDomain \<Rightarrow> witbundle_Set" where
  "witbundle_Set_Remove s trustDomain = gm_delete trustDomain s"

definition witbundle_Set_Has :: "witbundle_Set \<Rightarrow> TrustDomain \<Rightarrow> bool" where
  "witbundle_Set_Has s trustDomain = gm_has s trustDomain"

definition witbundle_Set_Get :: "witbundle_Set \<Rightarrow> TrustDomain \<Rightarrow> witbundle_Bundle option" where
  "witbundle_Set_Get s trustDomain = gm_get s trustDomain"

definition witbundle_Set_Bundles :: "witbundle_Set \<Rightarrow> witbundle_Bundle list" where
  "witbundle_Set_Bundles s = sort_key witbundle_TrustDomain (fold (\<lambda>(_, bundle) out. out @ [bundle]) s [])"

definition witbundle_Set_Len :: "witbundle_Set \<Rightarrow> nat" where
  "witbundle_Set_Len s = length s"

definition witbundle_Set_GetWITBundleForTrustDomain ::
  "witbundle_Set \<Rightarrow> TrustDomain \<Rightarrow> witbundle_Bundle res" where
  "witbundle_Set_GetWITBundleForTrustDomain s trustDomain =
     (case gm_get s trustDomain of
        None \<Rightarrow> Err (witbundle_wrapErr (Errorf ''no WIT bundle for trust domain %q'' [TrustDomain_String trustDomain]))
      | Some bundle \<Rightarrow> Ok bundle)"

section \<open>Lemmas\<close>

definition witbundle_wf :: "witbundle_Bundle \<Rightarrow> bool" where
  "witbundle_wf b \<longleftrightarrow> gm_wf (wb_witAuthorities b)"

lemmas witbundle_defs =
  witbundle_wf_def witbundle_New_def witbundle_TrustDomain_def witbundle_WITAuthorities_def
  witbundle_FindWITAuthority_def witbundle_HasWITAuthority_def witbundle_AddWITAuthority_def
  witbundle_RemoveWITAuthority_def witbundle_SetWITAuthorities_def witbundle_wrapErr_def

interpretation wit_auth: keyed_authorities witbundle_wf witbundle_TrustDomain witbundle_WITAuthorities
  witbundle_FindWITAuthority witbundle_HasWITAuthority witbundle_New witbundle_AddWITAuthority
  witbundle_RemoveWITAuthority witbundle_SetWITAuthorities
  by unfold_locales (auto simp: witbundle_defs gm_has_def fun_eq_iff split: option.splits)

interpretation wit_set: bundle_set "gset_inv witbundle_TrustDomain" witbundle_TrustDomain
  witbundle_Set_Get witbundle_Set_Has witbundle_NewSet witbundle_Set_Add witbundle_Set_Remove
  witbundle_Set_Bundles witbundle_Set_Len
proof -
  have *: "witbundle_Set_Get = gm_get" "witbundle_Set_Has = gm_has"
    "witbundle_Set_Add = gset_add witbundle_TrustDomain" "witbundle_Set_Remove = (\<lambda>s t. gm_delete t s)"
    "witbundle_NewSet = (\<lambda>bs. fold (\<lambda>b s. gset_add witbundle_TrustDomain s b) bs [])"
    "witbundle_Set_Bundles = (\<lambda>s. sort_key witbundle_TrustDomain (map snd s))" "witbundle_Set_Len = length"
    by (simp_all add: fun_eq_iff witbundle_Set_Get_def witbundle_Set_Has_def witbundle_Set_Add_def
        witbundle_Set_Remove_def witbundle_NewSet_def witbundle_Set_Bundles_def witbundle_Set_Len_def
        gset_add_def witbundle_TrustDomain_def fold_snd cong: option.case_cong)
  show "bundle_set (gset_inv witbundle_TrustDomain) witbundle_TrustDomain
      witbundle_Set_Get witbundle_Set_Has witbundle_NewSet witbundle_Set_Add witbundle_Set_Remove
      witbundle_Set_Bundles witbundle_Set_Len"
    unfolding * by (rule gset_bundle_set)
qed

interpretation wit_bundle_source: bundle_source "\<lambda>_. True" witbundle_TrustDomain
  witbundle_GetWITBundleForTrustDomain
  by unfold_locales
    (auto simp: witbundle_GetWITBundleForTrustDomain_def witbundle_TrustDomain_def split: if_splits)

interpretation wit_set_source: bundle_source "gset_inv witbundle_TrustDomain" witbundle_TrustDomain
  witbundle_Set_GetWITBundleForTrustDomain
  by unfold_locales
    (auto simp: witbundle_Set_GetWITBundleForTrustDomain_def gset_inv_get split: option.splits)

subsection \<open>Parsing and printing\<close>

lemma witbundle_Parse_loop_iff:
  "witbundle_Parse_loop i keys b = Ok b' \<longleftrightarrow>
     wit_auth.add_all b (map (\<lambda>k. (jwk_KeyID k, jwk_Key k)) keys) = (b', None)"
  by (induction i keys b rule: witbundle_Parse_loop.induct) (auto split: prod.splits option.splits)

lemma witbundle_Parse_loop_fresh:
  "'''' \<notin> jwk_KeyID ` set keys \<Longrightarrow>
   witbundle_Parse_loop i keys b =
     Ok (b\<lparr>wb_witAuthorities := fold (\<lambda>k m. gm_set (jwk_KeyID k) (jwk_Key k) m) keys (wb_witAuthorities b)\<rparr>)"
  by (induction i keys b rule: witbundle_Parse_loop.induct) (auto simp: witbundle_AddWITAuthority_def)

lemma witbundle_Marshal_eq:
  "witbundle_Marshal marshal b = marshal (Some (map (\<lambda>(k, a). (zero_jwk a k)\<lparr>jwk_Use := witSVIDUse\<rparr>) (wb_witAuthorities b)))"
  by (simp add: witbundle_Marshal_def fold_snoc_pairs)

lemma witbundle_roundtrip:
  assumes "witbundle_wf b" "[] \<notin> fst ` set (wb_witAuthorities b)"
    and "json_roundtrips marshal unmarshal (Some (map (\<lambda>(k, a). (zero_jwk a k)\<lparr>jwk_Use := witSVIDUse\<rparr>) (wb_witAuthorities b)))"
    and "witbundle_Marshal marshal b = Ok s"
  shows "witbundle_Parse unmarshal (wb_trustDomain b) s = Ok b"
proof -
  have "unmarshal s = Ok (Some (map (\<lambda>(k, a). (zero_jwk a k)\<lparr>jwk_Use := witSVIDUse\<rparr>) (wb_witAuthorities b)))"
    using assms(3,4) by (simp add: witbundle_Marshal_eq json_roundtripsD)
  moreover have "[] \<notin> jwk_KeyID ` set (map (\<lambda>(k, a). (zero_jwk a k)\<lparr>jwk_Use := witSVIDUse\<rparr>) (wb_witAuthorities b))"
    using assms(2) by (force simp: zero_jwk_def)
  ultimately show ?thesis using assms(1) fold_set_jwks [of "wb_witAuthorities b" "\<lambda>k a. (zero_jwk a k)\<lparr>jwk_Use := witSVIDUse\<rparr>"]
    by (simp add: witbundle_Parse_def jwks_list_def witbundle_Parse_loop_fresh
        witbundle_New_def witbundle_wf_def zero_jwk_def)
qed

lemma witbundle_Find_get: "witbundle_FindWITAuthority b = gm_get (wb_witAuthorities b)"
  by (simp add: witbundle_FindWITAuthority_def fun_eq_iff split: option.splits)

lemma witbundle_Equal_iff:
  "witbundle_wf a \<Longrightarrow> witbundle_wf b \<Longrightarrow>
   witbundle_Equal (Some a) (Some b) \<longleftrightarrow>
     wb_trustDomain a = wb_trustDomain b \<and>
     witbundle_FindWITAuthority a = witbundle_FindWITAuthority b \<and>
     list_all (supported_key \<circ> snd) (wb_witAuthorities a)"
  by (auto simp: JWTAuthoritiesEqual_iff witbundle_wf_def witbundle_Find_get)

lemma witbundle_Clone_id: "witbundle_wf b \<Longrightarrow> witbundle_Clone b = b"
  by (simp add: witbundle_Clone_def witbundle_FromWITAuthorities_def witbundle_wf_def)

end
