(* ===== verification/X509bundle.thy ===== *)
theory X509bundle
  imports Bundle_Interfaces
begin

text \<open>
  Package \<open>bundle/x509bundle\<close>: \<open>Bundle\<close> (a trust domain and a list of X.509 authorities) and
  \<open>Set\<close>. \<open>Parse\<close> runs the PEM loop of \<open>pemutil\<close>, so it returns an option, \<^const>\<open>None\<close> being
  a loop that does not end; \<open>x509bundle_Parse_total\<close> excludes it.
\<close>

section \<open>Definitions\<close>

subsection \<open>Bundles\<close>

record x509bundle_Bundle =
  xb_trustDomain :: TrustDomain
  xb_x509Authorities :: "certificate list"

definition wrapX509bundleErr :: "error \<Rightarrow> error" where
  "wrapX509bundleErr err = Wrap ''x509bundle: %w'' [] err"

definition x509bundle_New :: "TrustDomain \<Rightarrow> x509bundle_Bundle" where
  "x509bundle_New trustDomain = \<lparr>xb_trustDomain = trustDomain, xb_x509Authorities = []\<rparr>"

definition x509bundle_FromX509Authorities :: "TrustDomain \<Rightarrow> certificate list \<Rightarrow> x509bundle_Bundle" where
  "x509bundle_FromX509Authorities trustDomain authorities =
     \<lparr>xb_trustDomain = trustDomain, xb_x509Authorities = CopyX509Authorities authorities\<rparr>"

definition x509bundle_TrustDomain :: "x509bundle_Bundle \<Rightarrow> TrustDomain" where
  "x509bundle_TrustDomain b = xb_trustDomain b"

definition x509bundle_X509Authorities :: "x509bundle_Bundle \<Rightarrow> certificate list" where
  "x509bundle_X509Authorities b = CopyX509Authorities (xb_x509Authorities b)"

definition x509bundle_AddX509Authority :: "x509bundle_Bundle \<Rightarrow> certificate \<Rightarrow> x509bundle_Bundle" where
  "x509bundle_AddX509Authority b x509Authority =
     (if list_ex (\<lambda>r. Certificate_Equal r x509Authority) (xb_x509Authorities b) then b
      else b\<lparr>xb_x509Authorities := xb_x509Authorities b @ [x509Authority]\<rparr>)"

text \<open>The loop of \<open>RemoveX509Authority\<close>: at the first index whose element is equal, that element
  is cut out and the method returns.\<close>

function removeX509_loop :: "certificate list \<Rightarrow> certificate \<Rightarrow> nat \<Rightarrow> certificate list" where
  "removeX509_loop auths x509Authority i =
     (if i < length auths then
        (if Certificate_Equal (auths ! i) x509Authority then take i auths @ drop (i + 1) auths
         else removeX509_loop auths x509Authority (Suc i))
      else auths)"
  by pat_completeness auto
termination by (relation "measure (\<lambda>(auths, _, i). length auths - i)") auto

declare removeX509_loop.simps [simp del]

definition x509bundle_RemoveX509Authority :: "x509bundle_Bundle \<Rightarrow> certificate \<Rightarrow> x509bundle_Bundle" where
  "x509bundle_RemoveX509Authority b x509Authority =
     b\<lparr>xb_x509Authorities := removeX509_loop (xb_x509Authorities b) x509Authority 0\<rparr>"

definition x509bundle_HasX509Authority :: "x509bundle_Bundle \<Rightarrow> certificate \<Rightarrow> bool" where
  "x509bundle_HasX509Authority b x509Authority =
     list_ex (\<lambda>r. Certificate_Equal r x509Authority) (xb_x509Authorities b)"

definition x509bundle_SetX509Authorities :: "x509bundle_Bundle \<Rightarrow> certificate list \<Rightarrow> x509bundle_Bundle" where
  "x509bundle_SetX509Authorities b x509Authorities =
     b\<lparr>xb_x509Authorities := CopyX509Authorities x509Authorities\<rparr>"

definition x509bundle_Empty :: "x509bundle_Bundle \<Rightarrow> bool" where
  "x509bundle_Empty b \<longleftrightarrow> length (xb_x509Authorities b) = 0"

definition x509bundle_Parse ::
  "'t x509_lib \<Rightarrow> TrustDomain \<Rightarrow> string \<Rightarrow> x509bundle_Bundle res option" where
  "x509bundle_Parse lib trustDomain b =
     (let bundle = x509bundle_New trustDomain in
      if length b = 0 then Some (Ok bundle)
      else map_option (\<lambda>r.
        bind_res (map_err (\<lambda>err. wrapX509bundleErr (Opaque ''cannot parse certificate: %v'' [] err)) r)
          (\<lambda>certs. Ok (fold (\<lambda>cert bundle. x509bundle_AddX509Authority bundle cert) certs bundle)))
        (ParseCertificates lib b))"

definition x509bundle_ParseRaw ::
  "'t x509_lib \<Rightarrow> TrustDomain \<Rightarrow> string \<Rightarrow> x509bundle_Bundle res" where
  "x509bundle_ParseRaw lib trustDomain b =
     (let bundle = x509bundle_New trustDomain in
      if length b = 0 then Ok bundle
      else bind_res (map_err (\<lambda>err. wrapX509bundleErr (Opaque ''cannot parse certificate: %v'' [] err))
               (lib_ParseCertificates lib b))
          (\<lambda>certs. Ok (fold (\<lambda>cert bundle. x509bundle_AddX509Authority bundle cert) certs bundle)))"

text \<open>\<open>os.ReadFile\<close> is a parameter; a reader is the result of reading it to its end.\<close>

definition x509bundle_Load ::
  "(string \<Rightarrow> string res) \<Rightarrow> 't x509_lib \<Rightarrow> TrustDomain \<Rightarrow> string \<Rightarrow> x509bundle_Bundle res option" where
  "x509bundle_Load readFile lib trustDomain path =
     (case map_err (\<lambda>err. wrapX509bundleErr (Wrap ''unable to load X.509 bundle file: %w'' [] err)) (readFile path) of
        Ok fileBytes \<Rightarrow> x509bundle_Parse lib trustDomain fileBytes
      | Err e \<Rightarrow> Some (Err e) | Panic e \<Rightarrow> Some (Panic e))"

definition x509bundle_Read ::
  "'t x509_lib \<Rightarrow> TrustDomain \<Rightarrow> string res \<Rightarrow> x509bundle_Bundle res option" where
  "x509bundle_Read lib trustDomain r =
     (case map_err (\<lambda>err. wrapX509bundleErr (Opaque ''unable to read X.509 bundle: %v'' [] err)) r of
        Ok b \<Rightarrow> x509bundle_Parse lib trustDomain b
      | Err e \<Rightarrow> Some (Err e) | Panic e \<Rightarrow> Some (Panic e))"

definition x509bundle_Marshal :: "'t x509_lib \<Rightarrow> x509bundle_Bundle \<Rightarrow> string res" where
  "x509bundle_Marshal lib b = Ok (EncodeCertificates lib (xb_x509Authorities b))"

fun x509bundle_Equal :: "x509bundle_Bundle option \<Rightarrow> x509bundle_Bundle option \<Rightarrow> bool" where
  "x509bundle_Equal (Some b) (Some other) =
     (xb_trustDomain b = xb_trustDomain other \<and>
      CertsEqual (xb_x509Authorities b) (xb_x509Authorities other))"
| "x509bundle_Equal b other = (b = None \<and> other = None)"

definition x509bundle_Clone :: "x509bundle_Bundle \<Rightarrow> x509bundle_Bundle" where
  "x509bundle_Clone b = x509bundle_FromX509Authorities (xb_trustDomain b) (xb_x509Authorities b)"

definition x509bundle_GetX509BundleForTrustDomain ::
  "x509bundle_Bundle \<Rightarrow> TrustDomain \<Rightarrow> x509bundle_Bundle res" where
  "x509bundle_GetX509BundleForTrustDomain b trustDomain =
     (if xb_trustDomain b \<noteq> trustDomain
      then Err (wrapX509bundleErr (Errorf ''no X.509 bundle found for trust domain: %q'' [TrustDomain_String trustDomain]))
      else Ok b)"

subsection \<open>Sets\<close>

type_synonym x509bundle_Set = "(TrustDomain, x509bundle_Bundle) gomap"

definition x509bundle_NewSet :: "x509bundle_Bundle option list \<Rightarrow> x509bundle_Set" where
  "x509bundle_NewSet bundles =
     fold (\<lambda>b bundlesMap. case b of None \<Rightarrow> bundlesMap | Some b' \<Rightarrow> gm_set (xb_trustDomain b') b' bundlesMap)
       bundles []"

definition x509bundle_Set_Add :: "x509bundle_Set \<Rightarrow> x509bundle_Bundle option \<Rightarrow> x509bundle_Set" where
  "x509bundle_Set_Add s bundle =
     (case bundle of None \<Rightarrow> s | Some b \<Rightarrow> gm_set (xb_trustDomain b) b s)"

definition x509bundle_Set_Remove :: "x509bundle_Set \<Rightarrow> TrustDomain \<Rightarrow> x509bundle_Set" where
  "x509bundle_Set_Remove s trustDomain = gm_delete trustDomain s"

definition x509bundle_Set_Has :: "x509bundle_Set \<Rightarrow> TrustDomain \<Rightarrow> bool" where
  "x509bundle_Set_Has s trustDomain = gm_has s trustDomain"

definition x509bundle_Set_Get :: "x509bundle_Set \<Rightarrow> TrustDomain \<Rightarrow> x509bundle_Bundle option" where
  "x509bundle_Set_Get s trustDomain = gm_get s trustDomain"

definition x509bundle_Set_Bundles :: "x509bundle_Set \<Rightarrow> x509bundle_Bundle list" where
  "x509bundle_Set_Bundles s = sort_key x509bundle_TrustDomain (fold (\<lambda>(_, bundle) out. out @ [bundle]) s [])"

definition x509bundle_Set_Len :: "x509bundle_Set \<Rightarrow> nat" where
  "x509bundle_Set_Len s = length s"

definition x509bundle_Set_GetX509BundleForTrustDomain ::
  "x509bundle_Set \<Rightarrow> TrustDomain \<Rightarrow> x509bundle_Bundle res" where
  "x509bundle_Set_GetX509BundleForTrustDomain s trustDomain =
     (case gm_get s trustDomain of
        None \<Rightarrow> Err (wrapX509bundleErr (Errorf ''no X.509 bundle for trust domain %q'' [TrustDomain_String trustDomain]))
      | Some bundle \<Rightarrow> Ok bundle)"

section \<open>Lemmas\<close>

lemma removeX509_loop_eq:
  "i \<le> length auths \<Longrightarrow> \<forall>j < i. cert_Raw (auths ! j) \<noteq> cert_Raw c \<Longrightarrow>
   map cert_Raw (removeX509_loop auths c i) = remove1 (cert_Raw c) (map cert_Raw auths)"
proof (induction auths c i rule: removeX509_loop.induct)
  case (1 auths c i)
  have notin: "cert_Raw c \<notin> set (map cert_Raw (take i auths))"
    using 1(3) by (auto simp: in_set_conv_nth) metis
  show ?case
  proof (cases "i < length auths")
    case True
    note split = id_take_nth_drop [OF True]
    show ?thesis
    proof (cases "Certificate_Equal (auths ! i) c")
      case eq: True
      have "remove1 (cert_Raw c) (map cert_Raw auths) =
          map cert_Raw (take i auths) @ map cert_Raw (drop (Suc i) auths)"
        by (subst split) (use notin eq in \<open>simp add: remove1_append Certificate_Equal_def\<close>)
      then show ?thesis using True eq by (subst removeX509_loop.simps) simp
    next
      case False
      then have "\<forall>j < Suc i. cert_Raw (auths ! j) \<noteq> cert_Raw c"
        using 1(3) by (auto simp: less_Suc_eq Certificate_Equal_def)
      then show ?thesis using 1(1) True False by (subst removeX509_loop.simps) simp
    qed
  next
    case False
    then have "remove1 (cert_Raw c) (map cert_Raw auths) = map cert_Raw auths"
      using notin 1(2) by (simp add: remove1_idem)
    then show ?thesis using False by (subst removeX509_loop.simps) simp
  qed
qed

lemma list_ex_Certificate_Equal:
  "list_ex (\<lambda>r. Certificate_Equal r c) cs \<longleftrightarrow> cert_Raw c \<in> cert_Raw ` set cs"
  by (induction cs) (auto simp: Certificate_Equal_def)

lemmas x509bundle_defs =
  x509bundle_New_def x509bundle_TrustDomain_def x509bundle_X509Authorities_def
  x509bundle_HasX509Authority_def x509bundle_AddX509Authority_def x509bundle_RemoveX509Authority_def
  x509bundle_SetX509Authorities_def

interpretation x509_auth: listed_authorities x509bundle_TrustDomain x509bundle_X509Authorities
  x509bundle_HasX509Authority x509bundle_New x509bundle_AddX509Authority
  x509bundle_RemoveX509Authority x509bundle_SetX509Authorities
  by unfold_locales (simp_all add: x509bundle_defs list_ex_Certificate_Equal removeX509_loop_eq)

interpretation x509_set: bundle_set "gset_inv x509bundle_TrustDomain" x509bundle_TrustDomain
  x509bundle_Set_Get x509bundle_Set_Has x509bundle_NewSet x509bundle_Set_Add x509bundle_Set_Remove
  x509bundle_Set_Bundles x509bundle_Set_Len
proof -
  have *: "x509bundle_Set_Get = gm_get" "x509bundle_Set_Has = gm_has"
    "x509bundle_Set_Add = gset_add x509bundle_TrustDomain" "x509bundle_Set_Remove = (\<lambda>s t. gm_delete t s)"
    "x509bundle_NewSet = (\<lambda>bs. fold (\<lambda>b s. gset_add x509bundle_TrustDomain s b) bs [])"
    "x509bundle_Set_Bundles = (\<lambda>s. sort_key x509bundle_TrustDomain (map snd s))" "x509bundle_Set_Len = length"
    by (simp_all add: fun_eq_iff x509bundle_Set_Get_def x509bundle_Set_Has_def x509bundle_Set_Add_def
        x509bundle_Set_Remove_def x509bundle_NewSet_def x509bundle_Set_Bundles_def x509bundle_Set_Len_def
        gset_add_def x509bundle_TrustDomain_def fold_snd cong: option.case_cong)
  show "bundle_set (gset_inv x509bundle_TrustDomain) x509bundle_TrustDomain
      x509bundle_Set_Get x509bundle_Set_Has x509bundle_NewSet x509bundle_Set_Add x509bundle_Set_Remove
      x509bundle_Set_Bundles x509bundle_Set_Len"
    unfolding * by (rule gset_bundle_set)
qed

interpretation x509_bundle_source: bundle_source "\<lambda>_. True" x509bundle_TrustDomain
  x509bundle_GetX509BundleForTrustDomain
  by unfold_locales
    (auto simp: x509bundle_GetX509BundleForTrustDomain_def x509bundle_TrustDomain_def split: if_splits)

interpretation x509_set_source: bundle_source "gset_inv x509bundle_TrustDomain" x509bundle_TrustDomain
  x509bundle_Set_GetX509BundleForTrustDomain
  by unfold_locales
    (auto simp: x509bundle_Set_GetX509BundleForTrustDomain_def gset_inv_get split: option.splits)

subsection \<open>Parsing and printing\<close>

lemma x509bundle_Parse_total: "pem_decode_shrinks lib \<Longrightarrow> \<exists>r. x509bundle_Parse lib td b = Some r"
  using parseBlocks_loop_total [of lib b certType "[]" False]
  by (auto simp: x509bundle_Parse_def Let_def ParseCertificates_def parseBlocks_def)

lemma x509bundle_Parse_wf:
  assumes "x509bundle_Parse lib td b = Some (Ok bundle)"
  shows "x509bundle_TrustDomain bundle = td \<and> x509_auth.no_dups bundle"
proof -
  have "x509bundle_TrustDomain (fold (\<lambda>c b. x509bundle_AddX509Authority b c) cs (x509bundle_New td)) = td \<and>
      x509_auth.no_dups (fold (\<lambda>c b. x509bundle_AddX509Authority b c) cs (x509bundle_New td))" for cs
    using x509_auth.td_add_all [of cs "x509bundle_New td"] x509_auth.new_ok [of td]
      x509_auth.no_dups_add_all [OF x509_auth.no_dups_new, of cs td] by simp
  from this [of "[]"] this show ?thesis
    using assms by (auto simp: x509bundle_Parse_def Let_def split: if_splits)
qed

lemma x509bundle_roundtrip:
  assumes "x509_auth.no_dups b" "pem_decode_encode lib"
    and "list_all (cert_parses lib) (xb_x509Authorities b)" "x509bundle_Marshal lib b = Ok s"
  shows "x509bundle_Parse lib (xb_trustDomain b) s = Some (Ok b)"
proof (cases "xb_x509Authorities b = []")
  case True
  then show ?thesis using assms(4)
    by (auto simp: x509bundle_Parse_def x509bundle_Marshal_def x509bundle_New_def EncodeCertificates_def)
next
  case False
  let ?b' = "fold (\<lambda>c b. x509bundle_AddX509Authority b c) (xb_x509Authorities b) (x509bundle_New (xb_trustDomain b))"
  have s: "s = EncodeCertificates lib (xb_x509Authorities b)"
    using assms(4) by (simp add: x509bundle_Marshal_def)
  have "s \<noteq> []"
    using False pem_decode_encodeD(1) [OF assms(2)] unfolding s EncodeCertificates_eq
    by (cases "xb_x509Authorities b") (auto simp: certType_def)
  moreover have "ParseCertificates lib s = Some (Ok (xb_x509Authorities b))"
    using ParseCertificates_Encode [OF assms(2,3) False] s by simp
  moreover have "x509bundle_X509Authorities ?b' = xb_x509Authorities b"
    using x509_auth.auths_add_all_distinct [of "x509bundle_New (xb_trustDomain b)" "xb_x509Authorities b"] assms(1)
    by (simp add: x509_auth.new_ok x509_auth.no_dups_def) (simp add: x509bundle_X509Authorities_def)
  then have "?b' = b"
    using x509_auth.td_add_all [of "xb_x509Authorities b" "x509bundle_New (xb_trustDomain b)"]
    by (simp add: x509bundle_X509Authorities_def x509bundle_TrustDomain_def x509bundle_New_def)
  ultimately show ?thesis by (simp add: x509bundle_Parse_def Let_def)
qed

lemma x509bundle_Equal_iff:
  "x509bundle_Equal (Some a) (Some b) \<longleftrightarrow>
     xb_trustDomain a = xb_trustDomain b \<and>
     map cert_Raw (xb_x509Authorities a) = map cert_Raw (xb_x509Authorities b)"
  by (simp add: CertsEqual_iff)

lemma x509bundle_Clone_id: "x509bundle_Clone b = b"
  by (simp add: x509bundle_Clone_def x509bundle_FromX509Authorities_def)

end
