(* ===== verification/Spiffebundle.thy ===== *)
theory Spiffebundle
  imports Jwtbundle Witbundle X509bundle "HOL-Library.Signed_Division"
begin

text \<open>
  Package \<open>bundle/spiffebundle\<close>: the SPIFFE bundle with its X.509, JWT and WIT authorities, its
  refresh hint and sequence number, the document it is read from and written to, and the
  \<open>Set\<close>. \<open>time.Duration\<close> is \<open>int64\<close> and the sequence number \<open>uint64\<close>: both are 64-bit words,
  with arithmetic that wraps.
\<close>

section \<open>Definitions\<close>

subsection \<open>Bundles\<close>

definition x509SVIDUse :: string where "x509SVIDUse = ''x509-svid''"
definition jwtSVIDUse :: string where "jwtSVIDUse = ''jwt-svid''"

record bundleDoc =
  doc_Keys :: jwks
  doc_SequenceNumber :: "64 word option"
  doc_RefreshHint :: "64 word option"

record spiffebundle_Bundle =
  sb_trustDomain :: TrustDomain
  sb_refreshHint :: "64 word option"
  sb_sequenceNumber :: "64 word option"
  sb_jwtAuthorities :: authorities
  sb_witAuthorities :: authorities
  sb_x509Authorities :: "certificate list"

definition time_Second :: "64 word" where "time_Second = 1000000000"

text \<open>Division of \<open>int64\<close> values truncates toward zero.\<close>

definition int64_div :: "64 word \<Rightarrow> 64 word \<Rightarrow> 64 word" where
  "int64_div a b = word_of_int (sint a sdiv sint b)"

definition wrapSpiffebundleErr :: "error \<Rightarrow> error" where
  "wrapSpiffebundleErr err = Wrap ''spiffebundle: %w'' [] err"

definition spiffebundle_New :: "TrustDomain \<Rightarrow> spiffebundle_Bundle" where
  "spiffebundle_New trustDomain =
     \<lparr>sb_trustDomain = trustDomain, sb_refreshHint = None, sb_sequenceNumber = None,
      sb_jwtAuthorities = [], sb_witAuthorities = [], sb_x509Authorities = []\<rparr>"

definition spiffebundle_TrustDomain :: "spiffebundle_Bundle \<Rightarrow> TrustDomain" where
  "spiffebundle_TrustDomain b = sb_trustDomain b"

definition spiffebundle_X509Authorities :: "spiffebundle_Bundle \<Rightarrow> certificate list" where
  "spiffebundle_X509Authorities b = CopyX509Authorities (sb_x509Authorities b)"

definition spiffebundle_AddX509Authority :: "spiffebundle_Bundle \<Rightarrow> certificate \<Rightarrow> spiffebundle_Bundle" where
  "spiffebundle_AddX509Authority b x509Authority =
     (if list_ex (\<lambda>r. Certificate_Equal r x509Authority) (sb_x509Authorities b) then b
      else b\<lparr>sb_x509Authorities := sb_x509Authorities b @ [x509Authority]\<rparr>)"

definition spiffebundle_RemoveX509Authority :: "spiffebundle_Bundle \<Rightarrow> certificate \<Rightarrow> spiffebundle_Bundle" where
  "spiffebundle_RemoveX509Authority b x509Authority =
     b\<lparr>sb_x509Authorities := removeX509_loop (sb_x509Authorities b) x509Authority 0\<rparr>"

definition spiffebundle_HasX509Authority :: "spiffebundle_Bundle \<Rightarrow> certificate \<Rightarrow> bool" where
  "spiffebundle_HasX509Authority b x509Authority =
     list_ex (\<lambda>r. Certificate_Equal r x509Authority) (sb_x509Authorities b)"

definition spiffebundle_SetX509Authorities :: "spiffebundle_Bundle \<Rightarrow> certificate list \<Rightarrow> spiffebundle_Bundle" where
  "spiffebundle_SetX509Authorities b authorities =
     b\<lparr>sb_x509Authorities := CopyX509Authorities authorities\<rparr>"

definition spiffebundle_JWTAuthorities :: "spiffebundle_Bundle \<Rightarrow> authorities" where
  "spiffebundle_JWTAuthorities b = CopyJWTAuthorities (sb_jwtAuthorities b)"

definition spiffebundle_FindJWTAuthority :: "spiffebundle_Bundle \<Rightarrow> string \<Rightarrow> public_key option" where
  "spiffebundle_FindJWTAuthority b keyID = gm_get (sb_jwtAuthorities b) keyID"

definition spiffebundle_HasJWTAuthority :: "spiffebundle_Bundle \<Rightarrow> string \<Rightarrow> bool" where
  "spiffebundle_HasJWTAuthority b keyID = gm_has (sb_jwtAuthorities b) keyID"

definition spiffebundle_AddJWTAuthority ::
  "spiffebundle_Bundle \<Rightarrow> string \<Rightarrow> public_key \<Rightarrow> spiffebundle_Bundle \<times> error option" where
  "spiffebundle_AddJWTAuthority b keyID jwtAuthority =
     (if keyID = '''' then (b, Some (wrapSpiffebundleErr (New ''keyID cannot be empty'')))
      else (b\<lparr>sb_jwtAuthorities := gm_set keyID jwtAuthority (sb_jwtAuthorities b)\<rparr>, None))"

definition spiffebundle_RemoveJWTAuthority :: "spiffebundle_Bundle \<Rightarrow> string \<Rightarrow> spiffebundle_Bundle" where
  "spiffebundle_RemoveJWTAuthority b keyID =
     b\<lparr>sb_jwtAuthorities := gm_delete keyID (sb_jwtAuthorities b)\<rparr>"

definition spiffebundle_SetJWTAuthorities :: "spiffebundle_Bundle \<Rightarrow> authorities \<Rightarrow> spiffebundle_Bundle" where
  "spiffebundle_SetJWTAuthorities b jwtAuthorities =
     b\<lparr>sb_jwtAuthorities := CopyJWTAuthorities jwtAuthorities\<rparr>"

definition spiffebundle_WITAuthorities :: "spiffebundle_Bundle \<Rightarrow> authorities" where
  "spiffebundle_WITAuthorities b = CopyJWTAuthorities (sb_witAuthorities b)"

definition spiffebundle_FindWITAuthority :: "spiffebundle_Bundle \<Rightarrow> string \<Rightarrow> public_key option" where
  "spiffebundle_FindWITAuthority b keyID = gm_get (sb_witAuthorities b) keyID"

definition spiffebundle_HasWITAuthority :: "spiffebundle_Bundle \<Rightarrow> string \<Rightarrow> bool" where
  "spiffebundle_HasWITAuthority b keyID = gm_has (sb_witAuthorities b) keyID"

definition spiffebundle_AddWITAuthority ::
  "spiffebundle_Bundle \<Rightarrow> string \<Rightarrow> public_key \<Rightarrow> spiffebundle_Bundle \<times> error option" where
  "spiffebundle_AddWITAuthority b keyID witAuthority =
     (if keyID = '''' then (b, Some (wrapSpiffebundleErr (New ''keyID cannot be empty'')))
      else (b\<lparr>sb_witAuthorities := gm_set keyID witAuthority (sb_witAuthorities b)\<rparr>, None))"

definition spiffebundle_RemoveWITAuthority :: "spiffebundle_Bundle \<Rightarrow> string \<Rightarrow> spiffebundle_Bundle" where
  "spiffebundle_RemoveWITAuthority b keyID =
     b\<lparr>sb_witAuthorities := gm_delete keyID (sb_witAuthorities b)\<rparr>"

definition spiffebundle_SetWITAuthorities :: "spiffebundle_Bundle \<Rightarrow> authorities \<Rightarrow> spiffebundle_Bundle" where
  "spiffebundle_SetWITAuthorities b witAuthorities =
     b\<lparr>sb_witAuthorities := CopyJWTAuthorities witAuthorities\<rparr>"

definition spiffebundle_Empty :: "spiffebundle_Bundle \<Rightarrow> bool" where
  "spiffebundle_Empty b \<longleftrightarrow> length (sb_x509Authorities b) = 0 \<and> length (sb_jwtAuthorities b) = 0 \<and>
     length (sb_witAuthorities b) = 0"

definition spiffebundle_RefreshHint :: "spiffebundle_Bundle \<Rightarrow> 64 word \<times> bool" where
  "spiffebundle_RefreshHint b =
     (case sb_refreshHint b of Some h \<Rightarrow> (h, True) | None \<Rightarrow> (0, False))"

definition spiffebundle_SetRefreshHint :: "spiffebundle_Bundle \<Rightarrow> 64 word \<Rightarrow> spiffebundle_Bundle" where
  "spiffebundle_SetRefreshHint b refreshHint = b\<lparr>sb_refreshHint := Some refreshHint\<rparr>"

definition spiffebundle_ClearRefreshHint :: "spiffebundle_Bundle \<Rightarrow> spiffebundle_Bundle" where
  "spiffebundle_ClearRefreshHint b = b\<lparr>sb_refreshHint := None\<rparr>"

definition spiffebundle_SequenceNumber :: "spiffebundle_Bundle \<Rightarrow> 64 word \<times> bool" where
  "spiffebundle_SequenceNumber b =
     (case sb_sequenceNumber b of Some n \<Rightarrow> (n, True) | None \<Rightarrow> (0, False))"

definition spiffebundle_SetSequenceNumber :: "spiffebundle_Bundle \<Rightarrow> 64 word \<Rightarrow> spiffebundle_Bundle" where
  "spiffebundle_SetSequenceNumber b sequenceNumber = b\<lparr>sb_sequenceNumber := Some sequenceNumber\<rparr>"

definition spiffebundle_ClearSequenceNumber :: "spiffebundle_Bundle \<Rightarrow> spiffebundle_Bundle" where
  "spiffebundle_ClearSequenceNumber b = b\<lparr>sb_sequenceNumber := None\<rparr>"

subsection \<open>Reading and writing\<close>

fun spiffebundle_Parse_loop :: "nat \<Rightarrow> jwk list \<Rightarrow> spiffebundle_Bundle \<Rightarrow> spiffebundle_Bundle res" where
  "spiffebundle_Parse_loop i [] bundle = Ok bundle"
| "spiffebundle_Parse_loop i (key # keys) bundle =
     (if jwk_Use key = x509SVIDUse then
        (if length (jwk_Certificates key) \<noteq> 1 then
           Err (wrapSpiffebundleErr (Errorf ''expected a single certificate in %s entry %d; got %d''
             [x509SVIDUse, itoa i, itoa (length (jwk_Certificates key))]))
         else spiffebundle_Parse_loop (Suc i) keys
           (spiffebundle_AddX509Authority bundle (jwk_Certificates key ! 0)))
      else if jwk_Use key = jwtSVIDUse then
        (case spiffebundle_AddJWTAuthority bundle (jwk_KeyID key) (jwk_Key key) of
           (bundle', None) \<Rightarrow> spiffebundle_Parse_loop (Suc i) keys bundle'
         | (_, Some err) \<Rightarrow> Err (wrapSpiffebundleErr
             (errorf_w ''error adding authority %d of JWKS: %w'' [itoa i] (errors_Unwrap err))))
      else if jwk_Use key = witSVIDUse then
        (case spiffebundle_AddWITAuthority bundle (jwk_KeyID key) (jwk_Key key) of
           (bundle', None) \<Rightarrow> spiffebundle_Parse_loop (Suc i) keys bundle'
         | (_, Some err) \<Rightarrow> Err (wrapSpiffebundleErr
             (errorf_w ''error adding WIT authority %d of JWKS: %w'' [itoa i] (errors_Unwrap err))))
      else spiffebundle_Parse_loop (Suc i) keys bundle)"

definition spiffebundle_Parse ::
  "(string \<Rightarrow> bundleDoc res) \<Rightarrow> TrustDomain \<Rightarrow> string \<Rightarrow> spiffebundle_Bundle res" where
  "spiffebundle_Parse unmarshal trustDomain bundleBytes =
     bind_res (map_err (\<lambda>err. wrapSpiffebundleErr (Opaque ''unable to parse JWKS: %v'' [] err)) (unmarshal bundleBytes))
       (\<lambda>ks.
          let bundle = spiffebundle_New trustDomain;
              bundle = (case doc_RefreshHint ks of None \<Rightarrow> bundle
                        | Some h \<Rightarrow> spiffebundle_SetRefreshHint bundle (time_Second * h));
              bundle = (case doc_SequenceNumber ks of None \<Rightarrow> bundle
                        | Some n \<Rightarrow> spiffebundle_SetSequenceNumber bundle n)
          in case doc_Keys ks of
               None \<Rightarrow> Err (wrapSpiffebundleErr (New ''no authorities found''))
             | Some keys \<Rightarrow> spiffebundle_Parse_loop 0 keys bundle)"

text \<open>\<open>os.ReadFile\<close> is a parameter; a reader is the result of reading it to its end.\<close>

definition spiffebundle_Load ::
  "(string \<Rightarrow> string res) \<Rightarrow> (string \<Rightarrow> bundleDoc res) \<Rightarrow> TrustDomain \<Rightarrow> string \<Rightarrow> spiffebundle_Bundle res" where
  "spiffebundle_Load readFile unmarshal trustDomain path =
     bind_res (map_err (\<lambda>err. wrapSpiffebundleErr (Wrap ''unable to read SPIFFE bundle: %w'' [] err)) (readFile path))
       (spiffebundle_Parse unmarshal trustDomain)"

definition spiffebundle_Read ::
  "(string \<Rightarrow> bundleDoc res) \<Rightarrow> TrustDomain \<Rightarrow> string res \<Rightarrow> spiffebundle_Bundle res" where
  "spiffebundle_Read unmarshal trustDomain r =
     bind_res (map_err (\<lambda>err. wrapSpiffebundleErr (Opaque ''unable to read: %v'' [] err)) r)
       (spiffebundle_Parse unmarshal trustDomain)"

text \<open>\<open>append\<close> on a slice: appending to the nil slice makes a slice that is not nil.\<close>

definition append_key :: "jwks \<Rightarrow> jwk \<Rightarrow> jwks" where
  "append_key ks k = Some (jwks_list ks @ [k])"

definition spiffebundle_doc :: "spiffebundle_Bundle \<Rightarrow> bundleDoc" where
  "spiffebundle_doc b =
     (let hint = map_option (\<lambda>h. int64_div (h + (time_Second - 1)) time_Second) (sb_refreshHint b);
          keys = None;
          keys = fold (\<lambda>x509Authority ks. append_key ks
                   \<lparr>jwk_Key = cert_PublicKey x509Authority, jwk_KeyID = '''', jwk_Use = x509SVIDUse,
                    jwk_Certificates = [x509Authority]\<rparr>) (sb_x509Authorities b) keys;
          keys = fold (\<lambda>(keyID, jwtAuthority) ks. append_key ks
                   ((zero_jwk jwtAuthority keyID)\<lparr>jwk_Use := jwtSVIDUse\<rparr>)) (sb_jwtAuthorities b) keys;
          keys = fold (\<lambda>(keyID, witAuthority) ks. append_key ks
                   ((zero_jwk witAuthority keyID)\<lparr>jwk_Use := witSVIDUse\<rparr>)) (sb_witAuthorities b) keys
      in \<lparr>doc_Keys = keys, doc_SequenceNumber = sb_sequenceNumber b, doc_RefreshHint = hint\<rparr>)"

definition spiffebundle_Marshal :: "(bundleDoc \<Rightarrow> string res) \<Rightarrow> spiffebundle_Bundle \<Rightarrow> string res" where
  "spiffebundle_Marshal marshal b = marshal (spiffebundle_doc b)"

subsection \<open>Conversions, copies and comparison\<close>

definition spiffebundle_FromX509Bundle :: "x509bundle_Bundle option \<Rightarrow> spiffebundle_Bundle res" where
  "spiffebundle_FromX509Bundle x509Bundle =
     (case x509Bundle of
        None \<Rightarrow> Panic (New ''nil pointer dereference'')
      | Some xb \<Rightarrow> Ok ((spiffebundle_New (x509bundle_TrustDomain xb))
                     \<lparr>sb_x509Authorities := x509bundle_X509Authorities xb\<rparr>))"

definition spiffebundle_FromJWTBundle :: "jwtbundle_Bundle option \<Rightarrow> spiffebundle_Bundle res" where
  "spiffebundle_FromJWTBundle jwtBundle =
     (case jwtBundle of
        None \<Rightarrow> Panic (New ''nil pointer dereference'')
      | Some jb \<Rightarrow> Ok ((spiffebundle_New (jwtbundle_TrustDomain jb))
                     \<lparr>sb_jwtAuthorities := jwtbundle_JWTAuthorities jb\<rparr>))"

definition spiffebundle_FromX509Authorities :: "TrustDomain \<Rightarrow> certificate list \<Rightarrow> spiffebundle_Bundle" where
  "spiffebundle_FromX509Authorities trustDomain x509Authorities =
     (spiffebundle_New trustDomain)\<lparr>sb_x509Authorities := CopyX509Authorities x509Authorities\<rparr>"

definition spiffebundle_FromJWTAuthorities :: "TrustDomain \<Rightarrow> authorities \<Rightarrow> spiffebundle_Bundle" where
  "spiffebundle_FromJWTAuthorities trustDomain jwtAuthorities =
     (spiffebundle_New trustDomain)\<lparr>sb_jwtAuthorities := CopyJWTAuthorities jwtAuthorities\<rparr>"

definition spiffebundle_FromWITAuthorities :: "TrustDomain \<Rightarrow> authorities \<Rightarrow> spiffebundle_Bundle" where
  "spiffebundle_FromWITAuthorities trustDomain witAuthorities =
     (spiffebundle_New trustDomain)\<lparr>sb_witAuthorities := CopyJWTAuthorities witAuthorities\<rparr>"

definition spiffebundle_FromWITBundle :: "witbundle_Bundle option \<Rightarrow> spiffebundle_Bundle res" where
  "spiffebundle_FromWITBundle witBundle =
     (case witBundle of
        None \<Rightarrow> Panic (New ''nil pointer dereference'')
      | Some wb \<Rightarrow> Ok ((spiffebundle_New (witbundle_TrustDomain wb))
                     \<lparr>sb_witAuthorities := witbundle_WITAuthorities wb\<rparr>))"

definition copyRefreshHint :: "64 word option \<Rightarrow> 64 word option" where
  "copyRefreshHint refreshHint = (case refreshHint of None \<Rightarrow> None | Some h \<Rightarrow> Some h)"

definition copySequenceNumber :: "64 word option \<Rightarrow> 64 word option" where
  "copySequenceNumber sequenceNumber = (case sequenceNumber of None \<Rightarrow> None | Some n \<Rightarrow> Some n)"

definition spiffebundle_Clone :: "spiffebundle_Bundle \<Rightarrow> spiffebundle_Bundle" where
  "spiffebundle_Clone b =
     \<lparr>sb_trustDomain = sb_trustDomain b,
      sb_refreshHint = copyRefreshHint (sb_refreshHint b),
      sb_sequenceNumber = copySequenceNumber (sb_sequenceNumber b),
      sb_jwtAuthorities = CopyJWTAuthorities (sb_jwtAuthorities b),
      sb_witAuthorities = CopyJWTAuthorities (sb_witAuthorities b),
      sb_x509Authorities = CopyX509Authorities (sb_x509Authorities b)\<rparr>"

definition spiffebundle_X509Bundle :: "spiffebundle_Bundle \<Rightarrow> x509bundle_Bundle" where
  "spiffebundle_X509Bundle b = x509bundle_FromX509Authorities (sb_trustDomain b) (sb_x509Authorities b)"

definition spiffebundle_JWTBundle :: "spiffebundle_Bundle \<Rightarrow> jwtbundle_Bundle" where
  "spiffebundle_JWTBundle b = jwtbundle_FromJWTAuthorities (sb_trustDomain b) (sb_jwtAuthorities b)"

definition spiffebundle_WITBundle :: "spiffebundle_Bundle \<Rightarrow> witbundle_Bundle" where
  "spiffebundle_WITBundle b = witbundle_FromWITAuthorities (sb_trustDomain b) (sb_witAuthorities b)"

definition refreshHintEqual :: "64 word option \<Rightarrow> 64 word option \<Rightarrow> bool" where
  "refreshHintEqual a b = (case (a, b) of (Some x, Some y) \<Rightarrow> x = y | _ \<Rightarrow> a = None \<and> b = None)"

definition sequenceNumberEqual :: "64 word option \<Rightarrow> 64 word option \<Rightarrow> bool" where
  "sequenceNumberEqual a b = (case (a, b) of (Some x, Some y) \<Rightarrow> x = y | _ \<Rightarrow> a = None \<and> b = None)"

fun spiffebundle_Equal :: "spiffebundle_Bundle option \<Rightarrow> spiffebundle_Bundle option \<Rightarrow> bool" where
  "spiffebundle_Equal (Some b) (Some other) =
     (sb_trustDomain b = sb_trustDomain other \<and>
      refreshHintEqual (sb_refreshHint b) (sb_refreshHint other) \<and>
      sequenceNumberEqual (sb_sequenceNumber b) (sb_sequenceNumber other) \<and>
      JWTAuthoritiesEqual (sb_jwtAuthorities b) (sb_jwtAuthorities other) \<and>
      JWTAuthoritiesEqual (sb_witAuthorities b) (sb_witAuthorities other) \<and>
      CertsEqual (sb_x509Authorities b) (sb_x509Authorities other))"
| "spiffebundle_Equal b other = (b = None \<and> other = None)"

definition spiffebundle_GetBundleForTrustDomain :: "spiffebundle_Bundle \<Rightarrow> TrustDomain \<Rightarrow> spiffebundle_Bundle res" where
  "spiffebundle_GetBundleForTrustDomain b trustDomain =
     (if sb_trustDomain b \<noteq> trustDomain
      then Err (wrapSpiffebundleErr (Errorf ''no SPIFFE bundle for trust domain %q'' [TrustDomain_String trustDomain]))
      else Ok b)"

definition spiffebundle_GetX509BundleForTrustDomain :: "spiffebundle_Bundle \<Rightarrow> TrustDomain \<Rightarrow> x509bundle_Bundle res" where
  "spiffebundle_GetX509BundleForTrustDomain b trustDomain =
     (if sb_trustDomain b \<noteq> trustDomain
      then Err (wrapSpiffebundleErr (Errorf ''no X.509 bundle for trust domain %q'' [TrustDomain_String trustDomain]))
      else Ok (spiffebundle_X509Bundle b))"

definition spiffebundle_GetJWTBundleForTrustDomain :: "spiffebundle_Bundle \<Rightarrow> TrustDomain \<Rightarrow> jwtbundle_Bundle res" where
  "spiffebundle_GetJWTBundleForTrustDomain b trustDomain =
     (if sb_trustDomain b \<noteq> trustDomain
      then Err (wrapSpiffebundleErr (Errorf ''no JWT bundle for trust domain %q'' [TrustDomain_String trustDomain]))
      else Ok (spiffebundle_JWTBundle b))"

definition spiffebundle_GetWITBundleForTrustDomain :: "spiffebundle_Bundle \<Rightarrow> TrustDomain \<Rightarrow> witbundle_Bundle res" where
  "spiffebundle_GetWITBundleForTrustDomain b trustDomain =
     (if sb_trustDomain b \<noteq> trustDomain
      then Err (wrapSpiffebundleErr (Errorf ''no WIT bundle for trust domain %q'' [TrustDomain_String trustDomain]))
      else Ok (spiffebundle_WITBundle b))"

subsection \<open>Sets\<close>

type_synonym spiffebundle_Set = "(TrustDomain, spiffebundle_Bundle) gomap"

definition spiffebundle_NewSet :: "spiffebundle_Bundle option list \<Rightarrow> spiffebundle_Set" where
  "spiffebundle_NewSet bundles =
     fold (\<lambda>b bundlesMap. case b of None \<Rightarrow> bundlesMap | Some b' \<Rightarrow> gm_set (sb_trustDomain b') b' bundlesMap)
       bundles []"

definition spiffebundle_Set_Add :: "spiffebundle_Set \<Rightarrow> spiffebundle_Bundle option \<Rightarrow> spiffebundle_Set" where
  "spiffebundle_Set_Add s bundle =
     (case bundle of None \<Rightarrow> s | Some b \<Rightarrow> gm_set (sb_trustDomain b) b s)"

definition spiffebundle_Set_Remove :: "spiffebundle_Set \<Rightarrow> TrustDomain \<Rightarrow> spiffebundle_Set" where
  "spiffebundle_Set_Remove s trustDomain = gm_delete trustDomain s"

definition spiffebundle_Set_Has :: "spiffebundle_Set \<Rightarrow> TrustDomain \<Rightarrow> bool" where
  "spiffebundle_Set_Has s trustDomain = gm_has s trustDomain"

definition spiffebundle_Set_Get :: "spiffebundle_Set \<Rightarrow> TrustDomain \<Rightarrow> spiffebundle_Bundle option" where
  "spiffebundle_Set_Get s trustDomain = gm_get s trustDomain"

definition spiffebundle_Set_Bundles :: "spiffebundle_Set \<Rightarrow> spiffebundle_Bundle list" where
  "spiffebundle_Set_Bundles s =
     sort_key spiffebundle_TrustDomain (fold (\<lambda>(_, bundle) out. out @ [bundle]) s [])"

definition spiffebundle_Set_Len :: "spiffebundle_Set \<Rightarrow> nat" where
  "spiffebundle_Set_Len s = length s"

definition spiffebundle_Set_GetBundleForTrustDomain :: "spiffebundle_Set \<Rightarrow> TrustDomain \<Rightarrow> spiffebundle_Bundle res" where
  "spiffebundle_Set_GetBundleForTrustDomain s trustDomain =
     (case gm_get s trustDomain of
        None \<Rightarrow> Err (wrapSpiffebundleErr (Errorf ''no SPIFFE bundle for trust domain %q'' [TrustDomain_String trustDomain]))
      | Some bundle \<Rightarrow> Ok bundle)"

definition spiffebundle_Set_GetX509BundleForTrustDomain :: "spiffebundle_Set \<Rightarrow> TrustDomain \<Rightarrow> x509bundle_Bundle res" where
  "spiffebundle_Set_GetX509BundleForTrustDomain s trustDomain =
     (case gm_get s trustDomain of
        None \<Rightarrow> Err (wrapSpiffebundleErr (Errorf ''no X.509 bundle for trust domain %q'' [TrustDomain_String trustDomain]))
      | Some bundle \<Rightarrow> Ok (spiffebundle_X509Bundle bundle))"

definition spiffebundle_Set_GetJWTBundleForTrustDomain :: "spiffebundle_Set \<Rightarrow> TrustDomain \<Rightarrow> jwtbundle_Bundle res" where
  "spiffebundle_Set_GetJWTBundleForTrustDomain s trustDomain =
     (case gm_get s trustDomain of
        None \<Rightarrow> Err (wrapSpiffebundleErr (Errorf ''no JWT bundle for trust domain %q'' [TrustDomain_String trustDomain]))
      | Some bundle \<Rightarrow> Ok (spiffebundle_JWTBundle bundle))"

definition spiffebundle_Set_GetWITBundleForTrustDomain :: "spiffebundle_Set \<Rightarrow> TrustDomain \<Rightarrow> witbundle_Bundle res" where
  "spiffebundle_Set_GetWITBundleForTrustDomain s trustDomain =
     (case gm_get s trustDomain of
        None \<Rightarrow> Err (wrapSpiffebundleErr (Errorf ''no WIT bundle for trust domain %q'' [TrustDomain_String trustDomain]))
      | Some bundle \<Rightarrow> Ok (spiffebundle_WITBundle bundle))"


section \<open>Lemmas\<close>

definition spiffebundle_wf :: "spiffebundle_Bundle \<Rightarrow> bool" where
  "spiffebundle_wf b \<longleftrightarrow> gm_wf (sb_jwtAuthorities b) \<and> gm_wf (sb_witAuthorities b)"

lemma uses_distinct [simp]:
  "x509SVIDUse \<noteq> jwtSVIDUse" "x509SVIDUse \<noteq> witSVIDUse" "jwtSVIDUse \<noteq> x509SVIDUse"
  "jwtSVIDUse \<noteq> witSVIDUse" "witSVIDUse \<noteq> x509SVIDUse" "witSVIDUse \<noteq> jwtSVIDUse"
  by (simp_all add: x509SVIDUse_def jwtSVIDUse_def witSVIDUse_def)

lemmas spiffebundle_defs =
  spiffebundle_wf_def spiffebundle_New_def spiffebundle_TrustDomain_def spiffebundle_JWTAuthorities_def
  spiffebundle_FindJWTAuthority_def spiffebundle_HasJWTAuthority_def spiffebundle_AddJWTAuthority_def
  spiffebundle_RemoveJWTAuthority_def spiffebundle_SetJWTAuthorities_def wrapSpiffebundleErr_def
  spiffebundle_WITAuthorities_def spiffebundle_FindWITAuthority_def spiffebundle_HasWITAuthority_def
  spiffebundle_AddWITAuthority_def spiffebundle_RemoveWITAuthority_def spiffebundle_SetWITAuthorities_def
  spiffebundle_X509Authorities_def spiffebundle_HasX509Authority_def spiffebundle_AddX509Authority_def
  spiffebundle_RemoveX509Authority_def spiffebundle_SetX509Authorities_def

interpretation sb_jwt: keyed_authorities spiffebundle_wf spiffebundle_TrustDomain spiffebundle_JWTAuthorities
  spiffebundle_FindJWTAuthority spiffebundle_HasJWTAuthority spiffebundle_New spiffebundle_AddJWTAuthority
  spiffebundle_RemoveJWTAuthority spiffebundle_SetJWTAuthorities
  by unfold_locales (auto simp: spiffebundle_defs gm_has_def fun_eq_iff split: option.splits)

interpretation sb_wit: keyed_authorities spiffebundle_wf spiffebundle_TrustDomain spiffebundle_WITAuthorities
  spiffebundle_FindWITAuthority spiffebundle_HasWITAuthority spiffebundle_New spiffebundle_AddWITAuthority
  spiffebundle_RemoveWITAuthority spiffebundle_SetWITAuthorities
  by unfold_locales (auto simp: spiffebundle_defs gm_has_def fun_eq_iff split: option.splits)

interpretation sb_x509: listed_authorities spiffebundle_TrustDomain spiffebundle_X509Authorities
  spiffebundle_HasX509Authority spiffebundle_New spiffebundle_AddX509Authority
  spiffebundle_RemoveX509Authority spiffebundle_SetX509Authorities
  by unfold_locales (simp_all add: spiffebundle_defs list_ex_Certificate_Equal removeX509_loop_eq)

interpretation sb_set: bundle_set "gset_inv spiffebundle_TrustDomain" spiffebundle_TrustDomain
  spiffebundle_Set_Get spiffebundle_Set_Has spiffebundle_NewSet spiffebundle_Set_Add spiffebundle_Set_Remove
  spiffebundle_Set_Bundles spiffebundle_Set_Len
proof -
  have *: "spiffebundle_Set_Get = gm_get" "spiffebundle_Set_Has = gm_has"
    "spiffebundle_Set_Add = gset_add spiffebundle_TrustDomain"
    "spiffebundle_Set_Remove = (\<lambda>s t. gm_delete t s)"
    "spiffebundle_NewSet = (\<lambda>bs. fold (\<lambda>b s. gset_add spiffebundle_TrustDomain s b) bs [])"
    "spiffebundle_Set_Bundles = (\<lambda>s. sort_key spiffebundle_TrustDomain (map snd s))"
    "spiffebundle_Set_Len = length"
    by (simp_all add: fun_eq_iff spiffebundle_Set_Get_def spiffebundle_Set_Has_def spiffebundle_Set_Add_def
        spiffebundle_Set_Remove_def spiffebundle_NewSet_def spiffebundle_Set_Bundles_def spiffebundle_Set_Len_def
        gset_add_def spiffebundle_TrustDomain_def fold_snd cong: option.case_cong)
  show "bundle_set (gset_inv spiffebundle_TrustDomain) spiffebundle_TrustDomain
      spiffebundle_Set_Get spiffebundle_Set_Has spiffebundle_NewSet spiffebundle_Set_Add spiffebundle_Set_Remove
      spiffebundle_Set_Bundles spiffebundle_Set_Len"
    unfolding * by (rule gset_bundle_set)
qed

lemma spiffebundle_conversions_td [simp]:
  "xb_trustDomain (spiffebundle_X509Bundle b) = sb_trustDomain b"
  "jb_trustDomain (spiffebundle_JWTBundle b) = sb_trustDomain b"
  "wb_trustDomain (spiffebundle_WITBundle b) = sb_trustDomain b"
  by (simp_all add: spiffebundle_X509Bundle_def x509bundle_FromX509Authorities_def
      spiffebundle_JWTBundle_def jwtbundle_FromJWTAuthorities_def
      spiffebundle_WITBundle_def witbundle_FromWITAuthorities_def)

lemma sb_set_td: "gset_inv spiffebundle_TrustDomain s \<Longrightarrow> gm_get s t = Some b \<Longrightarrow> sb_trustDomain b = t"
  using gset_inv_get [of spiffebundle_TrustDomain s t b] by (simp add: spiffebundle_TrustDomain_def)

interpretation sb_spiffe_source: bundle_source "\<lambda>_. True" spiffebundle_TrustDomain
  spiffebundle_GetBundleForTrustDomain
  by unfold_locales (auto simp: spiffebundle_GetBundleForTrustDomain_def spiffebundle_TrustDomain_def split: if_splits)

interpretation sb_set_spiffe_source: bundle_source "gset_inv spiffebundle_TrustDomain" spiffebundle_TrustDomain
  spiffebundle_Set_GetBundleForTrustDomain
  by unfold_locales (auto simp: spiffebundle_Set_GetBundleForTrustDomain_def spiffebundle_TrustDomain_def
      split: option.splits dest: sb_set_td)

interpretation sb_x509_source: bundle_source "\<lambda>_. True" x509bundle_TrustDomain
  spiffebundle_GetX509BundleForTrustDomain
  by unfold_locales (auto simp: spiffebundle_GetX509BundleForTrustDomain_def x509bundle_TrustDomain_def split: if_splits)

interpretation sb_set_x509_source: bundle_source "gset_inv spiffebundle_TrustDomain" x509bundle_TrustDomain
  spiffebundle_Set_GetX509BundleForTrustDomain
  by unfold_locales (auto simp: spiffebundle_Set_GetX509BundleForTrustDomain_def x509bundle_TrustDomain_def
      split: option.splits dest: sb_set_td)

interpretation sb_jwt_source: bundle_source "\<lambda>_. True" jwtbundle_TrustDomain
  spiffebundle_GetJWTBundleForTrustDomain
  by unfold_locales (auto simp: spiffebundle_GetJWTBundleForTrustDomain_def jwtbundle_TrustDomain_def split: if_splits)

interpretation sb_set_jwt_source: bundle_source "gset_inv spiffebundle_TrustDomain" jwtbundle_TrustDomain
  spiffebundle_Set_GetJWTBundleForTrustDomain
  by unfold_locales (auto simp: spiffebundle_Set_GetJWTBundleForTrustDomain_def jwtbundle_TrustDomain_def
      split: option.splits dest: sb_set_td)

interpretation sb_wit_source: bundle_source "\<lambda>_. True" witbundle_TrustDomain
  spiffebundle_GetWITBundleForTrustDomain
  by unfold_locales (auto simp: spiffebundle_GetWITBundleForTrustDomain_def witbundle_TrustDomain_def split: if_splits)

interpretation sb_set_wit_source: bundle_source "gset_inv spiffebundle_TrustDomain" witbundle_TrustDomain
  spiffebundle_Set_GetWITBundleForTrustDomain
  by unfold_locales (auto simp: spiffebundle_Set_GetWITBundleForTrustDomain_def witbundle_TrustDomain_def
      split: option.splits dest: sb_set_td)

subsection \<open>What the parser accepts\<close>

text \<open>An entry of the document is acceptable when an X.509 entry has exactly one certificate and a
  JWT or WIT entry has a key ID. Entries with another use are ignored.\<close>

definition key_ok :: "jwk \<Rightarrow> bool" where
  "key_ok k \<longleftrightarrow> (jwk_Use k = x509SVIDUse \<longrightarrow> length (jwk_Certificates k) = 1) \<and>
     (jwk_Use k \<in> {jwtSVIDUse, witSVIDUse} \<longrightarrow> jwk_KeyID k \<noteq> [])"

definition keys_of_use :: "string \<Rightarrow> jwk list \<Rightarrow> (string \<times> public_key) list" where
  "keys_of_use use keys = map (\<lambda>k. (jwk_KeyID k, jwk_Key k)) (filter (\<lambda>k. jwk_Use k = use) keys)"

definition certs_of_keys :: "jwk list \<Rightarrow> certificate list" where
  "certs_of_keys keys = concat (map jwk_Certificates (filter (\<lambda>k. jwk_Use k = x509SVIDUse) keys))"

definition apply_keys :: "jwk list \<Rightarrow> spiffebundle_Bundle \<Rightarrow> spiffebundle_Bundle" where
  "apply_keys keys b =
     (fold (\<lambda>c b. spiffebundle_AddX509Authority b c) (certs_of_keys keys) b)
       \<lparr>sb_jwtAuthorities := fold (\<lambda>(k, v). gm_set k v) (keys_of_use jwtSVIDUse keys) (sb_jwtAuthorities b),
        sb_witAuthorities := fold (\<lambda>(k, v). gm_set k v) (keys_of_use witSVIDUse keys) (sb_witAuthorities b)\<rparr>"

lemma keys_of_use_simps [simp]:
  "keys_of_use u [] = []"
  "keys_of_use u (k # ks) = (if jwk_Use k = u then [(jwk_KeyID k, jwk_Key k)] else []) @ keys_of_use u ks"
  "certs_of_keys [] = []"
  "certs_of_keys (k # ks) = (if jwk_Use k = x509SVIDUse then jwk_Certificates k else []) @ certs_of_keys ks"
  by (simp_all add: keys_of_use_def certs_of_keys_def)

lemma spiffebundle_fold_x509:
  "fold (\<lambda>c b. spiffebundle_AddX509Authority b c) cs b =
     b\<lparr>sb_x509Authorities := sb_x509Authorities (fold (\<lambda>c b. spiffebundle_AddX509Authority b c) cs b)\<rparr>"
proof (induction cs arbitrary: b)
  case (Cons c cs)
  show ?case
    by (simp, subst Cons.IH) (simp add: spiffebundle_AddX509Authority_def)
qed simp

lemma spiffebundle_AddX509_update:
  "spiffebundle_AddX509Authority (b\<lparr>sb_jwtAuthorities := j, sb_witAuthorities := w\<rparr>) c =
   (spiffebundle_AddX509Authority b c)\<lparr>sb_jwtAuthorities := j, sb_witAuthorities := w\<rparr>"
  by (simp add: spiffebundle_AddX509Authority_def)

lemma spiffebundle_fold_x509_update:
  "fold (\<lambda>c b. spiffebundle_AddX509Authority b c) cs (b\<lparr>sb_jwtAuthorities := j, sb_witAuthorities := w\<rparr>) =
   (fold (\<lambda>c b. spiffebundle_AddX509Authority b c) cs b)\<lparr>sb_jwtAuthorities := j, sb_witAuthorities := w\<rparr>"
  by (induction cs arbitrary: b) (simp_all add: spiffebundle_AddX509_update)

lemma spiffebundle_AddX509_sel [simp]:
  "sb_jwtAuthorities (spiffebundle_AddX509Authority b c) = sb_jwtAuthorities b"
  "sb_witAuthorities (spiffebundle_AddX509Authority b c) = sb_witAuthorities b"
  by (simp_all add: spiffebundle_AddX509Authority_def)

lemma apply_keys_Cons:
  "apply_keys (k # ks) b = apply_keys ks (apply_keys [k] b)"
  by (simp add: apply_keys_def spiffebundle_fold_x509_update)

lemma spiffebundle_Parse_loop_ok:
  "list_all key_ok keys \<Longrightarrow> spiffebundle_Parse_loop i keys b = Ok (apply_keys keys b)"
proof (induction i keys b rule: spiffebundle_Parse_loop.induct)
  case (1 i b)
  then show ?case by (simp add: apply_keys_def)
next
  case (2 i k ks b)
  have ok: "key_ok k" "list_all key_ok ks" using "2.prems" by simp_all
  show ?case
  proof (cases "jwk_Use k = x509SVIDUse")
    case True
    then obtain c where c: "jwk_Certificates k = [c]"
      using ok(1) by (auto simp: key_ok_def length_Suc_conv)
    have "apply_keys [k] b = spiffebundle_AddX509Authority b c"
      using True c by (simp add: apply_keys_def spiffebundle_AddX509Authority_def)
    then show ?thesis using True c "2.IH"(1) ok by (simp add: apply_keys_Cons [of k ks])
  next
    case x: False
    show ?thesis
    proof (cases "jwk_Use k \<in> {jwtSVIDUse, witSVIDUse}")
      case True
      then have "jwk_KeyID k \<noteq> []" using ok(1) by (auto simp: key_ok_def)
      then show ?thesis using True x "2.IH"(2-3) ok
        by (auto simp: apply_keys_Cons [of k ks] apply_keys_def [of "[k]"]
            spiffebundle_AddJWTAuthority_def spiffebundle_AddWITAuthority_def)
    next
      case False
      then have "apply_keys [k] b = b" using x by (simp add: apply_keys_def)
      then show ?thesis using False x "2.IH"(4) ok by (simp add: apply_keys_Cons [of k ks])
    qed
  qed
qed

lemma spiffebundle_Parse_loop_fail:
  "\<not> list_all key_ok keys \<Longrightarrow> \<exists>e. spiffebundle_Parse_loop i keys b = Err (wrapSpiffebundleErr e)"
  by (induction i keys b rule: spiffebundle_Parse_loop.induct)
    (auto simp: key_ok_def spiffebundle_AddJWTAuthority_def spiffebundle_AddWITAuthority_def split: if_splits)

subsection \<open>Refresh hints\<close>

text \<open>\<open>Marshal\<close> rounds the hint up to whole seconds; the arithmetic does not wrap for hints up to
  \<open>2^63 - 10^9\<close> nanoseconds (almost 292 years).\<close>

definition ceil_seconds :: "int \<Rightarrow> int" where
  "ceil_seconds h = (h + 999999999) div 1000000000"

lemma marshaled_hint:
  assumes "0 \<le> sint h" "sint h < 2 ^ 63 - 999999999"
  shows "sint (int64_div (h + (time_Second - 1)) time_Second) = ceil_seconds (sint h)"
proof -
  have c: "time_Second - 1 = (999999999 :: 64 word)" "sint time_Second = 1000000000"
    "sint (999999999 :: 64 word) = 999999999"
    by (simp_all add: time_Second_def)
  have "sint (h + (time_Second - 1)) = sint h + 999999999"
    unfolding c(1) using assms c(3) by (subst sint_add64) simp_all
  moreover have "(sint h + 999999999) sdiv 1000000000 = ceil_seconds (sint h)"
    using assms by (simp add: signed_divide_int_def ceil_seconds_def)
  moreover have "sint (word_of_int (ceil_seconds (sint h)) :: 64 word) = ceil_seconds (sint h)"
    using assms by (intro sint_of_int64) (auto simp: ceil_seconds_def)
  ultimately show ?thesis by (simp add: int64_div_def c)
qed

lemma hint_roundtrip:
  assumes "0 \<le> sint h" "sint h < 2 ^ 63 - 999999999"
  shows "sint (time_Second * int64_div (h + (time_Second - 1)) time_Second) = 1000000000 * ceil_seconds (sint h)"
proof -
  have b: "0 \<le> 1000000000 * ceil_seconds (sint h)" "1000000000 * ceil_seconds (sint h) < 2 ^ 63"
    using assms by (auto simp: ceil_seconds_def)
  then show ?thesis
    using marshaled_hint [OF assms]
    by (subst sint_mult64) (simp_all add: time_Second_def)
qed

subsection \<open>Documents\<close>

definition x509_key :: "certificate \<Rightarrow> jwk" where
  "x509_key c = \<lparr>jwk_Key = cert_PublicKey c, jwk_KeyID = '''', jwk_Use = x509SVIDUse, jwk_Certificates = [c]\<rparr>"

definition keyed_key :: "string \<Rightarrow> string \<times> public_key \<Rightarrow> jwk" where
  "keyed_key use ka = (zero_jwk (snd ka) (fst ka))\<lparr>jwk_Use := use\<rparr>"

definition keys_of_bundle :: "spiffebundle_Bundle \<Rightarrow> jwk list" where
  "keys_of_bundle b = map x509_key (sb_x509Authorities b) @ map (keyed_key jwtSVIDUse) (sb_jwtAuthorities b)
     @ map (keyed_key witSVIDUse) (sb_witAuthorities b)"

lemma fold_append_key:
  "fold (\<lambda>x ks. append_key ks (f x)) xs ks =
     (if xs = [] then ks else Some (jwks_list ks @ map f xs))"
  by (induction xs arbitrary: ks) (auto simp: append_key_def jwks_list_def)

lemma spiffebundle_doc_eq:
  "spiffebundle_doc b =
     \<lparr>doc_Keys = (if spiffebundle_Empty b then None else Some (keys_of_bundle b)),
      doc_SequenceNumber = sb_sequenceNumber b,
      doc_RefreshHint = map_option (\<lambda>h. int64_div (h + (time_Second - 1)) time_Second) (sb_refreshHint b)\<rparr>"
proof -
  have *: "(\<lambda>(keyID, a) ks. append_key ks ((zero_jwk a keyID)\<lparr>jwk_Use := use\<rparr>)) =
      (\<lambda>ka ks. append_key ks (keyed_key use ka))" for use
    by (auto simp: keyed_key_def)
  show ?thesis
    unfolding spiffebundle_doc_def Let_def x509_key_def [symmetric] * fold_append_key
    by (simp add: spiffebundle_Empty_def keys_of_bundle_def jwks_list_def)
qed

lemma keys_of_use_append [simp]: "keys_of_use u (xs @ ys) = keys_of_use u xs @ keys_of_use u ys"
  by (simp add: keys_of_use_def)

lemma certs_of_keys_append [simp]: "certs_of_keys (xs @ ys) = certs_of_keys xs @ certs_of_keys ys"
  by (simp add: certs_of_keys_def)

lemma keys_of_use_map [simp]:
  "keys_of_use u (map (keyed_key u) m) = m"
  "u \<noteq> v \<Longrightarrow> keys_of_use u (map (keyed_key v) m) = []"
  "u \<noteq> x509SVIDUse \<Longrightarrow> keys_of_use u (map x509_key cs) = []"
  "v \<noteq> x509SVIDUse \<Longrightarrow> certs_of_keys (map (keyed_key v) m) = []"
  "certs_of_keys (map x509_key cs) = cs"
  subgoal by (induction m) (simp_all add: keyed_key_def zero_jwk_def)
  subgoal by (induction m) (simp_all add: keyed_key_def)
  subgoal by (induction cs) (simp_all add: x509_key_def)
  subgoal by (induction m) (simp_all add: keyed_key_def)
  subgoal by (induction cs) (simp_all add: x509_key_def)
  done

lemma keys_of_bundle_of_use [simp]:
  "keys_of_use jwtSVIDUse (keys_of_bundle b) = sb_jwtAuthorities b"
  "keys_of_use witSVIDUse (keys_of_bundle b) = sb_witAuthorities b"
  "certs_of_keys (keys_of_bundle b) = sb_x509Authorities b"
  by (simp_all add: keys_of_bundle_def)

lemma keys_of_bundle_ok:
  "[] \<notin> fst ` set (sb_jwtAuthorities b) \<Longrightarrow> [] \<notin> fst ` set (sb_witAuthorities b) \<Longrightarrow>
   list_all key_ok (keys_of_bundle b)"
  by (force simp: keys_of_bundle_def list_all_iff key_ok_def x509_key_def keyed_key_def zero_jwk_def)

lemma apply_keys_of_bundle:
  assumes "spiffebundle_wf b" "sb_x509.no_dups b" "sb_trustDomain e = sb_trustDomain b"
    and "sb_jwtAuthorities e = []" "sb_witAuthorities e = []" "sb_x509Authorities e = []"
  shows "apply_keys (keys_of_bundle b) e =
    b\<lparr>sb_refreshHint := sb_refreshHint e, sb_sequenceNumber := sb_sequenceNumber e\<rparr>"
proof -
  let ?f = "fold (\<lambda>c b. spiffebundle_AddX509Authority b c) (sb_x509Authorities b) e"
  have "sb_x509Authorities ?f = sb_x509Authorities b"
    using sb_x509.auths_add_all_distinct [of e "sb_x509Authorities b"] assms(2,6)
    by (simp add: spiffebundle_X509Authorities_def sb_x509.no_dups_def)
  then have "?f = e\<lparr>sb_x509Authorities := sb_x509Authorities b\<rparr>"
    by (metis spiffebundle_fold_x509)
  moreover have "fold (\<lambda>(k, v). gm_set k v) m [] = m" if "gm_wf m" for m :: authorities
    using gm_copy_id [OF that] by (simp add: gm_copy_def)
  ultimately show ?thesis using assms
    by (simp add: apply_keys_def spiffebundle_wf_def)
qed

lemma spiffebundle_Equal_iff:
  assumes "spiffebundle_wf a" "spiffebundle_wf b"
  shows "spiffebundle_Equal (Some a) (Some b) \<longleftrightarrow>
     sb_trustDomain a = sb_trustDomain b \<and> sb_refreshHint a = sb_refreshHint b \<and>
     sb_sequenceNumber a = sb_sequenceNumber b \<and>
     gm_get (sb_jwtAuthorities a) = gm_get (sb_jwtAuthorities b) \<and>
     gm_get (sb_witAuthorities a) = gm_get (sb_witAuthorities b) \<and>
     map cert_Raw (sb_x509Authorities a) = map cert_Raw (sb_x509Authorities b) \<and>
     list_all (supported_key \<circ> snd) (sb_jwtAuthorities a) \<and>
     list_all (supported_key \<circ> snd) (sb_witAuthorities a)"
proof -
  have "refreshHintEqual x y \<longleftrightarrow> x = y" "sequenceNumberEqual x y \<longleftrightarrow> x = y" for x y
    by (auto simp: refreshHintEqual_def sequenceNumberEqual_def split: option.splits)
  then show ?thesis
    using assms by (auto simp: spiffebundle_wf_def JWTAuthoritiesEqual_iff CertsEqual_iff)
qed

lemma spiffebundle_Clone_id: "spiffebundle_wf b \<Longrightarrow> spiffebundle_Clone b = b"
proof -
  have "copyRefreshHint x = x" "copySequenceNumber x = x" for x
    by (simp_all add: copyRefreshHint_def copySequenceNumber_def split: option.splits)
  then show "spiffebundle_wf b \<Longrightarrow> ?thesis"
    by (simp add: spiffebundle_Clone_def spiffebundle_wf_def)
qed

section \<open>Properties\<close>

definition example_td :: TrustDomain where "example_td = TrustDomain ''example.org''"

definition example_cert :: certificate where
  "example_cert = \<lparr>cert_Raw = ''der'', cert_URIs = [], cert_IsCA = True, cert_KeyUsage = KeyUsageCertSign,
     cert_PublicKey = Ed25519_PublicKey ''k0''\<rparr>"

definition example_bundle :: spiffebundle_Bundle where
  "example_bundle = \<lparr>sb_trustDomain = example_td, sb_refreshHint = Some 1500000000, sb_sequenceNumber = Some 7,
     sb_jwtAuthorities = [(''j1'', RSA_PublicKey 33 3)], sb_witAuthorities = [(''w1'', Ed25519_PublicKey ''k1'')],
     sb_x509Authorities = [example_cert]\<rparr>"

lemma apply_keys_td [simp]: "sb_trustDomain (apply_keys ks b) = sb_trustDomain b"
  "sb_refreshHint (apply_keys ks b) = sb_refreshHint b"
  "sb_sequenceNumber (apply_keys ks b) = sb_sequenceNumber b"
  unfolding apply_keys_def by (subst spiffebundle_fold_x509, simp)+

lemma apply_keys_find:
  "spiffebundle_FindJWTAuthority (apply_keys ks b) = spiffebundle_FindJWTAuthority b ++ map_of (rev (keys_of_use jwtSVIDUse ks))"
  "spiffebundle_FindWITAuthority (apply_keys ks b) = spiffebundle_FindWITAuthority b ++ map_of (rev (keys_of_use witSVIDUse ks))"
  by (simp_all add: apply_keys_def spiffebundle_FindJWTAuthority_def [abs_def]
      spiffebundle_FindWITAuthority_def [abs_def] map_of_fold_set)

lemma no_dups_update [simp]:
  "sb_x509.no_dups (b\<lparr>sb_jwtAuthorities := j, sb_witAuthorities := w\<rparr>) = sb_x509.no_dups b"
  by (simp add: sb_x509.no_dups_def spiffebundle_X509Authorities_def)

lemma has_add_all:
  "spiffebundle_HasX509Authority (fold (\<lambda>c b. spiffebundle_AddX509Authority b c) cs b) c \<longleftrightarrow>
   spiffebundle_HasX509Authority b c \<or> cert_Raw c \<in> cert_Raw ` set cs"
  by (induction cs arbitrary: b) (auto simp: sb_x509.has_add Certificate_Equal_def)

lemma spiffebundle_Parse_Ok:
  assumes "spiffebundle_Parse unmarshal td s = Ok b"
  shows "spiffebundle_wf b \<and> sb_trustDomain b = td"
proof -
  obtain d keys e where d: "spiffebundle_Parse_loop 0 keys e = Ok b" "sb_trustDomain e = td"
      "sb_jwtAuthorities e = []" "sb_witAuthorities e = []"
    using assms
    by (auto simp: spiffebundle_Parse_def Let_def spiffebundle_New_def spiffebundle_SetRefreshHint_def
        spiffebundle_SetSequenceNumber_def split: option.splits)
  then have "b = apply_keys keys e"
    using spiffebundle_Parse_loop_ok [of keys 0 e] spiffebundle_Parse_loop_fail [of keys 0 e] by fastforce
  moreover have "spiffebundle_wf (apply_keys keys e)"
    using d(3,4) by (simp add: apply_keys_def spiffebundle_wf_def gm_fold_wf)
  ultimately show ?thesis using d(2) by simp
qed

lemma spiffebundle_Parse_Marshal:
  assumes "spiffebundle_wf b" "distinct (map cert_Raw (sb_x509Authorities b))" "\<not> spiffebundle_Empty b"
    and "[] \<notin> fst ` set (sb_jwtAuthorities b)" "[] \<notin> fst ` set (sb_witAuthorities b)"
    and hint: "case sb_refreshHint b of None \<Rightarrow> True | Some h \<Rightarrow> 0 \<le> sint h \<and> sint h < 2 ^ 63 - 999999999"
    and json: "json_roundtrips marshal unmarshal (spiffebundle_doc b)" "spiffebundle_Marshal marshal b = Ok s"
  shows "spiffebundle_Parse unmarshal (sb_trustDomain b) s =
    Ok (b\<lparr>sb_refreshHint := map_option (\<lambda>h. word_of_int (1000000000 * ceil_seconds (sint h))) (sb_refreshHint b)\<rparr>)"
proof -
  have "unmarshal s = Ok (spiffebundle_doc b)"
    using json by (simp add: spiffebundle_Marshal_def json_roundtripsD)
  moreover have "time_Second * int64_div (h + (time_Second - 1)) time_Second =
      word_of_int (1000000000 * ceil_seconds (sint h))" if "sb_refreshHint b = Some h" for h
    using arg_cong [OF hint_roundtrip [of h], of "word_of_int :: int \<Rightarrow> 64 word"] hint that by simp
  ultimately show ?thesis
    using assms(1-5) spiffebundle_Parse_loop_ok [OF keys_of_bundle_ok [OF assms(4,5)]]
    by (cases "sb_refreshHint b"; cases "sb_sequenceNumber b")
      (simp_all add: spiffebundle_Parse_def spiffebundle_doc_eq Let_def spiffebundle_New_def
        apply_keys_of_bundle spiffebundle_SetRefreshHint_def spiffebundle_SetSequenceNumber_def
        sb_x509.no_dups_def spiffebundle_X509Authorities_def)
qed

text \<open>
  C15: \<open>spiffebundle.Parse\<close> on a decoded document. With no \<open>keys\<close> it fails. Otherwise it
  succeeds exactly when every X.509 entry has one certificate and every JWT and WIT entry has
  a key ID; the bundle then has the trust domain, the hint in seconds, the sequence number, for
  each key ID the last key of that use, and each distinct certificate once. Entries of another
  use leave no trace.
\<close>
theorem spiffebundle_Parse_correct:
  assumes "unmarshal s = Ok d"
  shows "case doc_Keys d of
     None \<Rightarrow> spiffebundle_Parse unmarshal td s = Err (wrapSpiffebundleErr (New ''no authorities found''))
   | Some keys \<Rightarrow>
      (if list_all key_ok keys then
        \<exists>b. spiffebundle_Parse unmarshal td s = Ok b \<and> spiffebundle_TrustDomain b = td \<and>
          sb_refreshHint b = map_option (\<lambda>h. time_Second * h) (doc_RefreshHint d) \<and>
          sb_sequenceNumber b = doc_SequenceNumber d \<and> spiffebundle_wf b \<and>
          spiffebundle_FindJWTAuthority b = map_of (rev (keys_of_use jwtSVIDUse keys)) \<and>
          spiffebundle_FindWITAuthority b = map_of (rev (keys_of_use witSVIDUse keys)) \<and>
          distinct (map cert_Raw (spiffebundle_X509Authorities b)) \<and>
          (\<forall>c. spiffebundle_HasX509Authority b c \<longleftrightarrow> cert_Raw c \<in> cert_Raw ` set (certs_of_keys keys))
       else \<exists>e. spiffebundle_Parse unmarshal td s = Err (wrapSpiffebundleErr e))"
proof (cases "doc_Keys d")
  case None
  then show ?thesis using assms by (simp add: spiffebundle_Parse_def)
next
  case (Some keys)
  let ?e = "\<lparr>sb_trustDomain = td, sb_refreshHint = map_option (\<lambda>h. time_Second * h) (doc_RefreshHint d),
    sb_sequenceNumber = doc_SequenceNumber d, sb_jwtAuthorities = [], sb_witAuthorities = [], sb_x509Authorities = []\<rparr>"
  have parse: "spiffebundle_Parse unmarshal td s = spiffebundle_Parse_loop 0 keys ?e"
    using assms Some
    by (simp add: spiffebundle_Parse_def Let_def spiffebundle_New_def spiffebundle_SetRefreshHint_def
        spiffebundle_SetSequenceNumber_def split: option.splits)
  have nd: "sb_x509.no_dups ?e" by (simp add: sb_x509.no_dups_def spiffebundle_X509Authorities_def)
  have "sb_x509.no_dups (apply_keys keys ?e)"
    unfolding apply_keys_def using sb_x509.no_dups_add_all [OF nd] by simp
  moreover have "spiffebundle_HasX509Authority (apply_keys keys ?e) c \<longleftrightarrow>
      cert_Raw c \<in> cert_Raw ` set (certs_of_keys keys)" for c
    using has_add_all [of "certs_of_keys keys" ?e c]
    by (simp add: apply_keys_def spiffebundle_HasX509Authority_def)
  moreover have "spiffebundle_wf (apply_keys keys ?e)"
    by (simp add: apply_keys_def spiffebundle_wf_def gm_fold_wf)
  moreover have "spiffebundle_FindJWTAuthority ?e = Map.empty" "spiffebundle_FindWITAuthority ?e = Map.empty"
    by (simp_all add: fun_eq_iff spiffebundle_FindJWTAuthority_def spiffebundle_FindWITAuthority_def)
  ultimately show ?thesis
    using Some parse spiffebundle_Parse_loop_ok [of keys 0 ?e] spiffebundle_Parse_loop_fail [of keys 0 ?e]
    by (simp add: spiffebundle_TrustDomain_def sb_x509.no_dups_def apply_keys_find)
qed

theorem spiffebundle_Parse_correct_witness:
  "\<exists>b. spiffebundle_Parse (\<lambda>_. Ok (spiffebundle_doc example_bundle)) example_td ''{}'' = Ok b \<and>
     spiffebundle_FindJWTAuthority b ''j1'' = Some (RSA_PublicKey 33 3)"
proof -
  have "\<not> spiffebundle_Empty example_bundle" by (simp add: spiffebundle_Empty_def example_bundle_def)
  then have k: "doc_Keys (spiffebundle_doc example_bundle) = Some (keys_of_bundle example_bundle)"
    by (simp add: spiffebundle_doc_eq)
  have "list_all key_ok (keys_of_bundle example_bundle)"
    by (rule keys_of_bundle_ok) (simp_all add: example_bundle_def)
  then obtain b where "spiffebundle_Parse (\<lambda>_. Ok (spiffebundle_doc example_bundle)) example_td ''{}'' = Ok b"
      "spiffebundle_FindJWTAuthority b = map_of (rev (sb_jwtAuthorities example_bundle))"
    using spiffebundle_Parse_correct [of "\<lambda>_. Ok (spiffebundle_doc example_bundle)" "''{}''"
        "spiffebundle_doc example_bundle" example_td] k by auto
  then show ?thesis by (simp add: example_bundle_def)
qed

text \<open>
  C16: \<open>Marshal\<close> then \<open>Parse\<close> gives the bundle back, with the refresh hint rounded up to whole
  seconds, for a bundle that has at least one authority, no empty key ID, no repeated
  certificate and a hint for which the rounding does not wrap. The hypothesis on the JSON
  library is that the document decodes to what was encoded.
\<close>
theorem spiffebundle_roundtrip:
  assumes "spiffebundle_wf b" "distinct (map cert_Raw (sb_x509Authorities b))" "\<not> spiffebundle_Empty b"
    and "[] \<notin> fst ` set (sb_jwtAuthorities b)" "[] \<notin> fst ` set (sb_witAuthorities b)"
    and hint: "case sb_refreshHint b of None \<Rightarrow> True | Some h \<Rightarrow> 0 \<le> sint h \<and> sint h < 2 ^ 63 - 999999999"
    and json: "json_roundtrips marshal unmarshal (spiffebundle_doc b)" "spiffebundle_Marshal marshal b = Ok s"
  shows "spiffebundle_Parse unmarshal (sb_trustDomain b) s =
    Ok (b\<lparr>sb_refreshHint := map_option (\<lambda>h. word_of_int (1000000000 * ceil_seconds (sint h))) (sb_refreshHint b)\<rparr>)"
  using assms by (rule spiffebundle_Parse_Marshal)

theorem spiffebundle_roundtrip_witness:
  "spiffebundle_Parse (\<lambda>s. if s = ''{}'' then Ok (spiffebundle_doc example_bundle) else Err (New ''bad''))
     example_td ''{}'' = Ok (example_bundle\<lparr>sb_refreshHint := Some 2000000000\<rparr>)"
proof -
  let ?m = "\<lambda>d. if d = spiffebundle_doc example_bundle then Ok ''{}'' else Err (New ''bad'')"
  let ?u = "\<lambda>s. if s = ''{}'' then Ok (spiffebundle_doc example_bundle) else Err (New ''bad'')"
  have "spiffebundle_Parse ?u (sb_trustDomain example_bundle) ''{}'' =
    Ok (example_bundle\<lparr>sb_refreshHint := map_option (\<lambda>h. word_of_int (1000000000 * ceil_seconds (sint h)))
      (sb_refreshHint example_bundle)\<rparr>)"
    by (rule spiffebundle_roundtrip [where marshal = ?m])
      (simp_all add: example_bundle_def spiffebundle_wf_def spiffebundle_Empty_def json_roundtrips_def
        spiffebundle_Marshal_def)
  then show ?thesis by (simp add: example_bundle_def ceil_seconds_def)
qed

text \<open>
  An empty bundle does not survive the round trip: \<open>Marshal\<close> leaves \<open>keys\<close> nil, the document
  says \<open>"keys": null\<close>, and \<open>Parse\<close> rejects it.
\<close>
theorem spiffebundle_empty_not_parsed:
  assumes "spiffebundle_Empty b" "json_roundtrips marshal unmarshal (spiffebundle_doc b)"
    and "spiffebundle_Marshal marshal b = Ok s"
  shows "spiffebundle_Parse unmarshal td s = Err (wrapSpiffebundleErr (New ''no authorities found''))"
proof -
  have "unmarshal s = Ok (spiffebundle_doc b)"
    using assms by (simp add: spiffebundle_Marshal_def json_roundtripsD)
  then show ?thesis using assms(1) by (simp add: spiffebundle_Parse_def spiffebundle_doc_eq)
qed

theorem spiffebundle_empty_not_parsed_witness:
  "spiffebundle_Parse (\<lambda>_. Ok (spiffebundle_doc (spiffebundle_New example_td))) example_td ''{}'' =
     Err (wrapSpiffebundleErr (New ''no authorities found''))"
  by (rule spiffebundle_empty_not_parsed [where b = "spiffebundle_New example_td" and marshal = "\<lambda>_. Ok ''{}''"])
    (simp_all add: spiffebundle_Empty_def spiffebundle_New_def json_roundtrips_def spiffebundle_Marshal_def)

text \<open>
  The refresh hint of a document is multiplied by one second in 64-bit arithmetic without a
  check: \<open>9223372036\<close> seconds are read correctly, and one second more is read as a negative
  duration.
\<close>
theorem spiffebundle_hint_overflow:
  "spiffebundle_Parse (\<lambda>_. Ok \<lparr>doc_Keys = Some [], doc_SequenceNumber = None, doc_RefreshHint = Some 9223372036\<rparr>) td s
     = Ok (spiffebundle_SetRefreshHint (spiffebundle_New td) (word_of_int 9223372036000000000))
   \<and> sint (word_of_int 9223372036000000000 :: 64 word) = 9223372036000000000
   \<and> spiffebundle_Parse (\<lambda>_. Ok \<lparr>doc_Keys = Some [], doc_SequenceNumber = None, doc_RefreshHint = Some 9223372037\<rparr>) td s
     = Ok (spiffebundle_SetRefreshHint (spiffebundle_New td) (word_of_int (- 9223372036709551616)))
   \<and> sint (word_of_int (- 9223372036709551616) :: 64 word) < 0"
proof -
  have "time_Second * 9223372036 = word_of_int 9223372036000000000"
    "time_Second * 9223372037 = word_of_int (- 9223372036709551616)"
    by (simp_all add: time_Second_def)
  then show ?thesis
    by (simp add: spiffebundle_Parse_def sint_of_int64)
qed

text \<open>
  The three views of a SPIFFE bundle. \<open>X509Bundle\<close>, \<open>JWTBundle\<close> and \<open>WITBundle\<close> keep the
  trust domain and answer every lookup as the SPIFFE bundle does, and building a SPIFFE bundle
  from a view gives that view back.
\<close>
theorem spiffebundle_views:
  "x509bundle_HasX509Authority (spiffebundle_X509Bundle b) = spiffebundle_HasX509Authority b \<and>
   x509bundle_TrustDomain (spiffebundle_X509Bundle b) = spiffebundle_TrustDomain b \<and>
   jwtbundle_TrustDomain (spiffebundle_JWTBundle b) = spiffebundle_TrustDomain b \<and>
   witbundle_TrustDomain (spiffebundle_WITBundle b) = spiffebundle_TrustDomain b \<and>
   (spiffebundle_wf b \<longrightarrow>
      jwtbundle_FindJWTAuthority (spiffebundle_JWTBundle b) = spiffebundle_FindJWTAuthority b \<and>
      witbundle_FindWITAuthority (spiffebundle_WITBundle b) = spiffebundle_FindWITAuthority b) \<and>
   (spiffebundle_FromX509Bundle (Some xb) = Ok sx \<longrightarrow> spiffebundle_X509Bundle sx = xb) \<and>
   (jwtbundle_wf jb \<longrightarrow> spiffebundle_FromJWTBundle (Some jb) = Ok sj \<longrightarrow> spiffebundle_JWTBundle sj = jb) \<and>
   (witbundle_wf wb \<longrightarrow> spiffebundle_FromWITBundle (Some wb) = Ok sw \<longrightarrow> spiffebundle_WITBundle sw = wb)"
proof -
  note d = spiffebundle_defs x509bundle_defs jwtbundle_defs witbundle_defs spiffebundle_X509Bundle_def
    spiffebundle_JWTBundle_def spiffebundle_WITBundle_def x509bundle_FromX509Authorities_def
    jwtbundle_FromJWTAuthorities_def witbundle_FromWITAuthorities_def jwtbundle_Find_get witbundle_Find_get
  have "spiffebundle_FindJWTAuthority b = gm_get (sb_jwtAuthorities b)"
    "spiffebundle_FindWITAuthority b = gm_get (sb_witAuthorities b)"
    by (simp_all add: fun_eq_iff d)
  moreover have "x509bundle_HasX509Authority (spiffebundle_X509Bundle b) = spiffebundle_HasX509Authority b"
    by (simp add: fun_eq_iff d)
  ultimately show ?thesis
    by (auto simp: jwtbundle_Find_get witbundle_Find_get spiffebundle_FromX509Bundle_def
        spiffebundle_FromJWTBundle_def spiffebundle_FromWITBundle_def d)
qed

theorem spiffebundle_views_witness:
  "jwtbundle_FindJWTAuthority (spiffebundle_JWTBundle example_bundle) ''j1'' = Some (RSA_PublicKey 33 3)"
  using spiffebundle_views [of example_bundle]
  by (simp add: spiffebundle_wf_def example_bundle_def spiffebundle_FindJWTAuthority_def)

end
