(* ===== verification/X509svid.thy ===== *)
theory X509svid
  imports X509bundle
begin

text \<open>
  Package \<open>svid/x509svid\<close>: construction of X509-SVIDs from PEM and DER (\<open>svid.go\<close>) and
  verification of a peer's chain against a bundle source (\<open>verify.go\<close>). Chain building is the
  library's \<open>Certificate.Verify\<close>, the field \<open>lib_Verify\<close> of the library parameter;
  \<open>verify_anchored\<close> is what its documentation promises of the chains.
\<close>

section \<open>Definitions\<close>

record x509svid_SVID =
  xs_ID :: ID
  xs_Certificates :: "certificate list"
  xs_PrivateKey :: private_key
  xs_Hint :: string

definition wrapX509svidErr :: "error \<Rightarrow> error" where
  "wrapX509svidErr err = Wrap ''x509svid: %w'' [] err"

definition IDFromCert :: "charset \<Rightarrow> certificate \<Rightarrow> ID res" where
  "IDFromCert cs cert =
     (if length (cert_URIs cert) = 0 then Err (New ''certificate contains no URI SAN'')
      else if length (cert_URIs cert) > 1 then Err (New ''certificate contains more than one URI SAN'')
      else FromURI cs (cert_URIs cert ! 0))"

subsection \<open>Validation of an SVID\<close>

definition rsaPublicKeyEqual :: "public_key \<Rightarrow> public_key \<Rightarrow> bool" where
  "rsaPublicKeyEqual a b \<longleftrightarrow> rsa_E a = rsa_E b \<and> rsa_N a = rsa_N b"

definition ecdsaPublicKeyEqual :: "public_key \<Rightarrow> public_key \<Rightarrow> bool" where
  "ecdsaPublicKeyEqual a b \<longleftrightarrow> ec_Curve a = ec_Curve b \<and> ec_X a = ec_X b \<and> ec_Y a = ec_Y b"

fun keyMatches :: "private_key \<Rightarrow> public_key \<Rightarrow> bool \<times> error option" where
  "keyMatches (RSA_PrivateKey pub) publicKey =
     ((case publicKey of RSA_PublicKey _ _ \<Rightarrow> rsaPublicKeyEqual pub publicKey | _ \<Rightarrow> False), None)"
| "keyMatches (ECDSA_PrivateKey pub) publicKey =
     ((case publicKey of ECDSA_PublicKey _ _ _ \<Rightarrow> ecdsaPublicKeyEqual pub publicKey | _ \<Rightarrow> False), None)"
| "keyMatches (Ed25519_PrivateKey seed pub) publicKey =
     ((case publicKey of Ed25519_PublicKey p \<Rightarrow> pub = p | _ \<Rightarrow> False), None)"
| "keyMatches (Other_PrivateKey t signer) publicKey =
     (False, Some (Errorf ''unsupported private key type %T'' [t]))"

fun is_signer :: "private_key \<Rightarrow> bool" where
  "is_signer (Other_PrivateKey t signer) = signer"
| "is_signer _ = True"

definition validatePrivateKey :: "private_key option \<Rightarrow> certificate \<Rightarrow> private_key res" where
  "validatePrivateKey privateKey leaf =
     (case privateKey of
        None \<Rightarrow> Err (New ''no private key found'')
      | Some k \<Rightarrow>
          (case keyMatches k (cert_PublicKey leaf) of
             (_, Some err) \<Rightarrow> Err err
           | (matched, None) \<Rightarrow>
               if \<not> matched then Err (New ''leaf certificate does not match private key'')
               else if \<not> is_signer k then Err (Errorf ''expected crypto.Signer; got %T'' [])
               else Ok k))"

definition validateKeyUsage :: "certificate \<Rightarrow> error option" where
  "validateKeyUsage leaf =
     (if and (cert_KeyUsage leaf) KeyUsageDigitalSignature = 0 then
        Some (New ''leaf certificate must have 'digitalSignature' set as key usage'')
      else if sint (and (cert_KeyUsage leaf) KeyUsageCertSign) > 0 then
        Some (New ''leaf certificate must not have 'keyCertSign' set as key usage'')
      else if sint (and (cert_KeyUsage leaf) KeyUsageCRLSign) > 0 then
        Some (New ''leaf certificate must not have 'cRLSign' set as key usage'')
      else None)"

fun validateSigningCertificates :: "certificate list \<Rightarrow> error option" where
  "validateSigningCertificates [] = None"
| "validateSigningCertificates (cert # signingCerts) =
     (if \<not> cert_IsCA cert then Some (New ''signing certificate must have CA flag set to true'')
      else if and (cert_KeyUsage cert) KeyUsageCertSign = 0 then
        Some (New ''signing certificate must have 'keyCertSign' set as key usage'')
      else validateSigningCertificates signingCerts)"

definition validateLeafCertificate :: "charset \<Rightarrow> certificate \<Rightarrow> ID res" where
  "validateLeafCertificate cs leaf =
     bind_res (map_err (\<lambda>err. Opaque ''cannot get leaf certificate SPIFFE ID: %v'' [] err) (IDFromCert cs leaf))
       (\<lambda>leafID.
          if ID_Path leafID = '''' then Err (New ''leaf certificate SPIFFE ID must have a non-root path'')
          else if cert_IsCA leaf then Err (New ''leaf certificate must not have CA flag set to true'')
          else case validateKeyUsage leaf of Some err \<Rightarrow> Err err | None \<Rightarrow> Ok leafID)"

definition validateCertificates :: "charset \<Rightarrow> certificate list \<Rightarrow> ID res" where
  "validateCertificates cs certificates =
     (if length certificates = 0 then Err (New ''no certificates found'')
      else bind_res (validateLeafCertificate cs (certificates ! 0)) (\<lambda>leafID.
        case validateSigningCertificates (drop 1 certificates) of Some err \<Rightarrow> Err err | None \<Rightarrow> Ok leafID))"

definition newSVID :: "charset \<Rightarrow> certificate list \<Rightarrow> private_key option \<Rightarrow> x509svid_SVID res" where
  "newSVID cs certificates privateKey =
     bind_res (map_err (\<lambda>err. wrapX509svidErr (Opaque ''certificate validation failed: %v'' [] err))
         (validateCertificates cs certificates))
       (\<lambda>spiffeID. bind_res (map_err (\<lambda>err. wrapX509svidErr (Opaque ''private key validation failed: %v'' [] err))
           (validatePrivateKey privateKey (certificates ! 0)))
         (\<lambda>signer. Ok \<lparr>xs_ID = spiffeID, xs_Certificates = certificates, xs_PrivateKey = signer, xs_Hint = ''''\<rparr>))"

subsection \<open>Reading and writing\<close>

text \<open>\<^const>\<open>None\<close> is a PEM loop that does not end.\<close>

definition x509svid_Parse :: "charset \<Rightarrow> 't x509_lib \<Rightarrow> string \<Rightarrow> string \<Rightarrow> x509svid_SVID res option" where
  "x509svid_Parse cs lib certBytes keyBytes =
     (case ParseCertificates lib certBytes of
        None \<Rightarrow> None
      | Some (Panic e) \<Rightarrow> Some (Panic e)
      | Some (Err err) \<Rightarrow> Some (Err (wrapX509svidErr (Opaque ''cannot parse PEM encoded certificate: %v'' [] err)))
      | Some (Ok certs) \<Rightarrow>
          (case ParsePrivateKey lib keyBytes of
             None \<Rightarrow> None
           | Some (Panic e) \<Rightarrow> Some (Panic e)
           | Some (Err err) \<Rightarrow> Some (Err (wrapX509svidErr (Opaque ''cannot parse PEM encoded private key: %v'' [] err)))
           | Some (Ok privateKey) \<Rightarrow> Some (newSVID cs certs privateKey)))"

definition x509svid_Load ::
  "(string \<Rightarrow> string res) \<Rightarrow> charset \<Rightarrow> 't x509_lib \<Rightarrow> string \<Rightarrow> string \<Rightarrow> x509svid_SVID res option" where
  "x509svid_Load readFile cs lib certFile keyFile =
     (case bind_res (map_err (\<lambda>err. wrapX509svidErr (Wrap ''cannot read certificate file: %w'' [] err)) (readFile certFile))
        (\<lambda>certBytes. bind_res (map_err (\<lambda>err. wrapX509svidErr (Wrap ''cannot read key file: %w'' [] err)) (readFile keyFile))
          (\<lambda>keyBytes. Ok (certBytes, keyBytes))) of
        Err e \<Rightarrow> Some (Err e)
      | Panic e \<Rightarrow> Some (Panic e)
      | Ok (certBytes, keyBytes) \<Rightarrow> x509svid_Parse cs lib certBytes keyBytes)"

definition x509svid_ParseRaw :: "charset \<Rightarrow> 't x509_lib \<Rightarrow> string \<Rightarrow> string \<Rightarrow> x509svid_SVID res" where
  "x509svid_ParseRaw cs lib certBytes keyBytes =
     bind_res (map_err (\<lambda>err. wrapX509svidErr (Opaque ''cannot parse DER encoded certificate: %v'' [] err))
         (lib_ParseCertificates lib certBytes))
       (\<lambda>certificates. bind_res (map_err (\<lambda>err. wrapX509svidErr (Opaque ''cannot parse DER encoded private key: %v'' [] err))
           (lib_ParsePKCS8PrivateKey lib keyBytes))
         (\<lambda>privateKey. newSVID cs certificates (Some privateKey)))"

definition x509svid_Marshal :: "'t x509_lib \<Rightarrow> x509svid_SVID \<Rightarrow> (string \<times> string) res" where
  "x509svid_Marshal lib s =
     (if length (xs_Certificates s) = 0 then Err (wrapX509svidErr (New ''no certificates to marshal''))
      else let certBytes = EncodeCertificates lib (xs_Certificates s) in
        bind_res (map_err (\<lambda>err. wrapX509svidErr (Opaque ''cannot encode private key: %v'' [] err))
            (EncodePKCS8PrivateKey lib (xs_PrivateKey s)))
          (\<lambda>keyBytes. Ok (certBytes, keyBytes)))"

definition x509svid_MarshalRaw :: "'t x509_lib \<Rightarrow> x509svid_SVID \<Rightarrow> (string \<times> string) res" where
  "x509svid_MarshalRaw lib s =
     bind_res (map_err (\<lambda>err. wrapX509svidErr (Opaque ''cannot marshal private key: %v'' [] err))
         (lib_MarshalPKCS8PrivateKey lib (xs_PrivateKey s)))
       (\<lambda>key. if length (xs_Certificates s) = 0 then Err (wrapX509svidErr (New ''no certificates to marshal''))
              else Ok (ConcatRawCertsFromCerts (xs_Certificates s), key))"

definition x509svid_GetX509SVID :: "x509svid_SVID \<Rightarrow> x509svid_SVID res" where
  "x509svid_GetX509SVID s = Ok s"

subsection \<open>Verification of a chain\<close>

record 't verifyConfig =
  vc_now :: "'t option"

type_synonym 't VerifyOption = "'t verifyConfig \<Rightarrow> 't verifyConfig"

definition WithTime :: "'t \<Rightarrow> 't VerifyOption" where
  "WithTime now config = config\<lparr>vc_now := Some now\<rparr>"

type_synonym x509_source = "TrustDomain \<Rightarrow> x509bundle_Bundle res"

text \<open>The three results of the source: the ID (also returned with some errors), the chains and
  the error. A nil bundle source is \<^const>\<open>None\<close>; a source that panics makes the call panic.\<close>

type_synonym verify_result = "ID \<times> certificate list list \<times> error option"

definition x509svid_Verify ::
  "charset \<Rightarrow> 't x509_lib \<Rightarrow> certificate list \<Rightarrow> x509_source option \<Rightarrow> 't VerifyOption list \<Rightarrow> verify_result res" where
  "x509svid_Verify cs lib certs bundleSource opts =
     (let config = fold (\<lambda>opt c. opt c) opts \<lparr>vc_now = None\<rparr> in
      if length certs = 0 then Ok (zero_ID, [], Some (wrapX509svidErr (New ''empty certificates chain'')))
      else case bundleSource of
        None \<Rightarrow> Ok (zero_ID, [], Some (wrapX509svidErr (New ''bundleSource is required'')))
      | Some source \<Rightarrow>
          let leaf = certs ! 0 in
          case IDFromCert cs leaf of
            Panic e \<Rightarrow> Panic e
          | Err err \<Rightarrow> Ok (zero_ID, [], Some (wrapX509svidErr (Wrap ''could not get leaf SPIFFE ID: %w'' [] err)))
          | Ok spid \<Rightarrow>
              if cert_IsCA leaf then
                Ok (spid, [], Some (wrapX509svidErr (New ''leaf certificate with CA flag set to true'')))
              else if sint (and (cert_KeyUsage leaf) KeyUsageCertSign) > 0 then
                Ok (spid, [], Some (wrapX509svidErr (New ''leaf certificate with KeyCertSign key usage'')))
              else if sint (and (cert_KeyUsage leaf) KeyUsageCRLSign) > 0 then
                Ok (spid, [], Some (wrapX509svidErr (New ''leaf certificate with KeyCrlSign key usage'')))
              else case source (ID_TrustDomain spid) of
                Panic e \<Rightarrow> Panic e
              | Err err \<Rightarrow> Ok (spid, [], Some (wrapX509svidErr (Wrap ''could not get X509 bundle: %w'' [] err)))
              | Ok bundle \<Rightarrow>
                  (case lib_Verify lib leaf
                      \<lparr>vo_Roots = NewCertPool (x509bundle_X509Authorities bundle),
                       vo_Intermediates = NewCertPool (drop 1 certs),
                       vo_AnyKeyUsage = True, vo_CurrentTime = vc_now config\<rparr> of
                     Panic e \<Rightarrow> Panic e
                   | Err err \<Rightarrow> Ok (spid, [], Some (wrapX509svidErr (Wrap ''could not verify leaf certificate: %w'' [] err)))
                   | Ok verifiedChains \<Rightarrow> Ok (spid, verifiedChains, None)))"

definition x509svid_ParseAndVerify ::
  "charset \<Rightarrow> 't x509_lib \<Rightarrow> string list \<Rightarrow> x509_source option \<Rightarrow> 't VerifyOption list \<Rightarrow> verify_result res" where
  "x509svid_ParseAndVerify cs lib rawCerts bundleSource opts =
     (case mapM_res (\<lambda>rawCert. lib_ParseCertificate lib rawCert) rawCerts of
        Panic e \<Rightarrow> Panic e
      | Err err \<Rightarrow> Ok (zero_ID, [], Some (wrapX509svidErr (Wrap ''unable to parse certificate: %w'' [] err)))
      | Ok certs \<Rightarrow> x509svid_Verify cs lib certs bundleSource opts)"

section \<open>Lemmas\<close>

lemma IDFromCert_Ok_iff:
  "IDFromCert cs c = Ok spid \<longleftrightarrow> (\<exists>u. cert_URIs c = [u] \<and> FromURI cs u = Ok spid)"
  by (auto simp: IDFromCert_def length_Suc_conv dest: less_antisym
      intro: FromString_no_panic split: if_splits) (cases "cert_URIs c"; simp)+

lemma IDFromCert_no_panic: "IDFromCert cs c \<noteq> Panic e"
  by (auto simp: IDFromCert_def FromURI_def FromString_no_panic)

lemma IDFromCert_wf [inv_intros]: "IDFromCert cs c = Ok spid \<Longrightarrow> ID_wf cs spid"
  by (auto simp: IDFromCert_Ok_iff FromURI_wf)

text \<open>The public half of a private key, for the types the code supports.\<close>

fun public_of :: "private_key \<Rightarrow> public_key option" where
  "public_of (RSA_PrivateKey (RSA_PublicKey n e)) = Some (RSA_PublicKey n e)"
| "public_of (ECDSA_PrivateKey (ECDSA_PublicKey c x y)) = Some (ECDSA_PublicKey c x y)"
| "public_of (Ed25519_PrivateKey seed pub) = Some (Ed25519_PublicKey pub)"
| "public_of _ = None"

text \<open>A \<open>*rsa.PrivateKey\<close> embeds an RSA public key and a \<open>*ecdsa.PrivateKey\<close> an ECDSA one.\<close>

fun typed_key :: "private_key \<Rightarrow> bool" where
  "typed_key (RSA_PrivateKey p) = (case p of RSA_PublicKey _ _ \<Rightarrow> True | _ \<Rightarrow> False)"
| "typed_key (ECDSA_PrivateKey p) = (case p of ECDSA_PublicKey _ _ _ \<Rightarrow> True | _ \<Rightarrow> False)"
| "typed_key _ = True"

lemma keyMatches_iff:
  "typed_key k \<Longrightarrow> keyMatches k pub = (True, None) \<longleftrightarrow> public_of k = Some pub"
  by (cases k rule: public_of.cases; cases pub)
    (auto simp: rsaPublicKeyEqual_def ecdsaPublicKeyEqual_def)

lemma validatePrivateKey_Ok_iff:
  "(\<And>k. key = Some k \<Longrightarrow> typed_key k) \<Longrightarrow>
   validatePrivateKey key leaf = Ok k \<longleftrightarrow> key = Some k \<and> public_of k = Some (cert_PublicKey leaf)"
proof -
  assume t: "\<And>k. key = Some k \<Longrightarrow> typed_key k"
  have *: "public_of k = Some p \<Longrightarrow> is_signer k" for k p by (cases k rule: public_of.cases) auto
  show ?thesis
  proof (cases key)
    case (Some k')
    then have "typed_key k'" using t by simp
    from keyMatches_iff [OF this, of "cert_PublicKey leaf"] show ?thesis
      using Some * by (auto simp: validatePrivateKey_def split: prod.splits option.splits if_splits)
  qed (simp add: validatePrivateKey_def)
qed

lemma validateKeyUsage_None_iff:
  "validateKeyUsage leaf = None \<longleftrightarrow>
     bit (cert_KeyUsage leaf) 0 \<and> \<not> bit (cert_KeyUsage leaf) 5 \<and> \<not> bit (cert_KeyUsage leaf) 6"
  by (auto simp: validateKeyUsage_def KeyUsage_bits)

lemma validateSigningCertificates_None_iff:
  "validateSigningCertificates cs = None \<longleftrightarrow>
     list_all (\<lambda>c. cert_IsCA c \<and> bit (cert_KeyUsage c) 5) cs"
  by (induction cs) (auto simp: KeyUsage_bits)

text \<open>The conditions on an SVID chain and its key, in one place.\<close>

definition leaf_ok :: "charset \<Rightarrow> certificate \<Rightarrow> ID \<Rightarrow> bool" where
  "leaf_ok cs leaf spid \<longleftrightarrow> (\<exists>u. cert_URIs leaf = [u] \<and> FromURI cs u = Ok spid) \<and>
     \<not> cert_IsCA leaf \<and> \<not> bit (cert_KeyUsage leaf) 5 \<and> \<not> bit (cert_KeyUsage leaf) 6"

lemma validateCertificates_Ok_iff:
  "validateCertificates cs certs = Ok spid \<longleftrightarrow>
     (\<exists>leaf rest. certs = leaf # rest \<and> leaf_ok cs leaf spid \<and> bit (cert_KeyUsage leaf) 0 \<and> ID_Path spid \<noteq> [] \<and>
        list_all (\<lambda>c. cert_IsCA c \<and> bit (cert_KeyUsage c) 5) rest)"
proof (cases certs)
  case (Cons leaf rest)
  then show ?thesis
    using validateKeyUsage_None_iff [of leaf] validateSigningCertificates_None_iff [of rest]
    by (auto simp: validateCertificates_def validateLeafCertificate_def IDFromCert_Ok_iff leaf_ok_def
        split: option.splits if_splits)
qed (simp add: validateCertificates_def)

text \<open>A well-formed SVID: its ID is that of a leaf that is fit to sign, and the rest are signing
  certificates. Every SVID the package makes is one.\<close>

definition x509svid_wf :: "charset \<Rightarrow> x509svid_SVID \<Rightarrow> bool" where
  "x509svid_wf cs s \<longleftrightarrow> (\<exists>leaf rest. xs_Certificates s = leaf # rest \<and> leaf_ok cs leaf (xs_ID s) \<and>
     bit (cert_KeyUsage leaf) 0 \<and> ID_Path (xs_ID s) \<noteq> [] \<and>
     list_all (\<lambda>c. cert_IsCA c \<and> bit (cert_KeyUsage c) 5) rest)"

lemma newSVID_wf: "newSVID cs certs key = Ok s \<Longrightarrow> x509svid_wf cs s"
  by (auto simp: newSVID_def validateCertificates_Ok_iff x509svid_wf_def)

lemma x509svid_ParseRaw_wf: "x509svid_ParseRaw cs lib certBytes keyBytes = Ok s \<Longrightarrow> x509svid_wf cs s"
  by (auto simp: x509svid_ParseRaw_def newSVID_wf)

text \<open>
  What \<open>crypto/x509\<close> documents of \<open>Certificate.Verify\<close>: on success there is at least one chain,
  every chain starts with the leaf and ends with a root, and its inner certificates are among
  the intermediates and roots.
\<close>

definition verify_anchored :: "'t x509_lib \<Rightarrow> bool" where
  "verify_anchored lib \<longleftrightarrow> (\<forall>leaf opts chs. lib_Verify lib leaf opts = Ok chs \<longrightarrow>
     chs \<noteq> [] \<and> (\<forall>ch \<in> set chs. ch \<noteq> [] \<and> hd ch = leaf \<and> last ch \<in> set (vo_Roots opts) \<and>
       set (tl ch) \<subseteq> set (vo_Intermediates opts) \<union> set (vo_Roots opts)))"

lemma Verify_Ok_iff:
  "x509svid_Verify cs lib certs (Some src) opts = Ok (spid, chs, None) \<longleftrightarrow>
     (\<exists>leaf rest b. certs = leaf # rest \<and> leaf_ok cs leaf spid \<and> src (ID_TrustDomain spid) = Ok b \<and>
        lib_Verify lib leaf \<lparr>vo_Roots = NewCertPool (xb_x509Authorities b), vo_Intermediates = NewCertPool rest,
          vo_AnyKeyUsage = True, vo_CurrentTime = vc_now (fold (\<lambda>opt c. opt c) opts \<lparr>vc_now = None\<rparr>)\<rparr> = Ok chs)"
  (is "?L \<longleftrightarrow> ?R")
proof (cases certs)
  case (Cons leaf rest)
  show ?thesis
  proof
    assume ?L
    then show ?R using Cons
      by (auto simp: x509svid_Verify_def Let_def leaf_ok_def KeyUsage_bits x509bundle_X509Authorities_def
          IDFromCert_Ok_iff split: res.splits if_splits)
  next
    assume ?R
    moreover then have "IDFromCert cs leaf = Ok spid"
      using Cons by (auto simp: IDFromCert_Ok_iff leaf_ok_def)
    ultimately show ?L using Cons
      by (auto simp: x509svid_Verify_def Let_def leaf_ok_def KeyUsage_bits x509bundle_X509Authorities_def)
  qed
qed (simp add: x509svid_Verify_def)

lemma Verify_no_panic:
  assumes "\<And>t e. src t \<noteq> Panic e" "\<And>l o' e. lib_Verify lib l o' \<noteq> Panic e"
  shows "\<not> is_Panic (x509svid_Verify cs lib certs (Some src) opts)"
  using assms by (auto simp: x509svid_Verify_def Let_def IDFromCert_no_panic split: res.splits)

lemma Verify_anchored_chains:
  assumes "verify_anchored lib" "x509svid_Verify cs lib certs (Some src) opts = Ok (spid, chs, None)"
  shows "\<exists>b. src (ID_TrustDomain spid) = Ok b \<and> chs \<noteq> [] \<and>
    (\<forall>ch \<in> set chs. ch \<noteq> [] \<and> hd ch = hd certs \<and> last ch \<in> set (x509bundle_X509Authorities b) \<and>
      set (tl ch) \<subseteq> set (tl certs) \<union> set (x509bundle_X509Authorities b))"
proof -
  from assms(2) obtain leaf rest b where v: "certs = leaf # rest" "src (ID_TrustDomain spid) = Ok b"
      "lib_Verify lib leaf \<lparr>vo_Roots = NewCertPool (xb_x509Authorities b), vo_Intermediates = NewCertPool rest,
        vo_AnyKeyUsage = True, vo_CurrentTime = vc_now (fold (\<lambda>opt c. opt c) opts \<lparr>vc_now = None\<rparr>)\<rparr> = Ok chs"
    unfolding Verify_Ok_iff by blast
  from assms(1) v(3) have a: "chs \<noteq> []" "\<forall>ch \<in> set chs. ch \<noteq> [] \<and> hd ch = leaf \<and>
      last ch \<in> set (NewCertPool (xb_x509Authorities b)) \<and>
      set (tl ch) \<subseteq> set (NewCertPool rest) \<union> set (NewCertPool (xb_x509Authorities b))"
    unfolding verify_anchored_def by fastforce+
  then show ?thesis
    using v(1,2) NewCertPool_subset [of rest] NewCertPool_subset [of "xb_x509Authorities b"]
    by (fastforce simp: x509bundle_X509Authorities_def)
qed

section \<open>Properties\<close>

definition ex_leaf :: certificate where
  "ex_leaf = \<lparr>cert_Raw = ''leaf'',
     cert_URIs = [zero_URL\<lparr>url_Scheme := ''spiffe'', url_Host := ''td'', url_Path := ''/w''\<rparr>],
     cert_IsCA = False, cert_KeyUsage = KeyUsageDigitalSignature, cert_PublicKey = Ed25519_PublicKey ''pub''\<rparr>"

definition ex_root :: certificate where
  "ex_root = \<lparr>cert_Raw = ''root'', cert_URIs = [], cert_IsCA = True, cert_KeyUsage = KeyUsageCertSign,
     cert_PublicKey = Ed25519_PublicKey ''rootpub''\<rparr>"

text \<open>A small library: a PEM block is a tag character, the length in unary and the bytes.\<close>

definition ex_pem_Decode :: "string \<Rightarrow> (pem_block \<times> string) option" where
  "ex_pem_Decode s = (case s of
       [] \<Rightarrow> None
     | t # r \<Rightarrow> let n = length (takeWhile (\<lambda>c. c = CHR ''1'') r); r' = drop (Suc n) r in
         Some (\<lparr>pem_Type = (if t = CHR ''C'' then ''CERTIFICATE'' else ''PRIVATE KEY''),
                pem_Bytes = take n r'\<rparr>, drop n r'))"

definition ex_pem_Encode :: "pem_block \<Rightarrow> string" where
  "ex_pem_Encode b = hd (pem_Type b) # replicate (length (pem_Bytes b)) (CHR ''1'') @ CHR ''0'' # pem_Bytes b"

definition ex_lib :: "nat x509_lib" where
  "ex_lib = \<lparr>
     lib_pem_Decode = ex_pem_Decode,
     lib_pem_EncodeToMemory = ex_pem_Encode,
     lib_ParseCertificate = (\<lambda>r. if r = ''leaf'' then Ok ex_leaf else if r = ''root'' then Ok ex_root else Err (New ''bad'')),
     lib_ParseCertificates = (\<lambda>r. if r = ''leaf'' then Ok [ex_leaf] else if r = ''root'' then Ok [ex_root] else Err (New ''bad'')),
     lib_ParsePKCS8PrivateKey = (\<lambda>b. Ok (Ed25519_PrivateKey ''seed'' b)),
     lib_MarshalPKCS8PrivateKey = (\<lambda>k. case k of Ed25519_PrivateKey _ b \<Rightarrow> Ok b | _ \<Rightarrow> Err (New ''bad'')),
     lib_Verify = (\<lambda>leaf opts. if vo_Roots opts = [ex_root] then Ok [[leaf, ex_root]] else Err (New ''unknown authority''))\<rparr>"

definition ex_bundle :: x509bundle_Bundle where
  "ex_bundle = \<lparr>xb_trustDomain = TrustDomain ''td'', xb_x509Authorities = [ex_root]\<rparr>"

lemma ex_lib_anchored: "verify_anchored ex_lib"
  by (auto simp: verify_anchored_def ex_lib_def split: if_splits)

lemma ex_lib_pem: "pem_decode_encode ex_lib"
proof -
  have "takeWhile (\<lambda>c. c = CHR ''1'') (replicate n (CHR ''1'') @ CHR ''0'' # r) = replicate n (CHR ''1'')" for n r
    by (induction n) auto
  then have "ex_pem_Decode (ex_pem_Encode blk @ rest) = Some (blk, rest)"
    if "pem_Type blk \<in> {''CERTIFICATE'', ''PRIVATE KEY''}" for blk rest
    using that by (auto simp: ex_pem_Decode_def ex_pem_Encode_def Let_def)
  then show ?thesis by (simp add: pem_decode_encode_def ex_lib_def) (simp add: ex_pem_Encode_def)
qed

lemma ex_leaf_ID: "FromURI Backcompat_Deny (hd (cert_URIs ex_leaf)) = Ok (mk_ID ''td'' ''/w'')"
  by (simp add: ex_leaf_def) code_simp

lemma ex_leaf_ok: "leaf_ok Backcompat_Deny ex_leaf (mk_ID ''td'' ''/w'')"
  using ex_leaf_ID by (simp add: leaf_ok_def ex_leaf_def KeyUsageDigitalSignature_def bit_simps)

text \<open>
  C14: \<open>newSVID\<close> accepts a chain and a key exactly when the chain is not empty, its leaf has
  exactly one URI SAN and that is a SPIFFE ID with a path, the leaf is no CA, may sign data but
  neither certificates nor CRLs, every other certificate is a CA with \<open>keyCertSign\<close>, and the
  key is the private half of the leaf's public key. The SVID carries that ID, chain and key.
\<close>
theorem newSVID_accepts:
  assumes "\<And>k. key = Some k \<Longrightarrow> typed_key k"
  shows "newSVID cs certs key = Ok s \<longleftrightarrow>
    (\<exists>leaf rest k. certs = leaf # rest \<and> key = Some k \<and> leaf_ok cs leaf (xs_ID s) \<and>
       bit (cert_KeyUsage leaf) 0 \<and> ID_Path (xs_ID s) \<noteq> [] \<and>
       list_all (\<lambda>c. cert_IsCA c \<and> bit (cert_KeyUsage c) 5) rest \<and> public_of k = Some (cert_PublicKey leaf) \<and>
       xs_Certificates s = certs \<and> xs_PrivateKey s = k \<and> xs_Hint s = [])"
  using assms
  by (auto simp: newSVID_def validateCertificates_Ok_iff validatePrivateKey_Ok_iff)

theorem newSVID_accepts_witness:
  "newSVID Backcompat_Deny [ex_leaf] (Some (Ed25519_PrivateKey ''seed'' ''pub'')) =
     Ok \<lparr>xs_ID = mk_ID ''td'' ''/w'', xs_Certificates = [ex_leaf],
         xs_PrivateKey = Ed25519_PrivateKey ''seed'' ''pub'', xs_Hint = []\<rparr>"
proof (subst newSVID_accepts)
  show "\<exists>leaf rest k. [ex_leaf] = leaf # rest \<and> Some (Ed25519_PrivateKey ''seed'' ''pub'') = Some k \<and>
      leaf_ok Backcompat_Deny leaf (xs_ID \<lparr>xs_ID = mk_ID ''td'' ''/w'', xs_Certificates = [ex_leaf],
         xs_PrivateKey = Ed25519_PrivateKey ''seed'' ''pub'', xs_Hint = []\<rparr>) \<and> bit (cert_KeyUsage leaf) 0 \<and>
      ID_Path (xs_ID \<lparr>xs_ID = mk_ID ''td'' ''/w'', xs_Certificates = [ex_leaf],
         xs_PrivateKey = Ed25519_PrivateKey ''seed'' ''pub'', xs_Hint = []\<rparr>) \<noteq> [] \<and>
      list_all (\<lambda>c. cert_IsCA c \<and> bit (cert_KeyUsage c) 5) rest \<and> public_of k = Some (cert_PublicKey leaf) \<and>
      xs_Certificates \<lparr>xs_ID = mk_ID ''td'' ''/w'', xs_Certificates = [ex_leaf],
         xs_PrivateKey = Ed25519_PrivateKey ''seed'' ''pub'', xs_Hint = []\<rparr> = [ex_leaf] \<and>
      xs_PrivateKey \<lparr>xs_ID = mk_ID ''td'' ''/w'', xs_Certificates = [ex_leaf],
         xs_PrivateKey = Ed25519_PrivateKey ''seed'' ''pub'', xs_Hint = []\<rparr> = k \<and>
      xs_Hint \<lparr>xs_ID = mk_ID ''td'' ''/w'', xs_Certificates = [ex_leaf],
         xs_PrivateKey = Ed25519_PrivateKey ''seed'' ''pub'', xs_Hint = []\<rparr> = []"
    using ex_leaf_ok by (simp add: ex_leaf_def KeyUsageDigitalSignature_def bit_simps)
qed simp

text \<open>
  C17: An SVID that was accepted and marshaled to PEM is parsed back to the same SVID, given that
  the PEM and DER libraries read what they wrote (the hint, which is not marshaled, apart).
\<close>
theorem x509svid_roundtrip:
  assumes "newSVID cs certs key = Ok s" "pem_decode_encode lib" "list_all (cert_parses lib) certs"
    and "key_parses lib (xs_PrivateKey s) b" "x509svid_Marshal lib s = Ok (certBytes, keyBytes)"
  shows "x509svid_Parse cs lib certBytes keyBytes = Some (Ok s)"
proof -
  have s: "xs_Certificates s = certs" "Some (xs_PrivateKey s) = key" "certs \<noteq> []"
    using assms(1) by (auto simp: newSVID_def validatePrivateKey_def validateCertificates_def
        split: option.splits prod.splits if_splits)
  have "ParseCertificates lib certBytes = Some (Ok certs)"
    using ParseCertificates_Encode [OF assms(2,3) s(3)] assms(5) s
    by (auto simp: x509svid_Marshal_def Let_def split: if_splits)
  moreover have "ParsePrivateKey lib keyBytes = Some (Ok key)"
    using ParsePrivateKey_Encode [OF assms(2,4)] assms(5) s
    by (auto simp: x509svid_Marshal_def Let_def split: if_splits)
  ultimately show ?thesis using assms(1) by (simp add: x509svid_Parse_def)
qed

theorem x509svid_roundtrip_witness:
  "\<exists>certBytes keyBytes s. newSVID Backcompat_Deny [ex_leaf] (Some (Ed25519_PrivateKey ''seed'' ''pub'')) = Ok s \<and>
     x509svid_Marshal ex_lib s = Ok (certBytes, keyBytes) \<and>
     x509svid_Parse Backcompat_Deny ex_lib certBytes keyBytes = Some (Ok s)"
proof -
  let ?k = "Ed25519_PrivateKey ''seed'' ''pub''"
  let ?s = "\<lparr>xs_ID = mk_ID ''td'' ''/w'', xs_Certificates = [ex_leaf], xs_PrivateKey = ?k, xs_Hint = []\<rparr>"
  have new: "newSVID Backcompat_Deny [ex_leaf] (Some ?k) = Ok ?s"
    using ex_leaf_ok
    by (auto simp: newSVID_def validateCertificates_Ok_iff validatePrivateKey_def ex_leaf_def
        KeyUsageDigitalSignature_def bit_simps)
  have m: "x509svid_Marshal ex_lib ?s = Ok (EncodeCertificates ex_lib [ex_leaf],
      lib_pem_EncodeToMemory ex_lib \<lparr>pem_Type = keyType, pem_Bytes = ''pub''\<rparr>)"
    by (simp add: x509svid_Marshal_def EncodePKCS8PrivateKey_def ex_lib_def)
  have "list_all (cert_parses ex_lib) [ex_leaf]" "key_parses ex_lib (xs_PrivateKey ?s) ''pub''"
    by (simp_all add: cert_parses_def ex_lib_def key_parses_def ex_leaf_def)
  from x509svid_roundtrip [OF new ex_lib_pem this m] new m show ?thesis by blast
qed

text \<open>
  C10: The central trust property of verification. When \<open>Verify\<close> succeeds against a set of
  bundles, the returned ID is the single SPIFFE ID of the leaf, the leaf is no CA, and every
  returned chain starts at the leaf and ends in an authority of the bundle of that ID's
  trust domain: the authority of one trust domain never vouches for an ID of another.
\<close>
theorem Verify_trust_domain:
  assumes "verify_anchored lib"
    and "x509svid_Verify cs lib certs (Some (x509bundle_Set_GetX509BundleForTrustDomain (x509bundle_NewSet bs))) opts
      = Ok (spid, chs, None)"
  shows "ID_wf cs spid \<and> leaf_ok cs (hd certs) spid \<and> chs \<noteq> [] \<and>
    (\<exists>b. Some b \<in> set bs \<and> x509bundle_TrustDomain b = ID_TrustDomain spid \<and>
      (\<forall>ch \<in> set chs. ch \<noteq> [] \<and> hd ch = hd certs \<and> last ch \<in> set (x509bundle_X509Authorities b)))"
proof -
  let ?s = "x509bundle_NewSet bs"
  from Verify_anchored_chains [OF assms] obtain b where
    b: "x509bundle_Set_GetX509BundleForTrustDomain ?s (ID_TrustDomain spid) = Ok b" "chs \<noteq> []"
      "\<forall>ch \<in> set chs. ch \<noteq> [] \<and> hd ch = hd certs \<and> last ch \<in> set (x509bundle_X509Authorities b)"
    by blast
  have td: "x509bundle_TrustDomain b = ID_TrustDomain spid"
    using x509_set_source.get_for_td [OF x509_set.inv_new_all b(1)] .
  have "x509bundle_Set_Get ?s (ID_TrustDomain spid) = Some b"
    using b(1) by (simp add: x509bundle_Set_GetX509BundleForTrustDomain_def x509bundle_Set_Get_def split: option.splits)
  then have "Some b \<in> set bs"
    by (auto simp: x509_set.get_new_all List.map_filter_def dest!: map_of_SomeD)
  moreover have "leaf_ok cs (hd certs) spid" using assms(2) by (auto simp: Verify_Ok_iff)
  ultimately show ?thesis using b td by (auto simp: leaf_ok_def FromURI_wf)
qed

theorem Verify_trust_domain_witness:
  "\<exists>chs. x509svid_Verify Backcompat_Deny ex_lib [ex_leaf]
      (Some (x509bundle_Set_GetX509BundleForTrustDomain (x509bundle_NewSet [Some ex_bundle]))) [] =
      Ok (mk_ID ''td'' ''/w'', chs, None) \<and> chs \<noteq> []"
proof -
  have "x509bundle_Set_GetX509BundleForTrustDomain (x509bundle_NewSet [Some ex_bundle]) (TrustDomain ''td'') = Ok ex_bundle"
    by (simp add: x509bundle_Set_GetX509BundleForTrustDomain_def x509bundle_NewSet_def ex_bundle_def)
  then have "x509svid_Verify Backcompat_Deny ex_lib [ex_leaf]
      (Some (x509bundle_Set_GetX509BundleForTrustDomain (x509bundle_NewSet [Some ex_bundle]))) [] =
      Ok (mk_ID ''td'' ''/w'', [[ex_leaf, ex_root]], None)"
    using ex_leaf_ok unfolding Verify_Ok_iff
    by (intro exI [of _ ex_leaf] exI [of _ "[]"] exI [of _ ex_bundle])
      (simp add: ex_lib_def ex_bundle_def NewCertPool_def CertPool_AddCert_def)
  with Verify_trust_domain [OF ex_lib_anchored this] show ?thesis by blast
qed

end
