(* ===== verification/Jwt_Lib.thy ===== *)
theory Jwt_Lib
  imports Jose_Types
begin

text \<open>
  JSON values and the part of \<open>go-jose\<close> that the JWT-SVID and WIT-SVID packages call. The
  library is a parameter: \<open>jose_lib\<close> has one field per function, and the named hypotheses
  state what its documentation promises. A token keeps its headers, which the code reads, and
  an opaque body.
\<close>

datatype json =
    JString string
  | JNumber int
  | JBool bool
  | JNull
  | JArray "json list"
  | JObject "(string \<times> json) list"

record jose_header =
  hd_KeyID :: string
  hd_ExtraHeaders :: "(string, json) gomap"

record 'body jwt_token =
  tok_Headers :: "jose_header list"
  tok_body :: 'body

text \<open>\<open>jwt.Claims\<close>; dates are seconds since the epoch.\<close>

record Claims =
  cl_Issuer :: string
  cl_Subject :: string
  cl_Audience :: "string list"
  cl_Expiry :: "int option"
  cl_NotBefore :: "int option"
  cl_IssuedAt :: "int option"

record Expected =
  ex_AnyAudience :: "string list"
  ex_Time :: int

text \<open>A decoded JSON Web Key: the key and whether it is public.\<close>

record parsed_jwk =
  pj_Key :: public_key
  pj_IsPublic :: bool

record 'body jose_lib =
  lib_ParseSigned :: "string \<Rightarrow> string list \<Rightarrow> 'body jwt_token res"
  lib_UnsafeClaims :: "'body jwt_token \<Rightarrow> Claims res"
  lib_UnsafeClaimsMap :: "'body jwt_token \<Rightarrow> (string, json) gomap res"
  lib_Claims :: "'body jwt_token \<Rightarrow> public_key \<Rightarrow> (string, json) gomap res"
  lib_Validate :: "Claims \<Rightarrow> Expected \<Rightarrow> error option"
  lib_ErrExpired :: error
  lib_ErrNotValidYet :: error
  lib_ErrInvalidAudience :: error
  lib_json_Marshal :: "json \<Rightarrow> string res"
  lib_jwk_UnmarshalJSON :: "string \<Rightarrow> parsed_jwk res"

definition HeaderType :: string where "HeaderType = ''typ''"

definition allowedSignatureAlgorithms :: "string list" where
  "allowedSignatureAlgorithms =
     [''RS256'', ''RS384'', ''RS512'', ''ES256'', ''ES384'', ''ES512'', ''PS256'', ''PS384'', ''PS512'']"

text \<open>\<open>tok.Headers[0]\<close>: indexing an empty slice panics.\<close>

definition first_header :: "'b jwt_token \<Rightarrow> jose_header res" where
  "first_header tok = (case tok_Headers tok of
     [] \<Rightarrow> Panic (New ''index out of range [0] with length 0'') | h # _ \<Rightarrow> Ok h)"

text \<open>
  Documented behaviour. A parsed compact token has one signature, hence a header. \<open>Validate\<close>
  (with its default leeway of one minute) accepts only unexpired claims, and, when audiences
  are expected, only claims that name one of them. No library call panics.
\<close>

definition parsed_has_header :: "'b jose_lib \<Rightarrow> bool" where
  "parsed_has_header lib \<longleftrightarrow>
     (\<forall>s algs tok. lib_ParseSigned lib s algs = Ok tok \<longrightarrow> tok_Headers tok \<noteq> [])"

definition validate_checks :: "'b jose_lib \<Rightarrow> bool" where
  "validate_checks lib \<longleftrightarrow> (\<forall>c e. lib_Validate lib c e = None \<longrightarrow>
     (\<forall>t. cl_Expiry c = Some t \<longrightarrow> ex_Time e \<le> t + 60) \<and>
     (ex_AnyAudience e \<noteq> [] \<longrightarrow> set (ex_AnyAudience e) \<inter> set (cl_Audience c) \<noteq> {}))"

definition jose_no_panic :: "'b jose_lib \<Rightarrow> bool" where
  "jose_no_panic lib \<longleftrightarrow>
     (\<forall>s algs. \<not> is_Panic (lib_ParseSigned lib s algs)) \<and> (\<forall>t. \<not> is_Panic (lib_UnsafeClaims lib t)) \<and>
     (\<forall>t. \<not> is_Panic (lib_UnsafeClaimsMap lib t)) \<and> (\<forall>t k. \<not> is_Panic (lib_Claims lib t k)) \<and>
     (\<forall>j. \<not> is_Panic (lib_json_Marshal lib j)) \<and> (\<forall>s. \<not> is_Panic (lib_jwk_UnmarshalJSON lib s))"

lemma first_header_Ok_iff: "first_header tok = Ok h \<longleftrightarrow> (\<exists>hs. tok_Headers tok = h # hs)"
  by (auto simp: first_header_def split: list.splits)

lemma first_header_no_panic:
  "parsed_has_header lib \<Longrightarrow> lib_ParseSigned lib s algs = Ok tok \<Longrightarrow> first_header tok \<noteq> Panic e"
  by (auto simp: first_header_def parsed_has_header_def split: list.splits)

lemma validate_checksD:
  assumes "validate_checks lib" "lib_Validate lib c e = None"
  shows "cl_Expiry c = Some t \<Longrightarrow> ex_Time e \<le> t + 60"
    and "ex_AnyAudience e \<noteq> [] \<Longrightarrow> set (ex_AnyAudience e) \<inter> set (cl_Audience c) \<noteq> {}"
  using assms unfolding validate_checks_def by blast+

end
