(* ===== verification/Jwtsvid.thy ===== *)
theory Jwtsvid
  imports Jwtbundle Jwt_Lib
begin

text \<open>
  Package \<open>svid/jwtsvid\<close>: parsing and validation of JWT-SVIDs. The clock reading \<open>time.Now()\<close>
  is an argument of the definitions.
\<close>

section \<open>Definitions\<close>

record jwtsvid_SVID =
  js_ID :: ID
  js_Audience :: "string list"
  js_Expiry :: int
  js_Claims :: "(string, json) gomap"
  js_Hint :: string
  js_token :: string

definition wrapJwtsvidErr :: "error \<Rightarrow> error" where
  "wrapJwtsvidErr err = Wrap ''jwtsvid: %w'' [] err"

type_synonym 'b tokenValidator = "'b jwt_token \<Rightarrow> TrustDomain \<Rightarrow> (string, json) gomap res"

definition jwtsvid_typ_forbidden :: "jose_header \<Rightarrow> bool" where
  "jwtsvid_typ_forbidden h \<longleftrightarrow> (case gm_get (hd_ExtraHeaders h) HeaderType of
     None \<Rightarrow> False | Some typ \<Rightarrow> typ \<noteq> JString ''JOSE'' \<and> typ \<noteq> JString ''JWT'')"

definition jwtsvid_parse ::
  "charset \<Rightarrow> 'b jose_lib \<Rightarrow> int \<Rightarrow> string \<Rightarrow> string list \<Rightarrow> 'b tokenValidator \<Rightarrow> jwtsvid_SVID res" where
  "jwtsvid_parse cs lib now token audience getClaims =
     bind_res (map_err (\<lambda>_. wrapJwtsvidErr (New ''unable to parse JWT token''))
         (lib_ParseSigned lib token allowedSignatureAlgorithms)) (\<lambda>tok.
     bind_res (first_header tok) (\<lambda>h.
       if jwtsvid_typ_forbidden h then
         Err (wrapJwtsvidErr (New ''token header type not equal to either JWT or JOSE''))
       else
     bind_res (map_err (\<lambda>err. wrapJwtsvidErr (Opaque ''unable to get claims from token: %v'' [] err))
         (lib_UnsafeClaims lib tok)) (\<lambda>claims.
       if cl_Subject claims = '''' then Err (wrapJwtsvidErr (New ''token missing subject claim''))
       else case cl_Expiry claims of
         None \<Rightarrow> Err (wrapJwtsvidErr (New ''token missing exp claim''))
       | Some expiry \<Rightarrow>
     bind_res (map_err (\<lambda>err. wrapJwtsvidErr (Opaque ''token has an invalid subject claim: %v'' [] err))
         (FromString cs (cl_Subject claims))) (\<lambda>spiffeID.
     bind_res (getClaims tok (ID_TrustDomain spiffeID)) (\<lambda>claimsMap.
       case lib_Validate lib claims \<lparr>ex_AnyAudience = audience, ex_Time = now\<rparr> of
         Some err \<Rightarrow>
           Err (if err = lib_ErrExpired lib then wrapJwtsvidErr (New ''token has expired'')
                else if err = lib_ErrInvalidAudience lib then
                  wrapJwtsvidErr (Errorf ''expected audience in %q (audience=%q)'' (audience @ cl_Audience claims))
                else err)
       | None \<Rightarrow> Ok \<lparr>js_ID = spiffeID, js_Audience = cl_Audience claims, js_Expiry = expiry,
                    js_Claims = claimsMap, js_Hint = '''', js_token = token\<rparr>)))))"

definition jwtsvid_verifyClaims ::
  "'b jose_lib \<Rightarrow> (TrustDomain \<Rightarrow> jwtbundle_Bundle res) \<Rightarrow> 'b tokenValidator" where
  "jwtsvid_verifyClaims lib bundles tok trustDomain =
     bind_res (first_header tok) (\<lambda>h.
       let keyID = hd_KeyID h in
       if keyID = '''' then Err (wrapJwtsvidErr (New ''token header missing key id''))
       else
     bind_res (map_err (\<lambda>_. wrapJwtsvidErr (Errorf ''no bundle found for trust domain %q'' [TrustDomain_String trustDomain]))
         (bundles trustDomain)) (\<lambda>bundle.
       case jwtbundle_FindJWTAuthority bundle keyID of
         None \<Rightarrow> Err (wrapJwtsvidErr (Errorf ''no JWT authority %q found for trust domain %q'' [keyID, TrustDomain_String trustDomain]))
       | Some authority \<Rightarrow>
     bind_res (map_err (\<lambda>err. wrapJwtsvidErr (Opaque ''unable to get claims from token: %v'' [] err))
         (lib_Claims lib tok authority)) (\<lambda>claimsMap. Ok claimsMap)))"

definition jwtsvid_ParseAndValidate ::
  "charset \<Rightarrow> 'b jose_lib \<Rightarrow> int \<Rightarrow> string \<Rightarrow> (TrustDomain \<Rightarrow> jwtbundle_Bundle res) \<Rightarrow> string list \<Rightarrow> jwtsvid_SVID res" where
  "jwtsvid_ParseAndValidate cs lib now token bundles audience =
     jwtsvid_parse cs lib now token audience (jwtsvid_verifyClaims lib bundles)"

definition jwtsvid_ParseInsecure ::
  "charset \<Rightarrow> 'b jose_lib \<Rightarrow> int \<Rightarrow> string \<Rightarrow> string list \<Rightarrow> jwtsvid_SVID res" where
  "jwtsvid_ParseInsecure cs lib now token audience =
     jwtsvid_parse cs lib now token audience (\<lambda>tok td.
       bind_res (map_err (\<lambda>err. wrapJwtsvidErr (Opaque ''unable to get claims from token: %v'' [] err))
         (lib_UnsafeClaimsMap lib tok)) (\<lambda>claimsMap. Ok claimsMap))"

definition jwtsvid_Marshal :: "jwtsvid_SVID \<Rightarrow> string" where
  "jwtsvid_Marshal svid = js_token svid"

section \<open>Lemmas\<close>

lemma jwtsvid_parse_Ok_iff:
  "jwtsvid_parse cs lib now token audience getClaims = Ok svid \<longleftrightarrow>
    (\<exists>tok h hs c. lib_ParseSigned lib token allowedSignatureAlgorithms = Ok tok \<and> tok_Headers tok = h # hs \<and>
       \<not> jwtsvid_typ_forbidden h \<and> lib_UnsafeClaims lib tok = Ok c \<and> cl_Subject c \<noteq> [] \<and>
       cl_Expiry c = Some (js_Expiry svid) \<and> FromString cs (cl_Subject c) = Ok (js_ID svid) \<and>
       getClaims tok (ID_TrustDomain (js_ID svid)) = Ok (js_Claims svid) \<and>
       lib_Validate lib c \<lparr>ex_AnyAudience = audience, ex_Time = now\<rparr> = None \<and>
       js_Audience svid = cl_Audience c \<and> js_Hint svid = [] \<and> js_token svid = token)"
  unfolding jwtsvid_parse_def
  by (cases svid) (fastforce simp: first_header_Ok_iff split: if_splits option.splits)

lemma jwtsvid_verifyClaims_Ok_iff:
  "jwtsvid_verifyClaims lib bundles tok td = Ok m \<longleftrightarrow>
    (\<exists>h hs b a. tok_Headers tok = h # hs \<and> hd_KeyID h \<noteq> [] \<and> bundles td = Ok b \<and>
       jwtbundle_FindJWTAuthority b (hd_KeyID h) = Some a \<and> lib_Claims lib tok a = Ok m)"
  unfolding jwtsvid_verifyClaims_def Let_def
  by (cases "tok_Headers tok") (fastforce simp: first_header_def split: if_splits option.splits)+

text \<open>What an accepted token has been checked for, with any source of bundles.\<close>

lemma jwtsvid_ParseAndValidate_checked:
  assumes "validate_checks lib" "jwtsvid_ParseAndValidate cs lib now token bundles audience = Ok svid"
  obtains tok h hs b a where "lib_ParseSigned lib token allowedSignatureAlgorithms = Ok tok" "tok_Headers tok = h # hs"
    "\<not> jwtsvid_typ_forbidden h" "bundles (ID_TrustDomain (js_ID svid)) = Ok b"
    "jwtbundle_FindJWTAuthority b (hd_KeyID h) = Some a" "lib_Claims lib tok a = Ok (js_Claims svid)"
    "ID_wf cs (js_ID svid)" "js_ID svid \<noteq> zero_ID" "now \<le> js_Expiry svid + 60"
    "audience \<noteq> [] \<longrightarrow> set audience \<inter> set (js_Audience svid) \<noteq> {}" "jwtsvid_Marshal svid = token"
proof -
  from assms(2) obtain tok h hs c where p: "lib_ParseSigned lib token allowedSignatureAlgorithms = Ok tok"
      "tok_Headers tok = h # hs" "\<not> jwtsvid_typ_forbidden h" "cl_Expiry c = Some (js_Expiry svid)"
      "FromString cs (cl_Subject c) = Ok (js_ID svid)"
      "jwtsvid_verifyClaims lib bundles tok (ID_TrustDomain (js_ID svid)) = Ok (js_Claims svid)"
      "lib_Validate lib c \<lparr>ex_AnyAudience = audience, ex_Time = now\<rparr> = None" "js_Audience svid = cl_Audience c"
      "js_token svid = token"
    unfolding jwtsvid_ParseAndValidate_def jwtsvid_parse_Ok_iff by blast
  from p(2,6) obtain b a where b: "bundles (ID_TrustDomain (js_ID svid)) = Ok b"
      "jwtbundle_FindJWTAuthority b (hd_KeyID h) = Some a" "lib_Claims lib tok a = Ok (js_Claims svid)"
    unfolding jwtsvid_verifyClaims_Ok_iff by auto
  have "now \<le> js_Expiry svid + 60" "audience \<noteq> [] \<longrightarrow> set audience \<inter> set (js_Audience svid) \<noteq> {}"
    using validate_checksD [OF assms(1) p(7)] p(4,8) by simp_all
  then show ?thesis
    using that [OF p(1-3) b] p(9) FromString_wf [OF p(5)] FromString_nonempty [OF p(5)]
    unfolding jwtsvid_Marshal_def by blast
qed

text \<open>Parsing panics only where the validator does.\<close>

lemma jwtsvid_parse_no_panic:
  assumes "jose_no_panic lib" "parsed_has_header lib"
    and "\<And>tok td. lib_ParseSigned lib token allowedSignatureAlgorithms = Ok tok \<Longrightarrow> \<not> is_Panic (g tok td)"
  shows "\<not> is_Panic (jwtsvid_parse cs lib now token audience g)"
proof (rule notI)
  assume "is_Panic (jwtsvid_parse cs lib now token audience g)"
  then obtain e where "jwtsvid_parse cs lib now token audience g = Panic e"
    by (cases "jwtsvid_parse cs lib now token audience g") auto
  then show False using assms FromString_no_panic [of cs]
    by (auto simp: jwtsvid_parse_def bind_res_Panic_iff map_err_Panic_iff jose_no_panic_def is_Panic_iff
        first_header_no_panic split: if_splits option.splits)
qed

lemma jwtsvid_ParseAndValidate_no_panic:
  assumes "jose_no_panic lib" "parsed_has_header lib" "\<And>td. \<not> is_Panic (bundles td)"
  shows "\<not> is_Panic (jwtsvid_ParseAndValidate cs lib now token bundles audience)"
  unfolding jwtsvid_ParseAndValidate_def
proof (rule jwtsvid_parse_no_panic [OF assms(1,2)])
  fix tok td assume "lib_ParseSigned lib token allowedSignatureAlgorithms = Ok tok"
  then show "\<not> is_Panic (jwtsvid_verifyClaims lib bundles tok td)"
    using first_header_no_panic [OF assms(2)] assms(1,3)
    by (auto simp: jwtsvid_verifyClaims_def is_Panic_iff bind_res_Panic_iff map_err_Panic_iff jose_no_panic_def Let_def
        split: if_splits option.splits)
qed

section \<open>Properties\<close>

text \<open>A library for the examples: the body of a token is its claims and the key that signed it.\<close>

definition jwt_ex_lib :: "(string \<times> public_key) jose_lib" where
  "jwt_ex_lib = \<lparr>
     lib_ParseSigned = (\<lambda>s algs. if s = ''tok'' then
        Ok \<lparr>tok_Headers = [\<lparr>hd_KeyID = ''k1'', hd_ExtraHeaders = [(''typ'', JString ''JWT'')]\<rparr>],
            tok_body = (''spiffe://td/w'', Ed25519_PublicKey ''a'')\<rparr> else Err (New ''bad'')),
     lib_UnsafeClaims = (\<lambda>t. Ok \<lparr>cl_Issuer = [], cl_Subject = fst (tok_body t), cl_Audience = [''aud''],
        cl_Expiry = Some 100, cl_NotBefore = None, cl_IssuedAt = None\<rparr>),
     lib_UnsafeClaimsMap = (\<lambda>t. Ok [(''sub'', JString (fst (tok_body t)))]),
     lib_Claims = (\<lambda>t k. if k = snd (tok_body t) then Ok [(''sub'', JString (fst (tok_body t)))] else Err (New ''bad signature'')),
     lib_Validate = (\<lambda>c e. case cl_Expiry c of Some t \<Rightarrow>
          (if t + 60 < ex_Time e then Some (New ''expired'')
           else if ex_AnyAudience e \<noteq> [] \<and> set (ex_AnyAudience e) \<inter> set (cl_Audience c) = {} then Some (New ''aud'')
           else None) | None \<Rightarrow> Some (New ''expired'')),
     lib_ErrExpired = New ''expired'', lib_ErrNotValidYet = New ''nbf'', lib_ErrInvalidAudience = New ''aud'',
     lib_json_Marshal = (\<lambda>_. Ok ''{}''), lib_jwk_UnmarshalJSON = (\<lambda>_. Err (New ''bad''))\<rparr>"

definition jwt_ex_bundle :: jwtbundle_Bundle where
  "jwt_ex_bundle = \<lparr>jb_trustDomain = TrustDomain ''td'', jb_jwtAuthorities = [(''k1'', Ed25519_PublicKey ''a'')]\<rparr>"

text \<open>
  What a token that \<open>ParseAndValidate\<close> accepts has been checked for, against a set of
  bundles: the subject is the SVID's ID; a bundle of the ID's own trust domain, in the set,
  holds an authority under the token's key ID, and the claims were verified with that
  authority; the token is not expired (within the library's leeway), and it names one of
  the expected audiences when there are any; the \<open>typ\<close> header is absent, \<open>JWT\<close> or \<open>JOSE\<close>.
\<close>
theorem jwtsvid_ParseAndValidate_sound:
  assumes "validate_checks lib"
    and "jwtsvid_ParseAndValidate cs lib now token
      (jwtbundle_Set_GetJWTBundleForTrustDomain (jwtbundle_NewSet bs)) audience = Ok svid"
  shows "\<exists>tok h hs b a. lib_ParseSigned lib token allowedSignatureAlgorithms = Ok tok \<and>
    tok_Headers tok = h # hs \<and> \<not> jwtsvid_typ_forbidden h \<and>
    Some b \<in> set bs \<and> jwtbundle_TrustDomain b = ID_TrustDomain (js_ID svid) \<and>
    jwtbundle_FindJWTAuthority b (hd_KeyID h) = Some a \<and> lib_Claims lib tok a = Ok (js_Claims svid) \<and>
    ID_wf cs (js_ID svid) \<and> js_ID svid \<noteq> zero_ID \<and> now \<le> js_Expiry svid + 60 \<and>
    (audience \<noteq> [] \<longrightarrow> set audience \<inter> set (js_Audience svid) \<noteq> {}) \<and> jwtsvid_Marshal svid = token"
proof -
  let ?s = "jwtbundle_NewSet bs"
  from assms obtain tok h hs b a where p: "lib_ParseSigned lib token allowedSignatureAlgorithms = Ok tok"
      "tok_Headers tok = h # hs" "\<not> jwtsvid_typ_forbidden h"
      "jwtbundle_Set_GetJWTBundleForTrustDomain ?s (ID_TrustDomain (js_ID svid)) = Ok b"
      "jwtbundle_FindJWTAuthority b (hd_KeyID h) = Some a" "lib_Claims lib tok a = Ok (js_Claims svid)"
      "ID_wf cs (js_ID svid)" "js_ID svid \<noteq> zero_ID" "now \<le> js_Expiry svid + 60"
      "audience \<noteq> [] \<longrightarrow> set audience \<inter> set (js_Audience svid) \<noteq> {}" "jwtsvid_Marshal svid = token"
    by (rule jwtsvid_ParseAndValidate_checked)
  have "jwtbundle_TrustDomain b = ID_TrustDomain (js_ID svid)"
    using jwt_set_source.get_for_td [OF jwt_set.inv_new_all p(4)] .
  moreover have "jwtbundle_Set_Get ?s (ID_TrustDomain (js_ID svid)) = Some b"
    using p(4) by (simp add: jwtbundle_Set_GetJWTBundleForTrustDomain_def jwtbundle_Set_Get_def split: option.splits)
  then have "Some b \<in> set bs"
    by (auto simp: jwt_set.get_new_all List.map_filter_def dest!: map_of_SomeD)
  ultimately show ?thesis using p by blast
qed

theorem jwtsvid_ParseAndValidate_sound_witness:
  "\<exists>svid. jwtsvid_ParseAndValidate Backcompat_Deny jwt_ex_lib 90 ''tok''
      (jwtbundle_Set_GetJWTBundleForTrustDomain (jwtbundle_NewSet [Some jwt_ex_bundle])) [''aud''] = Ok svid \<and>
     js_ID svid \<noteq> zero_ID"
proof -
  have v: "validate_checks jwt_ex_lib"
    by (auto simp: validate_checks_def jwt_ex_lib_def split: option.splits if_splits)
  have f: "FromString Backcompat_Deny ''spiffe://td/w'' = Ok (mk_ID ''td'' ''/w'')" by code_simp
  let ?svid = "\<lparr>js_ID = mk_ID ''td'' ''/w'', js_Audience = [''aud''], js_Expiry = 100,
    js_Claims = [(''sub'', JString ''spiffe://td/w'')], js_Hint = [], js_token = ''tok''\<rparr>"
  have "jwtsvid_ParseAndValidate Backcompat_Deny jwt_ex_lib 90 ''tok''
      (jwtbundle_Set_GetJWTBundleForTrustDomain (jwtbundle_NewSet [Some jwt_ex_bundle])) [''aud''] = Ok ?svid"
    using f
    by (simp add: jwtsvid_ParseAndValidate_def jwtsvid_parse_def jwt_ex_lib_def first_header_def
        jwtsvid_typ_forbidden_def HeaderType_def jwtsvid_verifyClaims_def jwtbundle_NewSet_def jwt_ex_bundle_def
        jwtbundle_Set_GetJWTBundleForTrustDomain_def jwtbundle_FindJWTAuthority_def)
  from jwtsvid_ParseAndValidate_sound [OF v this] this show ?thesis by blast
qed

text \<open>
  Neither entry point panics, given that the library does not and that a parsed token has a
  header; and \<open>ParseAndValidate\<close> accepts only what \<open>ParseInsecure\<close> would have accepted with
  the same ID, audience, expiry and token.
\<close>
theorem jwtsvid_Parse_agree:
  assumes "jose_no_panic lib" "parsed_has_header lib" "\<And>td. \<not> is_Panic (bundles td)"
    and "\<And>tok a m. lib_Claims lib tok a = Ok m \<Longrightarrow> lib_UnsafeClaimsMap lib tok = Ok m"
  shows "\<not> is_Panic (jwtsvid_ParseAndValidate cs lib now token bundles audience) \<and>
    \<not> is_Panic (jwtsvid_ParseInsecure cs lib now token audience) \<and>
    (jwtsvid_ParseAndValidate cs lib now token bundles audience = Ok svid \<longrightarrow>
     jwtsvid_ParseInsecure cs lib now token audience = Ok svid)"
proof -
  have "\<not> is_Panic (bind_res (map_err w (lib_UnsafeClaimsMap lib tok)) Ok)" for w tok
    using assms(1) by (auto simp: is_Panic_iff bind_res_Panic_iff map_err_Panic_iff jose_no_panic_def)
  then show ?thesis
    using jwtsvid_ParseAndValidate_no_panic [OF assms(1-3)] jwtsvid_parse_no_panic [OF assms(1,2)] assms(4)
    unfolding jwtsvid_ParseAndValidate_def jwtsvid_ParseInsecure_def jwtsvid_parse_Ok_iff
    by (fastforce simp: jwtsvid_verifyClaims_Ok_iff)
qed

theorem jwtsvid_Parse_agree_witness:
  "\<not> is_Panic (jwtsvid_ParseAndValidate Backcompat_Deny jwt_ex_lib 90 ''other'' (\<lambda>_. Ok jwt_ex_bundle) [])"
proof -
  have "jose_no_panic jwt_ex_lib" "parsed_has_header jwt_ex_lib"
    by (auto simp: jose_no_panic_def parsed_has_header_def jwt_ex_lib_def split: if_splits)
  moreover have "lib_Claims jwt_ex_lib tok a = Ok m \<Longrightarrow> lib_UnsafeClaimsMap jwt_ex_lib tok = Ok m" for tok a m
    by (auto simp: jwt_ex_lib_def split: if_splits)
  ultimately show ?thesis
    using jwtsvid_Parse_agree [of jwt_ex_lib "\<lambda>_. Ok jwt_ex_bundle" Backcompat_Deny 90 "''other''" "[]"] by simp
qed

end
