(* ===== verification/Witsvid.thy ===== *)
theory Witsvid
  imports Witbundle Jwt_Lib
begin

text \<open>
  Package \<open>exp/svid/witsvid\<close>: parsing and validation of WIT-SVIDs, with the extraction of the
  bound key from \<open>cnf.jwk\<close>. \<open>ValidateWithLeeway\<close> is called with the default leeway, which is
  what \<open>lib_Validate\<close> stands for. The clock reading \<open>time.Now()\<close> is an argument.
\<close>

section \<open>Definitions\<close>

record witsvid_SVID =
  ws_ID :: ID
  ws_Expiry :: int
  ws_PublicKey :: public_key
  ws_KeyID :: string
  ws_PrivateKey :: "private_key option"
  ws_Hint :: string
  ws_token :: string

definition witsvid_wrapErr :: "error \<Rightarrow> error" where
  "witsvid_wrapErr err = Wrap ''witsvid: %w'' [] err"

definition witsvid_Marshal :: "witsvid_SVID \<Rightarrow> string" where
  "witsvid_Marshal s = ws_token s"

definition extractCnfJWK :: "'b jose_lib \<Rightarrow> (string, json) gomap \<Rightarrow> public_key res" where
  "extractCnfJWK lib claims =
     (case gm_get claims ''cnf'' of
        None \<Rightarrow> Err (witsvid_wrapErr (New ''token missing cnf claim''))
      | Some (JObject cnfMap) \<Rightarrow>
          (case gm_get cnfMap ''jwk'' of
             None \<Rightarrow> Err (witsvid_wrapErr (New ''cnf claim missing jwk field''))
           | Some (JObject jwkMap) \<Rightarrow>
               (case gm_get jwkMap ''alg'' of
                  None \<Rightarrow> Err (witsvid_wrapErr (New ''cnf.jwk missing alg field''))
                | Some (JString algStr) \<Rightarrow>
                    if algStr \<notin> set allowedSignatureAlgorithms then
                      Err (witsvid_wrapErr (Errorf ''cnf.jwk alg %q is not supported'' [algStr]))
                    else
                      bind_res (map_err (\<lambda>err. witsvid_wrapErr (Opaque ''unable to marshal cnf.jwk: %v'' [] err))
                          (lib_json_Marshal lib (JObject jwkMap))) (\<lambda>data.
                      bind_res (map_err (\<lambda>err. witsvid_wrapErr (Opaque ''unable to parse cnf.jwk: %v'' [] err))
                          (lib_jwk_UnmarshalJSON lib data)) (\<lambda>k.
                        if \<not> pj_IsPublic k then Err (witsvid_wrapErr (New ''cnf.jwk must be a public key''))
                        else Ok (pj_Key k)))
                | Some _ \<Rightarrow> Err (witsvid_wrapErr (New ''cnf.jwk alg field is not a string'')))
           | Some _ \<Rightarrow> Err (witsvid_wrapErr (New ''cnf.jwk is not an object'')))
      | Some _ \<Rightarrow> Err (witsvid_wrapErr (New ''cnf claim is not an object'')))"

text \<open>The \<open>typ\<close> header after the type assertion to \<open>string\<close>, which gives the empty string
  when the header is absent or no string.\<close>

definition witsvid_typ :: "jose_header \<Rightarrow> string" where
  "witsvid_typ h = (case gm_get (hd_ExtraHeaders h) HeaderType of Some (JString t) \<Rightarrow> t | _ \<Rightarrow> '''')"

type_synonym 'b verifyFn = "'b jwt_token \<Rightarrow> TrustDomain \<Rightarrow> string \<Rightarrow> unit res"

definition witsvid_parse ::
  "charset \<Rightarrow> 'b jose_lib \<Rightarrow> int \<Rightarrow> string \<Rightarrow> 'b verifyFn \<Rightarrow> witsvid_SVID res" where
  "witsvid_parse cs lib now token verify =
     bind_res (map_err (\<lambda>_. witsvid_wrapErr (New ''unable to parse WIT-SVID token''))
         (lib_ParseSigned lib token allowedSignatureAlgorithms)) (\<lambda>tok.
     bind_res (first_header tok) (\<lambda>h.
       let typ = witsvid_typ h; keyID = hd_KeyID h in
       if typ \<noteq> ''wit+jwt'' then
         Err (witsvid_wrapErr (Errorf ''token header type must be %q, got %q'' [''wit+jwt'', typ]))
       else if keyID = '''' then Err (witsvid_wrapErr (New ''token header missing key id''))
       else
     bind_res (map_err (\<lambda>err. witsvid_wrapErr (Opaque ''unable to parse standard claims: %v'' [] err))
         (lib_UnsafeClaims lib tok)) (\<lambda>stdClaims.
       if cl_Subject stdClaims = '''' then Err (witsvid_wrapErr (New ''token missing subject claim''))
       else case cl_Expiry stdClaims of
         None \<Rightarrow> Err (witsvid_wrapErr (New ''token missing exp claim''))
       | Some expiry \<Rightarrow>
       if length (cl_Audience stdClaims) > 0 then
         Err (witsvid_wrapErr (New ''WIT-SVID must not contain aud claim''))
       else
     bind_res (map_err (\<lambda>err. witsvid_wrapErr (Opaque ''token has an invalid subject claim: %v'' [] err))
         (FromString cs (cl_Subject stdClaims))) (\<lambda>spiffeID.
     bind_res (map_err (\<lambda>err. witsvid_wrapErr (Opaque ''unable to parse claims: %v'' [] err))
         (lib_UnsafeClaimsMap lib tok)) (\<lambda>rawClaims.
     bind_res (extractCnfJWK lib rawClaims) (\<lambda>publicKey.
       case lib_Validate lib stdClaims \<lparr>ex_AnyAudience = [], ex_Time = now\<rparr> of
         Some err \<Rightarrow>
           Err (if err = lib_ErrExpired lib then witsvid_wrapErr (New ''token has expired'')
                else if err = lib_ErrNotValidYet lib then witsvid_wrapErr (New ''token is not yet valid'')
                else witsvid_wrapErr err)
       | None \<Rightarrow>
     bind_res (verify tok (ID_TrustDomain spiffeID) keyID) (\<lambda>_.
       Ok \<lparr>ws_ID = spiffeID, ws_Expiry = expiry, ws_PublicKey = publicKey, ws_KeyID = keyID,
           ws_PrivateKey = None, ws_Hint = '''', ws_token = token\<rparr>)))))))"

definition witsvid_verifySignature ::
  "'b jose_lib \<Rightarrow> (TrustDomain \<Rightarrow> witbundle_Bundle res) \<Rightarrow> 'b verifyFn" where
  "witsvid_verifySignature lib bundles tok trustDomain keyID =
     bind_res (map_err (\<lambda>_. witsvid_wrapErr (Errorf ''no WIT bundle found for trust domain %q'' [TrustDomain_String trustDomain]))
         (bundles trustDomain)) (\<lambda>bundle.
       case witbundle_FindWITAuthority bundle keyID of
         None \<Rightarrow> Err (witsvid_wrapErr (Errorf ''no WIT authority %q found for trust domain %q'' [keyID, TrustDomain_String trustDomain]))
       | Some authority \<Rightarrow>
     bind_res (map_err (\<lambda>err. witsvid_wrapErr (Wrap ''signature verification failed: %w'' [] err))
         (lib_Claims lib tok authority)) (\<lambda>_. Ok ()))"

definition witsvid_ParseAndValidate ::
  "charset \<Rightarrow> 'b jose_lib \<Rightarrow> int \<Rightarrow> string \<Rightarrow> (TrustDomain \<Rightarrow> witbundle_Bundle res) \<Rightarrow> witsvid_SVID res" where
  "witsvid_ParseAndValidate cs lib now token bundles =
     witsvid_parse cs lib now token (witsvid_verifySignature lib bundles)"

definition witsvid_ParseInsecure :: "charset \<Rightarrow> 'b jose_lib \<Rightarrow> int \<Rightarrow> string \<Rightarrow> witsvid_SVID res" where
  "witsvid_ParseInsecure cs lib now token = witsvid_parse cs lib now token (\<lambda>_ _ _. Ok ())"

section \<open>Lemmas\<close>

lemma extractCnfJWK_Ok_iff:
  "extractCnfJWK lib claims = Ok pub \<longleftrightarrow>
    (\<exists>cnf k alg data pj. gm_get claims ''cnf'' = Some (JObject cnf) \<and> gm_get cnf ''jwk'' = Some (JObject k) \<and>
       gm_get k ''alg'' = Some (JString alg) \<and> alg \<in> set allowedSignatureAlgorithms \<and>
       lib_json_Marshal lib (JObject k) = Ok data \<and> lib_jwk_UnmarshalJSON lib data = Ok pj \<and>
       pj_IsPublic pj \<and> pub = pj_Key pj)"
  unfolding extractCnfJWK_def
  by (fastforce split: option.splits json.splits if_splits)

lemma witsvid_parse_Ok_iff:
  "witsvid_parse cs lib now token verify = Ok svid \<longleftrightarrow>
    (\<exists>tok h hs c m. lib_ParseSigned lib token allowedSignatureAlgorithms = Ok tok \<and> tok_Headers tok = h # hs \<and>
       witsvid_typ h = ''wit+jwt'' \<and> hd_KeyID h = ws_KeyID svid \<and> ws_KeyID svid \<noteq> [] \<and>
       lib_UnsafeClaims lib tok = Ok c \<and> cl_Subject c \<noteq> [] \<and> cl_Expiry c = Some (ws_Expiry svid) \<and>
       cl_Audience c = [] \<and> FromString cs (cl_Subject c) = Ok (ws_ID svid) \<and>
       lib_UnsafeClaimsMap lib tok = Ok m \<and> extractCnfJWK lib m = Ok (ws_PublicKey svid) \<and>
       lib_Validate lib c \<lparr>ex_AnyAudience = [], ex_Time = now\<rparr> = None \<and>
       verify tok (ID_TrustDomain (ws_ID svid)) (ws_KeyID svid) = Ok () \<and>
       ws_PrivateKey svid = None \<and> ws_Hint svid = [] \<and> ws_token svid = token)"
  unfolding witsvid_parse_def Let_def
  by (cases svid) (fastforce simp: first_header_Ok_iff split: if_splits option.splits)

lemma witsvid_verifySignature_Ok_iff:
  "witsvid_verifySignature lib bundles tok td kid = Ok () \<longleftrightarrow>
    (\<exists>b a m. bundles td = Ok b \<and> witbundle_FindWITAuthority b kid = Some a \<and> lib_Claims lib tok a = Ok m)"
  unfolding witsvid_verifySignature_def by (fastforce split: option.splits)

text \<open>What an accepted token has been checked for, with any source of bundles.\<close>

lemma witsvid_ParseAndValidate_checked:
  assumes "validate_checks lib" "witsvid_ParseAndValidate cs lib now token bundles = Ok svid"
  obtains tok h hs b a m claims where "lib_ParseSigned lib token allowedSignatureAlgorithms = Ok tok" "tok_Headers tok = h # hs"
    "witsvid_typ h = ''wit+jwt''" "ws_KeyID svid = hd_KeyID h" "ws_KeyID svid \<noteq> []" "bundles (ID_TrustDomain (ws_ID svid)) = Ok b"
    "witbundle_FindWITAuthority b (ws_KeyID svid) = Some a" "lib_Claims lib tok a = Ok m"
    "lib_UnsafeClaimsMap lib tok = Ok claims" "extractCnfJWK lib claims = Ok (ws_PublicKey svid)"
    "ID_wf cs (ws_ID svid)" "ws_ID svid \<noteq> zero_ID" "now \<le> ws_Expiry svid + 60" "witsvid_Marshal svid = token"
proof -
  from assms(2) obtain tok h hs c claims where p: "lib_ParseSigned lib token allowedSignatureAlgorithms = Ok tok"
      "tok_Headers tok = h # hs" "witsvid_typ h = ''wit+jwt''" "hd_KeyID h = ws_KeyID svid" "ws_KeyID svid \<noteq> []"
      "cl_Expiry c = Some (ws_Expiry svid)" "FromString cs (cl_Subject c) = Ok (ws_ID svid)"
      "lib_UnsafeClaimsMap lib tok = Ok claims" "extractCnfJWK lib claims = Ok (ws_PublicKey svid)"
      "lib_Validate lib c \<lparr>ex_AnyAudience = [], ex_Time = now\<rparr> = None"
      "witsvid_verifySignature lib bundles tok (ID_TrustDomain (ws_ID svid)) (ws_KeyID svid) = Ok ()"
      "ws_token svid = token"
    unfolding witsvid_ParseAndValidate_def witsvid_parse_Ok_iff by blast
  from p(11) obtain b a m where b: "bundles (ID_TrustDomain (ws_ID svid)) = Ok b"
      "witbundle_FindWITAuthority b (ws_KeyID svid) = Some a" "lib_Claims lib tok a = Ok m"
    unfolding witsvid_verifySignature_Ok_iff by auto
  have "now \<le> ws_Expiry svid + 60"
    using validate_checksD(1) [OF assms(1) p(10)] p(6) by simp
  then show ?thesis
    using that [OF p(1-3) p(4) [symmetric] p(5) b p(8,9)] p(12) FromString_wf [OF p(7)] FromString_nonempty [OF p(7)]
    unfolding witsvid_Marshal_def by blast
qed

section \<open>Properties\<close>

definition wit_ex_lib :: "(string \<times> public_key) jose_lib" where
  "wit_ex_lib = \<lparr>
     lib_ParseSigned = (\<lambda>s algs. if s = ''tok'' then
        Ok \<lparr>tok_Headers = [\<lparr>hd_KeyID = ''k1'', hd_ExtraHeaders = [(''typ'', JString ''wit+jwt'')]\<rparr>],
            tok_body = (''spiffe://td/w'', Ed25519_PublicKey ''a'')\<rparr> else Err (New ''bad'')),
     lib_UnsafeClaims = (\<lambda>t. Ok \<lparr>cl_Issuer = [], cl_Subject = fst (tok_body t), cl_Audience = [],
        cl_Expiry = Some 100, cl_NotBefore = None, cl_IssuedAt = None\<rparr>),
     lib_UnsafeClaimsMap = (\<lambda>t. Ok [(''cnf'', JObject [(''jwk'', JObject [(''alg'', JString ''ES256'')])])]),
     lib_Claims = (\<lambda>t k. if k = snd (tok_body t) then Ok [] else Err (New ''bad signature'')),
     lib_Validate = (\<lambda>c e. case cl_Expiry c of Some t \<Rightarrow>
          (if t + 60 < ex_Time e then Some (New ''expired'')
           else if ex_AnyAudience e \<noteq> [] \<and> set (ex_AnyAudience e) \<inter> set (cl_Audience c) = {} then Some (New ''aud'')
           else None) | None \<Rightarrow> Some (New ''expired'')),
     lib_ErrExpired = New ''expired'', lib_ErrNotValidYet = New ''nbf'', lib_ErrInvalidAudience = New ''aud'',
     lib_json_Marshal = (\<lambda>_. Ok ''{}''),
     lib_jwk_UnmarshalJSON = (\<lambda>_. Ok \<lparr>pj_Key = Ed25519_PublicKey ''pop'', pj_IsPublic = True\<rparr>)\<rparr>"

definition wit_ex_bundle :: witbundle_Bundle where
  "wit_ex_bundle = \<lparr>wb_trustDomain = TrustDomain ''td'', wb_witAuthorities = [(''k1'', Ed25519_PublicKey ''a'')]\<rparr>"

text \<open>
  What a WIT-SVID that \<open>ParseAndValidate\<close> accepts has been checked for, against a set of
  bundles: the \<open>typ\<close> header is \<open>wit+jwt\<close>, there is no audience, the token is not expired, its
  signature was verified with the authority that a bundle of the subject's own trust domain
  holds under the token's key ID, and the bound public key is the public key in \<open>cnf.jwk\<close>, whose
  algorithm is one of the allowed ones.
\<close>
theorem witsvid_ParseAndValidate_sound:
  assumes "validate_checks lib"
    and "witsvid_ParseAndValidate cs lib now token
      (witbundle_Set_GetWITBundleForTrustDomain (witbundle_NewSet bs)) = Ok svid"
  shows "\<exists>tok h hs b a m claims. lib_ParseSigned lib token allowedSignatureAlgorithms = Ok tok \<and>
    tok_Headers tok = h # hs \<and> witsvid_typ h = ''wit+jwt'' \<and> ws_KeyID svid = hd_KeyID h \<and> ws_KeyID svid \<noteq> [] \<and>
    Some b \<in> set bs \<and> witbundle_TrustDomain b = ID_TrustDomain (ws_ID svid) \<and>
    witbundle_FindWITAuthority b (ws_KeyID svid) = Some a \<and> lib_Claims lib tok a = Ok m \<and>
    lib_UnsafeClaimsMap lib tok = Ok claims \<and> extractCnfJWK lib claims = Ok (ws_PublicKey svid) \<and>
    ID_wf cs (ws_ID svid) \<and> ws_ID svid \<noteq> zero_ID \<and> now \<le> ws_Expiry svid + 60 \<and> witsvid_Marshal svid = token"
proof -
  let ?s = "witbundle_NewSet bs"
  obtain tok h hs b a m claims where p: "lib_ParseSigned lib token allowedSignatureAlgorithms = Ok tok" "tok_Headers tok = h # hs"
    "witsvid_typ h = ''wit+jwt''" "ws_KeyID svid = hd_KeyID h" "ws_KeyID svid \<noteq> []"
    "witbundle_Set_GetWITBundleForTrustDomain ?s (ID_TrustDomain (ws_ID svid)) = Ok b"
    "witbundle_FindWITAuthority b (ws_KeyID svid) = Some a" "lib_Claims lib tok a = Ok m"
    "lib_UnsafeClaimsMap lib tok = Ok claims" "extractCnfJWK lib claims = Ok (ws_PublicKey svid)"
    "ID_wf cs (ws_ID svid)" "ws_ID svid \<noteq> zero_ID" "now \<le> ws_Expiry svid + 60" "witsvid_Marshal svid = token"
    using assms by (rule witsvid_ParseAndValidate_checked)
  have td: "witbundle_TrustDomain b = ID_TrustDomain (ws_ID svid)"
    using wit_set_source.get_for_td [OF wit_set.inv_new_all p(6)] .
  have "witbundle_Set_Get ?s (ID_TrustDomain (ws_ID svid)) = Some b"
    using p(6) by (simp add: witbundle_Set_GetWITBundleForTrustDomain_def witbundle_Set_Get_def split: option.splits)
  then have "Some b \<in> set bs"
    by (auto simp: wit_set.get_new_all List.map_filter_def dest!: map_of_SomeD)
  then show ?thesis using p td by metis
qed

theorem witsvid_ParseAndValidate_sound_witness:
  "\<exists>svid. witsvid_ParseAndValidate Backcompat_Deny wit_ex_lib 90 ''tok''
      (witbundle_Set_GetWITBundleForTrustDomain (witbundle_NewSet [Some wit_ex_bundle])) = Ok svid \<and>
     ws_ID svid \<noteq> zero_ID"
proof -
  have v: "validate_checks wit_ex_lib"
    by (auto simp: validate_checks_def wit_ex_lib_def split: option.splits if_splits)
  have f: "FromString Backcompat_Deny ''spiffe://td/w'' = Ok (mk_ID ''td'' ''/w'')" by code_simp
  let ?svid = "\<lparr>ws_ID = mk_ID ''td'' ''/w'', ws_Expiry = 100, ws_PublicKey = Ed25519_PublicKey ''pop'',
    ws_KeyID = ''k1'', ws_PrivateKey = None, ws_Hint = [], ws_token = ''tok''\<rparr>"
  have "witsvid_ParseAndValidate Backcompat_Deny wit_ex_lib 90 ''tok''
      (witbundle_Set_GetWITBundleForTrustDomain (witbundle_NewSet [Some wit_ex_bundle])) = Ok ?svid"
    using f
    by (simp add: witsvid_ParseAndValidate_def witsvid_parse_def wit_ex_lib_def first_header_def
        witsvid_typ_def HeaderType_def witsvid_verifySignature_def witbundle_NewSet_def wit_ex_bundle_def
        witbundle_Set_GetWITBundleForTrustDomain_def witbundle_FindWITAuthority_def extractCnfJWK_def
        allowedSignatureAlgorithms_def)
  from witsvid_ParseAndValidate_sound [OF v this] this show ?thesis by blast
qed

end
