(* ===== verification/Tlsconfig.thy ===== *)
theory Tlsconfig
  imports X509svid
begin

text \<open>
  Package \<open>spiffetls/tlsconfig\<close> (and \<open>spiffetls/peerid.go\<close>): authorizers, the callbacks that
  present and verify X509-SVIDs, and the functions that install them in a \<open>tls.Config\<close>.

  A source is asked at every handshake, so it is a function of the state \<open>'w\<close> of the program
  at that moment; the callbacks of a configuration take that state. A callback that returns
  only an \<open>error\<close> returns a \<open>unit res\<close>. Of the fields of \<open>tls.Config\<close> that the package leaves as they
  are, those that decide which peer is admitted are fields of the record
  (\<open>ClientCAs\<close>, \<open>VerifyConnection\<close>, \<open>GetConfigForClient\<close>); the others are one opaque field.
\<close>

section \<open>Definitions\<close>

subsection \<open>Authorizers\<close>

type_synonym Authorizer = "ID \<Rightarrow> certificate list list \<Rightarrow> error option"

definition AdaptMatcher :: "Matcher \<Rightarrow> Authorizer" where
  "AdaptMatcher matcher = (\<lambda>actual verifiedChains. matcher actual)"

definition AuthorizeAny :: Authorizer where
  "AuthorizeAny = AdaptMatcher MatchAny"

definition AuthorizeID :: "ID \<Rightarrow> Authorizer" where
  "AuthorizeID allowed = AdaptMatcher (MatchID allowed)"

definition AuthorizeOneOf :: "ID list \<Rightarrow> Authorizer" where
  "AuthorizeOneOf allowed = AdaptMatcher (MatchOneOf allowed)"

definition AuthorizeMemberOf :: "TrustDomain \<Rightarrow> Authorizer" where
  "AuthorizeMemberOf allowed = AdaptMatcher (MatchMemberOf allowed)"

subsection \<open>Configurations\<close>

record tls_certificate =
  tc_Certificate :: "string list"
  tc_PrivateKey :: private_key
  tc_Leaf :: certificate

text \<open>A trace callback is a function to the event it causes; \<open>GetCertificate\<close> also returns
  the value that \<open>GotCertificate\<close> is called with.\<close>

record GotCertificateInfo =
  gi_Cert :: "tls_certificate option"
  gi_Err :: "error option"

record ('v, 'e) Trace =
  tr_GetCertificate :: "('v \<times> 'e) option"
  tr_GotCertificate :: "(GotCertificateInfo \<Rightarrow> 'v option \<Rightarrow> 'e) option"

record ('v, 'e) options =
  opt_trace :: "('v, 'e) Trace"

type_synonym ('v, 'e) Option = "('v, 'e) options \<Rightarrow> ('v, 'e) options"

definition newOptions :: "('v, 'e) Option list \<Rightarrow> ('v, 'e) options" where
  "newOptions opts = fold (\<lambda>opt out. opt out) opts
     \<lparr>opt_trace = \<lparr>tr_GetCertificate = None, tr_GotCertificate = None\<rparr>\<rparr>"

definition WithTrace :: "('v, 'e) Trace \<Rightarrow> ('v, 'e) Option" where
  "WithTrace trace opts = opts\<lparr>opt_trace := trace\<rparr>"

datatype ClientAuthType =
  NoClientCert | RequestClientCert | RequireAnyClientCert | VerifyClientCertIfGiven | RequireAndVerifyClientCert

definition VersionTLS12 :: "16 word" where "VersionTLS12 = 0x0303"

type_synonym 'w verify_callback = "'w \<Rightarrow> string list \<Rightarrow> certificate list list \<Rightarrow> unit res"
type_synonym ('w, 'e) cert_callback = "'w \<Rightarrow> 'e list \<times> tls_certificate res"

text \<open>
  \<open>VerifyConnection\<close> is called with the connection state, of which the model has the certificates the
  peer sent and the chains of the built-in verification. \<open>GetConfigForClient\<close> is called with the
  hello message of the client, here its bytes, and may give a configuration to use instead; the
  \<open>GetConfigForClient\<close> of that one is not asked, so it is a record without this field.
\<close>

type_synonym client_hello = string

record ('w, 'e, 'x) tls_fields =
  cfg_MinVersion :: "16 word"
  cfg_Certificates :: "tls_certificate list"
  cfg_ClientAuth :: ClientAuthType
  cfg_GetCertificate :: "('w, 'e) cert_callback option"
  cfg_GetClientCertificate :: "('w, 'e) cert_callback option"
  cfg_InsecureSkipVerify :: bool
  cfg_NameToCertificate :: "(string, tls_certificate) gomap"
  cfg_RootCAs :: "CertPool option"
  cfg_VerifyPeerCertificate :: "'w verify_callback option"
  cfg_ClientCAs :: "CertPool option"
  cfg_VerifyConnection :: "'w verify_callback option"
  cfg_rest :: 'x

record ('w, 'e, 'x) tls_Config = "('w, 'e, 'x) tls_fields" +
  cfg_GetConfigForClient :: "('w \<Rightarrow> client_hello \<Rightarrow> ('w, 'e, 'x) tls_fields option res) option"

text \<open>\<open>&tls.Config{MinVersion: tls.VersionTLS12}\<close>: \<open>zero\<close> is the zero value of the other fields.\<close>

definition newTLSConfig :: "'x \<Rightarrow> ('w, 'e, 'x) tls_Config" where
  "newTLSConfig zero = \<lparr>cfg_MinVersion = VersionTLS12, cfg_Certificates = [], cfg_ClientAuth = NoClientCert,
     cfg_GetCertificate = None, cfg_GetClientCertificate = None, cfg_InsecureSkipVerify = False,
     cfg_NameToCertificate = [], cfg_RootCAs = None, cfg_VerifyPeerCertificate = None, cfg_ClientCAs = None,
     cfg_VerifyConnection = None, cfg_rest = zero, cfg_GetConfigForClient = None\<rparr>"

definition resetAuthFields :: "('w, 'e, 'x) tls_Config \<Rightarrow> ('w, 'e, 'x) tls_Config" where
  "resetAuthFields config =
     (let config = (if cfg_MinVersion config < VersionTLS12 then config\<lparr>cfg_MinVersion := VersionTLS12\<rparr> else config)
      in config\<lparr>cfg_Certificates := [], cfg_ClientAuth := NoClientCert, cfg_GetCertificate := None,
           cfg_GetClientCertificate := None, cfg_InsecureSkipVerify := False, cfg_NameToCertificate := [],
           cfg_RootCAs := None\<rparr>)"

subsection \<open>Callbacks\<close>

text \<open>The events the trace callbacks cause, in order, and the result. Taking the leaf of an SVID
  without certificates panics.\<close>

definition getTLSCertificate ::
  "x509svid_SVID res \<Rightarrow> ('v, 'e) Trace \<Rightarrow> 'e list \<times> tls_certificate res" where
  "getTLSCertificate svid trace =
     (let before = (case tr_GetCertificate trace of None \<Rightarrow> [] | Some (v, e) \<Rightarrow> [e]);
          traceVal = map_option fst (tr_GetCertificate trace);
          got = (\<lambda>info. case tr_GotCertificate trace of None \<Rightarrow> [] | Some f \<Rightarrow> [f info traceVal])
      in case svid of
           Panic e \<Rightarrow> (before, Panic e)
         | Err err \<Rightarrow> (before @ got \<lparr>gi_Cert = None, gi_Err = Some err\<rparr>, Err err)
         | Ok s \<Rightarrow>
             (case xs_Certificates s of
                [] \<Rightarrow> (before, Panic (New ''index out of range [0] with length 0''))
              | leaf # _ \<Rightarrow>
                  let cert = \<lparr>tc_Certificate = fold (\<lambda>svidCert raw. raw @ [cert_Raw svidCert]) (xs_Certificates s) [],
                              tc_PrivateKey = xs_PrivateKey s, tc_Leaf = leaf\<rparr>
                  in (before @ got \<lparr>gi_Cert = Some cert, gi_Err = None\<rparr>, Ok cert)))"

definition GetCertificate ::
  "('w \<Rightarrow> x509svid_SVID res) \<Rightarrow> ('v, 'e) Option list \<Rightarrow> ('w, 'e) cert_callback" where
  "GetCertificate svid opts = (let opt = newOptions opts in (\<lambda>w. getTLSCertificate (svid w) (opt_trace opt)))"

definition GetClientCertificate ::
  "('w \<Rightarrow> x509svid_SVID res) \<Rightarrow> ('v, 'e) Option list \<Rightarrow> ('w, 'e) cert_callback" where
  "GetClientCertificate svid opts = (let opt = newOptions opts in (\<lambda>w. getTLSCertificate (svid w) (opt_trace opt)))"

text \<open>The result of an authorizer as the result of a callback.\<close>

definition err_res :: "error option \<Rightarrow> unit res" where
  "err_res e = (case e of None \<Rightarrow> Ok () | Some err \<Rightarrow> Err err)"

definition VerifyPeerCertificate ::
  "charset \<Rightarrow> 't x509_lib \<Rightarrow> ('w \<Rightarrow> x509_source) option \<Rightarrow> Authorizer \<Rightarrow> 'w verify_callback" where
  "VerifyPeerCertificate cs lib bundle authorizer = (\<lambda>w raw _.
     bind_res (x509svid_ParseAndVerify cs lib raw (map_option (\<lambda>b. b w) bundle) []) (\<lambda>(spid, certs, err).
       case err of Some e \<Rightarrow> Err e | None \<Rightarrow> err_res (authorizer spid certs)))"

definition WrapVerifyPeerCertificate ::
  "charset \<Rightarrow> 't x509_lib \<Rightarrow> 'w verify_callback option \<Rightarrow> ('w \<Rightarrow> x509_source) option \<Rightarrow> Authorizer \<Rightarrow> 'w verify_callback" where
  "WrapVerifyPeerCertificate cs lib wrapped bundle authorizer =
     (case wrapped of
        None \<Rightarrow> VerifyPeerCertificate cs lib bundle authorizer
      | Some f \<Rightarrow> (\<lambda>w raw _.
          bind_res (x509svid_ParseAndVerify cs lib raw (map_option (\<lambda>b. b w) bundle) []) (\<lambda>(spid, certs, err).
            case err of Some e \<Rightarrow> Err e
            | None \<Rightarrow> (case authorizer spid certs of Some e \<Rightarrow> Err e | None \<Rightarrow> f w raw certs))))"

subsection \<open>Installing the callbacks\<close>

definition HookTLSClientConfig ::
  "charset \<Rightarrow> 't x509_lib \<Rightarrow> ('w, 'e, 'x) tls_Config \<Rightarrow> ('w \<Rightarrow> x509_source) option \<Rightarrow> Authorizer \<Rightarrow> ('w, 'e, 'x) tls_Config" where
  "HookTLSClientConfig cs lib config bundle authorizer =
     (let config = resetAuthFields config;
          config = config\<lparr>cfg_InsecureSkipVerify := True\<rparr>
      in config\<lparr>cfg_VerifyPeerCertificate :=
           Some (WrapVerifyPeerCertificate cs lib (cfg_VerifyPeerCertificate config) bundle authorizer)\<rparr>)"

definition TLSClientConfig ::
  "charset \<Rightarrow> 't x509_lib \<Rightarrow> 'x \<Rightarrow> ('w \<Rightarrow> x509_source) option \<Rightarrow> Authorizer \<Rightarrow> ('w, 'e, 'x) tls_Config" where
  "TLSClientConfig cs lib zero bundle authorizer = HookTLSClientConfig cs lib (newTLSConfig zero) bundle authorizer"

definition HookMTLSClientConfig ::
  "charset \<Rightarrow> 't x509_lib \<Rightarrow> ('w, 'e, 'x) tls_Config \<Rightarrow> ('w \<Rightarrow> x509svid_SVID res) \<Rightarrow> ('w \<Rightarrow> x509_source) option \<Rightarrow>
   Authorizer \<Rightarrow> ('v, 'e) Option list \<Rightarrow> ('w, 'e, 'x) tls_Config" where
  "HookMTLSClientConfig cs lib config svid bundle authorizer opts =
     (let config = resetAuthFields config;
          config = config\<lparr>cfg_GetClientCertificate := Some (GetClientCertificate svid opts)\<rparr>;
          config = config\<lparr>cfg_InsecureSkipVerify := True\<rparr>
      in config\<lparr>cfg_VerifyPeerCertificate :=
           Some (WrapVerifyPeerCertificate cs lib (cfg_VerifyPeerCertificate config) bundle authorizer)\<rparr>)"

definition MTLSClientConfig ::
  "charset \<Rightarrow> 't x509_lib \<Rightarrow> 'x \<Rightarrow> ('w \<Rightarrow> x509svid_SVID res) \<Rightarrow> ('w \<Rightarrow> x509_source) option \<Rightarrow> Authorizer \<Rightarrow>
   ('v, 'e) Option list \<Rightarrow> ('w, 'e, 'x) tls_Config" where
  "MTLSClientConfig cs lib zero svid bundle authorizer opts =
     HookMTLSClientConfig cs lib (newTLSConfig zero) svid bundle authorizer opts"

definition HookMTLSWebClientConfig ::
  "('w, 'e, 'x) tls_Config \<Rightarrow> ('w \<Rightarrow> x509svid_SVID res) \<Rightarrow> CertPool option \<Rightarrow> ('v, 'e) Option list \<Rightarrow> ('w, 'e, 'x) tls_Config" where
  "HookMTLSWebClientConfig config svid roots opts =
     (let config = resetAuthFields config;
          config = config\<lparr>cfg_GetClientCertificate := Some (GetClientCertificate svid opts)\<rparr>
      in config\<lparr>cfg_RootCAs := roots\<rparr>)"

definition MTLSWebClientConfig ::
  "'x \<Rightarrow> ('w \<Rightarrow> x509svid_SVID res) \<Rightarrow> CertPool option \<Rightarrow> ('v, 'e) Option list \<Rightarrow> ('w, 'e, 'x) tls_Config" where
  "MTLSWebClientConfig zero svid roots opts = HookMTLSWebClientConfig (newTLSConfig zero) svid roots opts"

definition HookTLSServerConfig ::
  "('w, 'e, 'x) tls_Config \<Rightarrow> ('w \<Rightarrow> x509svid_SVID res) \<Rightarrow> ('v, 'e) Option list \<Rightarrow> ('w, 'e, 'x) tls_Config" where
  "HookTLSServerConfig config svid opts =
     (let config = resetAuthFields config
      in config\<lparr>cfg_GetCertificate := Some (GetCertificate svid opts)\<rparr>)"

definition TLSServerConfig ::
  "'x \<Rightarrow> ('w \<Rightarrow> x509svid_SVID res) \<Rightarrow> ('v, 'e) Option list \<Rightarrow> ('w, 'e, 'x) tls_Config" where
  "TLSServerConfig zero svid opts = HookTLSServerConfig (newTLSConfig zero) svid opts"

definition HookMTLSServerConfig ::
  "charset \<Rightarrow> 't x509_lib \<Rightarrow> ('w, 'e, 'x) tls_Config \<Rightarrow> ('w \<Rightarrow> x509svid_SVID res) \<Rightarrow> ('w \<Rightarrow> x509_source) option \<Rightarrow>
   Authorizer \<Rightarrow> ('v, 'e) Option list \<Rightarrow> ('w, 'e, 'x) tls_Config" where
  "HookMTLSServerConfig cs lib config svid bundle authorizer opts =
     (let config = resetAuthFields config;
          config = config\<lparr>cfg_ClientAuth := RequireAnyClientCert\<rparr>;
          config = config\<lparr>cfg_GetCertificate := Some (GetCertificate svid opts)\<rparr>
      in config\<lparr>cfg_VerifyPeerCertificate :=
           Some (WrapVerifyPeerCertificate cs lib (cfg_VerifyPeerCertificate config) bundle authorizer)\<rparr>)"

definition MTLSServerConfig ::
  "charset \<Rightarrow> 't x509_lib \<Rightarrow> 'x \<Rightarrow> ('w \<Rightarrow> x509svid_SVID res) \<Rightarrow> ('w \<Rightarrow> x509_source) option \<Rightarrow> Authorizer \<Rightarrow>
   ('v, 'e) Option list \<Rightarrow> ('w, 'e, 'x) tls_Config" where
  "MTLSServerConfig cs lib zero svid bundle authorizer opts =
     HookMTLSServerConfig cs lib (newTLSConfig zero) svid bundle authorizer opts"

text \<open>A nil certificate pointer is dereferenced and panics.\<close>

definition HookMTLSWebServerConfig ::
  "charset \<Rightarrow> 't x509_lib \<Rightarrow> ('w, 'e, 'x) tls_Config \<Rightarrow> tls_certificate option \<Rightarrow> ('w \<Rightarrow> x509_source) option \<Rightarrow>
   Authorizer \<Rightarrow> ('w, 'e, 'x) tls_Config res" where
  "HookMTLSWebServerConfig cs lib config cert bundle authorizer =
     (let config = resetAuthFields config;
          config = config\<lparr>cfg_ClientAuth := RequireAnyClientCert\<rparr>
      in case cert of
           None \<Rightarrow> Panic (New ''nil pointer dereference'')
         | Some c \<Rightarrow>
             (let config = config\<lparr>cfg_Certificates := [c]\<rparr>
              in Ok (config\<lparr>cfg_VerifyPeerCertificate :=
                Some (WrapVerifyPeerCertificate cs lib (cfg_VerifyPeerCertificate config) bundle authorizer)\<rparr>)))"

definition MTLSWebServerConfig ::
  "charset \<Rightarrow> 't x509_lib \<Rightarrow> 'x \<Rightarrow> tls_certificate option \<Rightarrow> ('w \<Rightarrow> x509_source) option \<Rightarrow> Authorizer \<Rightarrow>
   ('w, 'e, 'x) tls_Config res" where
  "MTLSWebServerConfig cs lib zero cert bundle authorizer =
     HookMTLSWebServerConfig cs lib (newTLSConfig zero) cert bundle authorizer"

subsection \<open>The ID of a peer\<close>

definition wrapSpiffetlsErr :: "error \<Rightarrow> error" where
  "wrapSpiffetlsErr err = Wrap ''spiffetls: %w'' [] err"

definition PeerIDFromConnectionState :: "charset \<Rightarrow> certificate list \<Rightarrow> ID res" where
  "PeerIDFromConnectionState cs peerCertificates =
     (if length peerCertificates = 0 then Err (wrapSpiffetlsErr (New ''no peer certificates''))
      else map_err (\<lambda>err. wrapSpiffetlsErr (Wrap ''invalid peer certificate: %w'' [] err))
        (IDFromCert cs (peerCertificates ! 0)))"

text \<open>A connection exposes a peer ID or not; the getter's result is an argument.\<close>

definition PeerIDFromConn :: "ID res option \<Rightarrow> ID res" where
  "PeerIDFromConn getter =
     (case getter of
        Some r \<Rightarrow> r
      | None \<Rightarrow> Err (wrapSpiffetlsErr (New ''connection does not expose peer ID'')))"

section \<open>What a configuration admits\<close>

text \<open>
  The use \<open>crypto/tls\<close> makes of a configuration in a full handshake, as its documentation
  describes it. A server first asks \<open>GetConfigForClient\<close>, which may fail the handshake or give the
  configuration to use instead. A server that requires any client certificate rejects a client
  that sends none; one that asks for certificates runs \<open>VerifyPeerCertificate\<close> on what was sent,
  also on nothing; one that asks for none sees none and does not run it. A client gets at
  least one certificate; it verifies it against the roots unless told to skip that, and then
  runs the callback. \<open>VerifyConnection\<close> runs last, on both sides and whatever was asked for. \<open>std\<close> is
  the built-in verification: roots and raw certificates to chains.
\<close>

definition run_callback :: "'w verify_callback option \<Rightarrow> 'w \<Rightarrow> string list \<Rightarrow> certificate list list \<Rightarrow> bool" where
  "run_callback cb w raw chs = (case cb of None \<Rightarrow> True | Some f \<Rightarrow> f w raw chs = Ok ())"

definition run_callbacks :: "('w, 'e, 'x, 'm) tls_fields_scheme \<Rightarrow> 'w \<Rightarrow> string list \<Rightarrow> certificate list list \<Rightarrow> bool" where
  "run_callbacks config w raw chs \<longleftrightarrow>
     run_callback (cfg_VerifyPeerCertificate config) w raw chs \<and> run_callback (cfg_VerifyConnection config) w raw chs"

type_synonym std_verify = "CertPool option \<Rightarrow> string list \<Rightarrow> certificate list list option"

definition verified_callbacks ::
  "std_verify \<Rightarrow> CertPool option \<Rightarrow> ('w, 'e, 'x, 'm) tls_fields_scheme \<Rightarrow> 'w \<Rightarrow> string list \<Rightarrow> bool" where
  "verified_callbacks std roots config w raw =
     (case std roots raw of None \<Rightarrow> False | Some chs \<Rightarrow> run_callbacks config w raw chs)"

definition admits_client :: "std_verify \<Rightarrow> ('w, 'e, 'x, 'm) tls_fields_scheme \<Rightarrow> 'w \<Rightarrow> string list \<Rightarrow> bool" where
  "admits_client std config w raw =
     (case cfg_ClientAuth config of
        NoClientCert \<Rightarrow> run_callback (cfg_VerifyConnection config) w [] []
      | RequestClientCert \<Rightarrow> run_callbacks config w raw []
      | RequireAnyClientCert \<Rightarrow> raw \<noteq> [] \<and> run_callbacks config w raw []
      | VerifyClientCertIfGiven \<Rightarrow>
          (if raw = [] then run_callbacks config w [] [] else verified_callbacks std (cfg_ClientCAs config) config w raw)
      | RequireAndVerifyClientCert \<Rightarrow> raw \<noteq> [] \<and> verified_callbacks std (cfg_ClientCAs config) config w raw)"

text \<open>What \<open>GetConfigForClient\<close> says: keep the configuration (\<open>None\<close>, also when it is not set), use
  another one, or fail.\<close>

definition config_for :: "('w, 'e, 'x) tls_Config \<Rightarrow> 'w \<Rightarrow> client_hello \<Rightarrow> ('w, 'e, 'x) tls_fields option res" where
  "config_for config w hello = (case cfg_GetConfigForClient config of None \<Rightarrow> Ok None | Some f \<Rightarrow> f w hello)"

definition server_admits :: "std_verify \<Rightarrow> ('w, 'e, 'x) tls_Config \<Rightarrow> client_hello \<Rightarrow> 'w \<Rightarrow> string list \<Rightarrow> bool" where
  "server_admits std config hello w raw =
     (case config_for config w hello of
        Ok None \<Rightarrow> admits_client std config w raw
      | Ok (Some config') \<Rightarrow> admits_client std config' w raw
      | _ \<Rightarrow> False)"

definition client_admits :: "std_verify \<Rightarrow> ('w, 'e, 'x) tls_Config \<Rightarrow> 'w \<Rightarrow> string list \<Rightarrow> bool" where
  "client_admits std config w raw \<longleftrightarrow> raw \<noteq> [] \<and>
     (if cfg_InsecureSkipVerify config then run_callbacks config w raw []
      else verified_callbacks std (cfg_RootCAs config) config w raw)"

section \<open>Lemmas\<close>

lemma err_res_Ok_iff [simp]: "err_res e = Ok () \<longleftrightarrow> e = None"
  by (cases e) (auto simp: err_res_def)

text \<open>A peer that presents \<open>raw\<close> is authenticated as \<open>spid\<close> and authorized.\<close>

definition peer_ok ::
  "charset \<Rightarrow> 't x509_lib \<Rightarrow> x509_source \<Rightarrow> Authorizer \<Rightarrow> string list \<Rightarrow> ID \<Rightarrow> certificate list list \<Rightarrow> bool" where
  "peer_ok cs lib src auth raw spid chs \<longleftrightarrow>
     (\<exists>certs. list_all2 (\<lambda>r c. lib_ParseCertificate lib r = Ok c) raw certs \<and>
        x509svid_Verify cs lib certs (Some src) [] = Ok (spid, chs, None)) \<and> auth spid chs = None"

text \<open>What a configuration adds to the verification of a peer when it is hooked: its own callback, on the
  verified chains, and its \<open>VerifyConnection\<close>, for which the built-in verification found no chains.\<close>

definition accepted_by :: "('w, 'e, 'x, 'm) tls_fields_scheme \<Rightarrow> 'w \<Rightarrow> string list \<Rightarrow> certificate list list \<Rightarrow> bool" where
  "accepted_by config w raw chs \<longleftrightarrow>
     run_callback (cfg_VerifyPeerCertificate config) w raw chs \<and> run_callback (cfg_VerifyConnection config) w raw []"

definition spiffe_peer ::
  "charset \<Rightarrow> 't x509_lib \<Rightarrow> ('w \<Rightarrow> x509_source) option \<Rightarrow> Authorizer \<Rightarrow> ('w, 'e, 'x, 'm) tls_fields_scheme \<Rightarrow>
   'w \<Rightarrow> string list \<Rightarrow> bool" where
  "spiffe_peer cs lib bundle auth config w raw \<longleftrightarrow>
     (\<exists>src spid chs. bundle = Some src \<and> peer_ok cs lib (src w) auth raw spid chs \<and> accepted_by config w raw chs)"

lemma accepted_by_newTLSConfig [simp]: "accepted_by (newTLSConfig zero) w raw chs"
  by (simp add: accepted_by_def newTLSConfig_def run_callback_def)

lemma config_for_newTLSConfig [simp]: "config_for (newTLSConfig zero) w hello = Ok None"
  by (simp add: config_for_def newTLSConfig_def)

lemma ParseAndVerify_Ok_iff:
  "x509svid_ParseAndVerify cs lib raw (Some src) opts = Ok (spid, chs, None) \<longleftrightarrow>
     (\<exists>certs. list_all2 (\<lambda>r c. lib_ParseCertificate lib r = Ok c) raw certs \<and>
        x509svid_Verify cs lib certs (Some src) opts = Ok (spid, chs, None))"
  by (auto simp: x509svid_ParseAndVerify_def mapM_res_Ok_iff [symmetric] split: res.splits)

lemma ParseAndVerify_nil_source:
  "x509svid_ParseAndVerify cs lib raw None opts \<noteq> Ok (spid, chs, None)"
  by (auto simp: x509svid_ParseAndVerify_def x509svid_Verify_def split: res.splits)

lemma peer_ok_nonempty: "peer_ok cs lib src auth raw spid chs \<Longrightarrow> raw \<noteq> []"
  by (auto simp: peer_ok_def x509svid_Verify_def)

lemma Wrap_Ok_iff:
  "WrapVerifyPeerCertificate cs lib wrapped (Some bundle) auth w raw chs0 = Ok () \<longleftrightarrow>
     (\<exists>spid chs. peer_ok cs lib (bundle w) auth raw spid chs \<and> run_callback wrapped w raw chs)"
  by (cases wrapped)
    (auto simp: WrapVerifyPeerCertificate_def VerifyPeerCertificate_def run_callback_def peer_ok_def
      ParseAndVerify_Ok_iff [symmetric] split: option.splits)

lemma Wrap_nil_source:
  "WrapVerifyPeerCertificate cs lib wrapped None auth w raw chs0 \<noteq> Ok ()"
  by (cases wrapped)
    (auto simp: WrapVerifyPeerCertificate_def VerifyPeerCertificate_def ParseAndVerify_nil_source split: option.splits)

lemma spiffe_peer_nonempty: "spiffe_peer cs lib bundle auth config w raw \<Longrightarrow> raw \<noteq> []"
  by (auto simp: spiffe_peer_def dest: peer_ok_nonempty)

text \<open>The callback that a hook installs, with the \<open>VerifyConnection\<close> that it keeps.\<close>

lemma run_hooked:
  assumes "cfg_VerifyPeerCertificate hooked =
      Some (WrapVerifyPeerCertificate cs lib (cfg_VerifyPeerCertificate config) bundle auth)"
    and "cfg_VerifyConnection hooked = cfg_VerifyConnection config"
  shows "run_callbacks hooked w raw [] \<longleftrightarrow> spiffe_peer cs lib bundle auth config w raw"
  using assms
  by (cases "bundle")
    (auto simp: run_callbacks_def run_callback_def [of "Some _"] Wrap_Ok_iff Wrap_nil_source spiffe_peer_def accepted_by_def)

text \<open>What the hooks leave of a configuration.\<close>

definition hooked_client where
  "hooked_client cs lib config bundle auth hooked \<longleftrightarrow>
     cfg_InsecureSkipVerify hooked \<and> cfg_VerifyConnection hooked = cfg_VerifyConnection config \<and>
     cfg_VerifyPeerCertificate hooked =
       Some (WrapVerifyPeerCertificate cs lib (cfg_VerifyPeerCertificate config) bundle auth)"

definition hooked_server where
  "hooked_server cs lib config bundle auth hooked \<longleftrightarrow>
     cfg_ClientAuth hooked = RequireAnyClientCert \<and> cfg_VerifyConnection hooked = cfg_VerifyConnection config \<and>
     cfg_GetConfigForClient hooked = cfg_GetConfigForClient config \<and>
     cfg_VerifyPeerCertificate hooked =
       Some (WrapVerifyPeerCertificate cs lib (cfg_VerifyPeerCertificate config) bundle auth)"

lemma hooked_client_admits:
  assumes "hooked_client cs lib config bundle auth hooked"
  shows "client_admits std hooked w raw \<longleftrightarrow> spiffe_peer cs lib bundle auth config w raw"
  using assms spiffe_peer_nonempty [of cs lib "bundle" auth config]
  by (auto simp: hooked_client_def client_admits_def run_hooked)

lemma hooked_server_admits:
  assumes "hooked_server cs lib config bundle auth hooked"
  shows "server_admits std hooked hello w raw \<longleftrightarrow> (case config_for config w hello of
      Ok None \<Rightarrow> spiffe_peer cs lib bundle auth config w raw
    | Ok (Some other) \<Rightarrow> admits_client std other w raw
    | _ \<Rightarrow> False)"
  using assms spiffe_peer_nonempty [of cs lib "bundle" auth config]
  by (auto simp: hooked_server_def server_admits_def config_for_def admits_client_def run_hooked split: res.splits option.splits)

text \<open>The raw certificates determine the ID.\<close>

lemma peer_ok_unique:
  assumes "peer_ok cs lib src auth raw i chs" "peer_ok cs lib src' auth' raw j chs'"
  shows "i = j"
proof -
  obtain certs certs' where c: "mapM_res (lib_ParseCertificate lib) raw = Ok certs"
      "x509svid_Verify cs lib certs (Some src) [] = Ok (i, chs, None)"
      "mapM_res (lib_ParseCertificate lib) raw = Ok certs'"
      "x509svid_Verify cs lib certs' (Some src') [] = Ok (j, chs', None)"
    using assms unfolding peer_ok_def mapM_res_Ok_iff by blast
  then have "certs' = certs" by simp
  with c(2,4) obtain leaf where "leaf_ok cs leaf i" "leaf_ok cs leaf j"
    unfolding Verify_Ok_iff by auto
  then show ?thesis by (auto simp: leaf_ok_def)
qed

lemmas hook_defs = HookTLSClientConfig_def HookMTLSClientConfig_def HookMTLSWebClientConfig_def
  HookTLSServerConfig_def HookMTLSServerConfig_def HookMTLSWebServerConfig_def resetAuthFields_def Let_def

lemma resetAuthFields_keeps [simp]:
  "cfg_VerifyPeerCertificate (resetAuthFields c) = cfg_VerifyPeerCertificate c"
  "cfg_VerifyConnection (resetAuthFields c) = cfg_VerifyConnection c"
  "cfg_GetConfigForClient (resetAuthFields c) = cfg_GetConfigForClient c"
  "cfg_rest (resetAuthFields c) = cfg_rest c"
  "VersionTLS12 \<le> cfg_MinVersion (resetAuthFields c)"
  by (auto simp: resetAuthFields_def Let_def)

lemma Hook_hooked:
  "hooked_client cs lib config bundle auth (HookTLSClientConfig cs lib config bundle auth)"
  "hooked_client cs lib config bundle auth (HookMTLSClientConfig cs lib config svid bundle auth opts)"
  "hooked_server cs lib config bundle auth (HookMTLSServerConfig cs lib config svid bundle auth opts)"
  "HookMTLSWebServerConfig cs lib config cert bundle auth = Ok config' \<Longrightarrow> hooked_server cs lib config bundle auth config'"
  by (auto simp: hooked_client_def hooked_server_def hook_defs split: option.splits)

lemmas hook_admits = hooked_client_admits [OF Hook_hooked(1)] hooked_client_admits [OF Hook_hooked(2)]
  hooked_server_admits [OF Hook_hooked(3)] hooked_server_admits [OF Hook_hooked(4)]

lemma new_config_admits:
  "client_admits std (TLSClientConfig cs lib zero bundle auth) w raw \<longleftrightarrow>
     (\<exists>src spid chs. bundle = Some src \<and> peer_ok cs lib (src w) auth raw spid chs)"
  "client_admits std (MTLSClientConfig cs lib zero svid bundle auth opts) w raw \<longleftrightarrow>
     (\<exists>src spid chs. bundle = Some src \<and> peer_ok cs lib (src w) auth raw spid chs)"
  "server_admits std (MTLSServerConfig cs lib zero svid bundle auth opts) hello w raw \<longleftrightarrow>
     (\<exists>src spid chs. bundle = Some src \<and> peer_ok cs lib (src w) auth raw spid chs)"
  "MTLSWebServerConfig cs lib zero cert bundle auth = Ok config \<Longrightarrow> server_admits std config hello w raw \<longleftrightarrow>
     (\<exists>src spid chs. bundle = Some src \<and> peer_ok cs lib (src w) auth raw spid chs)"
  by (simp_all add: TLSClientConfig_def MTLSClientConfig_def MTLSServerConfig_def MTLSWebServerConfig_def hook_admits
      spiffe_peer_def)

text \<open>The certificate made of an SVID, and what a failing source gives.\<close>

definition svid_certificate :: "x509svid_SVID \<Rightarrow> tls_certificate" where
  "svid_certificate s = \<lparr>tc_Certificate = map cert_Raw (xs_Certificates s), tc_PrivateKey = xs_PrivateKey s,
     tc_Leaf = hd (xs_Certificates s)\<rparr>"

lemma getTLSCertificate_cases:
  "xs_Certificates s \<noteq> [] \<Longrightarrow> snd (getTLSCertificate (Ok s) trace) = Ok (svid_certificate s)"
  "snd (getTLSCertificate (Err e) trace) = Err e"
proof -
  have "fold (\<lambda>c raw. raw @ [cert_Raw c]) cs acc = acc @ map cert_Raw cs" for cs :: "certificate list" and acc
    by (induction cs arbitrary: acc) auto
  then show "xs_Certificates s \<noteq> [] \<Longrightarrow> snd (getTLSCertificate (Ok s) trace) = Ok (svid_certificate s)"
    by (cases "xs_Certificates s") (auto simp: getTLSCertificate_def svid_certificate_def Let_def)
qed (simp add: getTLSCertificate_def Let_def)

text \<open>The peer of the examples is authenticated.\<close>

lemma ex_peer_ok:
  "peer_ok Backcompat_Deny ex_lib (x509bundle_GetX509BundleForTrustDomain ex_bundle) (AuthorizeID (mk_ID ''td'' ''/w''))
     [''leaf''] (mk_ID ''td'' ''/w'') [[ex_leaf, ex_root]]"
proof -
  have "x509svid_Verify Backcompat_Deny ex_lib [ex_leaf]
      (Some (x509bundle_GetX509BundleForTrustDomain ex_bundle)) [] =
      Ok (mk_ID ''td'' ''/w'', [[ex_leaf, ex_root]], None)"
    using ex_leaf_ok unfolding Verify_Ok_iff
    by (intro exI [of _ ex_leaf] exI [of _ "[]"] exI [of _ ex_bundle])
      (simp add: ex_lib_def ex_bundle_def NewCertPool_def CertPool_AddCert_def
        x509bundle_GetX509BundleForTrustDomain_def)
  moreover have "list_all2 (\<lambda>r c. lib_ParseCertificate ex_lib r = Ok c) [''leaf''] [ex_leaf]"
    by (simp add: ex_lib_def)
  ultimately show ?thesis
    by (auto simp: peer_ok_def AuthorizeID_def AdaptMatcher_def MatchID_None_iff)
qed

section \<open>Properties\<close>

text \<open>
  C11: Authentication by the installed configurations. A configuration hooked for a SPIFFE peer
  (TLS client, mTLS client, mTLS server, mTLS server with a web certificate) admits exactly the
  peers whose certificates parse and verify against the bundle source as it is at the handshake,
  whose ID the authorizer accepts, and which the two callbacks that were already in the
  configuration accept too: its \<open>VerifyPeerCertificate\<close>, run after SPIFFE authentication and on the
  chains that it verified, and its \<open>VerifyConnection\<close>, which is kept. Nobody is admitted without a
  source. For a server all this holds unless the \<open>GetConfigForClient\<close> of the configuration, which is
  kept too, decides the handshake: it may fail it, or give another configuration, and then
  that one alone says who is admitted.
\<close>
theorem hooked_config_admits:
  "(client_admits std (HookTLSClientConfig cs lib config bundle auth) w raw \<longleftrightarrow>
      spiffe_peer cs lib bundle auth config w raw) \<and>
   (client_admits std (HookMTLSClientConfig cs lib config svid bundle auth opts) w raw \<longleftrightarrow>
      spiffe_peer cs lib bundle auth config w raw) \<and>
   (server_admits std (HookMTLSServerConfig cs lib config svid bundle auth opts) hello w raw \<longleftrightarrow>
      (case config_for config w hello of
         Ok None \<Rightarrow> spiffe_peer cs lib bundle auth config w raw
       | Ok (Some other) \<Rightarrow> admits_client std other w raw
       | _ \<Rightarrow> False)) \<and>
   (\<exists>config'. HookMTLSWebServerConfig cs lib config (Some cert) bundle auth = Ok config' \<and>
      (server_admits std config' hello w raw \<longleftrightarrow>
        (case config_for config w hello of
           Ok None \<Rightarrow> spiffe_peer cs lib bundle auth config w raw
         | Ok (Some other) \<Rightarrow> admits_client std other w raw
         | _ \<Rightarrow> False)))"
proof -
  obtain config' where "HookMTLSWebServerConfig cs lib config (Some cert) bundle auth = Ok config'"
    by (simp add: HookMTLSWebServerConfig_def Let_def)
  then show ?thesis by (intro conjI exI [of _ config'] hook_admits)
qed

text \<open>
  Hooking discards the authentication settings that were there: the minimum version is at
  least TLS 1.2, certificates, certificate callbacks, roots and client authentication are the
  hook's own, peer verification is skipped only where the SPIFFE callback replaces it, and the
  fields that have nothing to do with authentication are kept. In particular a web client
  configuration keeps the built-in verification.
\<close>
theorem hook_resets:
  "HookMTLSServerConfig cs lib config svid bundle auth opts =
     config\<lparr>cfg_MinVersion := max VersionTLS12 (cfg_MinVersion config), cfg_Certificates := [],
       cfg_ClientAuth := RequireAnyClientCert, cfg_GetCertificate := Some (GetCertificate svid opts),
       cfg_GetClientCertificate := None, cfg_InsecureSkipVerify := False, cfg_NameToCertificate := [],
       cfg_RootCAs := None, cfg_VerifyPeerCertificate :=
         Some (WrapVerifyPeerCertificate cs lib (cfg_VerifyPeerCertificate config) bundle auth)\<rparr> \<and>
   HookMTLSClientConfig cs lib config svid bundle auth opts =
     config\<lparr>cfg_MinVersion := max VersionTLS12 (cfg_MinVersion config), cfg_Certificates := [],
       cfg_ClientAuth := NoClientCert, cfg_GetCertificate := None,
       cfg_GetClientCertificate := Some (GetClientCertificate svid opts), cfg_InsecureSkipVerify := True,
       cfg_NameToCertificate := [], cfg_RootCAs := None, cfg_VerifyPeerCertificate :=
         Some (WrapVerifyPeerCertificate cs lib (cfg_VerifyPeerCertificate config) bundle auth)\<rparr> \<and>
   HookTLSServerConfig config svid opts =
     config\<lparr>cfg_MinVersion := max VersionTLS12 (cfg_MinVersion config), cfg_Certificates := [],
       cfg_ClientAuth := NoClientCert, cfg_GetCertificate := Some (GetCertificate svid opts),
       cfg_GetClientCertificate := None, cfg_InsecureSkipVerify := False, cfg_NameToCertificate := [],
       cfg_RootCAs := None\<rparr> \<and>
   (std roots raw = None \<longrightarrow> \<not> client_admits std (HookMTLSWebClientConfig config svid roots opts) w raw)"
  by (auto simp: hook_defs client_admits_def verified_callbacks_def max_def split: option.splits)

theorem hook_resets_witness:
  "\<not> client_admits (\<lambda>_ _. None) (HookMTLSWebClientConfig (newTLSConfig ()) (\<lambda>_::nat. Err (New ''no svid'')) None
     ([] :: (nat, nat) Option list)) 0 [''leaf'']"
  by (rule hook_resets [THEN conjunct2, THEN conjunct2, THEN conjunct2, rule_format]) simp

text \<open>
  Hooking the same configuration twice stacks the checks: a client is then admitted only if
  one and the same ID satisfies both authorizers, so hooks for two different IDs admit nobody.
\<close>
theorem hook_twice:
  assumes "config_for config w hello = Ok None"
  shows "(server_admits std (HookMTLSServerConfig cs lib (HookMTLSServerConfig cs lib config svid1 (Some b1) a1 o1)
       svid2 (Some b2) a2 o2) hello w raw \<longrightarrow>
     (\<exists>i chs chs'. peer_ok cs lib (b2 w) a2 raw i chs \<and> peer_ok cs lib (b1 w) a1 raw i chs')) \<and>
   (i \<noteq> j \<longrightarrow> \<not> server_admits std (HookMTLSServerConfig cs lib
       (HookMTLSServerConfig cs lib config svid1 (Some b1) (AuthorizeID i) o1) svid2 (Some b2) (AuthorizeID j) o2) hello w raw)"
proof -
  let ?once = "\<lambda>a. HookMTLSServerConfig cs lib config svid1 (Some b1) a o1"
  have c: "config_for (?once a) w hello = Ok None" for a
    using assms Hook_hooked(3) [of cs lib config "Some b1" a svid1 o1] by (simp add: hooked_server_def config_for_def)
  have "\<exists>k chs chs'. peer_ok cs lib (b2 w) a2 raw k chs \<and> peer_ok cs lib (b1 w) a1 raw k chs'"
    if admits: "server_admits std (HookMTLSServerConfig cs lib (?once a1) svid2 (Some b2) a2 o2) hello w raw" for a1 a2
  proof -
    obtain k chs l chs' where "peer_ok cs lib (b2 w) a2 raw k chs" "peer_ok cs lib (b1 w) a1 raw l chs'"
      using admits Hook_hooked(3) [of cs lib config "Some b1" a1 svid1 o1]
      by (auto simp: hook_admits(3) c spiffe_peer_def accepted_by_def hooked_server_def
          run_callback_def [of "Some _"] Wrap_Ok_iff)
    then show ?thesis using peer_ok_unique by blast
  qed
  moreover have "peer_ok cs lib b (AuthorizeID i) raw k chs \<Longrightarrow> k = i" for b i k chs
    by (auto simp: peer_ok_def AuthorizeID_def AdaptMatcher_def MatchID_None_iff)
  ultimately show ?thesis by metis
qed

theorem hook_twice_witness:
  "\<not> server_admits (\<lambda>_ _. None) (HookMTLSServerConfig Backcompat_Deny ex_lib
     (HookMTLSServerConfig Backcompat_Deny ex_lib (newTLSConfig ()) (\<lambda>_::nat. Err (New ''no svid''))
       (Some (\<lambda>_. x509bundle_GetX509BundleForTrustDomain ex_bundle)) (AuthorizeID (mk_ID ''td'' ''/w'')) ([] :: (nat, nat) Option list))
     (\<lambda>_. Err (New ''no svid'')) (Some (\<lambda>_. x509bundle_GetX509BundleForTrustDomain ex_bundle)) (AuthorizeID (mk_ID ''td'' ''/v''))
     ([] :: (nat, nat) Option list)) ''hello'' 0 [''leaf'']"
  by (rule hook_twice [OF config_for_newTLSConfig, THEN conjunct2, rule_format]) (simp add: mk_ID_inject)

text \<open>
  The certificate a hooked configuration presents is the SVID that the source holds at the
  moment of the handshake: its chain as raw certificates, its leaf and its key. Without an
  SVID the handshake fails with the source's error, which the trace callback is told.
\<close>
theorem presented_certificate:
  "GetCertificate svid opts w = GetClientCertificate svid opts w \<and>
   (svid w = Ok s \<longrightarrow> xs_Certificates s \<noteq> [] \<longrightarrow>
      snd (GetCertificate svid opts w) = Ok \<lparr>tc_Certificate = map cert_Raw (xs_Certificates s),
        tc_PrivateKey = xs_PrivateKey s, tc_Leaf = hd (xs_Certificates s)\<rparr>) \<and>
   (svid w = Err e \<longrightarrow> snd (GetCertificate svid opts w) = Err e \<and>
      (tr_GotCertificate (opt_trace (newOptions opts)) = Some f \<longrightarrow>
        last (fst (GetCertificate svid opts w)) =
          f \<lparr>gi_Cert = None, gi_Err = Some e\<rparr> (map_option fst (tr_GetCertificate (opt_trace (newOptions opts))))))"
  using getTLSCertificate_cases
  by (auto simp: GetCertificate_def GetClientCertificate_def svid_certificate_def)
    (simp add: getTLSCertificate_def Let_def)

theorem presented_certificate_witness:
  "snd (GetCertificate (\<lambda>_::nat. Ok \<lparr>xs_ID = mk_ID ''td'' ''/w'', xs_Certificates = [ex_leaf],
      xs_PrivateKey = Ed25519_PrivateKey ''seed'' ''pub'', xs_Hint = []\<rparr>) ([] :: (nat, nat) Option list) 0) =
   Ok \<lparr>tc_Certificate = [''leaf''], tc_PrivateKey = Ed25519_PrivateKey ''seed'' ''pub'', tc_Leaf = ex_leaf\<rparr>"
  using presented_certificate [where svid = "\<lambda>_::nat. Ok \<lparr>xs_ID = mk_ID ''td'' ''/w'', xs_Certificates = [ex_leaf],
      xs_PrivateKey = Ed25519_PrivateKey ''seed'' ''pub'', xs_Hint = []\<rparr>" and opts = "[] :: (nat, nat) Option list" and w = 0
      and s = "\<lparr>xs_ID = mk_ID ''td'' ''/w'', xs_Certificates = [ex_leaf],
      xs_PrivateKey = Ed25519_PrivateKey ''seed'' ''pub'', xs_Hint = []\<rparr>", THEN conjunct2, THEN conjunct1]
  by (simp add: ex_leaf_def)

end
