(* ===== verification/Workload_Parse.thy ===== *)
theory Workload_Parse
  imports Jwtsvid Witsvid X509svid
begin

text \<open>
  The responses of the Workload API and the functions of \<open>workloadapi/client.go\<close> that turn them
  into SVIDs and bundle sets. The protocol buffer messages are records with the fields the
  code reads; a map field is an association list whose order is the iteration order.
\<close>

section \<open>Definitions\<close>

subsection \<open>Messages\<close>

record X509SVID_msg =
  xm_SpiffeId :: string
  xm_X509Svid :: string
  xm_X509SvidKey :: string
  xm_Bundle :: string
  xm_Hint :: string

record X509SVIDResponse =
  xr_Svids :: "X509SVID_msg list"
  xr_FederatedBundles :: "(string, string) gomap"

record JWTSVID_msg =
  jm_SpiffeId :: string
  jm_Svid :: string
  jm_Hint :: string

record WITSVID_msg =
  wm_SpiffeId :: string
  wm_WitSvid :: string
  wm_WitSvidKey :: string
  wm_Hint :: string

text \<open>What \<open>x509context.go\<close> hands to a watcher.\<close>

record X509Context =
  xc_SVIDs :: "x509svid_SVID list"
  xc_Bundles :: x509bundle_Set

definition X509Context_DefaultSVID :: "X509Context \<Rightarrow> x509svid_SVID res" where
  "X509Context_DefaultSVID x =
     (case xc_SVIDs x of
        [] \<Rightarrow> Panic (New ''index out of range [0] with length 0'')
      | s # _ \<Rightarrow> Ok s)"

subsection \<open>SVIDs\<close>

text \<open>
  The three loops over the SVIDs of a response have one shape: an entry whose hint is not empty
  and was seen before is skipped; every other entry is parsed, and the first failure ends the
  loop. \<open>hints\<close> is the set of hints seen, \<open>svids\<close> the result so far.
\<close>

fun svid_loop :: "('m \<Rightarrow> string) \<Rightarrow> ('m \<Rightarrow> 's res) \<Rightarrow> 'm list \<Rightarrow> string list \<Rightarrow> 's list \<Rightarrow> 's list res" where
  "svid_loop hint_of parse [] hints svids = Ok svids"
| "svid_loop hint_of parse (m # ms) hints svids =
     (if hint_of m \<in> set hints \<and> hint_of m \<noteq> '''' then svid_loop hint_of parse ms hints svids
      else bind_res (parse m) (\<lambda>s. svid_loop hint_of parse ms (hint_of m # hints) (svids @ [s])))"

definition parseX509SVIDs ::
  "charset \<Rightarrow> 't x509_lib \<Rightarrow> X509SVIDResponse \<Rightarrow> bool \<Rightarrow> x509svid_SVID list res" where
  "parseX509SVIDs cs lib resp firstOnly =
     (let n = length (xr_Svids resp) in
      if n = 0 then Err (New ''no SVIDs in response'')
      else let n = (if firstOnly then 1 else n) in
        svid_loop xm_Hint (\<lambda>svid.
          bind_res (x509svid_ParseRaw cs lib (xm_X509Svid svid) (xm_X509SvidKey svid))
            (\<lambda>s. Ok (s\<lparr>xs_Hint := xm_Hint svid\<rparr>))) (take n (xr_Svids resp)) [] [])"

definition parseJWTSVIDs ::
  "charset \<Rightarrow> 'b jose_lib \<Rightarrow> int \<Rightarrow> JWTSVID_msg list \<Rightarrow> string list \<Rightarrow> bool \<Rightarrow> jwtsvid_SVID list res" where
  "parseJWTSVIDs cs lib now resp_Svids audience firstOnly =
     (let n = length resp_Svids in
      if n = 0 then Err (New ''there were no SVIDs in the response'')
      else let n = (if firstOnly then 1 else n) in
        svid_loop jm_Hint (\<lambda>svid.
          bind_res (jwtsvid_ParseInsecure cs lib now (jm_Svid svid) audience)
            (\<lambda>s. Ok (s\<lparr>js_Hint := jm_Hint svid\<rparr>))) (take n resp_Svids) [] [])"

text \<open>The private key of a WIT-SVID comes as a JSON Web Key; \<open>key_of_jwk\<close> is the private key
  inside a decoded one.\<close>

definition parseJWKPrivateKey ::
  "(string \<Rightarrow> parsed_jwk res) \<Rightarrow> (parsed_jwk \<Rightarrow> private_key) \<Rightarrow> string \<Rightarrow> private_key res" where
  "parseJWKPrivateKey unmarshal key_of_jwk jwkStr =
     bind_res (map_err (\<lambda>err. Wrap ''unable to parse private key JWK: %w'' [] err) (unmarshal jwkStr)) (\<lambda>jwkKey.
       if pj_IsPublic jwkKey then Err (New ''expected private key JWK, got public key'')
       else Ok (key_of_jwk jwkKey))"

definition parseWITSVIDs ::
  "charset \<Rightarrow> 'b jose_lib \<Rightarrow> (parsed_jwk \<Rightarrow> private_key) \<Rightarrow> int \<Rightarrow> WITSVID_msg list \<Rightarrow> bool \<Rightarrow> witsvid_SVID list res" where
  "parseWITSVIDs cs lib key_of_jwk now resp_Svids firstOnly =
     (let n = length resp_Svids in
      if n = 0 then Err (New ''no WIT-SVIDs in response'')
      else let n = (if firstOnly then 1 else n) in
        svid_loop wm_Hint (\<lambda>s.
          if wm_WitSvidKey s = '''' then
            Err (Errorf ''missing private key for SVID with SPIFFE ID %q'' [wm_SpiffeId s])
          else
          bind_res (witsvid_ParseInsecure cs lib now (wm_WitSvid s)) (\<lambda>svid.
          bind_res (parseJWKPrivateKey (lib_jwk_UnmarshalJSON lib) key_of_jwk (wm_WitSvidKey s)) (\<lambda>privKey.
            Ok (svid\<lparr>ws_PrivateKey := Some privKey, ws_Hint := wm_Hint s\<rparr>)))) (take n resp_Svids) [] [])"

subsection \<open>Bundles\<close>

definition parseX509Bundle :: "charset \<Rightarrow> 't x509_lib \<Rightarrow> string \<Rightarrow> string \<Rightarrow> x509bundle_Bundle res" where
  "parseX509Bundle cs lib spiffeID bundle =
     bind_res (TrustDomainFromString cs spiffeID) (\<lambda>td.
     bind_res (lib_ParseCertificates lib bundle) (\<lambda>certs.
       Ok (x509bundle_FromX509Authorities td certs)))"

definition parseX509Bundles :: "charset \<Rightarrow> 't x509_lib \<Rightarrow> X509SVIDResponse \<Rightarrow> x509bundle_Set res" where
  "parseX509Bundles cs lib resp =
     bind_res (mapM_res (\<lambda>svid. parseX509Bundle cs lib (xm_SpiffeId svid) (xm_Bundle svid)) (xr_Svids resp)) (\<lambda>bundles.
     bind_res (mapM_res (\<lambda>(tdID, bundle). parseX509Bundle cs lib tdID bundle) (xr_FederatedBundles resp)) (\<lambda>federated.
       Ok (x509bundle_NewSet (map Some (bundles @ federated)))))"

definition parseX509Context :: "charset \<Rightarrow> 't x509_lib \<Rightarrow> X509SVIDResponse \<Rightarrow> X509Context res" where
  "parseX509Context cs lib resp =
     bind_res (parseX509SVIDs cs lib resp False) (\<lambda>svids.
     bind_res (parseX509Bundles cs lib resp) (\<lambda>bundles.
       Ok \<lparr>xc_SVIDs = svids, xc_Bundles = bundles\<rparr>))"

definition parseX509BundlesResponse :: "charset \<Rightarrow> 't x509_lib \<Rightarrow> (string, string) gomap \<Rightarrow> x509bundle_Set res" where
  "parseX509BundlesResponse cs lib resp_Bundles =
     bind_res (mapM_res (\<lambda>(tdID, b).
         bind_res (TrustDomainFromString cs tdID) (\<lambda>td. x509bundle_ParseRaw lib td b)) resp_Bundles)
       (\<lambda>bundles. Ok (x509bundle_NewSet (map Some bundles)))"

definition parseJWTSVIDBundles ::
  "charset \<Rightarrow> (string \<Rightarrow> jwks res) \<Rightarrow> (string, string) gomap \<Rightarrow> jwtbundle_Set res" where
  "parseJWTSVIDBundles cs unmarshal resp_Bundles =
     bind_res (mapM_res (\<lambda>(tdID, b).
         bind_res (TrustDomainFromString cs tdID) (\<lambda>td. jwtbundle_Parse unmarshal td b)) resp_Bundles)
       (\<lambda>bundles. Ok (jwtbundle_NewSet (map Some bundles)))"

definition parseWITBundles ::
  "charset \<Rightarrow> (string \<Rightarrow> jwks res) \<Rightarrow> (string, string) gomap \<Rightarrow> witbundle_Set res" where
  "parseWITBundles cs unmarshal resp_Bundles =
     bind_res (mapM_res (\<lambda>(tdID, bundleStr).
         bind_res (TrustDomainFromString cs tdID) (\<lambda>td. witbundle_Parse unmarshal td bundleStr)) resp_Bundles)
       (\<lambda>bundles. Ok (witbundle_NewSet (map Some bundles)))"

section \<open>Lemmas\<close>

subsection \<open>The hint rule\<close>

text \<open>The entries that are kept: those without a hint, and the first one with each hint.\<close>

fun select_hints :: "('m \<Rightarrow> string) \<Rightarrow> string list \<Rightarrow> 'm list \<Rightarrow> 'm list" where
  "select_hints h seen [] = []"
| "select_hints h seen (m # ms) =
     (if h m \<in> set seen \<and> h m \<noteq> [] then select_hints h seen ms else m # select_hints h (h m # seen) ms)"

lemma svid_loop_eq:
  "svid_loop h parse ms hints acc =
     bind_res (mapM_res parse (select_hints h hints ms)) (\<lambda>ss. Ok (acc @ ss))"
proof (induction ms arbitrary: hints acc)
  case (Cons m ms)
  show ?case
    by (cases "parse m"; cases "mapM_res parse (select_hints h (h m # hints) ms)") (simp_all add: Cons.IH)
qed simp

lemma select_hints_subset: "set (select_hints h seen ms) \<subseteq> set ms"
  by (induction h seen ms rule: select_hints.induct) auto

lemma select_hints_distinct:
  "distinct (filter (\<lambda>x. x \<noteq> []) (map h (select_hints h seen ms))) \<and>
   (\<forall>m \<in> set (select_hints h seen ms). h m = [] \<or> h m \<notin> set seen)"
  by (induction h seen ms rule: select_hints.induct) auto

lemma select_hints_complete:
  "m \<in> set ms \<Longrightarrow> m \<in> set (select_hints h seen ms) \<or>
     h m \<noteq> [] \<and> (h m \<in> set seen \<or> h m \<in> h ` set (select_hints h seen ms))"
  by (induction h seen ms rule: select_hints.induct) auto

lemma select_hints_hd: "ms \<noteq> [] \<Longrightarrow> \<exists>rest. select_hints h [] ms = hd ms # rest"
  by (cases ms) auto

lemma svid_loop_nonempty:
  "ms \<noteq> [] \<Longrightarrow> svid_loop h parse ms [] [] = Ok ss \<Longrightarrow> ss \<noteq> [] \<and> parse (hd ms) = Ok (hd ss)"
  using select_hints_hd [of ms h] by (auto simp: svid_loop_eq)

lemma svid_loop_first: "svid_loop h parse [m] [] [] = bind_res (parse m) (\<lambda>s. Ok [s])"
  by (cases "parse m") auto

lemma parse_loops_nonempty:
  "parseX509SVIDs cs lib resp f = Ok svids \<Longrightarrow> svids \<noteq> []"
  "parseJWTSVIDs cs jlib now ms aud f = Ok jsvids \<Longrightarrow> jsvids \<noteq> []"
  "parseWITSVIDs cs jlib kj now wms f = Ok wsvids \<Longrightarrow> wsvids \<noteq> []"
proof -
  show "parseX509SVIDs cs lib resp f = Ok svids \<Longrightarrow> svids \<noteq> []"
    using svid_loop_nonempty [of "take _ (xr_Svids resp)"]
    by (force simp: parseX509SVIDs_def Let_def split: if_splits)
  show "parseJWTSVIDs cs jlib now ms aud f = Ok jsvids \<Longrightarrow> jsvids \<noteq> []"
    using svid_loop_nonempty [of "take _ ms"] by (force simp: parseJWTSVIDs_def Let_def split: if_splits)
  show "parseWITSVIDs cs jlib kj now wms f = Ok wsvids \<Longrightarrow> wsvids \<noteq> []"
    using svid_loop_nonempty [of "take _ wms"] by (force simp: parseWITSVIDs_def Let_def split: if_splits)
qed

lemma svid_loop_all:
  assumes "svid_loop h parse ms hints acc = Ok ss" "list_all P acc" "\<And>m s. parse m = Ok s \<Longrightarrow> P s"
  shows "list_all P ss"
  using assms(1,2)
  by (induction ms arbitrary: hints acc) (fastforce simp: assms(3) split: if_splits)+

lemma parseX509SVIDs_wf: "parseX509SVIDs cs lib resp f = Ok svids \<Longrightarrow> list_all (x509svid_wf cs) svids"
  unfolding parseX509SVIDs_def Let_def
  by (auto split: if_splits elim!: svid_loop_all dest!: x509svid_ParseRaw_wf simp: x509svid_wf_def)

subsection \<open>Bundles of a response\<close>

lemma x509bundle_ParseRaw_td: "x509bundle_ParseRaw lib td b = Ok bundle \<Longrightarrow> x509bundle_TrustDomain bundle = td"
  using x509_auth.td_add_all [of _ "x509bundle_New td"] x509_auth.new_ok [of td]
  by (auto simp: x509bundle_ParseRaw_def Let_def split: if_splits)

lemma jwtbundle_Parse_td: "jwtbundle_Parse u td b = Ok bundle \<Longrightarrow> jwtbundle_TrustDomain bundle = td"
proof -
  have "jwtbundle_Parse_loop i keys b0 = Ok b1 \<Longrightarrow> jb_trustDomain b1 = jb_trustDomain b0" for i keys b0 b1
    by (induction i keys b0 rule: jwtbundle_Parse_loop.induct)
      (auto simp: jwtbundle_AddJWTAuthority_def split: if_splits)
  then show "jwtbundle_Parse u td b = Ok bundle \<Longrightarrow> ?thesis"
    by (fastforce simp: jwtbundle_Parse_def jwtbundle_TrustDomain_def jwtbundle_New_def)
qed

lemma witbundle_Parse_td: "witbundle_Parse u td b = Ok bundle \<Longrightarrow> witbundle_TrustDomain bundle = td"
proof -
  have "witbundle_Parse_loop i keys b0 = Ok b1 \<Longrightarrow> wb_trustDomain b1 = wb_trustDomain b0" for i keys b0 b1
    by (induction i keys b0 rule: witbundle_Parse_loop.induct)
      (auto simp: witbundle_AddWITAuthority_def split: if_splits)
  then show "witbundle_Parse u td b = Ok bundle \<Longrightarrow> ?thesis"
    by (fastforce simp: witbundle_Parse_def witbundle_TrustDomain_def witbundle_New_def)
qed

interpretation x509_resp: bundle_response "gset_inv x509bundle_TrustDomain" x509bundle_TrustDomain
  x509bundle_Set_Get x509bundle_Set_Has x509bundle_NewSet x509bundle_Set_Add x509bundle_Set_Remove
  x509bundle_Set_Bundles x509bundle_Set_Len "TrustDomainFromString cs" "x509bundle_ParseRaw lib" for cs lib
  by unfold_locales (rule x509bundle_ParseRaw_td)

interpretation jwt_resp: bundle_response "gset_inv jwtbundle_TrustDomain" jwtbundle_TrustDomain
  jwtbundle_Set_Get jwtbundle_Set_Has jwtbundle_NewSet jwtbundle_Set_Add jwtbundle_Set_Remove
  jwtbundle_Set_Bundles jwtbundle_Set_Len "TrustDomainFromString cs" "jwtbundle_Parse u" for cs u
  by unfold_locales (rule jwtbundle_Parse_td)

interpretation wit_resp: bundle_response "gset_inv witbundle_TrustDomain" witbundle_TrustDomain
  witbundle_Set_Get witbundle_Set_Has witbundle_NewSet witbundle_Set_Add witbundle_Set_Remove
  witbundle_Set_Bundles witbundle_Set_Len "TrustDomainFromString cs" "witbundle_Parse u" for cs u
  by unfold_locales (rule witbundle_Parse_td)

lemma responses_eq:
  "parseX509BundlesResponse cs (lib :: 't x509_lib) = x509_resp.response TYPE('t) cs lib"
  "parseJWTSVIDBundles cs u = jwt_resp.response cs u"
  "parseWITBundles cs u = wit_resp.response cs u"
  by (simp_all add: fun_eq_iff parseX509BundlesResponse_def parseJWTSVIDBundles_def parseWITBundles_def
      x509_resp.response_def jwt_resp.response_def wit_resp.response_def
      x509_resp.entry_def jwt_resp.entry_def wit_resp.entry_def)

text \<open>Two different keys that name the same trust domain, as \<open>td\<close> and \<open>spiffe://td\<close> do.\<close>

definition aliased_keys :: "charset \<Rightarrow> (string, string) gomap \<Rightarrow> bool" where
  "aliased_keys cs m \<longleftrightarrow> (\<exists>k k' t. k \<in> fst ` set m \<and> k' \<in> fst ` set m \<and> k \<noteq> k' \<and>
     TrustDomainFromString cs k = Ok t \<and> TrustDomainFromString cs k' = Ok t)"

lemma aliased_keys_eq:
  "x509_resp.same_td cs = aliased_keys cs"
  "jwt_resp.same_td cs = aliased_keys cs"
  "wit_resp.same_td cs = aliased_keys cs"
  by (simp_all add: fun_eq_iff aliased_keys_def x509_resp.same_td_def jwt_resp.same_td_def wit_resp.same_td_def)

lemma parseX509Context_wf:
  assumes "parseX509Context cs lib resp = Ok ctx"
  shows "xc_SVIDs ctx \<noteq> [] \<and> list_all (x509svid_wf cs) (xc_SVIDs ctx) \<and>
    gset_inv x509bundle_TrustDomain (xc_Bundles ctx)"
proof -
  have "parseX509SVIDs cs lib resp False = Ok (xc_SVIDs ctx)"
    and b: "\<exists>bs. xc_Bundles ctx = x509bundle_NewSet bs"
    using assms by (auto simp: parseX509Context_def parseX509Bundles_def)
  from parse_loops_nonempty(1) [OF this(1)] parseX509SVIDs_wf [OF this(1)] b show ?thesis
    by (auto simp: x509_set.inv_new_all)
qed

section \<open>Properties\<close>

text \<open>
  C18: The SVIDs a response gives. When the response parses, the result is not empty and the
  first SVID comes from the first message, so taking index 0 in \<open>FetchX509SVID\<close> and in
  \<open>DefaultSVID\<close> never fails; asking for the first only gives that same SVID. Exactly the
  messages without a hint and the first message with each hint contribute, in order, each
  labelled with its hint.
\<close>
theorem parseX509SVIDs_hints:
  assumes "parseX509SVIDs cs lib resp False = Ok svids"
  shows "svids \<noteq> [] \<and> parseX509SVIDs cs lib resp True = Ok [hd svids] \<and>
    map xs_Hint svids = map xm_Hint (select_hints xm_Hint [] (xr_Svids resp)) \<and>
    distinct (filter (\<lambda>h. h \<noteq> []) (map xs_Hint svids)) \<and>
    (\<forall>m \<in> set (xr_Svids resp). xm_Hint m \<in> set (map xs_Hint svids)) \<and>
    list_all2 (\<lambda>m s. \<exists>s0. x509svid_ParseRaw cs lib (xm_X509Svid m) (xm_X509SvidKey m) = Ok s0 \<and>
       s = s0\<lparr>xs_Hint := xm_Hint m\<rparr>) (select_hints xm_Hint [] (xr_Svids resp)) svids"
proof -
  let ?p = "\<lambda>svid. bind_res (x509svid_ParseRaw cs lib (xm_X509Svid svid) (xm_X509SvidKey svid))
    (\<lambda>s. Ok (s\<lparr>xs_Hint := xm_Hint svid\<rparr>))"
  let ?ms = "select_hints xm_Hint [] (xr_Svids resp)"
  have ne: "xr_Svids resp \<noteq> []" and loop: "svid_loop xm_Hint ?p (xr_Svids resp) [] [] = Ok svids"
    using assms by (auto simp: parseX509SVIDs_def Let_def split: if_splits)
  have l2: "list_all2 (\<lambda>m s. ?p m = Ok s) ?ms svids"
    using loop by (simp add: svid_loop_eq mapM_res_Ok_iff)
  then have hints: "map xs_Hint svids = map xm_Hint ?ms"
    by (induction rule: list_all2_induct) auto
  have hd: "svids \<noteq> []" "?p (hd (xr_Svids resp)) = Ok (hd svids)"
    using svid_loop_nonempty [OF ne loop] by auto
  obtain m ms where ms: "xr_Svids resp = m # ms" using ne by (cases "xr_Svids resp") auto
  have "parseX509SVIDs cs lib resp True = Ok [hd svids]"
    using hd(2) ms by (simp add: parseX509SVIDs_def Let_def)
  moreover have "\<forall>m \<in> set (xr_Svids resp). xm_Hint m \<in> xm_Hint ` set ?ms"
    using select_hints_complete [of _ "xr_Svids resp" xm_Hint "[]"] by auto
  moreover have "distinct (filter (\<lambda>h. h \<noteq> []) (map xm_Hint ?ms))"
    using select_hints_distinct by auto
  moreover have "list_all2 (\<lambda>m s. \<exists>s0. x509svid_ParseRaw cs lib (xm_X509Svid m) (xm_X509SvidKey m) = Ok s0 \<and>
       s = s0\<lparr>xs_Hint := xm_Hint m\<rparr>) ?ms svids"
    by (rule list_all2_mono [OF l2]) auto
  ultimately show ?thesis
    using hd(1) unfolding hints by simp
qed

definition ex_x509_resp :: X509SVIDResponse where
  "ex_x509_resp = \<lparr>xr_Svids =
     [\<lparr>xm_SpiffeId = ''spiffe://td/w'', xm_X509Svid = ''leaf'', xm_X509SvidKey = ''pub'', xm_Bundle = ''root'', xm_Hint = ''h''\<rparr>,
      \<lparr>xm_SpiffeId = ''spiffe://td/w'', xm_X509Svid = ''bad'', xm_X509SvidKey = ''pub'', xm_Bundle = ''root'', xm_Hint = ''h''\<rparr>],
     xr_FederatedBundles = []\<rparr>"

lemma ex_ParseRaw: "x509svid_ParseRaw Backcompat_Deny ex_lib ''leaf'' ''pub'' =
  Ok \<lparr>xs_ID = mk_ID ''td'' ''/w'', xs_Certificates = [ex_leaf], xs_PrivateKey = Ed25519_PrivateKey ''seed'' ''pub'', xs_Hint = []\<rparr>"
proof -
  have "lib_ParseCertificates ex_lib ''leaf'' = Ok [ex_leaf]"
    "lib_ParsePKCS8PrivateKey ex_lib ''pub'' = Ok (Ed25519_PrivateKey ''seed'' ''pub'')"
    by (simp_all add: ex_lib_def)
  moreover have "validateCertificates Backcompat_Deny [ex_leaf] = Ok (mk_ID ''td'' ''/w'')"
    using ex_leaf_ok by (auto simp: validateCertificates_Ok_iff ex_leaf_def KeyUsageDigitalSignature_def bit_simps)
  moreover have "validatePrivateKey (Some (Ed25519_PrivateKey ''seed'' ''pub'')) ex_leaf = Ok (Ed25519_PrivateKey ''seed'' ''pub'')"
    by (simp add: validatePrivateKey_def ex_leaf_def)
  ultimately show ?thesis by (simp add: x509svid_ParseRaw_def newSVID_def)
qed

theorem parseX509SVIDs_hints_witness:
  "\<exists>s. parseX509SVIDs Backcompat_Deny ex_lib ex_x509_resp True = Ok [s] \<and> xs_Hint s = ''h''"
proof -
  obtain s where s: "parseX509SVIDs Backcompat_Deny ex_lib ex_x509_resp False = Ok [s]" "xs_Hint s = ''h''"
    using ex_ParseRaw by (simp add: parseX509SVIDs_def ex_x509_resp_def)
  from parseX509SVIDs_hints [OF s(1)] s(2) show ?thesis by simp
qed

text \<open>
  C19: The bundle sets built from a response do not depend on the order in which the client
  ranges over the map of the response, provided no two keys name the same trust domain: every
  order succeeds or none does, and the sets answer every lookup alike and list the same
  bundles.
\<close>
theorem bundle_responses_order:
  assumes "gm_wf m" "gm_wf m'" "gm_get m = gm_get m'" "\<not> aliased_keys cs m"
  shows "(parseX509BundlesResponse cs lib m = Ok xs \<longrightarrow>
      (\<exists>xs'. parseX509BundlesResponse cs lib m' = Ok xs' \<and> x509bundle_Set_Get xs' = x509bundle_Set_Get xs \<and>
         x509bundle_Set_Bundles xs' = x509bundle_Set_Bundles xs)) \<and>
    (parseJWTSVIDBundles cs u m = Ok js \<longrightarrow>
      (\<exists>js'. parseJWTSVIDBundles cs u m' = Ok js' \<and> jwtbundle_Set_Get js' = jwtbundle_Set_Get js \<and>
         jwtbundle_Set_Bundles js' = jwtbundle_Set_Bundles js)) \<and>
    (parseWITBundles cs u m = Ok ws \<longrightarrow>
      (\<exists>ws'. parseWITBundles cs u m' = Ok ws' \<and> witbundle_Set_Get ws' = witbundle_Set_Get ws \<and>
         witbundle_Set_Bundles ws' = witbundle_Set_Bundles ws))"
  unfolding responses_eq
  using x509_resp.response_order [OF assms(1-3)] jwt_resp.response_order [OF assms(1-3)]
    wit_resp.response_order [OF assms(1-3)] assms(4)
  unfolding aliased_keys_eq by blast

definition no_keys :: "string \<Rightarrow> jwks res" where
  "no_keys s = Ok (if s = ''a'' then Some [zero_jwk (Ed25519_PublicKey ''x'') ''k''] else Some [])"

theorem bundle_responses_order_witness:
  "\<exists>js'. parseJWTSVIDBundles Backcompat_Deny no_keys [(''td2'', ''b''), (''td1'', ''a'')] = Ok js' \<and>
     (\<exists>js. parseJWTSVIDBundles Backcompat_Deny no_keys [(''td1'', ''a''), (''td2'', ''b'')] = Ok js \<and>
       jwtbundle_Set_Get js' = jwtbundle_Set_Get js)"
proof -
  have td: "TrustDomainFromString Backcompat_Deny ''td1'' = Ok (TrustDomain ''td1'')"
    "TrustDomainFromString Backcompat_Deny ''td2'' = Ok (TrustDomain ''td2'')" by code_simp+
  obtain js where js: "parseJWTSVIDBundles Backcompat_Deny no_keys [(''td1'', ''a''), (''td2'', ''b'')] = Ok js"
    by (simp add: parseJWTSVIDBundles_def td jwtbundle_Parse_def no_keys_def jwks_list_def
        jwtbundle_AddJWTAuthority_def zero_jwk_def)
  have "\<not> aliased_keys Backcompat_Deny [(''td1'', ''a''), (''td2'', ''b'')]"
    using td by (auto simp: aliased_keys_def)
  moreover have "map_of [(''td1'', ''a''), (''td2'', ''b'')] = map_of [(''td2'', ''b''), (''td1'', ''a'')]"
    by (auto simp: fun_eq_iff)
  ultimately show ?thesis
    using bundle_responses_order [of "[(''td1'', ''a''), (''td2'', ''b'')]" "[(''td2'', ''b''), (''td1'', ''a'')]"
        Backcompat_Deny _ _ no_keys js, THEN conjunct2, THEN conjunct1] js by auto
qed

text \<open>
  Without that proviso the result depends on the iteration order: a response that names one
  trust domain as \<open>td\<close> and as \<open>spiffe://td\<close> gives a set with an authority in one order and a
  set without it in the other.
\<close>
theorem bundle_response_order_matters:
  "\<exists>s s'. parseJWTSVIDBundles Backcompat_Deny no_keys [(''td'', ''a''), (''spiffe://td'', ''b'')] = Ok s \<and>
     parseJWTSVIDBundles Backcompat_Deny no_keys [(''spiffe://td'', ''b''), (''td'', ''a'')] = Ok s' \<and>
     map_option jwtbundle_Empty (jwtbundle_Set_Get s (TrustDomain ''td'')) = Some True \<and>
     map_option jwtbundle_Empty (jwtbundle_Set_Get s' (TrustDomain ''td'')) = Some False"
proof -
  have td: "TrustDomainFromString Backcompat_Deny ''td'' = Ok (TrustDomain ''td'')"
    "TrustDomainFromString Backcompat_Deny ''spiffe://td'' = Ok (TrustDomain ''td'')" by code_simp+
  show ?thesis
    by (simp add: parseJWTSVIDBundles_def td jwtbundle_Parse_def no_keys_def jwks_list_def
        jwtbundle_AddJWTAuthority_def zero_jwk_def jwtbundle_NewSet_def jwtbundle_New_def
        jwtbundle_Set_Get_def jwtbundle_Empty_def)
qed

end
