(* ===== verification/Workload_Watch.thy ===== *)
theory Workload_Watch
  imports Workload_Parse
begin

text \<open>
  The client of the Workload API (\<open>workloadapi/client.go\<close>): one-shot fetches, the watch loops
  with their backoff (\<open>backoff.go\<close>), and the error handling between attempts.

  The server and the clock are the environment. A call that opens a stream gives an error or a
  stream; a stream gives responses until \<open>Recv\<close> fails. A watch is run on a script: a list of
  attempts, each with what the stream did and how the sleep after it ended (the timer fired, or
  the context was done with an error). The result is everything the watcher was told and every
  delay slept, in order, and either the error the watch returned or that it still runs when
  the script is used up. All five watches of the client are this loop at different parse
  functions, and the WIT watches also stop on \<open>Unimplemented\<close>.
\<close>

section \<open>Definitions\<close>

subsection \<open>Backoff\<close>

text \<open>Delays in seconds: \<open>newLinearBackoff\<close> fixes one and thirty, for which the floating-point
  arithmetic of \<open>Next\<close> is exact.\<close>

record linearBackoff =
  lb_initialDelay :: nat
  lb_maxDelay :: nat
  lb_n :: nat

definition newLinearBackoff :: linearBackoff where
  "newLinearBackoff = \<lparr>lb_initialDelay = 1, lb_maxDelay = 30, lb_n = 0\<rparr>"

definition linearBackoff_Next :: "linearBackoff \<Rightarrow> linearBackoff \<times> nat" where
  "linearBackoff_Next b =
     (let backoff = lb_n b + 1;
          d = min (lb_initialDelay b * backoff) (lb_maxDelay b)
      in (b\<lparr>lb_n := lb_n b + 1\<rparr>, d))"

definition linearBackoff_Reset :: "linearBackoff \<Rightarrow> linearBackoff" where
  "linearBackoff_Reset b = b\<lparr>lb_n := 0\<rparr>"

text \<open>The interfaces \<open>BackoffStrategy\<close> and \<open>Backoff\<close> as the functions of an implementation.\<close>

record 'k BackoffStrategy =
  bs_NewBackoff :: 'k
  bs_Next :: "'k \<Rightarrow> 'k \<times> nat"
  bs_Reset :: "'k \<Rightarrow> 'k"

definition defaultBackoffStrategy :: "linearBackoff BackoffStrategy" where
  "defaultBackoffStrategy =
     \<lparr>bs_NewBackoff = newLinearBackoff, bs_Next = linearBackoff_Next, bs_Reset = linearBackoff_Reset\<rparr>"

subsection \<open>The environment\<close>

datatype grpc_code = Code_OK | Code_Canceled | Code_InvalidArgument | Code_Unimplemented | Code_Other string

text \<open>\<open>Stream rs e\<close>: the stream gave the responses \<open>rs\<close> and then failed with \<open>e\<close>.\<close>

datatype 'r call = Open_Err error | Stream "'r list" error

datatype 'u event = OnUpdate 'u | OnWatchError error | Sleep nat

datatype watch_result = Returned error | Running

subsection \<open>One stream\<close>

text \<open>The inner loop: every response resets the backoff, and is handed to the watcher as an
  update, or as an error when it cannot be parsed; the loop then goes on.\<close>

fun watch_recv ::
  "'k BackoffStrategy \<Rightarrow> ('r \<Rightarrow> 'u res) \<Rightarrow> 'r list \<Rightarrow> 'k \<Rightarrow> 'u event list \<Rightarrow> ('k \<times> 'u event list) res" where
  "watch_recv bs parse [] backoff evs = Ok (backoff, evs)"
| "watch_recv bs parse (resp # resps) backoff evs =
     (let backoff = bs_Reset bs backoff in
      case parse resp of
        Ok u \<Rightarrow> watch_recv bs parse resps backoff (evs @ [OnUpdate u])
      | Err err \<Rightarrow> watch_recv bs parse resps backoff (evs @ [OnWatchError err])
      | Panic e \<Rightarrow> Panic e)"

definition watch_stream ::
  "'k BackoffStrategy \<Rightarrow> ('r \<Rightarrow> 'u res) \<Rightarrow> 'r call \<Rightarrow> 'k \<Rightarrow> ('k \<times> 'u event list \<times> error) res" where
  "watch_stream bs parse call backoff =
     (case call of
        Open_Err err \<Rightarrow> Ok (backoff, [], err)
      | Stream resps err \<Rightarrow>
          bind_res (watch_recv bs parse resps backoff []) (\<lambda>(backoff, evs). Ok (backoff, evs, err)))"

definition watchX509Context where
  "watchX509Context bs cs lib call backoff = watch_stream bs (parseX509Context cs lib) call backoff"

definition watchX509Bundles where
  "watchX509Bundles bs cs lib call backoff = watch_stream bs (parseX509BundlesResponse cs lib) call backoff"

definition watchJWTBundles where
  "watchJWTBundles bs cs unmarshal call backoff = watch_stream bs (parseJWTSVIDBundles cs unmarshal) call backoff"

definition watchWITSVIDs where
  "watchWITSVIDs bs cs lib key_of_jwk now call backoff =
     watch_stream bs (\<lambda>resp. parseWITSVIDs cs lib key_of_jwk now resp False) call backoff"

definition watchWITBundles where
  "watchWITBundles bs cs unmarshal call backoff = watch_stream bs (parseWITBundles cs unmarshal) call backoff"

subsection \<open>Between attempts\<close>

text \<open>\<open>slept\<close> is how the sleep would end: \<^const>\<open>None\<close> when the timer fires, \<open>Some e\<close> when the
  context is done with \<open>e\<close>. The result is the new backoff, the delay slept if any, and the
  error returned.\<close>

definition handleWatchError ::
  "'k BackoffStrategy \<Rightarrow> (error \<Rightarrow> grpc_code) \<Rightarrow> error option \<Rightarrow> error \<Rightarrow> 'k \<Rightarrow> 'k \<times> 'u event list \<times> error option" where
  "handleWatchError bs status_Code slept err backoff =
     (let code = status_Code err in
      if code = Code_Canceled then (backoff, [], Some err)
      else if code = Code_InvalidArgument then (backoff, [], Some err)
      else let (backoff, retryAfter) = bs_Next bs backoff in
        (backoff, [Sleep retryAfter], slept))"

fun watch_loop ::
  "'k BackoffStrategy \<Rightarrow> (error \<Rightarrow> grpc_code) \<Rightarrow> bool \<Rightarrow> ('r call \<Rightarrow> 'k \<Rightarrow> ('k \<times> 'u event list \<times> error) res) \<Rightarrow>
   ('r call \<times> error option) list \<Rightarrow> 'k \<Rightarrow> 'u event list \<Rightarrow> ('u event list \<times> 'k \<times> watch_result) res" where
  "watch_loop bs status_Code stop_unimplemented watch [] backoff evs = Ok (evs, backoff, Running)"
| "watch_loop bs status_Code stop_unimplemented watch ((call, slept) # script) backoff evs =
     bind_res (watch call backoff) (\<lambda>(backoff, evs', err).
       let evs = evs @ evs' @ [OnWatchError err] in
       if stop_unimplemented \<and> status_Code err = Code_Unimplemented then Ok (evs, backoff, Returned err)
       else case handleWatchError bs status_Code slept err backoff of
         (backoff, sl, Some e) \<Rightarrow> Ok (evs @ sl, backoff, Returned e)
       | (backoff, sl, None) \<Rightarrow> watch_loop bs status_Code stop_unimplemented watch script backoff (evs @ sl))"

definition WatchX509Context where
  "WatchX509Context bs status_Code cs lib script =
     watch_loop bs status_Code False (watchX509Context bs cs lib) script (bs_NewBackoff bs) []"

definition WatchX509Bundles where
  "WatchX509Bundles bs status_Code cs lib script =
     watch_loop bs status_Code False (watchX509Bundles bs cs lib) script (bs_NewBackoff bs) []"

definition WatchJWTBundles where
  "WatchJWTBundles bs status_Code cs unmarshal script =
     watch_loop bs status_Code False (watchJWTBundles bs cs unmarshal) script (bs_NewBackoff bs) []"

definition WatchWITSVIDs where
  "WatchWITSVIDs bs status_Code cs lib key_of_jwk now script =
     watch_loop bs status_Code True (watchWITSVIDs bs cs lib key_of_jwk now) script (bs_NewBackoff bs) []"

definition WatchWITBundles where
  "WatchWITBundles bs status_Code cs unmarshal script =
     watch_loop bs status_Code True (watchWITBundles bs cs unmarshal) script (bs_NewBackoff bs) []"

subsection \<open>Fetches\<close>

text \<open>One response from a stream; an unary call gives a response or an error.\<close>

definition fetch_first :: "'r call \<Rightarrow> 'r res" where
  "fetch_first call = (case call of
     Open_Err err \<Rightarrow> Err err | Stream [] err \<Rightarrow> Err err | Stream (resp # _) _ \<Rightarrow> Ok resp)"

text \<open>\<open>svids[0]\<close>\<close>

definition first_svid :: "'s list \<Rightarrow> 's res" where
  "first_svid svids = (case svids of
     [] \<Rightarrow> Panic (New ''index out of range [0] with length 0'') | s # _ \<Rightarrow> Ok s)"

definition FetchX509SVID where
  "FetchX509SVID cs lib call =
     bind_res (fetch_first call) (\<lambda>resp. bind_res (parseX509SVIDs cs lib resp True) first_svid)"

definition FetchX509SVIDs where
  "FetchX509SVIDs cs lib call = bind_res (fetch_first call) (\<lambda>resp. parseX509SVIDs cs lib resp False)"

definition FetchX509Bundles where
  "FetchX509Bundles cs lib call = bind_res (fetch_first call) (parseX509BundlesResponse cs lib)"

definition FetchX509Context where
  "FetchX509Context cs lib call = bind_res (fetch_first call) (parseX509Context cs lib)"

record jwtsvid_Params =
  jp_Audience :: string
  jp_ExtraAudiences :: "string list"
  jp_Subject :: ID

text \<open>The unary call of the JWT fetches, as a function of the request's SPIFFE ID and audience.\<close>

type_synonym jwt_rpc = "string \<Rightarrow> string list \<Rightarrow> JWTSVID_msg list res"

definition FetchJWTSVID ::
  "charset \<Rightarrow> 'b jose_lib \<Rightarrow> int \<Rightarrow> jwt_rpc \<Rightarrow> jwtsvid_Params \<Rightarrow> jwtsvid_SVID res" where
  "FetchJWTSVID cs lib now rpc params =
     (let audience = [jp_Audience params] @ jp_ExtraAudiences params in
      bind_res (rpc (ID_String (jp_Subject params)) audience) (\<lambda>resp.
      bind_res (parseJWTSVIDs cs lib now resp audience True) first_svid))"

definition FetchJWTSVIDs ::
  "charset \<Rightarrow> 'b jose_lib \<Rightarrow> int \<Rightarrow> jwt_rpc \<Rightarrow> jwtsvid_Params \<Rightarrow> jwtsvid_SVID list res" where
  "FetchJWTSVIDs cs lib now rpc params =
     (let audience = [jp_Audience params] @ jp_ExtraAudiences params in
      bind_res (rpc (ID_String (jp_Subject params)) audience) (\<lambda>resp.
        parseJWTSVIDs cs lib now resp audience False))"

definition FetchJWTBundles where
  "FetchJWTBundles cs unmarshal call = bind_res (fetch_first call) (parseJWTSVIDBundles cs unmarshal)"

definition ValidateJWTSVID ::
  "charset \<Rightarrow> 'b jose_lib \<Rightarrow> int \<Rightarrow> (string \<Rightarrow> string \<Rightarrow> error option) \<Rightarrow> string \<Rightarrow> string \<Rightarrow> jwtsvid_SVID res" where
  "ValidateJWTSVID cs lib now rpc token audience =
     (case rpc token audience of
        Some err \<Rightarrow> Err err
      | None \<Rightarrow> jwtsvid_ParseInsecure cs lib now token [audience])"

definition fetchWITSVIDs where
  "fetchWITSVIDs cs lib key_of_jwk now (rpc :: string \<Rightarrow> WITSVID_msg list call) spiffeID firstOnly =
     bind_res (fetch_first (rpc spiffeID)) (\<lambda>resp. parseWITSVIDs cs lib key_of_jwk now resp firstOnly)"

definition FetchWITSVID where
  "FetchWITSVID cs lib key_of_jwk now rpc spiffeID =
     bind_res (fetchWITSVIDs cs lib key_of_jwk now rpc spiffeID True) first_svid"

definition FetchWITSVIDs where
  "FetchWITSVIDs cs lib key_of_jwk now rpc spiffeID = fetchWITSVIDs cs lib key_of_jwk now rpc spiffeID False"

definition FetchWITBundles where
  "FetchWITBundles cs unmarshal call = bind_res (fetch_first call) (parseWITBundles cs unmarshal)"

section \<open>The contract of a backoff\<close>

text \<open>A new backoff is in the state a reset leaves it in. \<open>state k\<close> is the state after \<open>k\<close> calls of
  \<open>Next\<close>, \<open>delay k\<close> what the next call returns.\<close>

locale backoff =
  fixes new :: 'k and nxt :: "'k \<Rightarrow> 'k \<times> nat" and reset :: "'k \<Rightarrow> 'k"
  assumes reset_new: "reset new = new" and reset_next: "reset (fst (nxt b)) = reset b"
begin

definition state :: "nat \<Rightarrow> 'k" where
  "state k = ((\<lambda>b. fst (nxt b)) ^^ k) new"

definition delay :: "nat \<Rightarrow> nat" where
  "delay k = snd (nxt (state k))"

lemma state_0 [simp]: "state 0 = new"
  by (simp add: state_def)

lemma next_state: "nxt (state k) = (state (Suc k), delay k)"
  by (simp add: state_def delay_def prod_eq_iff)

lemma reset_state [simp]: "reset (state k) = new"
  by (induction k) (simp_all add: reset_new state_def reset_next)

end

interpretation linear: backoff newLinearBackoff linearBackoff_Next linearBackoff_Reset
  by unfold_locales (simp_all add: newLinearBackoff_def linearBackoff_Reset_def linearBackoff_Next_def Let_def)

lemma linear_state: "linear.state k = \<lparr>lb_initialDelay = 1, lb_maxDelay = 30, lb_n = k\<rparr>"
  unfolding linear.state_def by (induction k) (simp_all add: newLinearBackoff_def linearBackoff_Next_def Let_def)

lemma linear_delay: "linear.delay k = min (k + 1) 30"
  by (simp add: linear.delay_def linear_state linearBackoff_Next_def Let_def)

section \<open>What a watch does\<close>

text \<open>An attempt, what it tells the watcher, and whether the watch ends after it.\<close>

definition call_err :: "'r call \<Rightarrow> error" where
  "call_err call = (case call of Open_Err e \<Rightarrow> e | Stream _ e \<Rightarrow> e)"

definition call_resps :: "'r call \<Rightarrow> 'r list" where
  "call_resps call = (case call of Open_Err e \<Rightarrow> [] | Stream rs _ \<Rightarrow> rs)"

definition resp_event :: "('r \<Rightarrow> 'u res) \<Rightarrow> 'r \<Rightarrow> 'u event" where
  "resp_event parse r = (case parse r of Ok u \<Rightarrow> OnUpdate u | Err e \<Rightarrow> OnWatchError e | Panic e \<Rightarrow> OnWatchError e)"

definition told :: "('r \<Rightarrow> 'u res) \<Rightarrow> 'r call \<times> error option \<Rightarrow> 'u event list" where
  "told parse a = map (resp_event parse) (call_resps (fst a)) @ [OnWatchError (call_err (fst a))]"

definition attempt_end :: "(error \<Rightarrow> grpc_code) \<Rightarrow> bool \<Rightarrow> 'r call \<times> error option \<Rightarrow> error option" where
  "attempt_end status_Code stop a =
     (let err = call_err (fst a); code = status_Code err in
      if stop \<and> code = Code_Unimplemented \<or> code = Code_Canceled \<or> code = Code_InvalidArgument then Some err
      else snd a)"

fun is_sleep :: "'u event \<Rightarrow> bool" where
  "is_sleep (Sleep _) = True"
| "is_sleep _ = False"

lemma watch_recv_eq:
  assumes "\<And>r. r \<in> set rs \<Longrightarrow> \<not> is_Panic (parse r)"
  shows "watch_recv bs parse rs b evs =
    Ok (if rs = [] then b else (bs_Reset bs ^^ length rs) b, evs @ map (resp_event parse) rs)"
  using assms
proof (induction rs arbitrary: b evs)
  case (Cons r rs)
  have "\<not> is_Panic (parse r)" using Cons.prems by simp
  then show ?case using Cons.IH [of "bs_Reset bs b"] Cons.prems
    by (cases "parse r") (auto simp: resp_event_def funpow_swap1)
qed simp

lemma watch_stream_eq:
  assumes "\<And>r. r \<in> set (call_resps call) \<Longrightarrow> \<not> is_Panic (parse r)"
  shows "\<exists>b'. watch_stream bs parse call b = Ok (b', map (resp_event parse) (call_resps call), call_err call) \<and>
    (call_resps call = [] \<longrightarrow> b' = b)"
  using assms by (cases call) (auto simp: watch_stream_def call_resps_def call_err_def watch_recv_eq)

lemma attempt_end_handle:
  "attempt_end status_Code stop (call, slept) = None \<Longrightarrow>
     \<not> (stop \<and> status_Code (call_err call) = Code_Unimplemented) \<and>
     handleWatchError bs status_Code slept (call_err call) b =
       (fst (bs_Next bs b), [Sleep (snd (bs_Next bs b))], None)"
  "attempt_end status_Code stop (call, slept) = Some e \<Longrightarrow>
     stop \<and> status_Code (call_err call) = Code_Unimplemented \<and> e = call_err call \<or>
     (\<exists>b' sl. handleWatchError bs status_Code slept (call_err call) b = (b', sl, Some e) \<and> list_all is_sleep sl)"
  by (auto simp: attempt_end_def handleWatchError_def Let_def split: if_splits prod.splits)

text \<open>
  A watch that was run on a script consumed a prefix of it; the attempts before the last one did
  not end it; and, sleeps apart, the watcher was told what each attempt of the prefix tells.
\<close>

definition run_of ::
  "(error \<Rightarrow> grpc_code) \<Rightarrow> bool \<Rightarrow> ('r call \<times> error option) list \<Rightarrow> ('r call \<times> error option) list \<Rightarrow> watch_result \<Rightarrow> bool" where
  "run_of status_Code stop script consumed r \<longleftrightarrow>
     (\<exists>pre rest. script = pre @ rest \<and> list_all (\<lambda>a. attempt_end status_Code stop a = None) pre \<and>
        (case r of
           Running \<Rightarrow> rest = [] \<and> consumed = pre
         | Returned e \<Rightarrow> \<exists>a rest'. rest = a # rest' \<and> attempt_end status_Code stop a = Some e \<and> consumed = pre @ [a]))"

lemma run_of_Cons:
  assumes "attempt_end status_Code stop a = None" "run_of status_Code stop script consumed r"
  shows "run_of status_Code stop (a # script) (a # consumed) r"
proof -
  from assms(2) obtain pre rest where p: "script = pre @ rest"
      "list_all (\<lambda>a. attempt_end status_Code stop a = None) pre"
      "case r of Running \<Rightarrow> rest = [] \<and> consumed = pre
         | Returned e \<Rightarrow> \<exists>a rest'. rest = a # rest' \<and> attempt_end status_Code stop a = Some e \<and> consumed = pre @ [a]"
    unfolding run_of_def by blast
  show ?thesis unfolding run_of_def
    by (rule exI [of _ "a # pre"], rule exI [of _ rest]) (use p assms(1) in \<open>auto split: watch_result.splits\<close>)
qed

lemma watch_loop_run:
  fixes parse :: "'r \<Rightarrow> 'u res"
  assumes "\<And>a r. a \<in> set script \<Longrightarrow> r \<in> set (call_resps (fst a)) \<Longrightarrow> \<not> is_Panic (parse r)"
  shows "\<exists>evs' b' r consumed. watch_loop bs status_Code stop (watch_stream bs parse) script b evs = Ok (evs', b', r) \<and>
    run_of status_Code stop script consumed r \<and>
    filter (\<lambda>e. \<not> is_sleep e) evs' = filter (\<lambda>e. \<not> is_sleep e) evs @ concat (map (told parse) consumed)"
  using assms
proof (induction script arbitrary: b evs)
  case Nil
  have "run_of status_Code stop [] [] Running" by (simp add: run_of_def)
  then show ?case by auto
next
  case (Cons a script)
  obtain call slept where a: "a = (call, slept)" by force
  obtain b1 where w: "watch_stream bs parse call b = Ok (b1, map (resp_event parse) (call_resps call), call_err call)"
    using watch_stream_eq [of call parse bs b] Cons.prems [of a] a by (metis fst_conv list.set_intros(1))
  let ?evs = "evs @ map (resp_event parse) (call_resps call) @ [OnWatchError (call_err call)]"
  have told: "filter (\<lambda>e. \<not> is_sleep e) ?evs = filter (\<lambda>e. \<not> is_sleep e) evs @ told parse a"
    by (auto simp: a told_def resp_event_def filter_empty_conv split: res.splits)
  show ?case
  proof (cases "attempt_end status_Code stop a")
    case None
    note h = attempt_end_handle(1) [OF None [unfolded a], of bs b1]
    obtain evs' b' r consumed where ih:
      "watch_loop bs status_Code stop (watch_stream bs parse) script (fst (bs_Next bs b1)) (?evs @ [Sleep (snd (bs_Next bs b1))]) = Ok (evs', b', r)"
      "run_of status_Code stop script consumed r"
      "filter (\<lambda>e. \<not> is_sleep e) evs' = filter (\<lambda>e. \<not> is_sleep e) (?evs @ [Sleep (snd (bs_Next bs b1))]) @ concat (map (told parse) consumed)"
      using Cons.IH [of "fst (bs_Next bs b1)" "?evs @ [Sleep (snd (bs_Next bs b1))]"] Cons.prems
      by (meson list.set_intros(2))
    have "filter (\<lambda>e. \<not> is_sleep e) evs' = filter (\<lambda>e. \<not> is_sleep e) evs @ concat (map (told parse) (a # consumed))"
      unfolding ih(3) filter_append told [unfolded filter_append] by (simp add: told [unfolded filter_append, simplified])
    moreover have "watch_loop bs status_Code stop (watch_stream bs parse) (a # script) b evs = Ok (evs', b', r)"
      using ih(1) unfolding a by (simp add: w h Let_def)
    ultimately show ?thesis using run_of_Cons [OF None ih(2)] by blast
  next
    case (Some e)
    have r: "run_of status_Code stop (a # script) [a] (Returned e)"
      unfolding run_of_def by (rule exI [of _ "[]"], rule exI [of _ "a # script"]) (use Some in auto)
    have "stop \<and> status_Code (call_err call) = Code_Unimplemented \<and> e = call_err call \<or>
        (\<exists>b' (sl :: 'u event list). handleWatchError bs status_Code slept (call_err call) b1 = (b', sl, Some e) \<and> list_all is_sleep sl)"
      by (rule attempt_end_handle(2) [OF Some [unfolded a]])
    then show ?thesis
    proof (elim disjE exE conjE)
      assume "stop" "status_Code (call_err call) = Code_Unimplemented" "e = call_err call"
      then show ?thesis using w told r unfolding a by (auto simp: Let_def)
    next
      fix b' and sl :: "'u event list" assume h: "handleWatchError bs status_Code slept (call_err call) b1 = (b', sl, Some e)" "list_all is_sleep sl"
      have sl: "filter (\<lambda>e. \<not> is_sleep e) sl = []" using h(2) by (auto simp: filter_empty_conv list_all_iff)
      show ?thesis
      proof (cases "stop \<and> status_Code (call_err call) = Code_Unimplemented")
        case True
        then have "e = call_err call" using Some unfolding a by (simp add: attempt_end_def Let_def)
        then show ?thesis using True w told r unfolding a by (auto simp: Let_def)
      next
        case False
        then show ?thesis using h(1) sl w told r unfolding a by (auto simp: Let_def)
      qed
    qed
  qed
qed

subsection \<open>Delays\<close>

text \<open>The delays of a watch with the default strategy: \<open>n\<close> is the number of sleeps since the
  last response.\<close>

fun delays_of :: "nat \<Rightarrow> ('r call \<times> error option) list \<Rightarrow> nat list" where
  "delays_of n [] = []"
| "delays_of n (a # as) =
     (let n = (if call_resps (fst a) = [] then n else 0) in min (n + 1) 30 # delays_of (n + 1) as)"

definition sleeps :: "'u event list \<Rightarrow> nat list" where
  "sleeps evs = List.map_filter (\<lambda>e. case e of Sleep d \<Rightarrow> Some d | _ \<Rightarrow> None) evs"

lemma sleeps_simps [simp]: "sleeps [] = []" "sleeps (xs @ ys) = sleeps xs @ sleeps ys"
  "sleeps (OnUpdate u # xs) = sleeps xs" "sleeps (OnWatchError e # xs) = sleeps xs" "sleeps (Sleep d # xs) = d # sleeps xs"
  by (simp_all add: sleeps_def map_filter_def)

lemma sleeps_resp_events [simp]: "sleeps (map (resp_event parse) rs) = []"
  by (induction rs) (auto simp: resp_event_def split: res.splits)

lemma linear_watch_stream:
  fixes call :: "'r call"
  assumes "\<And>r. r \<in> set (call_resps call) \<Longrightarrow> \<not> is_Panic (parse r)"
  shows "watch_stream defaultBackoffStrategy parse call (linear.state n) =
    Ok (linear.state (if call_resps call = [] then n else 0), map (resp_event parse) (call_resps call), call_err call)"
proof -
  have "(linearBackoff_Reset ^^ Suc k) (linear.state n) = linear.state 0" for k
    by (induction k) (simp_all add: linear.reset_new)
  then have "(if rs = [] then linear.state n else (linearBackoff_Reset ^^ length rs) (linear.state n)) =
      linear.state (if rs = [] then n else 0)" for rs :: "'r list"
    by (cases rs) simp_all
  note * = this
  have "watch_recv defaultBackoffStrategy parse rs (linear.state n) [] =
      Ok (linear.state (if rs = [] then n else 0), map (resp_event parse) rs)"
    if "\<And>r. r \<in> set rs \<Longrightarrow> \<not> is_Panic (parse r)" for rs
  proof -
    have "watch_recv defaultBackoffStrategy parse rs (linear.state n) [] =
      Ok (if rs = [] then linear.state n else (bs_Reset defaultBackoffStrategy ^^ length rs) (linear.state n),
        [] @ map (resp_event parse) rs)"
      by (rule watch_recv_eq) (rule that)
    moreover have "bs_Reset defaultBackoffStrategy = linearBackoff_Reset" by (simp add: defaultBackoffStrategy_def)
    ultimately show ?thesis by (simp only: * append_Nil)
  qed
  then show ?thesis using assms
    by (cases call) (simp_all add: watch_stream_def call_resps_def call_err_def)
qed

lemma linear_delays:
  assumes "\<And>a r. a \<in> set script \<Longrightarrow> r \<in> set (call_resps (fst a)) \<Longrightarrow> \<not> is_Panic (parse r)"
    and "list_all (\<lambda>a. attempt_end status_Code stop a = None) script"
  shows "\<exists>evs' b'. watch_loop defaultBackoffStrategy status_Code stop (watch_stream defaultBackoffStrategy parse)
      script (linear.state n) evs = Ok (evs', b', Running) \<and> sleeps evs' = sleeps evs @ delays_of n script"
  using assms
proof (induction script arbitrary: n evs)
  case (Cons a script)
  obtain call slept where a: "a = (call, slept)" by force
  let ?n = "if call_resps call = [] then n else 0"
  let ?evs = "evs @ map (resp_event parse) (call_resps call) @ [OnWatchError (call_err call)] @ [Sleep (linear.delay ?n)]"
  have w: "watch_stream defaultBackoffStrategy parse call (linear.state n) =
      Ok (linear.state ?n, map (resp_event parse) (call_resps call), call_err call)"
    by (rule linear_watch_stream) (use Cons.prems(1) [of a] a in simp)
  have "attempt_end status_Code stop (call, slept) = None" using Cons.prems(2) a by simp
  note h = attempt_end_handle(1) [OF this, of defaultBackoffStrategy "linear.state ?n"]
  obtain evs' b' where ih: "watch_loop defaultBackoffStrategy status_Code stop (watch_stream defaultBackoffStrategy parse)
      script (linear.state (Suc ?n)) ?evs = Ok (evs', b', Running)" "sleeps evs' = sleeps ?evs @ delays_of (Suc ?n) script"
    using Cons.IH [of "Suc ?n" ?evs] Cons.prems by (metis list.set_intros(2) list.pred_inject(2))
  have nx: "bs_Next defaultBackoffStrategy (linear.state k) = (linear.state (Suc k), linear.delay k)" for k
    by (simp add: defaultBackoffStrategy_def linear.next_state)
  show ?case using ih unfolding a by (simp add: w h Let_def nx linear_delay)
qed simp

section \<open>The parse functions do not panic\<close>

definition x509_no_panic :: "'t x509_lib \<Rightarrow> bool" where
  "x509_no_panic lib \<longleftrightarrow> (\<forall>b. \<not> is_Panic (lib_ParseCertificates lib b)) \<and>
     (\<forall>b. \<not> is_Panic (lib_ParsePKCS8PrivateKey lib b))"

lemma td_no_panic [simp]: "\<not> is_Panic (TrustDomainFromString cs s)"
  using TrustDomainFromString_no_panic [of cs s] by (auto simp: is_Panic_iff)

lemma svid_loop_no_panic:
  "(\<And>m. m \<in> set ms \<Longrightarrow> \<not> is_Panic (parse m)) \<Longrightarrow> \<not> is_Panic (svid_loop h parse ms hints acc)"
  unfolding svid_loop_eq using select_hints_subset [of h hints ms] by (auto dest!: is_Panic_mapM_res)

lemma newSVID_no_panic: "\<not> is_Panic (newSVID cs certs key)"
  using IDFromCert_no_panic [of cs]
  by (auto simp: newSVID_def validateCertificates_def validateLeafCertificate_def validatePrivateKey_def
      is_Panic_iff bind_res_Panic_iff map_err_Panic_iff split: if_splits option.splits prod.splits)

lemma x509svid_ParseRaw_no_panic: "x509_no_panic lib \<Longrightarrow> \<not> is_Panic (x509svid_ParseRaw cs lib c k)"
  by (simp add: x509svid_ParseRaw_def x509_no_panic_def newSVID_no_panic)

lemma parseX509SVIDs_no_panic: "x509_no_panic lib \<Longrightarrow> \<not> is_Panic (parseX509SVIDs cs lib resp f)"
  by (simp add: parseX509SVIDs_def Let_def svid_loop_no_panic x509svid_ParseRaw_no_panic)

lemma parseX509Context_no_panic: "x509_no_panic lib \<Longrightarrow> \<not> is_Panic (parseX509Context cs lib resp)"
  by (auto simp: parseX509Context_def parseX509Bundles_def parseX509Bundle_def parseX509SVIDs_no_panic
      x509_no_panic_def dest!: is_Panic_mapM_res)

lemma parseX509BundlesResponse_no_panic: "x509_no_panic lib \<Longrightarrow> \<not> is_Panic (parseX509BundlesResponse cs lib resp)"
  by (auto simp: parseX509BundlesResponse_def x509bundle_ParseRaw_def x509_no_panic_def Let_def
      split: if_splits dest!: is_Panic_mapM_res)

lemma jwtbundle_Parse_loop_no_panic: "\<not> is_Panic (jwtbundle_Parse_loop i keys b)"
  by (induction i keys b rule: jwtbundle_Parse_loop.induct) (auto split: prod.splits option.splits)

lemma witbundle_Parse_loop_no_panic: "\<not> is_Panic (witbundle_Parse_loop i keys b)"
  by (induction i keys b rule: witbundle_Parse_loop.induct) (auto split: prod.splits option.splits)

lemma parseJWTSVIDBundles_no_panic: "(\<And>s. \<not> is_Panic (u s)) \<Longrightarrow> \<not> is_Panic (parseJWTSVIDBundles cs u resp)"
  by (auto simp: parseJWTSVIDBundles_def jwtbundle_Parse_def jwtbundle_Parse_loop_no_panic dest!: is_Panic_mapM_res)

lemma parseWITBundles_no_panic: "(\<And>s. \<not> is_Panic (u s)) \<Longrightarrow> \<not> is_Panic (parseWITBundles cs u resp)"
  by (auto simp: parseWITBundles_def witbundle_Parse_def witbundle_Parse_loop_no_panic dest!: is_Panic_mapM_res)

section \<open>Properties\<close>

text \<open>
  C27: A watch reports everything, in order, and ends only for cause. Whatever the streams do and
  whatever the backoff strategy, the watcher is told, for every attempt that was made, of each
  response -- an update when it parses, an error otherwise, after which the stream is still
  read -- and then of the error that ended the stream. The watch returns only after an
  attempt that failed with \<open>Canceled\<close> or \<open>InvalidArgument\<close> (for WIT also \<open>Unimplemented\<close>), or
  during a sleep in which the context was done; otherwise it goes on to the next attempt.
\<close>
theorem watch_reports:
  assumes "x509_no_panic lib" "\<And>s. \<not> is_Panic (u s)"
  shows "(\<exists>evs b r as. WatchX509Context bs code cs lib xscript = Ok (evs, b, r) \<and> run_of code False xscript as r \<and>
      filter (\<lambda>e. \<not> is_sleep e) evs = concat (map (told (parseX509Context cs lib)) as)) \<and>
    (\<exists>evs b r as. WatchX509Bundles bs code cs lib script = Ok (evs, b, r) \<and> run_of code False script as r \<and>
      filter (\<lambda>e. \<not> is_sleep e) evs = concat (map (told (parseX509BundlesResponse cs lib)) as)) \<and>
    (\<exists>evs b r as. WatchJWTBundles bs code cs u script = Ok (evs, b, r) \<and> run_of code False script as r \<and>
      filter (\<lambda>e. \<not> is_sleep e) evs = concat (map (told (parseJWTSVIDBundles cs u)) as)) \<and>
    (\<exists>evs b r as. WatchWITBundles bs code cs u script = Ok (evs, b, r) \<and> run_of code True script as r \<and>
      filter (\<lambda>e. \<not> is_sleep e) evs = concat (map (told (parseWITBundles cs u)) as))"
proof -
  note eta = watchX509Context_def [abs_def] watchX509Bundles_def [abs_def] watchJWTBundles_def [abs_def]
    watchWITBundles_def [abs_def]
  show ?thesis
    unfolding WatchX509Context_def WatchX509Bundles_def WatchJWTBundles_def WatchWITBundles_def eta
    using watch_loop_run [of xscript "parseX509Context cs lib" bs code False "bs_NewBackoff bs" "[]"]
      watch_loop_run [of script "parseX509BundlesResponse cs lib" bs code False "bs_NewBackoff bs" "[]"]
      watch_loop_run [of script "parseJWTSVIDBundles cs u" bs code False "bs_NewBackoff bs" "[]"]
      watch_loop_run [of script "parseWITBundles cs u" bs code True "bs_NewBackoff bs" "[]"]
      parseX509Context_no_panic [OF assms(1)] parseX509BundlesResponse_no_panic [OF assms(1)]
      parseJWTSVIDBundles_no_panic [of u, OF assms(2)] parseWITBundles_no_panic [of u, OF assms(2)]
    by simp
qed

text \<open>
  C28: The delays of a watch with the default strategy. While the attempts go on, the delay after
  the first failure is one second, it grows by one second with every failed attempt up to
  thirty, and it starts again at one second after an attempt that gave any response. So no
  delay is ever below one second or above thirty.
\<close>
theorem watch_delays:
  assumes "x509_no_panic lib" "list_all (\<lambda>a. attempt_end code False a = None) script"
  shows "\<exists>evs b. WatchX509Context defaultBackoffStrategy code cs lib script = Ok (evs, b, Running) \<and>
     sleeps evs = delays_of 0 script \<and> length (sleeps evs) = length script \<and>
     (\<forall>d \<in> set (sleeps evs). 1 \<le> d \<and> d \<le> 30)"
proof -
  have "watchX509Context defaultBackoffStrategy cs lib = watch_stream defaultBackoffStrategy (parseX509Context cs lib)"
    by (simp add: fun_eq_iff watchX509Context_def)
  moreover have "bs_NewBackoff defaultBackoffStrategy = linear.state 0"
    by (simp add: defaultBackoffStrategy_def)
  moreover have "length (delays_of n as) = length as \<and> (\<forall>d \<in> set (delays_of n as). 1 \<le> d \<and> d \<le> 30)"
    for n and as :: "(X509SVIDResponse call \<times> error option) list"
    by (induction n as rule: delays_of.induct) (auto simp: Let_def)
  ultimately show ?thesis
    using linear_delays [of script "parseX509Context cs lib" code False 0 "[]"] assms(2)
      parseX509Context_no_panic [OF assms(1)]
    unfolding WatchX509Context_def by fastforce
qed

text \<open>A script of two attempts: a stream with one empty response that breaks off, then a
  cancelled open.\<close>

definition ex_watch_lib :: "nat x509_lib" where
  "ex_watch_lib = ex_lib\<lparr>lib_ParseCertificates := \<lambda>_. Err (New ''x509: malformed''),
     lib_ParsePKCS8PrivateKey := \<lambda>_. Err (New ''x509: malformed'')\<rparr>"

definition ex_watch_code :: "error \<Rightarrow> grpc_code" where
  "ex_watch_code e = (if e = New ''canceled'' then Code_Canceled else Code_Other ''unavailable'')"

lemma ex_watch_lib_no_panic: "x509_no_panic ex_watch_lib"
  by (simp add: x509_no_panic_def ex_watch_lib_def)

theorem watch_reports_witness:
  "(let xs = [(Stream [\<lparr>xr_Svids = [], xr_FederatedBundles = []\<rparr>] (New ''eof''), None), (Open_Err (New ''canceled''), None)];
        js = [(Stream [[(''bad td'', '''')]] (New ''eof''), Some (New ''deadline''))]
    in (\<exists>evs b r as. WatchX509Context defaultBackoffStrategy ex_watch_code Backcompat_Deny ex_watch_lib xs = Ok (evs, b, r) \<and>
         run_of ex_watch_code False xs as r \<and>
         filter (\<lambda>e. \<not> is_sleep e) evs = concat (map (told (parseX509Context Backcompat_Deny ex_watch_lib)) as)) \<and>
       (\<exists>evs b r as. WatchJWTBundles defaultBackoffStrategy ex_watch_code Backcompat_Deny (\<lambda>_. Err (New ''json'')) js = Ok (evs, b, r) \<and>
         run_of ex_watch_code False js as r \<and>
         filter (\<lambda>e. \<not> is_sleep e) evs = concat (map (told (parseJWTSVIDBundles Backcompat_Deny (\<lambda>_. Err (New ''json'')))) as)))"
  unfolding Let_def
  using watch_reports [where lib = ex_watch_lib and u = "\<lambda>_. Err (New ''json'')" and bs = defaultBackoffStrategy and code = ex_watch_code and cs = Backcompat_Deny and
      xscript = "[(Stream [\<lparr>xr_Svids = [], xr_FederatedBundles = []\<rparr>] (New ''eof''), None), (Open_Err (New ''canceled''), None)]" and
      script = "[(Stream [[(''bad td'', '''')]] (New ''eof''), Some (New ''deadline''))]"] ex_watch_lib_no_panic
  by simp

theorem watch_delays_witness:
  "\<exists>evs b. WatchX509Context defaultBackoffStrategy ex_watch_code Backcompat_Deny ex_watch_lib
     [(Open_Err (New ''down''), None), (Open_Err (New ''down''), None),
      (Stream [\<lparr>xr_Svids = [], xr_FederatedBundles = []\<rparr>] (New ''eof''), None), (Open_Err (New ''down''), None)]
       = Ok (evs, b, Running) \<and> sleeps evs = [1, 2, 1, 2]"
proof -
  let ?script = "[(Open_Err (New ''down''), None), (Open_Err (New ''down''), None),
      (Stream [\<lparr>xr_Svids = [], xr_FederatedBundles = []\<rparr>] (New ''eof''), None), (Open_Err (New ''down''), None)]"
  have e: "list_all (\<lambda>a. attempt_end ex_watch_code False a = None) ?script"
    by (simp add: attempt_end_def call_err_def ex_watch_code_def)
  have "delays_of 0 ?script = [1, 2, 1, 2]" by (simp add: call_resps_def)
  then show ?thesis
    using watch_delays [OF ex_watch_lib_no_panic e, of Backcompat_Deny] by auto
qed

end
