(* ===== verification/Workload_Watcher.thy ===== *)
theory Workload_Watcher
  imports Workload_Watch
begin

text \<open>
  The watcher behind the sources of the Workload API (\<open>workloadapi/watcher.go\<close>).
  \<open>watcherBase\<close> keeps the life cycle and the update notification, \<open>watcher\<close> runs up to two
  watches in goroutines and hands their updates to the functions of a source, whose state
  is the field \<open>w_src\<close>.

  The first part translates the operations. The second part is the concurrent program: the
  constructor \<open>newWatcher\<close>, the two watch goroutines, the callers of \<open>Close\<close>, a consumer of the
  update channel and the context, interleaved step by step. A step is what happens between two
  points where another goroutine can act; the channels \<open>updatedCh\<close> (capacity one) and
  \<open>errCh\<close> (capacity two) and the mutex of \<open>closeBase\<close> are guards of the steps.
\<close>

section \<open>The operations\<close>

text \<open>\<open>wb_hasCancel\<close>: \<open>cancel\<close> is the cancel function of a watch context and not the empty
  function it is initialised with. \<open>wb_updatedCh\<close>: the channel holds a token.\<close>

record watcherBase =
  wb_hasCancel :: bool
  wb_cancelled :: bool
  wb_closed :: bool
  wb_closeErr :: "error option"
  wb_updatedCh :: bool

definition newWatcherBase :: watcherBase where
  "newWatcherBase = \<lparr>wb_hasCancel = False, wb_cancelled = False, wb_closed = False,
     wb_closeErr = None, wb_updatedCh = False\<rparr>"

definition drainUpdated :: "watcherBase \<Rightarrow> watcherBase" where
  "drainUpdated b = b\<lparr>wb_updatedCh := False\<rparr>"

definition triggerUpdated :: "watcherBase \<Rightarrow> watcherBase" where
  "triggerUpdated b = b\<lparr>wb_updatedCh := True\<rparr>"

text \<open>A \<open>select\<close>: either branch that is ready, and it blocks when none is.\<close>

inductive waitUntilUpdated :: "error option \<Rightarrow> watcherBase \<Rightarrow> error option \<Rightarrow> watcherBase \<Rightarrow> bool" for ctx where
  updated: "wb_updatedCh b \<Longrightarrow> waitUntilUpdated ctx b None (b\<lparr>wb_updatedCh := False\<rparr>)"
| ctx_done: "ctx = Some e \<Longrightarrow> waitUntilUpdated ctx b (Some e) b"

inductive_simps waitUntilUpdated_nil [simp]: "waitUntilUpdated ctx b None b'"
inductive_simps waitUntilUpdated_err [simp]: "waitUntilUpdated ctx b (Some e) b'"

text \<open>The channel, as its state: whether it holds a token.\<close>

definition updated :: "watcherBase \<Rightarrow> bool" where
  "updated b = wb_updatedCh b"

text \<open>\<open>closeBase\<close> in the three parts between which it waits: \<open>cancel\<close>, then \<open>wg.Wait\<close>, then the
  client closer (when there is one, with its result) and the flag.\<close>

definition closeBase_cancel :: "watcherBase \<Rightarrow> watcherBase" where
  "closeBase_cancel b = b\<lparr>wb_cancelled := wb_cancelled b \<or> wb_hasCancel b\<rparr>"

definition closeBase_finish :: "error option option \<Rightarrow> watcherBase \<Rightarrow> watcherBase" where
  "closeBase_finish clientCloser b =
     (case clientCloser of None \<Rightarrow> b | Some r \<Rightarrow> b\<lparr>wb_closeErr := r\<rparr>)\<lparr>wb_closed := True\<rparr>"

definition closeBase :: "error option option \<Rightarrow> watcherBase \<Rightarrow> watcherBase \<times> error option" where
  "closeBase clientCloser b =
     (if \<not> wb_closed b
      then let b = closeBase_finish clientCloser (closeBase_cancel b) in (b, wb_closeErr b)
      else (b, wb_closeErr b))"

text \<open>\<open>w_client\<close>: the client is not nil. The functions are nil or not; the channels
  \<open>x509ContextSet\<close> and \<open>jwtBundlesSet\<close> are closed or not (\<open>sync.Once\<close> makes closing idempotent).\<close>

record 's watcher =
  w_base :: watcherBase
  w_client :: bool
  w_ownsClient :: bool
  w_x509ContextFn :: "(X509Context \<Rightarrow> 's \<Rightarrow> 's res) option"
  w_x509ContextSet :: bool
  w_jwtBundlesFn :: "(jwtbundle_Set \<Rightarrow> 's \<Rightarrow> 's res) option"
  w_jwtBundlesSet :: bool
  w_src :: 's

definition nil_call :: "'a res" where
  "nil_call = Panic (New ''invalid memory address or nil pointer dereference'')"

definition OnX509ContextUpdate :: "X509Context \<Rightarrow> 's watcher \<Rightarrow> 's watcher res" where
  "OnX509ContextUpdate x509Context w =
     (case w_x509ContextFn w of
        None \<Rightarrow> nil_call
      | Some f \<Rightarrow> bind_res (f x509Context (w_src w)) (\<lambda>src.
          let w = w\<lparr>w_src := src\<rparr>;
              w = w\<lparr>w_base := triggerUpdated (w_base w)\<rparr>
          in Ok (w\<lparr>w_x509ContextSet := True\<rparr>)))"

definition OnJWTBundlesUpdate :: "jwtbundle_Set \<Rightarrow> 's watcher \<Rightarrow> 's watcher res" where
  "OnJWTBundlesUpdate jwtBundles w =
     (case w_jwtBundlesFn w of
        None \<Rightarrow> nil_call
      | Some f \<Rightarrow> bind_res (f jwtBundles (w_src w)) (\<lambda>src.
          let w = w\<lparr>w_src := src\<rparr>;
              w = w\<lparr>w_base := triggerUpdated (w_base w)\<rparr>
          in Ok (w\<lparr>w_jwtBundlesSet := True\<rparr>)))"

text \<open>A failed watch is left to the client, which has logged it; the waits are those of the base.\<close>

definition watcher_OnX509ContextWatchError :: "error \<Rightarrow> 's watcher \<Rightarrow> 's watcher" where
  "watcher_OnX509ContextWatchError err w = w"

definition watcher_OnJWTBundlesWatchError :: "error \<Rightarrow> 's watcher \<Rightarrow> 's watcher" where
  "watcher_OnJWTBundlesWatchError err w = w"

definition watcher_WaitUntilUpdated :: "error option \<Rightarrow> 's watcher \<Rightarrow> error option \<Rightarrow> 's watcher \<Rightarrow> bool" where
  "watcher_WaitUntilUpdated ctx w r w' \<longleftrightarrow>
     waitUntilUpdated ctx (w_base w) r (w_base w') \<and> w' = w\<lparr>w_base := w_base w'\<rparr>"

definition watcher_Updated :: "'s watcher \<Rightarrow> bool" where
  "watcher_Updated w = updated (w_base w)"

text \<open>The closer that \<open>watcher.Close\<close> passes on: \<open>r\<close> is what closing the client gives.\<close>

definition watcher_closer :: "error option \<Rightarrow> 's watcher \<Rightarrow> error option option" where
  "watcher_closer r w = (if w_client w \<and> w_ownsClient w then Some r else None)"

definition watcher_Close :: "error option \<Rightarrow> 's watcher \<Rightarrow> 's watcher \<times> error option" where
  "watcher_Close r w =
     (let (b, err) = closeBase (watcher_closer r w) (w_base w) in (w\<lparr>w_base := b\<rparr>, err))"

definition new_watcher :: "bool \<Rightarrow> (X509Context \<Rightarrow> 's \<Rightarrow> 's res) option \<Rightarrow>
    (jwtbundle_Set \<Rightarrow> 's \<Rightarrow> 's res) option \<Rightarrow> 's \<Rightarrow> 's watcher" where
  "new_watcher client x509ContextFn jwtBundlesFn src =
     \<lparr>w_base = newWatcherBase, w_client = client, w_ownsClient = False,
      w_x509ContextFn = x509ContextFn, w_x509ContextSet = False,
      w_jwtBundlesFn = jwtBundlesFn, w_jwtBundlesSet = False, w_src = src\<rparr>"

section \<open>The program\<close>

subsection \<open>State\<close>

text \<open>Where a watch goroutine is: in the client's watch, or in a callback after its first
  or second step, or returned.\<close>

datatype wpc = NotStarted | Watching | Applied | Triggered | Exited

text \<open>Where \<open>newWatcher\<close> is; \<open>N_Fail e\<close> is the deferred call of \<open>Close\<close>, \<open>N_Done\<close> its result.\<close>

datatype newpc = N_Client | N_Ctx | N_X509 | N_WaitX509 | N_JWT | N_WaitJWT | N_Drain
  | is_Fail: N_Fail error | is_Done: N_Done "error option"

text \<open>
  \<open>y_closing\<close>: a call of \<open>Close\<close> holds the mutex and waits for the goroutines. The other
  fields record the history: the calls of the client's \<open>Close\<close>, the last update of either kind,
  the number of updates, the number of updates made when the consumer last read the source,
  and whether the consumer is about to read it. \<open>y_closeFn\<close> is what the \<open>Close\<close> of the source does
  to the source before it closes the watcher (it sets the flag of the source), and \<open>y_called\<close>
  says that a call has done so.
\<close>

record 's sys =
  y_w :: "'s watcher"
  y_x509 :: wpc
  y_jwt :: wpc
  y_errCh :: "error list"
  y_ctx :: "error option"
  y_new :: newpc
  y_closing :: bool
  y_closes :: nat
  y_lastX :: "X509Context option"
  y_lastJ :: "jwtbundle_Set option"
  y_version :: nat
  y_seen :: nat
  y_woken :: bool
  y_closeFn :: "'s \<Rightarrow> 's"
  y_called :: bool

definition start_sys :: "bool \<Rightarrow> (X509Context \<Rightarrow> 's \<Rightarrow> 's res) option \<Rightarrow>
    (jwtbundle_Set \<Rightarrow> 's \<Rightarrow> 's res) option \<Rightarrow> ('s \<Rightarrow> 's) \<Rightarrow> 's \<Rightarrow> 's sys" where
  "start_sys client x509ContextFn jwtBundlesFn closeFn src =
     \<lparr>y_w = new_watcher client x509ContextFn jwtBundlesFn src, y_x509 = NotStarted, y_jwt = NotStarted,
      y_errCh = [], y_ctx = None, y_new = N_Client, y_closing = False, y_closes = 0,
      y_lastX = None, y_lastJ = None, y_version = 0, y_seen = 0, y_woken = True,
      y_closeFn = closeFn, y_called = False\<rparr>"

abbreviation src :: "'s sys \<Rightarrow> 's" where
  "src s \<equiv> w_src (y_w s)"

abbreviation base :: "'s sys \<Rightarrow> watcherBase" where
  "base s \<equiv> w_base (y_w s)"

definition on_base :: "(watcherBase \<Rightarrow> watcherBase) \<Rightarrow> 's sys \<Rightarrow> 's sys" where
  "on_base f s = s\<lparr>y_w := (y_w s)\<lparr>w_base := f (base s)\<rparr>\<rparr>"

definition errCh_cap :: nat where
  "errCh_cap = 2"

definition finished :: "wpc \<Rightarrow> bool" where
  "finished p \<longleftrightarrow> p = NotStarted \<or> p = Exited"

text \<open>The end of a \<open>Close\<close>: the client is closed if the watcher owns it (\<open>r\<close> is the result), and
  a failing constructor joins the error of the \<open>Close\<close> to its own.\<close>

definition finish_close :: "error option \<Rightarrow> 's sys \<Rightarrow> 's sys" where
  "finish_close r s =
     (let closer = watcher_closer r (y_w s);
          t = on_base (closeBase_finish closer) (s\<lparr>y_closing := False\<rparr>)
      in t\<lparr>y_closes := y_closes s + (if closer = None then 0 else 1),
           y_new := (case y_new s of N_Fail e \<Rightarrow> N_Done (errors_Join [Some e, wb_closeErr (base t)]) | n \<Rightarrow> n)\<rparr>)"

subsection \<open>Steps\<close>

text \<open>
  \<open>px\<close> and \<open>pj\<close> say what the watches of the client deliver. A watch may return at any time, because the
  client gives up on an error; when its context is cancelled it has to return, which the section on
  termination takes into account. A later call of the \<open>Close\<close> of a source sets a flag that is set.
\<close>

inductive watcher_step ::
  "(X509Context \<Rightarrow> bool) \<Rightarrow> (jwtbundle_Set \<Rightarrow> bool) \<Rightarrow> 's sys \<Rightarrow> 's sys \<Rightarrow> bool" for px pj where
  \<comment> \<open>\<open>newWatcher\<close>: the client and the watch context\<close>
  client_new: "y_new s = N_Client \<Longrightarrow> \<not> w_client (y_w s) \<Longrightarrow> watcher_step px pj s
     (s\<lparr>y_new := N_Ctx, y_w := (y_w s)\<lparr>w_client := True, w_ownsClient := True\<rparr>\<rparr>)"
| client_err: "y_new s = N_Client \<Longrightarrow> \<not> w_client (y_w s) \<Longrightarrow> watcher_step px pj s (s\<lparr>y_new := N_Fail e\<rparr>)"
| client_given: "y_new s = N_Client \<Longrightarrow> w_client (y_w s) \<Longrightarrow> watcher_step px pj s (s\<lparr>y_new := N_Ctx\<rparr>)"
| watch_ctx: "y_new s = N_Ctx \<Longrightarrow> watcher_step px pj s
     (on_base (\<lambda>b. b\<lparr>wb_hasCancel := True\<rparr>) (s\<lparr>y_new := N_X509\<rparr>))"
  \<comment> \<open>\<open>newWatcher\<close>: starting the watches and waiting for the first updates\<close>
| x509_skip: "y_new s = N_X509 \<Longrightarrow> w_x509ContextFn (y_w s) = None \<Longrightarrow> watcher_step px pj s (s\<lparr>y_new := N_JWT\<rparr>)"
| x509_start: "y_new s = N_X509 \<Longrightarrow> w_x509ContextFn (y_w s) \<noteq> None \<Longrightarrow>
     watcher_step px pj s (s\<lparr>y_new := N_WaitX509, y_x509 := Watching\<rparr>)"
| x509_has: "y_new s = N_WaitX509 \<Longrightarrow> w_x509ContextSet (y_w s) \<Longrightarrow> watcher_step px pj s (s\<lparr>y_new := N_JWT\<rparr>)"
| x509_err: "y_new s = N_WaitX509 \<Longrightarrow> y_errCh s = e # es \<Longrightarrow>
     watcher_step px pj s (s\<lparr>y_new := N_Fail e, y_errCh := es\<rparr>)"
| x509_ctx: "y_new s = N_WaitX509 \<Longrightarrow> y_ctx s = Some e \<Longrightarrow> watcher_step px pj s (s\<lparr>y_new := N_Fail e\<rparr>)"
| jwt_skip: "y_new s = N_JWT \<Longrightarrow> w_jwtBundlesFn (y_w s) = None \<Longrightarrow> watcher_step px pj s (s\<lparr>y_new := N_Drain\<rparr>)"
| jwt_start: "y_new s = N_JWT \<Longrightarrow> w_jwtBundlesFn (y_w s) \<noteq> None \<Longrightarrow>
     watcher_step px pj s (s\<lparr>y_new := N_WaitJWT, y_jwt := Watching\<rparr>)"
| jwt_has: "y_new s = N_WaitJWT \<Longrightarrow> w_jwtBundlesSet (y_w s) \<Longrightarrow> watcher_step px pj s (s\<lparr>y_new := N_Drain\<rparr>)"
| jwt_err: "y_new s = N_WaitJWT \<Longrightarrow> y_errCh s = e # es \<Longrightarrow>
     watcher_step px pj s (s\<lparr>y_new := N_Fail e, y_errCh := es\<rparr>)"
| jwt_ctx: "y_new s = N_WaitJWT \<Longrightarrow> y_ctx s = Some e \<Longrightarrow> watcher_step px pj s (s\<lparr>y_new := N_Fail e\<rparr>)"
| drain: "y_new s = N_Drain \<Longrightarrow> watcher_step px pj s (on_base drainUpdated (s\<lparr>y_new := N_Done None\<rparr>))"
  \<comment> \<open>the context of the constructor\<close>
| ctx_ends: "y_ctx s = None \<Longrightarrow> watcher_step px pj s (s\<lparr>y_ctx := Some e\<rparr>)"
  \<comment> \<open>the goroutine of \<open>WatchX509Context\<close>: the three steps of a callback, and the end\<close>
| x509_update: "y_x509 s = Watching \<Longrightarrow> w_x509ContextFn (y_w s) = Some f \<Longrightarrow> px c \<Longrightarrow> f c (src s) = Ok src' \<Longrightarrow>
     watcher_step px pj s (s\<lparr>y_w := (y_w s)\<lparr>w_src := src'\<rparr>, y_x509 := Applied, y_lastX := Some c, y_version := Suc (y_version s)\<rparr>)"
| x509_trigger: "y_x509 s = Applied \<Longrightarrow> watcher_step px pj s (on_base triggerUpdated (s\<lparr>y_x509 := Triggered\<rparr>))"
| x509_set: "y_x509 s = Triggered \<Longrightarrow> watcher_step px pj s
     (s\<lparr>y_w := (y_w s)\<lparr>w_x509ContextSet := True\<rparr>, y_x509 := Watching\<rparr>)"
| x509_exit: "y_x509 s = Watching \<Longrightarrow> length (y_errCh s) < errCh_cap \<Longrightarrow>
     watcher_step px pj s (s\<lparr>y_x509 := Exited, y_errCh := y_errCh s @ [e]\<rparr>)"
  \<comment> \<open>the goroutine of \<open>WatchJWTBundles\<close>\<close>
| jwt_update: "y_jwt s = Watching \<Longrightarrow> w_jwtBundlesFn (y_w s) = Some g \<Longrightarrow> pj j \<Longrightarrow> g j (src s) = Ok src' \<Longrightarrow>
     watcher_step px pj s (s\<lparr>y_w := (y_w s)\<lparr>w_src := src'\<rparr>, y_jwt := Applied, y_lastJ := Some j, y_version := Suc (y_version s)\<rparr>)"
| jwt_trigger: "y_jwt s = Applied \<Longrightarrow> watcher_step px pj s (on_base triggerUpdated (s\<lparr>y_jwt := Triggered\<rparr>))"
| jwt_set: "y_jwt s = Triggered \<Longrightarrow> watcher_step px pj s
     (s\<lparr>y_w := (y_w s)\<lparr>w_jwtBundlesSet := True\<rparr>, y_jwt := Watching\<rparr>)"
| jwt_exit: "y_jwt s = Watching \<Longrightarrow> length (y_errCh s) < errCh_cap \<Longrightarrow>
     watcher_step px pj s (s\<lparr>y_jwt := Exited, y_errCh := y_errCh s @ [e]\<rparr>)"
  \<comment> \<open>\<open>Close\<close> of the source, for a watcher that was returned: first the source\<close>
| src_close: "y_new s = N_Done None \<Longrightarrow> \<not> y_called s \<Longrightarrow>
     watcher_step px pj s (s\<lparr>y_called := True, y_w := (y_w s)\<lparr>w_src := y_closeFn s (src s)\<rparr>\<rparr>)"
  \<comment> \<open>\<open>Close\<close> of the watcher, called by its failing constructor or by the \<open>Close\<close> of the source\<close>
| close_begin: "y_new s = N_Fail e \<or> y_new s = N_Done None \<and> y_called s \<Longrightarrow> \<not> y_closing s \<Longrightarrow> \<not> wb_closed (base s) \<Longrightarrow>
     watcher_step px pj s (on_base closeBase_cancel (s\<lparr>y_closing := True\<rparr>))"
| close_finish: "y_closing s \<Longrightarrow> finished (y_x509 s) \<Longrightarrow> finished (y_jwt s) \<Longrightarrow>
     watcher_step px pj s (finish_close r s)"
  \<comment> \<open>a consumer that waits for an update and then reads the source\<close>
| consumer_waits: "y_new s = N_Done None \<Longrightarrow> \<not> y_woken s \<Longrightarrow> waitUntilUpdated None (base s) None b \<Longrightarrow>
     watcher_step px pj s (on_base (\<lambda>_. b) (s\<lparr>y_woken := True\<rparr>))"
| consumer_reads: "y_new s = N_Done None \<Longrightarrow> y_woken s \<Longrightarrow>
     watcher_step px pj s (s\<lparr>y_woken := False, y_seen := y_version s\<rparr>)"

inductive watcher_reach ::
  "(X509Context \<Rightarrow> bool) \<Rightarrow> (jwtbundle_Set \<Rightarrow> bool) \<Rightarrow> 's sys \<Rightarrow> 's sys \<Rightarrow> bool" for px pj s0 where
  reach_start: "watcher_reach px pj s0 s0"
| reach_step: "watcher_reach px pj s0 s \<Longrightarrow> watcher_step px pj s t \<Longrightarrow> watcher_reach px pj s0 t"

section \<open>Invariants\<close>

text \<open>What the constructor's position says about the rest of the state.\<close>

definition before_x509 :: "newpc \<Rightarrow> bool" where
  "before_x509 n \<longleftrightarrow> n = N_Client \<or> n = N_Ctx \<or> n = N_X509"

definition after_x509 :: "newpc \<Rightarrow> bool" where
  "after_x509 n \<longleftrightarrow> n = N_JWT \<or> n = N_WaitJWT \<or> n = N_Drain \<or> n = N_Done None"

definition after_jwt :: "newpc \<Rightarrow> bool" where
  "after_jwt n \<longleftrightarrow> n = N_Drain \<or> n = N_Done None"

definition started :: "wpc \<Rightarrow> nat" where
  "started p = (if p = NotStarted then 0 else 1)"

definition live :: "wpc \<Rightarrow> nat" where
  "live p = (if finished p then 0 else 1)"

definition can_close :: "newpc \<Rightarrow> bool" where
  "can_close n \<longleftrightarrow> n = N_Done None \<or> is_Fail n"

text \<open>Goroutines: started in order and with their function, an error channel with room for
  every goroutine that still has to report, the first update before the constructor goes on.\<close>

definition inv_pc :: "'s sys \<Rightarrow> bool" where
  "inv_pc s \<longleftrightarrow>
     (y_x509 s \<noteq> NotStarted \<longrightarrow> w_x509ContextFn (y_w s) \<noteq> None) \<and>
     (y_jwt s \<noteq> NotStarted \<longrightarrow> w_jwtBundlesFn (y_w s) \<noteq> None) \<and>
     (before_x509 (y_new s) \<longrightarrow> y_x509 s = NotStarted \<and> y_jwt s = NotStarted) \<and>
     (y_new s = N_WaitX509 \<longrightarrow> y_x509 s \<noteq> NotStarted) \<and> (y_new s = N_WaitJWT \<longrightarrow> y_jwt s \<noteq> NotStarted) \<and>
     (y_new s = N_WaitX509 \<or> y_new s = N_JWT \<longrightarrow> y_jwt s = NotStarted) \<and>
     length (y_errCh s) + live (y_x509 s) + live (y_jwt s) \<le> started (y_x509 s) + started (y_jwt s)"

definition inv_set :: "'s sys \<Rightarrow> bool" where
  "inv_set s \<longleftrightarrow>
     (after_x509 (y_new s) \<and> w_x509ContextFn (y_w s) \<noteq> None \<longrightarrow> w_x509ContextSet (y_w s)) \<and>
     (after_jwt (y_new s) \<and> w_jwtBundlesFn (y_w s) \<noteq> None \<longrightarrow> w_jwtBundlesSet (y_w s)) \<and>
     (w_x509ContextSet (y_w s) \<or> y_x509 s = Applied \<or> y_x509 s = Triggered \<longrightarrow> y_lastX s \<noteq> None) \<and>
     (w_jwtBundlesSet (y_w s) \<or> y_jwt s = Applied \<or> y_jwt s = Triggered \<longrightarrow> y_lastJ s \<noteq> None)"

text \<open>Closing: only when the constructor has ended or fails, once, after the goroutines, and
  after the watch context was cancelled.\<close>

definition inv_close :: "'s sys \<Rightarrow> bool" where
  "inv_close s \<longleftrightarrow>
     (y_closing s \<longrightarrow> can_close (y_new s) \<and> \<not> wb_closed (base s)) \<and>
     (wb_closed (base s) \<longrightarrow> is_Done (y_new s) \<and> finished (y_x509 s) \<and> finished (y_jwt s)) \<and>
     (is_Done (y_new s) \<and> y_new s \<noteq> N_Done None \<longrightarrow> wb_closed (base s))"

text \<open>A watcher that was returned is closed by its source only, and no other source is closed.\<close>

definition inv_called :: "'s sys \<Rightarrow> bool" where
  "inv_called s \<longleftrightarrow> (y_called s \<longrightarrow> y_new s = N_Done None) \<and>
     (y_new s = N_Done None \<and> (y_closing s \<or> wb_closed (base s)) \<longrightarrow> y_called s)"

definition inv_owner :: "'s sys \<Rightarrow> bool" where
  "inv_owner s \<longleftrightarrow>
     (w_ownsClient (y_w s) \<longrightarrow> w_client (y_w s)) \<and>
     (y_new s = N_Client \<longrightarrow> \<not> w_ownsClient (y_w s)) \<and>
     y_closes s = (if wb_closed (base s) \<and> w_ownsClient (y_w s) then 1 else 0)"

definition has_ctx :: "newpc \<Rightarrow> bool" where
  "has_ctx n \<longleftrightarrow> n = N_X509 \<or> n = N_WaitX509 \<or> n = N_JWT \<or> n = N_WaitJWT \<or> n = N_Drain \<or> n = N_Done None"

definition inv_hasCancel :: "'s sys \<Rightarrow> bool" where
  "inv_hasCancel s \<longleftrightarrow>
     (has_ctx (y_new s) \<or> y_x509 s \<noteq> NotStarted \<or> y_jwt s \<noteq> NotStarted \<longrightarrow> wb_hasCancel (base s))"

definition inv_cancel :: "'s sys \<Rightarrow> bool" where
  "inv_cancel s \<longleftrightarrow> (y_closing s \<or> wb_closed (base s) \<longrightarrow> wb_hasCancel (base s) \<longrightarrow> wb_cancelled (base s))"

text \<open>Notification: what the consumer has not seen is announced, or about to be.\<close>

definition inv_seen :: "'s sys \<Rightarrow> bool" where
  "inv_seen s \<longleftrightarrow> y_seen s \<le> y_version s \<and> (y_new s \<noteq> N_Done None \<longrightarrow> y_woken s) \<and>
     (y_seen s < y_version s \<longrightarrow>
       y_woken s \<or> wb_updatedCh (base s) \<or> y_x509 s = Applied \<or> y_jwt s = Applied)"

lemmas watcher_ops = on_base_def closeBase_cancel_def closeBase_finish_def watcher_closer_def
  triggerUpdated_def drainUpdated_def

lemmas pc_simps = before_x509_def after_x509_def after_jwt_def started_def live_def finished_def can_close_def

lemma errors_Join_not_nil: "errors_Join (Some e # es) \<noteq> None"
  by (simp add: errors_Join_def map_filter_def)

lemma finish_close_fields [simp]:
  "y_x509 (finish_close r s) = y_x509 s" "y_jwt (finish_close r s) = y_jwt s"
  "y_errCh (finish_close r s) = y_errCh s" "y_ctx (finish_close r s) = y_ctx s"
  "y_closing (finish_close r s) = False" "y_lastX (finish_close r s) = y_lastX s"
  "y_lastJ (finish_close r s) = y_lastJ s" "y_version (finish_close r s) = y_version s"
  "y_seen (finish_close r s) = y_seen s" "y_woken (finish_close r s) = y_woken s"
  "y_called (finish_close r s) = y_called s" "y_closeFn (finish_close r s) = y_closeFn s"
  "w_client (y_w (finish_close r s)) = w_client (y_w s)"
  "w_ownsClient (y_w (finish_close r s)) = w_ownsClient (y_w s)"
  "w_x509ContextFn (y_w (finish_close r s)) = w_x509ContextFn (y_w s)"
  "w_x509ContextSet (y_w (finish_close r s)) = w_x509ContextSet (y_w s)"
  "w_jwtBundlesFn (y_w (finish_close r s)) = w_jwtBundlesFn (y_w s)"
  "w_jwtBundlesSet (y_w (finish_close r s)) = w_jwtBundlesSet (y_w s)"
  "src (finish_close r s) = src s"
  "wb_closed (base (finish_close r s))" "wb_cancelled (base (finish_close r s)) = wb_cancelled (base s)"
  "wb_hasCancel (base (finish_close r s)) = wb_hasCancel (base s)"
  "wb_updatedCh (base (finish_close r s)) = wb_updatedCh (base s)"
  "wb_closeErr (base (finish_close r s)) = (if w_client (y_w s) \<and> w_ownsClient (y_w s) then r else wb_closeErr (base s))"
  "y_closes (finish_close r s) = y_closes s + (if w_client (y_w s) \<and> w_ownsClient (y_w s) then 1 else 0)"
  by (simp_all add: finish_close_def watcher_ops Let_def)

lemma finish_close_new:
  obtains (same) "\<not> is_Fail (y_new s)" "y_new (finish_close r s) = y_new s"
  | (fail) e e' where "y_new s = N_Fail e" "y_new (finish_close r s) = N_Done (Some e')"
proof (cases "y_new s")
  case (N_Fail e)
  obtain e' where "errors_Join [Some e, wb_closeErr (base (on_base (closeBase_finish (watcher_closer r (y_w s))) (s\<lparr>y_closing := False\<rparr>)))] = Some e'"
    using errors_Join_not_nil by fast
  then show thesis using fail N_Fail by (simp add: finish_close_def Let_def)
qed (use same in \<open>simp_all add: finish_close_def Let_def\<close>)

lemma inv_pc_step: "watcher_step px pj s t \<Longrightarrow> inv_pc s \<Longrightarrow> inv_pc t"
proof (induction rule: watcher_step.induct)
  case (close_finish s r)
  then show ?case by (cases rule: finish_close_new [of s r]) (simp_all add: inv_pc_def before_x509_def)
qed (auto simp: inv_pc_def watcher_ops pc_simps errCh_cap_def)

lemma inv_set_step: "watcher_step px pj s t \<Longrightarrow> inv_set s \<Longrightarrow> inv_set t"
proof (induction rule: watcher_step.induct)
  case (close_finish s r)
  then show ?case by (cases rule: finish_close_new [of s r]) (simp_all add: inv_set_def after_x509_def after_jwt_def)
qed (simp add: inv_set_def watcher_ops after_x509_def after_jwt_def; blast?)+

lemma inv_seen_step: "watcher_step px pj s t \<Longrightarrow> inv_seen s \<Longrightarrow> inv_seen t"
proof (induction rule: watcher_step.induct)
  case (close_finish s r)
  then show ?case by (cases rule: finish_close_new [of s r]) (simp_all add: inv_seen_def)
qed (simp add: inv_seen_def watcher_ops; linarith?; blast?)+

lemma inv_close_step: "watcher_step px pj s t \<Longrightarrow> inv_close s \<Longrightarrow> inv_close t"
proof (induction rule: watcher_step.induct)
  case (close_finish s r)
  then show ?case by (cases rule: finish_close_new [of s r]) (simp_all add: inv_close_def can_close_def)
qed (auto simp: inv_close_def watcher_ops can_close_def finished_def)

lemma inv_called_step: "watcher_step px pj s t \<Longrightarrow> inv_close s \<Longrightarrow> inv_called s \<Longrightarrow> inv_called t"
proof (induction rule: watcher_step.induct)
  case (close_finish s r)
  then show ?case by (cases rule: finish_close_new [of s r]) (simp_all add: inv_called_def)
next
  case (drain s)
  then show ?case by (auto simp: inv_called_def inv_close_def can_close_def watcher_ops)
next
  case (close_begin s e)
  then show ?case by (auto simp: inv_called_def watcher_ops)
qed (simp_all add: inv_called_def watcher_ops)

lemma inv_owner_step: "watcher_step px pj s t \<Longrightarrow> inv_close s \<Longrightarrow> inv_owner s \<Longrightarrow> inv_owner t"
proof (induction rule: watcher_step.induct)
  case (close_finish s r)
  then show ?case by (cases rule: finish_close_new [of s r]) (auto simp: inv_close_def inv_owner_def can_close_def)
qed (auto simp: inv_close_def inv_owner_def watcher_ops)

lemma inv_hasCancel_step: "watcher_step px pj s t \<Longrightarrow> inv_hasCancel s \<Longrightarrow> inv_hasCancel t"
proof (induction rule: watcher_step.induct)
  case (close_finish s r)
  then show ?case by (cases rule: finish_close_new [of s r]) (auto simp: inv_hasCancel_def has_ctx_def)
qed (auto simp: inv_hasCancel_def has_ctx_def watcher_ops)

lemma inv_cancel_step: "watcher_step px pj s t \<Longrightarrow> inv_close s \<Longrightarrow> inv_cancel s \<Longrightarrow> inv_cancel t"
proof (induction rule: watcher_step.induct)
  case (close_finish s r)
  then show ?case by (simp add: inv_cancel_def)
qed (simp_all add: inv_close_def inv_cancel_def watcher_ops can_close_def)

definition watcher_inv :: "'s sys \<Rightarrow> bool" where
  "watcher_inv s \<longleftrightarrow> inv_pc s \<and> inv_set s \<and> inv_seen s \<and> inv_close s \<and> inv_owner s \<and> inv_hasCancel s \<and>
     inv_cancel s \<and> inv_called s"

lemma watcher_inv_start: "watcher_inv (start_sys client f g cl s0)"
  by (simp add: watcher_inv_def inv_pc_def inv_set_def inv_seen_def inv_close_def inv_owner_def inv_hasCancel_def
      inv_cancel_def inv_called_def start_sys_def new_watcher_def newWatcherBase_def pc_simps has_ctx_def)

lemma watcher_inv_step: "watcher_step px pj s t \<Longrightarrow> watcher_inv s \<Longrightarrow> watcher_inv t"
  unfolding watcher_inv_def
  by (blast intro: inv_pc_step inv_set_step inv_seen_step inv_close_step inv_owner_step inv_hasCancel_step inv_cancel_step
      inv_called_step)

lemma watcher_reach_inv: "watcher_reach px pj s0 s \<Longrightarrow> watcher_inv s0 \<Longrightarrow> watcher_inv s"
  by (induction rule: watcher_reach.induct) (auto intro: watcher_inv_step)

lemmas reach_inv = watcher_reach_inv [OF _ watcher_inv_start]

text \<open>What no step changes.\<close>

lemma watcher_step_fns: "watcher_step px pj s t \<Longrightarrow>
    w_x509ContextFn (y_w t) = w_x509ContextFn (y_w s) \<and> w_jwtBundlesFn (y_w t) = w_jwtBundlesFn (y_w s) \<and>
    y_closeFn t = y_closeFn s"
  by (induction rule: watcher_step.induct) (simp_all add: watcher_ops)

lemma watcher_reach_fns: "watcher_reach px pj s0 s \<Longrightarrow>
    w_x509ContextFn (y_w s) = w_x509ContextFn (y_w s0) \<and> w_jwtBundlesFn (y_w s) = w_jwtBundlesFn (y_w s0) \<and>
    y_closeFn s = y_closeFn s0"
  by (induction rule: watcher_reach.induct) (auto dest: watcher_step_fns)

lemma watcher_step_given: "watcher_step px pj s t \<Longrightarrow> w_client (y_w s) \<and> \<not> w_ownsClient (y_w s) \<Longrightarrow>
    w_client (y_w t) \<and> \<not> w_ownsClient (y_w t)"
  by (induction rule: watcher_step.induct) (simp_all add: watcher_ops)

lemma watcher_reach_given: "watcher_reach px pj s0 s \<Longrightarrow> w_client (y_w s0) \<and> \<not> w_ownsClient (y_w s0) \<Longrightarrow>
    w_client (y_w s) \<and> \<not> w_ownsClient (y_w s)"
  by (induction rule: watcher_reach.induct) (auto dest: watcher_step_given)

section \<open>Termination\<close>

text \<open>
  The steps that the watcher takes by itself: no update is delivered, the consumer, the context of the
  constructor and the user of the source do not move, and a watch returns only when its context
  is cancelled -- then it has to. \<open>work\<close> bounds how many of these steps are left.
\<close>

definition gives_up :: "'s sys \<Rightarrow> 's sys \<Rightarrow> bool" where
  "gives_up s t \<longleftrightarrow> \<not> wb_cancelled (base s) \<and>
     (y_x509 s = Watching \<and> y_x509 t = Exited \<or> y_jwt s = Watching \<and> y_jwt t = Exited)"

definition quiet_step :: "(X509Context \<Rightarrow> bool) \<Rightarrow> (jwtbundle_Set \<Rightarrow> bool) \<Rightarrow> 's sys \<Rightarrow> 's sys \<Rightarrow> bool" where
  "quiet_step px pj s t \<longleftrightarrow> watcher_step px pj s t \<and> y_version t = y_version s \<and> y_woken t = y_woken s \<and>
     y_ctx t = y_ctx s \<and> y_called t = y_called s \<and> \<not> gives_up s t"

definition rank :: "wpc \<Rightarrow> nat" where
  "rank p = (case p of Applied \<Rightarrow> 3 | Triggered \<Rightarrow> 2 | Watching \<Rightarrow> 1 | _ \<Rightarrow> 0)"

definition phase :: "'s sys \<Rightarrow> nat" where
  "phase s = (if y_closing s then 1 else case y_new s of
      N_Client \<Rightarrow> 9 | N_Ctx \<Rightarrow> 8 | N_X509 \<Rightarrow> 7 | N_WaitX509 \<Rightarrow> 6 | N_JWT \<Rightarrow> 5 | N_WaitJWT \<Rightarrow> 4 | N_Drain \<Rightarrow> 3
    | N_Fail _ \<Rightarrow> 2 | N_Done _ \<Rightarrow> if wb_closed (base s) then 0 else 2)"

definition work :: "'s sys \<Rightarrow> nat" where
  "work s = 2 * phase s + rank (y_x509 s) + rank (y_jwt s)"

lemma work_bound: "work s \<le> 24"
proof -
  have "phase s \<le> 9" by (simp add: phase_def split: newpc.split)
  moreover have "rank p \<le> 3" for p by (simp add: rank_def split: wpc.split)
  moreover note this [of "y_x509 s"] this [of "y_jwt s"]
  ultimately show ?thesis unfolding work_def by linarith
qed

lemma quiet_step_work:
  "watcher_step px pj s t \<Longrightarrow> watcher_inv s \<Longrightarrow> y_version t = y_version s \<Longrightarrow> y_woken t = y_woken s \<Longrightarrow>
     y_ctx t = y_ctx s \<Longrightarrow> y_called t = y_called s \<Longrightarrow> work t < work s"
proof (induction rule: watcher_step.induct)
  case (close_finish s r)
  then show ?case
    by (cases rule: finish_close_new [of s r])
      (auto simp: work_def phase_def watcher_inv_def inv_close_def can_close_def split: newpc.splits)
qed (auto simp: work_def phase_def rank_def watcher_ops watcher_inv_def inv_close_def inv_pc_def can_close_def
    before_x509_def split: newpc.splits)

text \<open>While a \<open>Close\<close> is under way, or the constructor has not returned although its context is
  done, one of these steps is possible: the goroutines end because their context is cancelled.\<close>

lemma quietI: "watcher_step px pj s t \<Longrightarrow> y_version t = y_version s \<Longrightarrow> y_woken t = y_woken s \<Longrightarrow> y_ctx t = y_ctx s \<Longrightarrow>
    y_called t = y_called s \<Longrightarrow> \<not> gives_up s t \<Longrightarrow> \<exists>t. quiet_step px pj s t"
  by (auto simp: quiet_step_def)

lemma goroutine_room:
  assumes "watcher_inv s" "\<not> finished (y_x509 s) \<or> \<not> finished (y_jwt s)"
  shows "length (y_errCh s) < errCh_cap"
  using assms by (auto simp: watcher_inv_def inv_pc_def live_def started_def errCh_cap_def finished_def split: if_splits)

lemma goroutine_moves:
  assumes "watcher_inv s" "\<not> finished (y_x509 s) \<or> \<not> finished (y_jwt s)" "wb_cancelled (base s)"
  shows "\<exists>t. quiet_step px pj s t"
proof -
  note room = goroutine_room [OF assms(1,2)]
  have x: ?thesis if "\<not> finished (y_x509 s)"
    using that assms(3)
    by (cases "y_x509 s")
      (simp_all add: finished_def, rule quietI [OF watcher_step.x509_exit [OF _ room]], simp_all add: gives_up_def,
       rule quietI [OF watcher_step.x509_trigger], simp_all add: watcher_ops gives_up_def,
       rule quietI [OF watcher_step.x509_set], simp_all add: gives_up_def)
  have j: ?thesis if "\<not> finished (y_jwt s)"
    using that assms(3)
    by (cases "y_jwt s")
      (simp_all add: finished_def, rule quietI [OF watcher_step.jwt_exit [OF _ room]], simp_all add: gives_up_def,
       rule quietI [OF watcher_step.jwt_trigger], simp_all add: watcher_ops gives_up_def,
       rule quietI [OF watcher_step.jwt_set], simp_all add: gives_up_def)
  show ?thesis using x j assms(2) by blast
qed

lemma newWatcher_moves:
  assumes inv: "watcher_inv s" and "\<not> y_closing s" and e: "y_ctx s = Some e" and "\<not> is_Done (y_new s)"
  shows "\<exists>t. quiet_step px pj s t"
proof (cases "y_new s")
  case N_Client
  then show ?thesis by (cases "w_client (y_w s)") (rule quietI [OF watcher_step.client_given] quietI [OF watcher_step.client_new]; simp add: gives_up_def)+
next
  case N_Ctx
  then show ?thesis by (rule quietI [OF watcher_step.watch_ctx]) (simp_all add: watcher_ops gives_up_def)
next
  case N_X509
  then show ?thesis
    by (cases "w_x509ContextFn (y_w s) = None") (rule quietI [OF watcher_step.x509_skip] quietI [OF watcher_step.x509_start]; simp add: gives_up_def)+
next
  case N_WaitX509
  then show ?thesis using e by (intro quietI [OF watcher_step.x509_ctx]) (simp_all add: gives_up_def)
next
  case N_JWT
  then show ?thesis
    by (cases "w_jwtBundlesFn (y_w s) = None") (rule quietI [OF watcher_step.jwt_skip] quietI [OF watcher_step.jwt_start]; simp add: gives_up_def)+
next
  case N_WaitJWT
  then show ?thesis using e by (intro quietI [OF watcher_step.jwt_ctx]) (simp_all add: gives_up_def)
next
  case N_Drain
  then show ?thesis by (rule quietI [OF watcher_step.drain]) (simp_all add: watcher_ops gives_up_def)
next
  case (N_Fail x)
  have "\<not> wb_closed (base s)" using inv assms(4) by (auto simp: watcher_inv_def inv_close_def)
  then show ?thesis using N_Fail assms(2) by (intro quietI [OF watcher_step.close_begin [of s x]]) (simp_all add: watcher_ops gives_up_def)
next
  case (N_Done r)
  then show ?thesis using assms(4) by simp
qed

lemma closing_cancelled:
  "watcher_inv s \<Longrightarrow> y_closing s \<Longrightarrow> \<not> finished (y_x509 s) \<or> \<not> finished (y_jwt s) \<Longrightarrow> wb_cancelled (base s)"
  by (auto simp: watcher_inv_def inv_cancel_def inv_hasCancel_def finished_def)

lemma watcher_moves:
  assumes inv: "watcher_inv s"
    and "y_closing s \<or> y_called s \<and> \<not> wb_closed (base s) \<or> y_ctx s \<noteq> None \<and> \<not> is_Done (y_new s)"
  shows "\<exists>t. quiet_step px pj s t"
proof (cases "y_closing s")
  case True
  show ?thesis
  proof (cases "finished (y_x509 s) \<and> finished (y_jwt s)")
    case True
    then show ?thesis using \<open>y_closing s\<close>
      by (intro quietI [OF watcher_step.close_finish]) (simp_all add: gives_up_def)
  qed (use goroutine_moves [OF inv] closing_cancelled [OF inv] \<open>y_closing s\<close> in blast)
next
  case False
  show ?thesis
  proof (cases "y_called s \<and> \<not> wb_closed (base s)")
    case True
    then have "y_new s = N_Done None" using inv by (simp add: watcher_inv_def inv_called_def)
    then show ?thesis using True False
      by (intro quietI [OF watcher_step.close_begin]) (simp_all add: watcher_ops gives_up_def)
  qed (use False assms in \<open>auto intro: newWatcher_moves\<close>)
qed

lemma watcher_step_closing:
  "watcher_step px pj s t \<Longrightarrow> y_closing s \<or> wb_closed (base s) \<Longrightarrow> y_closing t \<or> wb_closed (base t)"
  by (induction rule: watcher_step.induct) (auto simp: watcher_ops)

lemma quiet_run:
  assumes "(quiet_step px pj ^^ n) s t" "watcher_inv s"
  shows "work t + n \<le> work s \<and> watcher_inv t \<and> y_ctx t = y_ctx s \<and> y_called t = y_called s \<and>
    (y_closing s \<or> wb_closed (base s) \<longrightarrow> y_closing t \<or> wb_closed (base t))"
  using assms
proof (induction n arbitrary: t)
  case (Suc n)
  from Suc.prems(1) obtain u where u: "(quiet_step px pj ^^ n) s u" "quiet_step px pj u t" by auto
  have st: "watcher_step px pj u t" "work t < work u" "y_ctx t = y_ctx u" "y_called t = y_called u"
    using u(2) Suc.IH [OF u(1) Suc.prems(2)] quiet_step_work [of px pj u t] by (auto simp: quiet_step_def)
  then show ?case
    using Suc.IH [OF u(1) Suc.prems(2)] watcher_inv_step [OF st(1)] watcher_step_closing [OF st(1)] by auto
qed simp

section \<open>The operations and the steps\<close>

text \<open>A callback that runs without interruption is three steps of its goroutine, and a wait for an update is
  one. The \<open>Close\<close> of a source is the step that closes the source, and then the \<open>Close\<close> of its
  watcher, which cancels the watches and waits for them.\<close>

lemma three_steps: "R a b \<Longrightarrow> R b c \<Longrightarrow> R c d \<Longrightarrow> (R ^^ 3) a d"
  by (auto simp: numeral_3_eq_3)

lemma OnX509ContextUpdate_steps:
  assumes "y_x509 s = Watching" "px c" "OnX509ContextUpdate c (y_w s) = Ok w"
  shows "\<exists>t. (watcher_step px pj ^^ 3) s t \<and> y_w t = w \<and> y_x509 t = Watching \<and> y_lastX t = Some c"
proof -
  obtain f src' where f: "w_x509ContextFn (y_w s) = Some f" "f c (src s) = Ok src'"
      "w = (y_w s)\<lparr>w_src := src', w_base := triggerUpdated (base s), w_x509ContextSet := True\<rparr>"
    using assms(3) by (auto simp: OnX509ContextUpdate_def nil_call_def Let_def split: option.splits)
  let ?s1 = "s\<lparr>y_w := (y_w s)\<lparr>w_src := src'\<rparr>, y_x509 := Applied, y_lastX := Some c, y_version := Suc (y_version s)\<rparr>"
  let ?s2 = "on_base triggerUpdated (?s1\<lparr>y_x509 := Triggered\<rparr>)"
  let ?s3 = "?s2\<lparr>y_w := (y_w ?s2)\<lparr>w_x509ContextSet := True\<rparr>, y_x509 := Watching\<rparr>"
  have "watcher_step px pj s ?s1" by (rule watcher_step.x509_update [where px = px and f = f and c = c, OF assms(1) f(1) assms(2) f(2)])
  moreover have "watcher_step px pj ?s1 ?s2" by (rule watcher_step.x509_trigger) simp
  moreover have "watcher_step px pj ?s2 ?s3" by (rule watcher_step.x509_set) (simp add: on_base_def)
  ultimately have "(watcher_step px pj ^^ 3) s ?s3" by (rule three_steps)
  moreover have "y_w ?s3 = w \<and> y_x509 ?s3 = Watching \<and> y_lastX ?s3 = Some c" by (simp add: f(3) on_base_def)
  ultimately show ?thesis by blast
qed

lemma OnJWTBundlesUpdate_steps:
  assumes "y_jwt s = Watching" "pj j" "OnJWTBundlesUpdate j (y_w s) = Ok w"
  shows "\<exists>t. (watcher_step px pj ^^ 3) s t \<and> y_w t = w \<and> y_jwt t = Watching \<and> y_lastJ t = Some j"
proof -
  obtain g src' where g: "w_jwtBundlesFn (y_w s) = Some g" "g j (src s) = Ok src'"
      "w = (y_w s)\<lparr>w_src := src', w_base := triggerUpdated (base s), w_jwtBundlesSet := True\<rparr>"
    using assms(3) by (auto simp: OnJWTBundlesUpdate_def nil_call_def Let_def split: option.splits)
  let ?s1 = "s\<lparr>y_w := (y_w s)\<lparr>w_src := src'\<rparr>, y_jwt := Applied, y_lastJ := Some j, y_version := Suc (y_version s)\<rparr>"
  let ?s2 = "on_base triggerUpdated (?s1\<lparr>y_jwt := Triggered\<rparr>)"
  let ?s3 = "?s2\<lparr>y_w := (y_w ?s2)\<lparr>w_jwtBundlesSet := True\<rparr>, y_jwt := Watching\<rparr>"
  have "watcher_step px pj s ?s1" by (rule watcher_step.jwt_update [where pj = pj and g = g and j = j, OF assms(1) g(1) assms(2) g(2)])
  moreover have "watcher_step px pj ?s1 ?s2" by (rule watcher_step.jwt_trigger) simp
  moreover have "watcher_step px pj ?s2 ?s3" by (rule watcher_step.jwt_set) (simp add: on_base_def)
  ultimately have "(watcher_step px pj ^^ 3) s ?s3" by (rule three_steps)
  moreover have "y_w ?s3 = w \<and> y_jwt ?s3 = Watching \<and> y_lastJ ?s3 = Some j" by (simp add: g(3) on_base_def)
  ultimately show ?thesis by blast
qed

lemma x509_ends:
  assumes "watcher_inv s" "wb_cancelled (base s)" "y_x509 s \<noteq> Applied" "y_x509 s \<noteq> Triggered"
  shows "\<exists>t. (quiet_step px pj)\<^sup>*\<^sup>* s t \<and> finished (y_x509 t) \<and> y_jwt t = y_jwt s \<and> y_w t = y_w s \<and> y_closing t = y_closing s"
proof (cases "finished (y_x509 s)")
  case False
  then have w: "y_x509 s = Watching" using assms(3,4) by (cases "y_x509 s") (simp_all add: finished_def)
  have "quiet_step px pj s (s\<lparr>y_x509 := Exited, y_errCh := y_errCh s @ [e]\<rparr>)" for e
    using watcher_step.x509_exit [OF w goroutine_room [OF assms(1)]] False assms(2)
    by (simp add: quiet_step_def gives_up_def)
  from r_into_rtranclp [of "quiet_step px pj", OF this] show ?thesis
    by - (rule exI, rule conjI, assumption, simp add: finished_def)
qed auto

lemma jwt_ends:
  assumes "watcher_inv s" "wb_cancelled (base s)" "y_jwt s \<noteq> Applied" "y_jwt s \<noteq> Triggered"
  shows "\<exists>t. (quiet_step px pj)\<^sup>*\<^sup>* s t \<and> finished (y_jwt t) \<and> y_x509 t = y_x509 s \<and> y_w t = y_w s \<and> y_closing t = y_closing s"
proof (cases "finished (y_jwt s)")
  case False
  then have w: "y_jwt s = Watching" using assms(3,4) by (cases "y_jwt s") (simp_all add: finished_def)
  have "quiet_step px pj s (s\<lparr>y_jwt := Exited, y_errCh := y_errCh s @ [e]\<rparr>)" for e
    using watcher_step.jwt_exit [OF w goroutine_room [OF assms(1)]] False assms(2)
    by (simp add: quiet_step_def gives_up_def)
  from r_into_rtranclp [of "quiet_step px pj", OF this] show ?thesis
    by - (rule exI, rule conjI, assumption, simp add: finished_def)
qed auto

lemma quiet_rtranclp_inv: "(quiet_step px pj)\<^sup>*\<^sup>* s t \<Longrightarrow> watcher_inv s \<Longrightarrow> watcher_inv t"
  by (induction rule: rtranclp_induct) (auto simp: quiet_step_def intro: watcher_inv_step)

lemma Close_steps:
  assumes inv: "watcher_inv s" and "y_new s = N_Done None" "\<not> y_called s"
    and pcs: "y_x509 s \<noteq> Applied" "y_x509 s \<noteq> Triggered" "y_jwt s \<noteq> Applied" "y_jwt s \<noteq> Triggered"
    and close: "watcher_Close r ((y_w s)\<lparr>w_src := y_closeFn s (src s)\<rparr>) = (w, err)"
  shows "\<exists>s1 t. watcher_step px pj s s1 \<and> y_called s1 \<and> (quiet_step px pj)\<^sup>*\<^sup>* s1 t \<and>
    y_w t = w \<and> wb_closed (base t) \<and> wb_closeErr (base t) = err"
proof -
  let ?s1 = "s\<lparr>y_called := True, y_w := (y_w s)\<lparr>w_src := y_closeFn s (src s)\<rparr>\<rparr>"
  let ?s2 = "on_base closeBase_cancel (?s1\<lparr>y_closing := True\<rparr>)"
  have 1: "watcher_step px pj s ?s1" by (rule watcher_step.src_close [OF assms(2,3)])
  have ncl: "\<not> y_closing s" "\<not> wb_closed (base s)"
    using inv assms(2,3) by (auto simp: watcher_inv_def inv_called_def)
  have "quiet_step px pj ?s1 ?s2"
    using ncl assms(2) watcher_step.close_begin [of ?s1 _ px pj] by (simp add: quiet_step_def watcher_ops gives_up_def)
  then have 2: "(quiet_step px pj)\<^sup>*\<^sup>* ?s1 ?s2" "watcher_inv ?s2"
    using watcher_inv_step [OF _ watcher_inv_step [OF 1 inv]] by (auto simp: quiet_step_def)
  have c: "wb_cancelled (base ?s2)"
    using inv assms(2) by (simp add: watcher_ops watcher_inv_def inv_hasCancel_def has_ctx_def)
  obtain t3 where 3: "(quiet_step px pj)\<^sup>*\<^sup>* ?s2 t3" "finished (y_x509 t3)" "y_jwt t3 = y_jwt ?s2" "y_w t3 = y_w ?s2" "y_closing t3"
    using x509_ends [OF 2(2) c, of px pj] pcs by (auto simp: on_base_def)
  obtain t4 where 4: "(quiet_step px pj)\<^sup>*\<^sup>* t3 t4" "finished (y_jwt t4)" "y_x509 t4 = y_x509 t3" "y_w t4 = y_w ?s2" "y_closing t4"
    using jwt_ends [OF quiet_rtranclp_inv [OF 3(1) 2(2)], of px pj] c pcs 3 by (auto simp: on_base_def)
  have "quiet_step px pj t4 (finish_close r t4)"
    using watcher_step.close_finish [OF 4(5) _ 4(2), of px pj r] 3(2) 4(3) by (simp add: quiet_step_def gives_up_def)
  then have "(quiet_step px pj)\<^sup>*\<^sup>* ?s1 (finish_close r t4)"
    using 2(1) 3(1) 4(1) by (meson rtranclp.rtrancl_into_rtrancl rtranclp_trans)
  moreover have "y_w (finish_close r t4) = w" "wb_closeErr (base (finish_close r t4)) = err"
    using ncl close 4(4) by (auto simp: watcher_Close_def closeBase_def finish_close_def watcher_ops Let_def)
  moreover have "y_called ?s1" by simp
  moreover note 1 finish_close_fields(20) [of r t4]
  ultimately show ?thesis by (intro exI conjI)
qed

text \<open>What is closed stays closed, and is not changed any more.\<close>

lemma called_stays: "watcher_reach px pj s t \<Longrightarrow> y_called s \<Longrightarrow> y_called t"
proof (induction rule: watcher_reach.induct)
  case (reach_step t u)
  from reach_step.hyps(2) have "y_called t \<Longrightarrow> y_called u"
    by (induction rule: watcher_step.induct) (simp_all add: on_base_def)
  then show ?case using reach_step by blast
qed

lemma closed_step: "watcher_step px pj s t \<Longrightarrow> watcher_inv s \<Longrightarrow> wb_closed (base s) \<Longrightarrow>
    wb_closed (base t) \<and> (y_called s \<longrightarrow> src t = src s) \<and> wb_closeErr (base t) = wb_closeErr (base s) \<and> y_closes t = y_closes s"
  by (induction rule: watcher_step.induct)
    (auto simp: watcher_ops watcher_inv_def inv_close_def finished_def)

lemma closed_stays: "watcher_reach px pj s t \<Longrightarrow> watcher_inv s \<Longrightarrow> wb_closed (base s) \<Longrightarrow> y_called s \<Longrightarrow>
    wb_closed (base t) \<and> src t = src s \<and> wb_closeErr (base t) = wb_closeErr (base s) \<and> y_closes t = y_closes s"
proof (induction rule: watcher_reach.induct)
  case (reach_step t u)
  then show ?case
    using closed_step [OF reach_step.hyps(2) watcher_reach_inv [OF reach_step.hyps(1)]] called_stays [OF reach_step.hyps(1)]
    by simp
qed simp

lemma closeBase_again: "closeBase c' (fst (closeBase c b)) = closeBase c b"
  by (auto simp: closeBase_def closeBase_finish_def Let_def split: option.splits)

text \<open>A watcher whose constructor has returned has had the first updates of what it watches.\<close>

lemma constructed_updates:
  assumes "watcher_reach px pj (start_sys client f g cl s0) s" and "y_new s = N_Done None"
  shows "(f \<noteq> None \<longrightarrow> y_lastX s \<noteq> None) \<and> (g \<noteq> None \<longrightarrow> y_lastJ s \<noteq> None)"
proof -
  have "watcher_inv s" by (rule reach_inv [OF assms(1)])
  moreover have "w_x509ContextFn (y_w s) = f" "w_jwtBundlesFn (y_w s) = g"
    using watcher_reach_fns [OF assms(1)] by (simp_all add: start_sys_def new_watcher_def)
  ultimately show ?thesis
    using assms(2) by (auto simp: watcher_inv_def inv_set_def after_x509_def after_jwt_def)
qed

lemma WaitUntilUpdated_step:
  assumes "y_new s = N_Done None" "\<not> y_woken s" "watcher_WaitUntilUpdated None (y_w s) None w"
  shows "\<exists>t. watcher_step px pj s t \<and> y_w t = w \<and> y_woken t"
proof -
  let ?t = "on_base (\<lambda>_. w_base w) (s\<lparr>y_woken := True\<rparr>)"
  have w: "waitUntilUpdated None (base s) None (w_base w)" "(y_w s)\<lparr>w_base := w_base w\<rparr> = w"
    using assms(3) unfolding watcher_WaitUntilUpdated_def by (blast, metis)
  have "y_w ?t = w" "y_woken ?t" using w(2) by (simp_all add: on_base_def)
  moreover have "watcher_step px pj s ?t" by (rule watcher_step.consumer_waits [OF assms(1,2) w(1)])
  ultimately show ?thesis by blast
qed

section \<open>Properties\<close>

text \<open>
  C21: Closing. In every reachable state the client has been closed at most once, and never when
  it was provided by the caller; once the watcher is closed, the client was closed exactly if
  the watcher owns it, the watch context is cancelled and both watch goroutines have ended, so
  that no update can follow; a constructor that fails leaves a closed watcher; and calling
  \<open>Close\<close> again changes nothing and returns the error of the first call.
\<close>
theorem watcher_close_safe:
  assumes "watcher_reach px pj (start_sys client f g cl s0) s"
  shows "y_closes s \<le> 1 \<and> (client \<longrightarrow> y_closes s = 0) \<and>
    (wb_closed (base s) \<longrightarrow> y_closes s = (if w_ownsClient (y_w s) then 1 else 0) \<and>
       (y_x509 s \<noteq> NotStarted \<or> y_jwt s \<noteq> NotStarted \<longrightarrow> wb_cancelled (base s)) \<and> finished (y_x509 s) \<and> finished (y_jwt s)) \<and>
    (\<forall>e. y_new s = N_Done (Some e) \<longrightarrow> wb_closed (base s)) \<and>
    (wb_closed (base s) \<longrightarrow> watcher_Close r (y_w s) = (y_w s, wb_closeErr (base s)))"
proof -
  have "watcher_inv s" by (rule reach_inv [OF assms])
  moreover have "client \<Longrightarrow> \<not> w_ownsClient (y_w s)"
    using watcher_reach_given [OF assms] by (simp add: start_sys_def new_watcher_def)
  ultimately show ?thesis
    by (auto simp: watcher_inv_def inv_owner_def inv_close_def inv_hasCancel_def inv_cancel_def watcher_Close_def closeBase_def)
qed

text \<open>A run: a client is created, one update arrives, the constructor returns, the consumer
  reads, the watcher is closed and the client's \<open>Close\<close> fails.\<close>

definition ex_ctx :: X509Context where
  "ex_ctx = \<lparr>xc_SVIDs = [], xc_Bundles = []\<rparr>"

definition ex_start :: "X509Context option sys" where
  "ex_start = start_sys False (Some (\<lambda>c _. Ok (Some c))) None id None"

lemma ex_run:
  obtains s t where "watcher_reach (\<lambda>c. c = ex_ctx) (\<lambda>_. False) ex_start s" "y_new s = N_Done None"
    "\<not> y_woken s" "y_x509 s = Watching" "y_jwt s = NotStarted" "\<not> wb_updatedCh (base s)" "src s = Some ex_ctx" "y_version s = 1"
    "\<not> y_closing s" "y_errCh s = []" "\<not> y_called s"
    and "watcher_reach (\<lambda>c. c = ex_ctx) (\<lambda>_. False) ex_start t" "wb_closed (base t)" "y_x509 t = Exited"
    "wb_closeErr (base t) = Some (New ''close'')" "w_ownsClient (y_w t)"
proof -
  let ?R = "watcher_reach (\<lambda>c. c = ex_ctx) (\<lambda>_. False) ex_start"
  let ?s1 = "ex_start\<lparr>y_new := N_Ctx, y_w := (y_w ex_start)\<lparr>w_client := True, w_ownsClient := True\<rparr>\<rparr>"
  let ?s2 = "on_base (\<lambda>b. b\<lparr>wb_hasCancel := True\<rparr>) (?s1\<lparr>y_new := N_X509\<rparr>)"
  let ?s3 = "?s2\<lparr>y_new := N_WaitX509, y_x509 := Watching\<rparr>"
  let ?s4 = "?s3\<lparr>y_w := (y_w ?s3)\<lparr>w_src := Some ex_ctx\<rparr>, y_x509 := Applied, y_lastX := Some ex_ctx, y_version := Suc (y_version ?s3)\<rparr>"
  let ?s5 = "on_base triggerUpdated (?s4\<lparr>y_x509 := Triggered\<rparr>)"
  let ?s6 = "?s5\<lparr>y_w := (y_w ?s5)\<lparr>w_x509ContextSet := True\<rparr>, y_x509 := Watching\<rparr>"
  let ?s7 = "?s6\<lparr>y_new := N_JWT\<rparr>"
  let ?s8 = "?s7\<lparr>y_new := N_Drain\<rparr>"
  let ?s9 = "on_base drainUpdated (?s8\<lparr>y_new := N_Done None\<rparr>)"
  let ?s10 = "?s9\<lparr>y_woken := False, y_seen := y_version ?s9\<rparr>"
  let ?sc = "?s10\<lparr>y_called := True, y_w := (y_w ?s10)\<lparr>w_src := y_closeFn ?s10 (src ?s10)\<rparr>\<rparr>"
  let ?s11 = "on_base closeBase_cancel (?sc\<lparr>y_closing := True\<rparr>)"
  let ?s12 = "?s11\<lparr>y_x509 := Exited, y_errCh := y_errCh ?s11 @ [New ''canceled'']\<rparr>"
  let ?s13 = "finish_close (Some (New ''close'')) ?s12"
  note ex = ex_start_def start_sys_def new_watcher_def newWatcherBase_def watcher_ops
  have "?R ?s1" by (rule reach_step [OF reach_start watcher_step.client_new]) (simp_all add: ex)
  then have "?R ?s2" by (rule reach_step [OF _ watcher_step.watch_ctx]) (simp add: ex)
  then have "?R ?s3" by (rule reach_step [OF _ watcher_step.x509_start]) (simp_all add: ex)
  then have "?R ?s4"
    by (rule reach_step [OF _ watcher_step.x509_update [where f = "\<lambda>c _. Ok (Some c)"]]) (simp_all add: ex)
  then have "?R ?s5" by (rule reach_step [OF _ watcher_step.x509_trigger]) (simp add: ex)
  then have "?R ?s6" by (rule reach_step [OF _ watcher_step.x509_set]) (simp add: ex)
  then have "?R ?s7" by (rule reach_step [OF _ watcher_step.x509_has]) (simp_all add: ex)
  then have "?R ?s8" by (rule reach_step [OF _ watcher_step.jwt_skip]) (simp_all add: ex)
  then have "?R ?s9" by (rule reach_step [OF _ watcher_step.drain]) (simp add: ex)
  then have s10: "?R ?s10" by (rule reach_step [OF _ watcher_step.consumer_reads]) (simp_all add: ex)
  then have "?R ?sc" by (rule reach_step [OF _ watcher_step.src_close]) (simp_all add: ex)
  then have "?R ?s11" by (rule reach_step [OF _ watcher_step.close_begin]) (simp_all add: ex)
  then have "?R ?s12" by (rule reach_step [OF _ watcher_step.x509_exit]) (simp_all add: ex errCh_cap_def)
  then have s13: "?R ?s13" by (rule reach_step [OF _ watcher_step.close_finish]) (simp_all add: ex finished_def)
  have close: "wb_closeErr (base ?s13) = Some (New ''close'')" by (simp add: ex)
  show thesis by (rule that [OF s10 _ _ _ _ _ _ _ _ _ _ s13]) (simp_all add: ex close)
qed

theorem watcher_close_safe_witness:
  "\<exists>t. watcher_reach (\<lambda>c. c = ex_ctx) (\<lambda>_. False) ex_start t \<and> y_closes t = 1 \<and> wb_cancelled (base t) \<and>
     watcher_Close None (y_w t) = (y_w t, Some (New ''close''))"
proof -
  obtain t where t: "watcher_reach (\<lambda>c. c = ex_ctx) (\<lambda>_. False) ex_start t" "wb_closed (base t)" "y_x509 t = Exited"
      "wb_closeErr (base t) = Some (New ''close'')" "w_ownsClient (y_w t)"
    by (rule ex_run)
  show ?thesis using watcher_close_safe [OF t(1) [unfolded ex_start_def], of None] t by auto
qed

text \<open>
  C20: The watcher terminates, because \<open>Close\<close> cancels its watches. From any reachable state it can
  take at most 24 more steps by itself -- without a new update being delivered, and with no
  watch returning unless its context is cancelled -- and the error channel never blocks a
  goroutine. When it has no such step left, although the source's \<open>Close\<close> had been called, a
  \<open>Close\<close> was under way, or the context of the constructor was done, then the constructor has
  returned and no \<open>Close\<close> is waiting; and in the first two cases the \<open>Close\<close> has completed, both
  goroutines having ended.
\<close>
theorem watcher_terminates:
  assumes "watcher_reach px pj (start_sys client f g cl s0) s" and "(quiet_step px pj ^^ n) s t"
  shows "n \<le> 24 \<and> length (y_errCh t) + live (y_x509 t) + live (y_jwt t) \<le> errCh_cap \<and>
    ((\<nexists>u. quiet_step px pj t u) \<and> (y_called s \<or> y_closing s \<or> y_ctx s \<noteq> None) \<longrightarrow>
       is_Done (y_new t) \<and> \<not> y_closing t \<and>
       (y_called s \<or> y_closing s \<longrightarrow> wb_closed (base t) \<and> finished (y_x509 t) \<and> finished (y_jwt t)))"
proof -
  note run = quiet_run [OF assms(2) reach_inv [OF assms(1)]]
  have "n \<le> 24" using run work_bound [of s] by linarith
  moreover have "length (y_errCh t) + live (y_x509 t) + live (y_jwt t) \<le> errCh_cap"
    using run by (auto simp: watcher_inv_def inv_pc_def started_def errCh_cap_def split: if_splits)
  moreover have "is_Done (y_new t) \<and> \<not> y_closing t \<and>
      (y_called s \<or> y_closing s \<longrightarrow> wb_closed (base t) \<and> finished (y_x509 t) \<and> finished (y_jwt t))"
    if "\<nexists>u. quiet_step px pj t u" "y_called s \<or> y_closing s \<or> y_ctx s \<noteq> None"
  proof -
    have c: "\<not> y_closing t" "y_called t \<longrightarrow> wb_closed (base t)" "y_ctx t = None \<or> is_Done (y_new t)"
      using watcher_moves [of t px pj] run that(1) by blast+
    moreover have "wb_closed (base t) \<longrightarrow> is_Done (y_new t) \<and> finished (y_x509 t) \<and> finished (y_jwt t)"
      using run by (simp add: watcher_inv_def inv_close_def)
    ultimately show ?thesis using run that(2) by metis
  qed
  ultimately show ?thesis by blast
qed

theorem watcher_terminates_witness:
  "\<exists>s n t. watcher_reach (\<lambda>c. c = ex_ctx) (\<lambda>_. False) ex_start s \<and> y_called s \<and> y_x509 s = Watching \<and>
     (quiet_step (\<lambda>c. c = ex_ctx) (\<lambda>_. False) ^^ n) s t \<and> n \<le> 24 \<and> wb_closed (base t)"
proof -
  let ?px = "\<lambda>c. c = ex_ctx" and ?pj = "\<lambda>_. False"
  obtain s where s: "watcher_reach ?px ?pj ex_start s" "y_new s = N_Done None" "y_x509 s = Watching" "y_jwt s = NotStarted"
      "\<not> y_called s"
    by (rule ex_run)
  have inv: "watcher_inv s" using s(1) unfolding ex_start_def by (rule reach_inv)
  obtain w err where close: "watcher_Close None ((y_w s)\<lparr>w_src := y_closeFn s (src s)\<rparr>) = (w, err)" by fastforce
  obtain s1 t where t: "watcher_step ?px ?pj s s1" "y_called s1" "(quiet_step ?px ?pj)\<^sup>*\<^sup>* s1 t" "wb_closed (base t)"
    using Close_steps [OF inv s(2,5) _ _ _ _ close, of ?px ?pj] s(3,4) by auto
  have x: "y_x509 s1 = Watching"
    using t(1,2) s(2,3,5) by (cases rule: watcher_step.cases) (simp_all add: on_base_def)
  obtain n where n: "(quiet_step ?px ?pj ^^ n) s1 t" using rtranclp_imp_relpowp [OF t(3)] by blast
  have r: "watcher_reach ?px ?pj ex_start s1" by (rule reach_step [OF s(1) t(1)])
  show ?thesis using watcher_terminates [OF r [unfolded ex_start_def] n] r n t(2,4) x by blast
qed

text \<open>
  C22: No update is lost. When the constructor has returned a watcher, the first update of
  every watch has been applied. And whenever a consumer is waiting on the update channel, with
  the channel empty and no callback between applying an update and announcing it, then the
  consumer has read the source after its last update.
\<close>
theorem no_lost_update:
  assumes "watcher_reach px pj (start_sys client f g cl s0) s" and "y_new s = N_Done None"
  shows "(f \<noteq> None \<longrightarrow> y_lastX s \<noteq> None) \<and> (g \<noteq> None \<longrightarrow> y_lastJ s \<noteq> None) \<and>
    (\<not> y_woken s \<and> (\<nexists>b. waitUntilUpdated None (base s) None b) \<and> y_x509 s \<noteq> Applied \<and> y_jwt s \<noteq> Applied \<longrightarrow>
       y_seen s = y_version s)"
proof -
  have "watcher_inv s" by (rule reach_inv [OF assms(1)])
  then show ?thesis
    using constructed_updates [OF assms] assms(2) by (auto simp: watcher_inv_def inv_seen_def)
qed

theorem no_lost_update_witness:
  "\<exists>s. watcher_reach (\<lambda>c. c = ex_ctx) (\<lambda>_. False) ex_start s \<and> y_lastX s \<noteq> None \<and> y_seen s = 1 \<and> src s = Some ex_ctx"
proof -
  obtain s where s: "watcher_reach (\<lambda>c. c = ex_ctx) (\<lambda>_. False) ex_start s" "y_new s = N_Done None"
    "\<not> y_woken s" "y_x509 s = Watching" "y_jwt s = NotStarted" "\<not> wb_updatedCh (base s)" "src s = Some ex_ctx" "y_version s = 1"
    by (rule ex_run)
  show ?thesis using no_lost_update [OF s(1) [unfolded ex_start_def] s(2)] s by auto
qed

section \<open>Sources behind a watcher\<close>

text \<open>
  What a source promises about its state, given the last update of each watch: the relation holds
  at the start, and the functions and the \<open>Close\<close> keep it; the \<open>Close\<close> sets the flag of the source and
  nothing else does. Then the relation holds in every reachable state, the flag says whether the
  source's \<open>Close\<close> has been called, and for a constructed source the last updates exist.
\<close>

locale watched_source =
  fixes x509Fn :: "(X509Context \<Rightarrow> 's \<Rightarrow> 's res) option" and jwtFn :: "(jwtbundle_Set \<Rightarrow> 's \<Rightarrow> 's res) option"
    and init :: 's and px :: "X509Context \<Rightarrow> bool" and pj :: "jwtbundle_Set \<Rightarrow> bool"
    and rel :: "X509Context option \<Rightarrow> jwtbundle_Set option \<Rightarrow> 's \<Rightarrow> bool"
    and closeFn :: "'s \<Rightarrow> 's" and closed :: "'s \<Rightarrow> bool"
  assumes rel_init: "rel None None init"
    and rel_x509: "x509Fn = Some f \<Longrightarrow> px c \<Longrightarrow> rel lx lj s \<Longrightarrow> \<exists>s'. f c s = Ok s' \<and> rel (Some c) lj s' \<and> closed s' = closed s"
    and rel_jwt: "jwtFn = Some g \<Longrightarrow> pj j \<Longrightarrow> rel lx lj s \<Longrightarrow> \<exists>s'. g j s = Ok s' \<and> rel lx (Some j) s' \<and> closed s' = closed s"
    and rel_close: "rel lx lj s \<Longrightarrow> rel lx lj (closeFn s)"
    and closed_init: "\<not> closed init"
    and closed_close: "closed (closeFn s)"
begin

definition source_inv :: "'s sys \<Rightarrow> bool" where
  "source_inv s \<longleftrightarrow> rel (y_lastX s) (y_lastJ s) (src s) \<and> (closed (src s) \<longleftrightarrow> y_called s) \<and>
     pred_option px (y_lastX s) \<and> pred_option pj (y_lastJ s)"

lemma step_rel:
  assumes "watcher_step px pj s t" "w_x509ContextFn (y_w s) = x509Fn" "w_jwtBundlesFn (y_w s) = jwtFn" "y_closeFn s = closeFn"
    "source_inv s"
  shows "source_inv t"
  using assms
proof (induction rule: watcher_step.induct)
  case (x509_update s f c src')
  then show ?case using rel_x509 [of f c "y_lastX s" "y_lastJ s" "src s"] by (auto simp: source_inv_def)
next
  case (jwt_update s g j src')
  then show ?case using rel_jwt [of g j "y_lastX s" "y_lastJ s" "src s"] by (auto simp: source_inv_def)
qed (simp_all add: source_inv_def on_base_def rel_close closed_close)

lemma reach_source_inv:
  assumes "watcher_reach px pj (start_sys client x509Fn jwtFn closeFn init) s"
  shows "source_inv s"
  using assms
proof (induction rule: watcher_reach.induct)
  case reach_start
  show ?case by (simp add: source_inv_def start_sys_def new_watcher_def rel_init closed_init)
next
  case (reach_step s t)
  then show ?case using watcher_reach_fns [OF reach_step.hyps(1)] step_rel [of s t]
    by (simp add: start_sys_def new_watcher_def)
qed

lemma reach_rel:
  assumes "watcher_reach px pj (start_sys client x509Fn jwtFn closeFn init) s"
  shows "rel (y_lastX s) (y_lastJ s) (src s) \<and> pred_option px (y_lastX s) \<and> pred_option pj (y_lastJ s)"
  using reach_source_inv [OF assms] by (simp add: source_inv_def)

text \<open>The whole life of a source that was returned: open until its \<open>Close\<close> is called, closed from then
  on; and a \<open>Close\<close> that finds no callback running is a run of the machine.\<close>

lemma closed_iff_called:
  assumes "watcher_reach px pj (start_sys client x509Fn jwtFn closeFn init) s"
  shows "closed (src s) \<longleftrightarrow> y_called s"
  using reach_source_inv [OF assms] by (simp add: source_inv_def)

lemma reach_more:
  assumes "watcher_reach px pj s0 s" "watcher_reach px pj s t"
  shows "watcher_reach px pj s0 t"
  using assms(2,1) by (induction rule: watcher_reach.induct) (auto intro: watcher_reach.reach_step)

lemma closed_for_good:
  assumes "watcher_reach px pj (start_sys client x509Fn jwtFn closeFn init) s" "y_called s" "watcher_reach px pj s t"
  shows "closed (src t) \<and> (wb_closed (base s) \<longrightarrow> src t = src s \<and> y_closes t = y_closes s \<and>
    watcher_Close r (y_w t) = (y_w t, wb_closeErr (base s)))"
proof -
  have "closed (src t)"
    using closed_iff_called [OF reach_more [OF assms(1,3)]] called_stays [OF assms(3,2)] by simp
  moreover have "wb_closed (base s) \<Longrightarrow> wb_closed (base t) \<and> src t = src s \<and> wb_closeErr (base t) = wb_closeErr (base s) \<and>
      y_closes t = y_closes s"
    using closed_stays [OF assms(3) reach_inv [OF assms(1)] _ assms(2)] .
  ultimately show ?thesis by (auto simp: watcher_Close_def closeBase_def)
qed

lemma closes:
  assumes "watcher_reach px pj (start_sys client x509Fn jwtFn closeFn init) s" "y_new s = N_Done None" "\<not> y_called s"
    and "y_x509 s \<noteq> Applied" "y_x509 s \<noteq> Triggered" "y_jwt s \<noteq> Applied" "y_jwt s \<noteq> Triggered"
    and "watcher_Close r ((y_w s)\<lparr>w_src := closeFn (src s)\<rparr>) = (w, err)"
  shows "\<exists>s1 t. watcher_step px pj s s1 \<and> y_called s1 \<and> (quiet_step px pj)\<^sup>*\<^sup>* s1 t \<and>
    y_w t = w \<and> wb_closed (base t) \<and> wb_closeErr (base t) = err"
  using watcher_reach_fns [OF assms(1)] assms(8)
  by (intro Close_steps [OF reach_inv [OF assms(1)] assms(2-7)]) (simp add: start_sys_def)

lemma callback_no_panic:
  "rel lx lj s \<Longrightarrow> px c \<Longrightarrow> x509Fn = Some f \<Longrightarrow> \<not> is_Panic (f c s)"
  "rel lx lj s \<Longrightarrow> pj j \<Longrightarrow> jwtFn = Some g \<Longrightarrow> \<not> is_Panic (g j s)"
  using rel_x509 rel_jwt by (metis is_Panic.simps(1))+

end

end
