(* ===== verification/Workload_Sources.thy ===== *)
theory Workload_Sources
  imports Workload_Watcher Spiffebundle
begin

text \<open>
  The sources of the Workload API: \<open>X509Source\<close>, \<open>JWTSource\<close>, \<open>BundleSource\<close> and \<open>WITSource\<close>
  (\<open>workloadapi/x509source.go\<close>, \<open>jwtsource.go\<close>, \<open>bundlesource.go\<close>, \<open>witsource.go\<close>). A source is
  the state that the functions given to the watcher update and the getters read; the
  constructors and \<open>Close\<close> run the machine of \<open>Workload_Watcher\<close>. Each source is shown to
  answer from the last update delivered, whatever the interleaving.
\<close>

section \<open>Definitions\<close>

subsection \<open>X509Source\<close>

record X509Source =
  xsrc_picker :: "(x509svid_SVID list \<Rightarrow> x509svid_SVID option) option"
  xsrc_svid :: "x509svid_SVID option"
  xsrc_bundles :: "x509bundle_Set option"
  xsrc_closed :: bool

definition wrapX509sourceErr :: "error \<Rightarrow> error" where
  "wrapX509sourceErr err = Wrap ''x509source: %w'' [] err"

definition X509Source_new :: "(x509svid_SVID list \<Rightarrow> x509svid_SVID option) option \<Rightarrow> X509Source" where
  "X509Source_new picker = \<lparr>xsrc_picker = picker, xsrc_svid = None, xsrc_bundles = None, xsrc_closed = False\<rparr>"

definition X509Source_setX509Context :: "X509Context \<Rightarrow> X509Source \<Rightarrow> X509Source res" where
  "X509Source_setX509Context x509Context s =
     bind_res (case xsrc_picker s of
         None \<Rightarrow> bind_res (X509Context_DefaultSVID x509Context) (\<lambda>svid. Ok (Some svid))
       | Some picker \<Rightarrow> Ok (picker (xc_SVIDs x509Context))) (\<lambda>svid.
     Ok (s\<lparr>xsrc_svid := svid, xsrc_bundles := Some (xc_Bundles x509Context)\<rparr>))"

definition X509Source_checkClosed :: "X509Source \<Rightarrow> error option" where
  "X509Source_checkClosed s =
     (if xsrc_closed s then Some (wrapX509sourceErr (New ''source is closed'')) else None)"

definition X509Source_GetX509SVID :: "X509Source \<Rightarrow> x509svid_SVID res" where
  "X509Source_GetX509SVID s =
     (case X509Source_checkClosed s of
        Some err \<Rightarrow> Err err
      | None \<Rightarrow> (case xsrc_svid s of
            None \<Rightarrow> Err (wrapX509sourceErr (New ''missing X509-SVID''))
          | Some svid \<Rightarrow> Ok svid))"

definition X509Source_GetX509BundleForTrustDomain :: "X509Source \<Rightarrow> TrustDomain \<Rightarrow> x509bundle_Bundle res" where
  "X509Source_GetX509BundleForTrustDomain s trustDomain =
     (case X509Source_checkClosed s of
        Some err \<Rightarrow> Err err
      | None \<Rightarrow> (case xsrc_bundles s of
            None \<Rightarrow> nil_call
          | Some bundles \<Rightarrow> x509bundle_Set_GetX509BundleForTrustDomain bundles trustDomain))"

text \<open>\<open>Close\<close> sets the flag, then closes the watcher.\<close>

definition X509Source_setClosed :: "X509Source \<Rightarrow> X509Source" where
  "X509Source_setClosed s = s\<lparr>xsrc_closed := True\<rparr>"

definition X509Source_Close :: "error option \<Rightarrow> X509Source watcher \<Rightarrow> X509Source watcher \<times> error option" where
  "X509Source_Close r w = watcher_Close r (w\<lparr>w_src := X509Source_setClosed (w_src w)\<rparr>)"

text \<open>Waiting for an update of the source, and the channel that announces one.\<close>

definition X509Source_WaitUntilUpdated :: "error option \<Rightarrow> X509Source watcher \<Rightarrow> error option \<Rightarrow> X509Source watcher \<Rightarrow> bool" where
  "X509Source_WaitUntilUpdated ctx w r w' = watcher_WaitUntilUpdated ctx w r w'"

definition X509Source_Updated :: "X509Source watcher \<Rightarrow> bool" where
  "X509Source_Updated w = watcher_Updated w"

subsection \<open>JWTSource\<close>

record JWTSource =
  jsrc_picker :: "(jwtsvid_SVID list \<Rightarrow> jwtsvid_SVID option) option"
  jsrc_bundles :: "jwtbundle_Set option"
  jsrc_closed :: bool

text \<open>The calls of \<open>sourceClient\<close> that the source passes on.\<close>

record sourceClient =
  sc_FetchJWTSVID :: "jwtsvid_Params \<Rightarrow> jwtsvid_SVID res"
  sc_FetchJWTSVIDs :: "jwtsvid_Params \<Rightarrow> jwtsvid_SVID list res"

definition Client_sourceClient :: "charset \<Rightarrow> 'b jose_lib \<Rightarrow> int \<Rightarrow> jwt_rpc \<Rightarrow> sourceClient" where
  "Client_sourceClient cs lib now rpc =
     \<lparr>sc_FetchJWTSVID = FetchJWTSVID cs lib now rpc, sc_FetchJWTSVIDs = FetchJWTSVIDs cs lib now rpc\<rparr>"

definition wrapJwtsourceErr :: "error \<Rightarrow> error" where
  "wrapJwtsourceErr err = Wrap ''jwtsource: %w'' [] err"

definition JWTSource_new :: "(jwtsvid_SVID list \<Rightarrow> jwtsvid_SVID option) option \<Rightarrow> JWTSource" where
  "JWTSource_new picker = \<lparr>jsrc_picker = picker, jsrc_bundles = None, jsrc_closed = False\<rparr>"

definition JWTSource_setJWTBundles :: "jwtbundle_Set \<Rightarrow> JWTSource \<Rightarrow> JWTSource res" where
  "JWTSource_setJWTBundles bundles s = Ok (s\<lparr>jsrc_bundles := Some bundles\<rparr>)"

definition JWTSource_checkClosed :: "JWTSource \<Rightarrow> error option" where
  "JWTSource_checkClosed s =
     (if jsrc_closed s then Some (wrapJwtsourceErr (New ''source is closed'')) else None)"

text \<open>The result is a pointer: a picker may give \<open>nil\<close> without an error.\<close>

definition JWTSource_FetchJWTSVID :: "sourceClient \<Rightarrow> JWTSource \<Rightarrow> jwtsvid_Params \<Rightarrow> jwtsvid_SVID option res" where
  "JWTSource_FetchJWTSVID client s params =
     (case JWTSource_checkClosed s of
        Some err \<Rightarrow> Err err
      | None \<Rightarrow> (case jsrc_picker s of
            None \<Rightarrow> bind_res (sc_FetchJWTSVID client params) (\<lambda>svid. Ok (Some svid))
          | Some picker \<Rightarrow> bind_res (sc_FetchJWTSVIDs client params) (\<lambda>svids. Ok (picker svids))))"

definition JWTSource_FetchJWTSVIDs :: "sourceClient \<Rightarrow> JWTSource \<Rightarrow> jwtsvid_Params \<Rightarrow> jwtsvid_SVID list res" where
  "JWTSource_FetchJWTSVIDs client s params =
     (case JWTSource_checkClosed s of Some err \<Rightarrow> Err err | None \<Rightarrow> sc_FetchJWTSVIDs client params)"

definition JWTSource_GetJWTBundleForTrustDomain :: "JWTSource \<Rightarrow> TrustDomain \<Rightarrow> jwtbundle_Bundle res" where
  "JWTSource_GetJWTBundleForTrustDomain s trustDomain =
     (case JWTSource_checkClosed s of
        Some err \<Rightarrow> Err err
      | None \<Rightarrow> (case jsrc_bundles s of
            None \<Rightarrow> nil_call
          | Some bundles \<Rightarrow> jwtbundle_Set_GetJWTBundleForTrustDomain bundles trustDomain))"

definition JWTSource_setClosed :: "JWTSource \<Rightarrow> JWTSource" where
  "JWTSource_setClosed s = s\<lparr>jsrc_closed := True\<rparr>"

definition JWTSource_Close :: "error option \<Rightarrow> JWTSource watcher \<Rightarrow> JWTSource watcher \<times> error option" where
  "JWTSource_Close r w = watcher_Close r (w\<lparr>w_src := JWTSource_setClosed (w_src w)\<rparr>)"

text \<open>Waiting for an update of the source, and the channel that announces one.\<close>

definition JWTSource_WaitUntilUpdated :: "error option \<Rightarrow> JWTSource watcher \<Rightarrow> error option \<Rightarrow> JWTSource watcher \<Rightarrow> bool" where
  "JWTSource_WaitUntilUpdated ctx w r w' = watcher_WaitUntilUpdated ctx w r w'"

definition JWTSource_Updated :: "JWTSource watcher \<Rightarrow> bool" where
  "JWTSource_Updated w = watcher_Updated w"

subsection \<open>BundleSource\<close>

record BundleSource =
  bsrc_x509Authorities :: "(TrustDomain, certificate list) gomap"
  bsrc_jwtAuthorities :: "(TrustDomain, authorities) gomap"
  bsrc_closed :: bool

definition wrapBundlesourceErr :: "error \<Rightarrow> error" where
  "wrapBundlesourceErr err = Wrap ''bundlesource: %w'' [] err"

definition BundleSource_new :: BundleSource where
  "BundleSource_new = \<lparr>bsrc_x509Authorities = [], bsrc_jwtAuthorities = [], bsrc_closed = False\<rparr>"

text \<open>The second loop of the setters: the keys of \<open>m\<close> that are not in \<open>trustDomains\<close> are deleted.\<close>

definition delete_stale :: "(TrustDomain, unit) gomap \<Rightarrow> (TrustDomain, 'v) gomap \<Rightarrow> (TrustDomain, 'v) gomap" where
  "delete_stale trustDomains m =
     fold (\<lambda>(existingTD, _) m. if gm_has trustDomains existingTD then m else gm_delete existingTD m) m m"

definition BundleSource_setX509Context :: "X509Context \<Rightarrow> BundleSource \<Rightarrow> BundleSource res" where
  "BundleSource_setX509Context x509Context s =
     (let newBundles = x509bundle_Set_Bundles (xc_Bundles x509Context);
          (trustDomains, auths) = fold (\<lambda>newBundle (tds, auths).
              (gm_set (x509bundle_TrustDomain newBundle) () tds,
               gm_set (x509bundle_TrustDomain newBundle) (x509bundle_X509Authorities newBundle) auths))
            newBundles ([], bsrc_x509Authorities s)
      in Ok (s\<lparr>bsrc_x509Authorities := delete_stale trustDomains auths\<rparr>))"

definition BundleSource_setJWTBundles :: "jwtbundle_Set \<Rightarrow> BundleSource \<Rightarrow> BundleSource res" where
  "BundleSource_setJWTBundles bundles s =
     (let newBundles = jwtbundle_Set_Bundles bundles;
          (trustDomains, auths) = fold (\<lambda>newBundle (tds, auths).
              (gm_set (jwtbundle_TrustDomain newBundle) () tds,
               gm_set (jwtbundle_TrustDomain newBundle) (jwtbundle_JWTAuthorities newBundle) auths))
            newBundles ([], bsrc_jwtAuthorities s)
      in Ok (s\<lparr>bsrc_jwtAuthorities := delete_stale trustDomains auths\<rparr>))"

definition BundleSource_checkClosed :: "BundleSource \<Rightarrow> error option" where
  "BundleSource_checkClosed s =
     (if bsrc_closed s then Some (wrapBundlesourceErr (New ''source is closed'')) else None)"

definition BundleSource_GetBundleForTrustDomain :: "BundleSource \<Rightarrow> TrustDomain \<Rightarrow> spiffebundle_Bundle res" where
  "BundleSource_GetBundleForTrustDomain s trustDomain =
     (case BundleSource_checkClosed s of
        Some err \<Rightarrow> Err err
      | None \<Rightarrow>
          let x509Authorities = gm_get (bsrc_x509Authorities s) trustDomain;
              jwtAuthorities = gm_get (bsrc_jwtAuthorities s) trustDomain
          in if x509Authorities = None \<and> jwtAuthorities = None
            then Err (wrapBundlesourceErr (Errorf ''no SPIFFE bundle for trust domain %q'' [TrustDomain_String trustDomain]))
            else let bundle = spiffebundle_New trustDomain;
                bundle = (case x509Authorities of None \<Rightarrow> bundle | Some a \<Rightarrow> spiffebundle_SetX509Authorities bundle a);
                bundle = (case jwtAuthorities of None \<Rightarrow> bundle | Some a \<Rightarrow> spiffebundle_SetJWTAuthorities bundle a)
              in Ok bundle)"

definition BundleSource_GetX509BundleForTrustDomain :: "BundleSource \<Rightarrow> TrustDomain \<Rightarrow> x509bundle_Bundle res" where
  "BundleSource_GetX509BundleForTrustDomain s trustDomain =
     (case BundleSource_checkClosed s of
        Some err \<Rightarrow> Err err
      | None \<Rightarrow> (case gm_get (bsrc_x509Authorities s) trustDomain of
            None \<Rightarrow> Err (wrapBundlesourceErr (Errorf ''no X.509 bundle for trust domain %q'' [TrustDomain_String trustDomain]))
          | Some x509Authorities \<Rightarrow> Ok (x509bundle_FromX509Authorities trustDomain x509Authorities)))"

definition BundleSource_GetJWTBundleForTrustDomain :: "BundleSource \<Rightarrow> TrustDomain \<Rightarrow> jwtbundle_Bundle res" where
  "BundleSource_GetJWTBundleForTrustDomain s trustDomain =
     (case BundleSource_checkClosed s of
        Some err \<Rightarrow> Err err
      | None \<Rightarrow> (case gm_get (bsrc_jwtAuthorities s) trustDomain of
            None \<Rightarrow> Err (wrapBundlesourceErr (Errorf ''no JWT bundle for trust domain %q'' [TrustDomain_String trustDomain]))
          | Some jwtAuthorities \<Rightarrow> Ok (jwtbundle_FromJWTAuthorities trustDomain jwtAuthorities)))"

definition BundleSource_setClosed :: "BundleSource \<Rightarrow> BundleSource" where
  "BundleSource_setClosed s = s\<lparr>bsrc_closed := True\<rparr>"

definition BundleSource_Close :: "error option \<Rightarrow> BundleSource watcher \<Rightarrow> BundleSource watcher \<times> error option" where
  "BundleSource_Close r w = watcher_Close r (w\<lparr>w_src := BundleSource_setClosed (w_src w)\<rparr>)"

text \<open>Waiting for an update of the source, and the channel that announces one.\<close>

definition BundleSource_WaitUntilUpdated :: "error option \<Rightarrow> BundleSource watcher \<Rightarrow> error option \<Rightarrow> BundleSource watcher \<Rightarrow> bool" where
  "BundleSource_WaitUntilUpdated ctx w r w' = watcher_WaitUntilUpdated ctx w r w'"

definition BundleSource_Updated :: "BundleSource watcher \<Rightarrow> bool" where
  "BundleSource_Updated w = watcher_Updated w"

subsection \<open>WITSource\<close>

text \<open>\<open>wsrc_svidsSet\<close> and \<open>wsrc_bundlesSet\<close>: the channel is closed.\<close>

record WITSource =
  wsrc_base :: watcherBase
  wsrc_ownsClient :: bool
  wsrc_svids :: "witsvid_SVID list"
  wsrc_bundles :: witbundle_Set
  wsrc_svidsSet :: bool
  wsrc_bundlesSet :: bool

definition WITSource_new :: "bool \<Rightarrow> WITSource" where
  "WITSource_new ownsClient = \<lparr>wsrc_base = newWatcherBase, wsrc_ownsClient = ownsClient, wsrc_svids = [],
     wsrc_bundles = witbundle_NewSet [], wsrc_svidsSet = False, wsrc_bundlesSet = False\<rparr>"

definition OnWITSVIDsUpdate :: "witsvid_SVID list \<Rightarrow> WITSource \<Rightarrow> WITSource" where
  "OnWITSVIDsUpdate svids s =
     (let s = s\<lparr>wsrc_svids := svids\<rparr>;
          s = s\<lparr>wsrc_base := triggerUpdated (wsrc_base s)\<rparr>
      in s\<lparr>wsrc_svidsSet := True\<rparr>)"

definition OnWITBundlesUpdate :: "witbundle_Set \<Rightarrow> WITSource \<Rightarrow> WITSource" where
  "OnWITBundlesUpdate bundles s =
     (let s = s\<lparr>wsrc_bundles := bundles\<rparr>;
          s = s\<lparr>wsrc_base := triggerUpdated (wsrc_base s)\<rparr>
      in s\<lparr>wsrc_bundlesSet := True\<rparr>)"

definition WITSource_OnWITSVIDsWatchError :: "error \<Rightarrow> WITSource \<Rightarrow> WITSource" where
  "WITSource_OnWITSVIDsWatchError err s = s"

definition WITSource_OnWITBundlesWatchError :: "error \<Rightarrow> WITSource \<Rightarrow> WITSource" where
  "WITSource_OnWITBundlesWatchError err s = s"

definition WITSource_WaitUntilUpdated :: "error option \<Rightarrow> WITSource \<Rightarrow> error option \<Rightarrow> WITSource \<Rightarrow> bool" where
  "WITSource_WaitUntilUpdated ctx s r s' \<longleftrightarrow>
     waitUntilUpdated ctx (wsrc_base s) r (wsrc_base s') \<and> s' = s\<lparr>wsrc_base := wsrc_base s'\<rparr>"

definition WITSource_Updated :: "WITSource \<Rightarrow> bool" where
  "WITSource_Updated s = updated (wsrc_base s)"

definition WITSource_closer :: "error option \<Rightarrow> WITSource \<Rightarrow> error option option" where
  "WITSource_closer r s = (if wsrc_ownsClient s then Some r else None)"

definition WITSource_Close :: "error option \<Rightarrow> WITSource \<Rightarrow> WITSource \<times> error option" where
  "WITSource_Close r s =
     (let (b, err) = closeBase (WITSource_closer r s) (wsrc_base s) in (s\<lparr>wsrc_base := b\<rparr>, err))"

definition WITSource_checkClosed :: "WITSource \<Rightarrow> error option" where
  "WITSource_checkClosed s =
     (if wb_closed (wsrc_base s) then Some (New ''witsource: source is closed'') else None)"

definition GetWITSVIDForID :: "WITSource \<Rightarrow> ID \<Rightarrow> witsvid_SVID res" where
  "GetWITSVIDForID s i =
     (case WITSource_checkClosed s of
        Some err \<Rightarrow> Err err
      | None \<Rightarrow> (case List.find (\<lambda>svid. ws_ID svid = i) (wsrc_svids s) of
            Some svid \<Rightarrow> Ok svid
          | None \<Rightarrow> Err (Errorf ''witsource: no WIT-SVID found for SPIFFE ID %q'' [ID_String i])))"

definition WITSource_GetWITBundleForTrustDomain :: "WITSource \<Rightarrow> TrustDomain \<Rightarrow> witbundle_Bundle res" where
  "WITSource_GetWITBundleForTrustDomain s trustDomain =
     (case WITSource_checkClosed s of
        Some err \<Rightarrow> Err err
      | None \<Rightarrow> witbundle_Set_GetWITBundleForTrustDomain (wsrc_bundles s) trustDomain)"

text \<open>
  \<open>NewWITSource\<close> after the client is there, \<open>waitForInitial\<close>, the two watches and \<open>Close\<close>, as
  steps. Both watches start before the first wait. A callback is one step here; its finer
  interleaving is that of the watcher.
\<close>

datatype wit_pc = W_Start | W_WaitSVIDs | W_WaitBundles | w_is_Fail: W_Fail error | w_is_Done: W_Done "error option"

record wit_sys =
  z_s :: WITSource
  z_svids :: wpc
  z_bundles :: wpc
  z_errCh :: "error list"
  z_new :: wit_pc
  z_closing :: bool
  z_closes :: nat
  z_lastS :: "witsvid_SVID list option"
  z_lastB :: "witbundle_Set option"

definition wit_start :: "bool \<Rightarrow> wit_sys" where
  "wit_start ownsClient = \<lparr>z_s = WITSource_new ownsClient, z_svids = NotStarted, z_bundles = NotStarted, z_errCh = [],
     z_new = W_Start, z_closing = False, z_closes = 0, z_lastS = None, z_lastB = None\<rparr>"

definition wit_base :: "(watcherBase \<Rightarrow> watcherBase) \<Rightarrow> wit_sys \<Rightarrow> wit_sys" where
  "wit_base f s = s\<lparr>z_s := (z_s s)\<lparr>wsrc_base := f (wsrc_base (z_s s))\<rparr>\<rparr>"

inductive wit_step :: "(witsvid_SVID list \<Rightarrow> bool) \<Rightarrow> (witbundle_Set \<Rightarrow> bool) \<Rightarrow> wit_sys \<Rightarrow> wit_sys \<Rightarrow> bool" for ps pb where
  wit_watch: "z_new s = W_Start \<Longrightarrow> wit_step ps pb s (wit_base (\<lambda>b. b\<lparr>wb_hasCancel := True\<rparr>)
     (s\<lparr>z_new := W_WaitSVIDs, z_svids := Watching, z_bundles := Watching\<rparr>))"
| wit_has_svids: "z_new s = W_WaitSVIDs \<Longrightarrow> wsrc_svidsSet (z_s s) \<Longrightarrow> wit_step ps pb s (s\<lparr>z_new := W_WaitBundles\<rparr>)"
| wit_has_bundles: "z_new s = W_WaitBundles \<Longrightarrow> wsrc_bundlesSet (z_s s) \<Longrightarrow>
     wit_step ps pb s (wit_base drainUpdated (s\<lparr>z_new := W_Done None\<rparr>))"
| wit_err: "z_new s = W_WaitSVIDs \<or> z_new s = W_WaitBundles \<Longrightarrow> z_errCh s = e # es \<Longrightarrow>
     wit_step ps pb s (s\<lparr>z_new := W_Fail e, z_errCh := es\<rparr>)"
| wit_ctx: "z_new s = W_WaitSVIDs \<or> z_new s = W_WaitBundles \<Longrightarrow> wit_step ps pb s (s\<lparr>z_new := W_Fail e\<rparr>)"
| wit_svids_update: "z_svids s = Watching \<Longrightarrow> ps svids \<Longrightarrow>
     wit_step ps pb s (s\<lparr>z_s := OnWITSVIDsUpdate svids (z_s s), z_lastS := Some svids\<rparr>)"
| wit_bundles_update: "z_bundles s = Watching \<Longrightarrow> pb bundles \<Longrightarrow>
     wit_step ps pb s (s\<lparr>z_s := OnWITBundlesUpdate bundles (z_s s), z_lastB := Some bundles\<rparr>)"
| wit_svids_exit: "z_svids s = Watching \<Longrightarrow> length (z_errCh s) < errCh_cap \<Longrightarrow>
     wit_step ps pb s (s\<lparr>z_svids := Exited, z_errCh := z_errCh s @ [e]\<rparr>)"
| wit_bundles_exit: "z_bundles s = Watching \<Longrightarrow> length (z_errCh s) < errCh_cap \<Longrightarrow>
     wit_step ps pb s (s\<lparr>z_bundles := Exited, z_errCh := z_errCh s @ [e]\<rparr>)"
| wit_close_begin: "w_is_Fail (z_new s) \<or> z_new s = W_Done None \<Longrightarrow> \<not> z_closing s \<Longrightarrow> \<not> wb_closed (wsrc_base (z_s s)) \<Longrightarrow>
     wit_step ps pb s (wit_base closeBase_cancel (s\<lparr>z_closing := True\<rparr>))"
| wit_close_done: "z_closing s \<Longrightarrow> z_new s = W_Done None \<Longrightarrow> z_svids s = Exited \<Longrightarrow> z_bundles s = Exited \<Longrightarrow>
     wit_step ps pb s (wit_base (closeBase_finish (WITSource_closer r (z_s s)))
       (s\<lparr>z_closing := False, z_closes := z_closes s + (if wsrc_ownsClient (z_s s) then 1 else 0)\<rparr>))"
| wit_close_fail: "z_closing s \<Longrightarrow> z_new s = W_Fail e \<Longrightarrow> z_svids s = Exited \<Longrightarrow> z_bundles s = Exited \<Longrightarrow>
     b = closeBase_finish (WITSource_closer r (z_s s)) (wsrc_base (z_s s)) \<Longrightarrow>
     wit_step ps pb s (wit_base (\<lambda>_. b)
       (s\<lparr>z_closing := False, z_closes := z_closes s + (if wsrc_ownsClient (z_s s) then 1 else 0),
          z_new := W_Done (errors_Join [Some e, wb_closeErr b])\<rparr>))"

inductive wit_reach :: "(witsvid_SVID list \<Rightarrow> bool) \<Rightarrow> (witbundle_Set \<Rightarrow> bool) \<Rightarrow> bool \<Rightarrow> wit_sys \<Rightarrow> bool" for ps pb owns where
  wit_reach_start: "wit_reach ps pb owns (wit_start owns)"
| wit_reach_step: "wit_reach ps pb owns s \<Longrightarrow> wit_step ps pb s t \<Longrightarrow> wit_reach ps pb owns t"

section \<open>Lemmas\<close>

lemma delete_stale_get: "gm_get (delete_stale tds m) k = (if gm_has tds k then gm_get m k else None)"
proof -
  have *: "gm_get (fold (\<lambda>(t, _) m. if gm_has tds t then m else gm_delete t m) xs m') k =
      (if gm_has tds k \<or> k \<notin> fst ` set xs then gm_get m' k else None)" for xs :: "(TrustDomain \<times> 'a) list" and m'
    by (induction xs arbitrary: m') (auto simp: fun_upd_def)
  show ?thesis unfolding delete_stale_def * by (simp add: map_of_eq_None_iff)
qed

lemma delete_stale_wf [simp]: "gm_wf m \<Longrightarrow> gm_wf (delete_stale tds m)"
proof -
  have "gm_wf m' \<Longrightarrow> gm_wf (fold (\<lambda>(t, _) m. if gm_has tds t then m else gm_delete t m) xs m')"
    for xs :: "(TrustDomain \<times> 'a) list" and m'
    by (induction xs arbitrary: m') auto
  then show "gm_wf m \<Longrightarrow> gm_wf (delete_stale tds m)" by (simp add: delete_stale_def)
qed

lemma set_loop_split:
  "fold (\<lambda>b (tds, auths). (gm_set (t b) () tds, gm_set (t b) (a b) auths)) bs (tds0, auths0) =
   (fold (\<lambda>b. gm_set (t b) ()) bs tds0, fold (\<lambda>b. gm_set (t b) (a b)) bs auths0)"
  by (induction bs arbitrary: tds0 auths0) auto

lemma fold_set_get: "gm_get (fold (\<lambda>b. gm_set (t b) (a b)) bs m) = gm_get m ++ map_of (rev (map (\<lambda>b. (t b, a b)) bs))"
  by (induction bs arbitrary: m) (auto simp: map_add_def fun_eq_iff split: option.splits)

lemma fold_set_wf: "gm_wf m \<Longrightarrow> gm_wf (fold (\<lambda>b. gm_set (t b) (a b)) bs m)"
  by (induction bs arbitrary: m) auto

text \<open>What the two loops of a setter leave: exactly the trust domains of the new set, each with
  the authorities of its bundle.\<close>

context bundle_set
begin

lemma bundles_map_of:
  assumes "inv s"
  shows "map_of (rev (map (\<lambda>b. (td_of b, f b)) (bundles s))) t = map_option f (get s t)"
proof -
  have d: "distinct (map fst (map (\<lambda>b. (td_of b, f b)) (bundles s)))"
    using bundles_ok [OF assms] by (simp add: comp_def)
  have "map_of (map (\<lambda>b. (td_of b, f b)) (bundles s)) t = map_option f (get s t)"
  proof (cases "get s t")
    case None
    then have "t \<notin> td_of ` set (bundles s)" using bundles_mem [OF assms] by auto
    then show ?thesis using None by (auto simp: map_of_eq_None_iff image_iff)
  next
    case (Some b)
    then have "b \<in> set (bundles s)" "td_of b = t" using bundles_mem [OF assms] get_key [OF assms] by auto
    then show ?thesis using Some d by (auto intro!: map_of_is_SomeI)
  qed
  then show ?thesis using map_of_eq_rev [OF d] by (simp add: rev_map)
qed

lemma setter_loops:
  assumes "inv s" "(tds, auths) = fold (\<lambda>b (tds, auths). (gm_set (td_of b) () tds, gm_set (td_of b) (f b) auths)) (bundles s) ([], old)"
    and "gm_wf old"
  shows "gm_get (delete_stale tds auths) t = map_option f (get s t) \<and> gm_wf (delete_stale tds auths)"
proof -
  have split: "tds = fold (\<lambda>b. gm_set (td_of b) ()) (bundles s) []" "auths = fold (\<lambda>b. gm_set (td_of b) (f b)) (bundles s) old"
    using assms(2) by (simp_all add: set_loop_split)
  have "gm_get tds t = map_option (\<lambda>_. ()) (get s t)"
    unfolding split fold_set_get using bundles_map_of [OF assms(1), of "\<lambda>_. ()" t] by (simp add: map_add_def)
  moreover have "gm_get auths t = (case get s t of None \<Rightarrow> gm_get old t | Some b \<Rightarrow> Some (f b))"
    unfolding split fold_set_get using bundles_map_of [OF assms(1), of f t] by (simp add: map_add_def split: option.split)
  moreover have "gm_wf auths" unfolding split by (rule fold_set_wf) (rule assms(3))
  ultimately show ?thesis by (auto simp: delete_stale_get gm_has_def split: option.splits)
qed

end

section \<open>The sources behind their watchers\<close>

subsection \<open>Closing\<close>

text \<open>
  What the \<open>Close\<close> of a source guarantees in the state \<open>s\<close>: the source is open until \<open>Close\<close> is called, and
  refuses every call from then on; once \<open>Close\<close> has completed, nothing changes the source or its
  watcher any more, and another \<open>Close\<close> returns the same error; and as long as \<open>Close\<close> has not been
  called and no callback is running, calling it is possible and completes with what \<open>Close\<close> says,
  by steps that the watcher takes by itself.
\<close>

definition closes_for_good ::
  "('s \<Rightarrow> bool) \<Rightarrow> ('s \<Rightarrow> error option) \<Rightarrow> (error option \<Rightarrow> 's watcher \<Rightarrow> 's watcher \<times> error option) \<Rightarrow>
   (X509Context \<Rightarrow> bool) \<Rightarrow> (jwtbundle_Set \<Rightarrow> bool) \<Rightarrow> 's sys \<Rightarrow> bool" where
  "closes_for_good refuses checkClosed Close px pj s \<longleftrightarrow>
     (\<not> y_called s \<longrightarrow> checkClosed (src s) = None) \<and>
     (y_called s \<longrightarrow> (\<forall>t. watcher_reach px pj s t \<longrightarrow> refuses (src t))) \<and>
     (wb_closed (base s) \<longrightarrow> y_called s \<and> (\<forall>r t. watcher_reach px pj s t \<longrightarrow>
        src t = src s \<and> y_closes t = y_closes s \<and> Close r (y_w t) = (y_w t, wb_closeErr (base s)))) \<and>
     (\<not> y_called s \<and> y_x509 s \<notin> {Applied, Triggered} \<and> y_jwt s \<notin> {Applied, Triggered} \<longrightarrow>
        (\<forall>r. \<exists>s1 t. watcher_step px pj s s1 \<and> y_called s1 \<and> (quiet_step px pj)\<^sup>*\<^sup>* s1 t \<and>
           wb_closed (base t) \<and> Close r (y_w s) = (y_w t, wb_closeErr (base t))))"

definition X509Source_refuses :: "X509Source \<Rightarrow> bool" where
  "X509Source_refuses s \<longleftrightarrow> (let err = wrapX509sourceErr (New ''source is closed'') in
     X509Source_GetX509SVID s = Err err \<and> (\<forall>td. X509Source_GetX509BundleForTrustDomain s td = Err err))"

definition JWTSource_refuses :: "JWTSource \<Rightarrow> bool" where
  "JWTSource_refuses s \<longleftrightarrow> (let err = wrapJwtsourceErr (New ''source is closed'') in
     (\<forall>client params. JWTSource_FetchJWTSVID client s params = Err err \<and> JWTSource_FetchJWTSVIDs client s params = Err err) \<and>
     (\<forall>td. JWTSource_GetJWTBundleForTrustDomain s td = Err err))"

definition BundleSource_refuses :: "BundleSource \<Rightarrow> bool" where
  "BundleSource_refuses s \<longleftrightarrow> (let err = wrapBundlesourceErr (New ''source is closed'') in
     \<forall>td. BundleSource_GetBundleForTrustDomain s td = Err err \<and> BundleSource_GetX509BundleForTrustDomain s td = Err err \<and>
       BundleSource_GetJWTBundleForTrustDomain s td = Err err)"

locale closable_source = watched_source +
  fixes refuses :: "'a \<Rightarrow> bool" and checkClosed :: "'a \<Rightarrow> error option"
    and Close :: "error option \<Rightarrow> 'a watcher \<Rightarrow> 'a watcher \<times> error option"
  assumes refuses_closed: "closed s \<Longrightarrow> refuses s"
    and open_check: "\<not> closed s \<Longrightarrow> checkClosed s = None"
    and close_again: "closed s \<Longrightarrow> closeFn s = s"
    and Close_watcher: "Close r w = watcher_Close r (w\<lparr>w_src := closeFn (w_src w)\<rparr>)"
begin

lemma closes_for_good:
  assumes "watcher_reach px pj (start_sys client x509Fn jwtFn closeFn init) s" "y_new s = N_Done None"
  shows "closes_for_good refuses checkClosed Close px pj s"
proof -
  have called: "wb_closed (base s) \<Longrightarrow> y_called s"
    using reach_inv [OF assms(1)] assms(2) by (simp add: watcher_inv_def inv_called_def)
  have "Close r (y_w t) = (y_w t, wb_closeErr (base s))" if "wb_closed (base s)" "watcher_reach px pj s t" for r t
  proof -
    have "closeFn (src t) = src t" "watcher_Close r (y_w t) = (y_w t, wb_closeErr (base s))"
      using closed_for_good [OF assms(1) called that(2)] that(1) close_again by blast+
    then show ?thesis by (simp add: Close_watcher)
  qed
  moreover have "\<exists>s1 t. watcher_step px pj s s1 \<and> y_called s1 \<and> (quiet_step px pj)\<^sup>*\<^sup>* s1 t \<and>
      wb_closed (base t) \<and> Close r (y_w s) = (y_w t, wb_closeErr (base t))"
    if "\<not> y_called s" "y_x509 s \<notin> {Applied, Triggered}" "y_jwt s \<notin> {Applied, Triggered}" for r
  proof -
    obtain w err where c: "Close r (y_w s) = (w, err)" by fastforce
    then have "watcher_Close r ((y_w s)\<lparr>w_src := closeFn (src s)\<rparr>) = (w, err)" by (simp add: Close_watcher)
    from closes [OF assms that(1) _ _ _ _ this] that(2,3) c show ?thesis by fastforce
  qed
  ultimately show ?thesis
    using called closed_iff_called [OF assms(1)] closed_for_good [OF assms(1)] open_check refuses_closed
    unfolding closes_for_good_def by blast
qed

end

subsection \<open>X509Source\<close>

text \<open>What the client delivers: what its parse functions give.\<close>

definition delivered_context :: "charset \<Rightarrow> 't x509_lib \<Rightarrow> X509Context \<Rightarrow> bool" where
  "delivered_context cs lib c \<longleftrightarrow> (\<exists>resp. parseX509Context cs lib resp = Ok c)"

definition delivered_bundles :: "charset \<Rightarrow> (string \<Rightarrow> jwks res) \<Rightarrow> jwtbundle_Set \<Rightarrow> bool" where
  "delivered_bundles cs unmarshal j \<longleftrightarrow> (\<exists>resp. parseJWTSVIDBundles cs unmarshal resp = Ok j)"

lemma delivered_context_ok:
  "delivered_context cs lib c \<Longrightarrow>
     xc_SVIDs c \<noteq> [] \<and> list_all (x509svid_wf cs) (xc_SVIDs c) \<and> gset_inv x509bundle_TrustDomain (xc_Bundles c)"
  using parseX509Context_wf by (auto simp: delivered_context_def)

lemma delivered_bundles_ok: "delivered_bundles cs u j \<Longrightarrow> gset_inv jwtbundle_TrustDomain j"
  by (auto simp: delivered_bundles_def parseJWTSVIDBundles_def jwt_set.inv_new_all)

definition pick :: "('s list \<Rightarrow> 's option) option \<Rightarrow> 's list \<Rightarrow> 's option" where
  "pick picker svids = (case picker of None \<Rightarrow> Some (hd svids) | Some p \<Rightarrow> p svids)"

definition X509Source_rel ::
  "(x509svid_SVID list \<Rightarrow> x509svid_SVID option) option \<Rightarrow> X509Context option \<Rightarrow> jwtbundle_Set option \<Rightarrow> X509Source \<Rightarrow> bool" where
  "X509Source_rel picker lx lj s \<longleftrightarrow> xsrc_picker s = picker \<and>
     (case lx of
        None \<Rightarrow> xsrc_svid s = None \<and> xsrc_bundles s = None
      | Some c \<Rightarrow> xsrc_svid s = pick picker (xc_SVIDs c) \<and> xsrc_bundles s = Some (xc_Bundles c))"

interpretation x509_source: closable_source "Some X509Source_setX509Context" None "X509Source_new picker"
  "delivered_context cs lib" pj "X509Source_rel picker" X509Source_setClosed xsrc_closed
  X509Source_refuses X509Source_checkClosed X509Source_Close for picker cs lib pj
proof unfold_locales
  show "X509Source_rel picker None None (X509Source_new picker)"
    by (simp add: X509Source_rel_def X509Source_new_def)
next
  fix f c lx lj s
  assume f: "Some X509Source_setX509Context = Some f" and c: "delivered_context cs lib c" and s: "X509Source_rel picker lx lj s"
  obtain svid svids where "xc_SVIDs c = svid # svids"
    using delivered_context_ok [OF c] by (cases "xc_SVIDs c") auto
  then show "\<exists>s'. f c s = Ok s' \<and> X509Source_rel picker (Some c) lj s' \<and> xsrc_closed s' = xsrc_closed s"
    using s f by (auto simp: X509Source_rel_def X509Source_setX509Context_def X509Context_DefaultSVID_def pick_def
        split: option.splits)
next
  show "X509Source_rel picker lx lj s \<Longrightarrow> X509Source_rel picker lx lj (X509Source_setClosed s)" for lx lj s
    by (cases lx) (simp_all add: X509Source_rel_def X509Source_setClosed_def)
qed (simp_all add: X509Source_new_def X509Source_setClosed_def X509Source_refuses_def X509Source_checkClosed_def
    X509Source_GetX509SVID_def X509Source_GetX509BundleForTrustDomain_def X509Source_Close_def)

subsection \<open>JWTSource and BundleSource\<close>

definition JWTSource_rel ::
  "(jwtsvid_SVID list \<Rightarrow> jwtsvid_SVID option) option \<Rightarrow> X509Context option \<Rightarrow> jwtbundle_Set option \<Rightarrow> JWTSource \<Rightarrow> bool" where
  "JWTSource_rel picker lx lj s \<longleftrightarrow> jsrc_picker s = picker \<and> jsrc_bundles s = lj"

interpretation jwt_source: closable_source None "Some JWTSource_setJWTBundles" "JWTSource_new picker"
  px "delivered_bundles cs u" "JWTSource_rel picker" JWTSource_setClosed jsrc_closed
  JWTSource_refuses JWTSource_checkClosed JWTSource_Close for picker cs u px
  by unfold_locales
    (auto simp: JWTSource_rel_def JWTSource_new_def JWTSource_setJWTBundles_def JWTSource_setClosed_def JWTSource_refuses_def
      JWTSource_checkClosed_def JWTSource_FetchJWTSVID_def JWTSource_FetchJWTSVIDs_def
      JWTSource_GetJWTBundleForTrustDomain_def JWTSource_Close_def)

text \<open>The abstract state of a \<open>BundleSource\<close>: the last X.509 bundles and the last JWT bundles.\<close>

definition abs_x509 :: "X509Context option \<Rightarrow> TrustDomain \<Rightarrow> certificate list option" where
  "abs_x509 lx t = (case lx of None \<Rightarrow> None
     | Some c \<Rightarrow> map_option x509bundle_X509Authorities (x509bundle_Set_Get (xc_Bundles c) t))"

definition abs_jwt :: "jwtbundle_Set option \<Rightarrow> TrustDomain \<Rightarrow> authorities option" where
  "abs_jwt lj t = (case lj of None \<Rightarrow> None | Some j \<Rightarrow> map_option jwtbundle_JWTAuthorities (jwtbundle_Set_Get j t))"

definition BundleSource_rel :: "X509Context option \<Rightarrow> jwtbundle_Set option \<Rightarrow> BundleSource \<Rightarrow> bool" where
  "BundleSource_rel lx lj s \<longleftrightarrow>
     gm_wf (bsrc_x509Authorities s) \<and> gm_get (bsrc_x509Authorities s) = abs_x509 lx \<and>
     gm_wf (bsrc_jwtAuthorities s) \<and> gm_get (bsrc_jwtAuthorities s) = abs_jwt lj"

lemma BundleSource_setX509Context_rel:
  assumes "gset_inv x509bundle_TrustDomain (xc_Bundles c)" "BundleSource_rel lx lj s"
  shows "\<exists>s'. BundleSource_setX509Context c s = Ok s' \<and> BundleSource_rel (Some c) lj s' \<and> bsrc_closed s' = bsrc_closed s"
proof -
  obtain tds auths where l: "fold (\<lambda>newBundle (tds, auths).
              (gm_set (x509bundle_TrustDomain newBundle) () tds,
               gm_set (x509bundle_TrustDomain newBundle) (x509bundle_X509Authorities newBundle) auths))
            (x509bundle_Set_Bundles (xc_Bundles c)) ([], bsrc_x509Authorities s) = (tds, auths)" by force
  have "gm_wf (bsrc_x509Authorities s)" using assms(2) by (simp add: BundleSource_rel_def)
  note x509_set.setter_loops [OF assms(1) l [symmetric] this]
  then show ?thesis using assms(2) l
    by (auto simp: BundleSource_setX509Context_def BundleSource_rel_def abs_x509_def fun_eq_iff)
qed

lemma BundleSource_setJWTBundles_rel:
  assumes "gset_inv jwtbundle_TrustDomain j" "BundleSource_rel lx lj s"
  shows "\<exists>s'. BundleSource_setJWTBundles j s = Ok s' \<and> BundleSource_rel lx (Some j) s' \<and> bsrc_closed s' = bsrc_closed s"
proof -
  obtain tds auths where l: "fold (\<lambda>newBundle (tds, auths).
              (gm_set (jwtbundle_TrustDomain newBundle) () tds,
               gm_set (jwtbundle_TrustDomain newBundle) (jwtbundle_JWTAuthorities newBundle) auths))
            (jwtbundle_Set_Bundles j) ([], bsrc_jwtAuthorities s) = (tds, auths)" by force
  have "gm_wf (bsrc_jwtAuthorities s)" using assms(2) by (simp add: BundleSource_rel_def)
  note jwt_set.setter_loops [OF assms(1) l [symmetric] this]
  then show ?thesis using assms(2) l
    by (auto simp: BundleSource_setJWTBundles_def BundleSource_rel_def abs_jwt_def fun_eq_iff)
qed

interpretation bundle_src: closable_source "Some BundleSource_setX509Context" "Some BundleSource_setJWTBundles"
  BundleSource_new "delivered_context cs lib" "delivered_bundles cs u" BundleSource_rel
  BundleSource_setClosed bsrc_closed BundleSource_refuses BundleSource_checkClosed BundleSource_Close for cs lib u
proof unfold_locales
  show "BundleSource_rel None None BundleSource_new"
    by (simp add: BundleSource_rel_def BundleSource_new_def abs_x509_def abs_jwt_def fun_eq_iff)
next
  fix f c lx lj s
  assume "Some BundleSource_setX509Context = Some f" "delivered_context cs lib c" "BundleSource_rel lx lj s"
  then show "\<exists>s'. f c s = Ok s' \<and> BundleSource_rel (Some c) lj s' \<and> bsrc_closed s' = bsrc_closed s"
    using BundleSource_setX509Context_rel delivered_context_ok by fastforce
next
  fix g j lx lj s
  assume "Some BundleSource_setJWTBundles = Some g" "delivered_bundles cs u j" "BundleSource_rel lx lj s"
  then show "\<exists>s'. g j s = Ok s' \<and> BundleSource_rel lx (Some j) s' \<and> bsrc_closed s' = bsrc_closed s"
    using BundleSource_setJWTBundles_rel delivered_bundles_ok by fastforce
qed (simp_all add: BundleSource_rel_def BundleSource_new_def BundleSource_setClosed_def BundleSource_refuses_def
    BundleSource_checkClosed_def BundleSource_GetBundleForTrustDomain_def BundleSource_GetX509BundleForTrustDomain_def
    BundleSource_GetJWTBundleForTrustDomain_def BundleSource_Close_def)

subsection \<open>The sources as bundle sources\<close>

text \<open>A source that has received its first update.\<close>

definition X509Source_valid :: "X509Source \<Rightarrow> bool" where
  "X509Source_valid s \<longleftrightarrow> (\<exists>b. xsrc_bundles s = Some b \<and> gset_inv x509bundle_TrustDomain b)"

definition JWTSource_valid :: "JWTSource \<Rightarrow> bool" where
  "JWTSource_valid s \<longleftrightarrow> (\<exists>b. jsrc_bundles s = Some b \<and> gset_inv jwtbundle_TrustDomain b)"

interpretation x509_src: bundle_source X509Source_valid x509bundle_TrustDomain X509Source_GetX509BundleForTrustDomain
  by unfold_locales
    (auto simp: X509Source_GetX509BundleForTrustDomain_def X509Source_checkClosed_def X509Source_valid_def
      dest: x509_set_source.get_for_td x509_set_source.get_for_no_panic split: option.splits if_splits)

interpretation jwt_src: bundle_source JWTSource_valid jwtbundle_TrustDomain JWTSource_GetJWTBundleForTrustDomain
  by unfold_locales
    (auto simp: JWTSource_GetJWTBundleForTrustDomain_def JWTSource_checkClosed_def JWTSource_valid_def
      dest: jwt_set_source.get_for_td jwt_set_source.get_for_no_panic split: option.splits if_splits)

interpretation bundle_src_x509: bundle_source "\<lambda>_. True" x509bundle_TrustDomain BundleSource_GetX509BundleForTrustDomain
  by unfold_locales
    (auto simp: BundleSource_GetX509BundleForTrustDomain_def BundleSource_checkClosed_def x509bundle_FromX509Authorities_def
      x509bundle_TrustDomain_def split: option.splits if_splits)

interpretation bundle_src_jwt: bundle_source "\<lambda>_. True" jwtbundle_TrustDomain BundleSource_GetJWTBundleForTrustDomain
  by unfold_locales
    (auto simp: BundleSource_GetJWTBundleForTrustDomain_def BundleSource_checkClosed_def jwtbundle_FromJWTAuthorities_def
      jwtbundle_TrustDomain_def split: option.splits if_splits)

interpretation bundle_src_spiffe: bundle_source "\<lambda>_. True" spiffebundle_TrustDomain BundleSource_GetBundleForTrustDomain
  by unfold_locales
    (auto simp: BundleSource_GetBundleForTrustDomain_def BundleSource_checkClosed_def spiffebundle_New_def Let_def
      spiffebundle_SetX509Authorities_def spiffebundle_SetJWTAuthorities_def
      spiffebundle_TrustDomain_def split: option.splits if_splits)


subsection \<open>Runs of a constructor\<close>

lemma ex_conjI: "P x \<Longrightarrow> Q x \<Longrightarrow> \<exists>x. P x \<and> Q x"
  by blast

lemma run_start: "\<exists>s. watcher_reach px pj (start_sys True f g cl s0) s \<and> y_new s = N_X509 \<and> src s = s0 \<and> y_lastJ s = None \<and>
    y_jwt s = NotStarted"
proof -
  let ?s0 = "start_sys True f g cl s0" let ?s1 = "?s0\<lparr>y_new := N_Ctx\<rparr>"
  let ?s2 = "on_base (\<lambda>b. b\<lparr>wb_hasCancel := True\<rparr>) (?s1\<lparr>y_new := N_X509\<rparr>)"
  have "watcher_reach px pj ?s0 ?s1"
    by (rule reach_step [OF reach_start watcher_step.client_given]) (simp_all add: start_sys_def new_watcher_def)
  then have "watcher_reach px pj ?s0 ?s2"
    by (rule reach_step [OF _ watcher_step.watch_ctx]) (simp add: start_sys_def)
  then show ?thesis by - (rule ex_conjI, assumption, simp add: on_base_def start_sys_def new_watcher_def)
qed

lemma run_x509:
  assumes "watcher_reach px pj (start_sys True (Some f) g cl s0) s" "y_new s = N_X509" "px c" "f c (src s) = Ok s1"
  shows "\<exists>t. watcher_reach px pj (start_sys True (Some f) g cl s0) t \<and> y_new t = N_JWT \<and> src t = s1 \<and> y_lastX t = Some c \<and> y_lastJ t = y_lastJ s \<and>
    y_x509 t = Watching \<and> y_jwt t = y_jwt s"
proof -
  let ?R = "watcher_reach px pj (start_sys True (Some f) g cl s0)"
  have f: "w_x509ContextFn (y_w s) = Some f"
    using watcher_reach_fns [OF assms(1)] by (simp add: start_sys_def new_watcher_def)
  let ?t = "s\<lparr>y_new := N_WaitX509, y_x509 := Watching\<rparr>"
  have t: "?R ?t" by (rule reach_step [OF assms(1) watcher_step.x509_start]) (use assms(2) f in simp_all)
  let ?u = "?t\<lparr>y_w := (y_w s)\<lparr>w_src := s1\<rparr>, y_x509 := Applied, y_lastX := Some c, y_version := Suc (y_version s)\<rparr>"
  have "?R ?u" using reach_step [OF t watcher_step.x509_update [of ?t f px c s1 pj]] assms(3,4) f by simp
  let ?v = "on_base triggerUpdated (?u\<lparr>y_x509 := Triggered\<rparr>)"
  let ?x = "?v\<lparr>y_w := (y_w ?v)\<lparr>w_x509ContextSet := True\<rparr>, y_x509 := Watching\<rparr>"
  from \<open>?R ?u\<close> have "?R ?v" by (rule reach_step [OF _ watcher_step.x509_trigger]) simp
  then have "?R ?x" by (rule reach_step [OF _ watcher_step.x509_set]) (simp add: on_base_def)
  then have "?R (?x\<lparr>y_new := N_JWT\<rparr>)" by (rule reach_step [OF _ watcher_step.x509_has]) (simp_all add: on_base_def)
  then show ?thesis by - (rule ex_conjI, assumption, simp add: on_base_def)
qed

lemma run_jwt:
  assumes "watcher_reach px pj (start_sys True f (Some g) cl s0) s" "y_new s = N_JWT" "pj j" "g j (src s) = Ok s1"
  shows "\<exists>t. watcher_reach px pj (start_sys True f (Some g) cl s0) t \<and> y_new t = N_Drain \<and> src t = s1 \<and> y_lastJ t = Some j \<and> y_lastX t = y_lastX s"
proof -
  let ?R = "watcher_reach px pj (start_sys True f (Some g) cl s0)"
  have g: "w_jwtBundlesFn (y_w s) = Some g"
    using watcher_reach_fns [OF assms(1)] by (simp add: start_sys_def new_watcher_def)
  let ?t = "s\<lparr>y_new := N_WaitJWT, y_jwt := Watching\<rparr>"
  have t: "?R ?t" by (rule reach_step [OF assms(1) watcher_step.jwt_start]) (use assms(2) g in simp_all)
  let ?u = "?t\<lparr>y_w := (y_w s)\<lparr>w_src := s1\<rparr>, y_jwt := Applied, y_lastJ := Some j, y_version := Suc (y_version s)\<rparr>"
  have "?R ?u" using reach_step [OF t watcher_step.jwt_update [of ?t g pj j s1 px]] assms(3,4) g by simp
  let ?v = "on_base triggerUpdated (?u\<lparr>y_jwt := Triggered\<rparr>)"
  let ?x = "?v\<lparr>y_w := (y_w ?v)\<lparr>w_jwtBundlesSet := True\<rparr>, y_jwt := Watching\<rparr>"
  from \<open>?R ?u\<close> have "?R ?v" by (rule reach_step [OF _ watcher_step.jwt_trigger]) simp
  then have "?R ?x" by (rule reach_step [OF _ watcher_step.jwt_set]) (simp add: on_base_def)
  then have "?R (?x\<lparr>y_new := N_Drain\<rparr>)" by (rule reach_step [OF _ watcher_step.jwt_has]) (simp_all add: on_base_def)
  then show ?thesis by - (rule ex_conjI, assumption, simp add: on_base_def)
qed

lemma run_jwt_skip:
  assumes "watcher_reach px pj (start_sys True f None cl s0) s" "y_new s = N_JWT"
  shows "watcher_reach px pj (start_sys True f None cl s0) (s\<lparr>y_new := N_Drain\<rparr>)"
  using assms watcher_reach_fns [OF assms(1)]
  by (intro reach_step [OF assms(1) watcher_step.jwt_skip]) (simp_all add: start_sys_def new_watcher_def)

lemma run_x509_skip:
  assumes "watcher_reach px pj (start_sys True None g cl s0) s" "y_new s = N_X509"
  shows "watcher_reach px pj (start_sys True None g cl s0) (s\<lparr>y_new := N_JWT\<rparr>)"
  using assms watcher_reach_fns [OF assms(1)]
  by (intro reach_step [OF assms(1) watcher_step.x509_skip]) (simp_all add: start_sys_def new_watcher_def)

lemma run_drain:
  assumes "watcher_reach px pj s0 s" "y_new s = N_Drain"
  shows "\<exists>t. watcher_reach px pj s0 t \<and> y_new t = N_Done None \<and> src t = src s \<and> y_lastX t = y_lastX s \<and> y_lastJ t = y_lastJ s \<and>
    y_x509 t = y_x509 s \<and> y_jwt t = y_jwt s"
  using reach_step [OF assms(1) watcher_step.drain [OF assms(2)]]
  by - (rule ex_conjI, assumption, simp add: on_base_def)

subsection \<open>WITSource\<close>

definition wit_rel :: "wit_sys \<Rightarrow> bool" where
  "wit_rel s \<longleftrightarrow>
     (case z_lastS s of None \<Rightarrow> \<not> wsrc_svidsSet (z_s s) \<and> wsrc_svids (z_s s) = [] | Some svids \<Rightarrow> wsrc_svids (z_s s) = svids) \<and>
     (case z_lastB s of None \<Rightarrow> \<not> wsrc_bundlesSet (z_s s) \<and> wsrc_bundles (z_s s) = [] | Some bundles \<Rightarrow> wsrc_bundles (z_s s) = bundles) \<and>
     (z_new s = W_WaitBundles \<or> z_new s = W_Done None \<longrightarrow> wsrc_svidsSet (z_s s)) \<and>
     (z_new s = W_Done None \<longrightarrow> wsrc_bundlesSet (z_s s))"

definition wit_close_inv :: "wit_sys \<Rightarrow> bool" where
  "wit_close_inv s \<longleftrightarrow>
     (z_closing s \<longrightarrow> (w_is_Fail (z_new s) \<or> z_new s = W_Done None) \<and> \<not> wb_closed (wsrc_base (z_s s))) \<and>
     (w_is_Done (z_new s) \<and> z_new s \<noteq> W_Done None \<longrightarrow> wb_closed (wsrc_base (z_s s))) \<and>
     (wb_closed (wsrc_base (z_s s)) \<longrightarrow> w_is_Done (z_new s) \<and> z_svids s = Exited \<and> z_bundles s = Exited) \<and>
     z_closes s = (if wb_closed (wsrc_base (z_s s)) \<and> wsrc_ownsClient (z_s s) then 1 else 0)"

definition wit_room :: "wit_sys \<Rightarrow> bool" where
  "wit_room s \<longleftrightarrow> length (z_errCh s) + live (z_svids s) + live (z_bundles s) \<le> errCh_cap \<and>
     (z_new s = W_Start \<longrightarrow> z_errCh s = [] \<and> z_svids s = NotStarted \<and> z_bundles s = NotStarted) \<and>
     (z_new s \<noteq> W_Start \<longrightarrow> z_svids s \<in> {Watching, Exited} \<and> z_bundles s \<in> {Watching, Exited})"

lemmas wit_ops = wit_base_def closeBase_cancel_def closeBase_finish_def WITSource_closer_def
  drainUpdated_def triggerUpdated_def OnWITSVIDsUpdate_def OnWITBundlesUpdate_def

lemma wit_rel_step: "wit_step ps pb s t \<Longrightarrow> wit_rel s \<Longrightarrow> wit_rel t"
proof (induction rule: wit_step.induct)
  case (wit_close_fail s e b r)
  then show ?case by (simp add: wit_rel_def wit_ops errors_Join_not_nil split: option.splits)
qed (simp add: wit_rel_def wit_ops Let_def split: option.splits; blast?)+

lemma wit_close_step: "wit_step ps pb s t \<Longrightarrow> wit_close_inv s \<Longrightarrow> wit_close_inv t"
proof (induction rule: wit_step.induct)
  case (wit_close_fail s e b r)
  then show ?case by (simp add: wit_close_inv_def wit_ops errors_Join_not_nil split: option.splits)
qed (auto simp: wit_close_inv_def wit_ops Let_def split: option.splits)

lemma wit_room_step: "wit_step ps pb s t \<Longrightarrow> wit_room s \<Longrightarrow> wit_room t"
  by (induction rule: wit_step.induct) (auto simp: wit_room_def wit_ops Let_def errCh_cap_def live_def finished_def)

lemma wit_delivered_step: "wit_step ps pb s t \<Longrightarrow> pred_option ps (z_lastS s) \<and> pred_option pb (z_lastB s) \<Longrightarrow>
    pred_option ps (z_lastS t) \<and> pred_option pb (z_lastB t)"
  by (induction rule: wit_step.induct) (simp_all add: wit_base_def)

lemma wit_reach_inv:
  "wit_reach ps pb owns s \<Longrightarrow> wit_rel s \<and> wit_close_inv s \<and> wit_room s \<and> pred_option ps (z_lastS s) \<and> pred_option pb (z_lastB s)"
proof (induction rule: wit_reach.induct)
  case wit_reach_start
  show ?case
    by (simp add: wit_rel_def wit_close_inv_def wit_room_def wit_start_def WITSource_new_def newWatcherBase_def
        witbundle_NewSet_def live_def finished_def)
next
  case (wit_reach_step s t)
  then show ?case using wit_rel_step wit_close_step wit_room_step wit_delivered_step by metis
qed

definition WITSource_valid :: "WITSource \<Rightarrow> bool" where
  "WITSource_valid s \<longleftrightarrow> gset_inv witbundle_TrustDomain (wsrc_bundles s)"

interpretation wit_src: bundle_source WITSource_valid witbundle_TrustDomain WITSource_GetWITBundleForTrustDomain
  by unfold_locales
    (auto simp: WITSource_GetWITBundleForTrustDomain_def WITSource_checkClosed_def WITSource_valid_def
      dest: wit_set_source.get_for_td wit_set_source.get_for_no_panic split: option.splits if_splits)

text \<open>What a constructed \<open>X509Source\<close> answers, whether it is closed or not.\<close>

lemma X509Source_answers:
  assumes "watcher_reach (delivered_context cs lib) pj
      (start_sys client (Some X509Source_setX509Context) None X509Source_setClosed (X509Source_new picker)) s"
    and "y_new s = N_Done None"
  obtains c where "y_lastX s = Some c" "delivered_context cs lib c"
    "X509Source_GetX509SVID (src s) =
      (if xsrc_closed (src s) then Err (wrapX509sourceErr (New ''source is closed''))
       else case pick picker (xc_SVIDs c) of Some svid \<Rightarrow> Ok svid
         | None \<Rightarrow> Err (wrapX509sourceErr (New ''missing X509-SVID'')))"
    "X509Source_GetX509BundleForTrustDomain (src s) =
      (if xsrc_closed (src s) then (\<lambda>_. Err (wrapX509sourceErr (New ''source is closed'')))
       else x509bundle_Set_GetX509BundleForTrustDomain (xc_Bundles c))"
proof -
  obtain c where c: "y_lastX s = Some c"
    using constructed_updates [OF assms] by auto
  have "X509Source_rel picker (Some c) (y_lastJ s) (src s)" "delivered_context cs lib c"
    using x509_source.reach_rel [OF assms(1)] c by simp_all
  then show ?thesis using c
    by (intro that [of c])
      (auto simp: X509Source_rel_def X509Source_GetX509SVID_def X509Source_GetX509BundleForTrustDomain_def
        X509Source_checkClosed_def fun_eq_iff split: option.splits)
qed

text \<open>A constructed \<open>JWTSource\<close> that is open answers from the last set, and fetches through its
  client: the first SVID, or the one its picker chooses among all.\<close>

lemma JWTSource_serves_latest:
  assumes "watcher_reach px (delivered_bundles cs u) (start_sys client None (Some JWTSource_setJWTBundles) JWTSource_setClosed (JWTSource_new picker)) s"
    and "y_new s = N_Done None"
  shows "\<exists>j. y_lastJ s = Some j \<and> delivered_bundles cs u j \<and> (let open = (src s)\<lparr>jsrc_closed := False\<rparr> in
    (\<forall>td. JWTSource_GetJWTBundleForTrustDomain open td = jwtbundle_Set_GetJWTBundleForTrustDomain j td) \<and>
    (\<forall>sc params. JWTSource_FetchJWTSVID sc open params = (case picker of
        None \<Rightarrow> bind_res (sc_FetchJWTSVID sc params) (\<lambda>svid. Ok (Some svid))
      | Some p \<Rightarrow> bind_res (sc_FetchJWTSVIDs sc params) (\<lambda>svids. Ok (p svids)))))"
proof -
  obtain j where j: "y_lastJ s = Some j" using constructed_updates [OF assms] by auto
  have "JWTSource_rel picker (y_lastX s) (Some j) (src s) \<and> delivered_bundles cs u j"
    using jwt_source.reach_rel [OF assms(1)] j by simp
  then show ?thesis using j
    by (auto simp: JWTSource_rel_def JWTSource_GetJWTBundleForTrustDomain_def JWTSource_FetchJWTSVID_def
        JWTSource_checkClosed_def Let_def)
qed

lemma jwt_source_run:
  assumes "pj j"
  shows "\<exists>s. watcher_reach px pj (start_sys True None (Some JWTSource_setJWTBundles) JWTSource_setClosed (JWTSource_new None)) s \<and>
     y_new s = N_Done None \<and> y_lastJ s = Some j \<and> \<not> jsrc_closed (src s)"
proof -
  let ?R = "watcher_reach px pj (start_sys True None (Some JWTSource_setJWTBundles) JWTSource_setClosed (JWTSource_new None))"
  obtain s where s: "?R s" "y_new s = N_X509" "src s = JWTSource_new None"
    using run_start [of px pj None "Some JWTSource_setJWTBundles" JWTSource_setClosed "JWTSource_new None"] by blast
  obtain s1 where s1: "JWTSource_setJWTBundles j (src (s\<lparr>y_new := N_JWT\<rparr>)) = Ok s1" "\<not> jsrc_closed s1"
    using s(3) by (simp add: JWTSource_setJWTBundles_def JWTSource_new_def)
  obtain t where t: "?R t" "y_new t = N_Drain" "src t = s1" "y_lastJ t = Some j"
    using run_jwt [OF run_x509_skip [OF s(1,2)] _ assms s1(1)] by auto
  show ?thesis using run_drain [OF t(1,2)] t(3,4) s1(2) by auto
qed

lemma wit_source_run:
  assumes "ps svids" "pb bundles"
  shows "\<exists>s. wit_reach ps pb True s \<and> z_new s = W_Done None \<and> z_lastS s = Some svids \<and> z_lastB s = Some bundles \<and>
    \<not> wb_closed (wsrc_base (z_s s))"
proof -
  let ?s1 = "wit_base (\<lambda>b. b\<lparr>wb_hasCancel := True\<rparr>) ((wit_start True)\<lparr>z_new := W_WaitSVIDs, z_svids := Watching, z_bundles := Watching\<rparr>)"
  let ?s2 = "?s1\<lparr>z_s := OnWITSVIDsUpdate svids (z_s ?s1), z_lastS := Some svids\<rparr>"
  let ?s3 = "?s2\<lparr>z_s := OnWITBundlesUpdate bundles (z_s ?s2), z_lastB := Some bundles\<rparr>"
  let ?s4 = "?s3\<lparr>z_new := W_WaitBundles\<rparr>"
  let ?s5 = "wit_base drainUpdated (?s4\<lparr>z_new := W_Done None\<rparr>)"
  note ex = wit_ops wit_start_def WITSource_new_def newWatcherBase_def Let_def
  have "wit_reach ps pb True ?s1" by (rule wit_reach_step [OF wit_reach_start wit_step.wit_watch]) (simp add: ex)
  then have "wit_reach ps pb True ?s2" by (rule wit_reach_step [OF _ wit_step.wit_svids_update]) (simp_all add: ex assms)
  then have "wit_reach ps pb True ?s3" by (rule wit_reach_step [OF _ wit_step.wit_bundles_update]) (simp_all add: ex assms)
  then have "wit_reach ps pb True ?s4" by (rule wit_reach_step [OF _ wit_step.wit_has_svids]) (simp_all add: ex)
  then have "wit_reach ps pb True ?s5" by (rule wit_reach_step [OF _ wit_step.wit_has_bundles]) (simp_all add: ex)
  moreover have "z_new ?s5 = W_Done None" "\<not> wb_closed (wsrc_base (z_s ?s5))" "z_lastS ?s5 = Some svids"
      "z_lastB ?s5 = Some bundles"
    by (simp_all add: ex)
  ultimately show ?thesis by blast
qed

text \<open>A constructed \<open>WITSource\<close> that answers a bundle is open, and answers from the last set.\<close>

lemma WITSource_bundle_delivered:
  assumes "wit_reach ps pb owns s" "z_new s = W_Done None" "WITSource_GetWITBundleForTrustDomain (z_s s) td = Ok b"
  obtains bundles where "\<not> wb_closed (wsrc_base (z_s s))" "z_lastB s = Some bundles" "pb bundles" "witbundle_Set_Get bundles td = Some b"
  using wit_reach_inv [OF assms(1)] assms(2,3)
  by (auto simp: wit_rel_def WITSource_GetWITBundleForTrustDomain_def WITSource_checkClosed_def
      witbundle_Set_GetWITBundleForTrustDomain_def witbundle_Set_Get_def split: option.splits if_splits)

section \<open>Properties\<close>

text \<open>
  C25: An \<open>X509Source\<close> serves the last update. In every reachable state of a constructed source
  there is a last X.509 context, and until the source is closed it answers every call from
  that context: the SVID is the picked one -- the first without a picker, so it is never
  missing -- and a bundle is the bundle of the context's set. Once closed, every call is an
  error. No call panics. The source is closed exactly if its \<open>Close\<close> has been called.
\<close>
theorem X509Source_serves_latest:
  fixes cs lib pj picker client
  defines "start \<equiv> start_sys client (Some X509Source_setX509Context) None X509Source_setClosed (X509Source_new picker)"
  assumes "watcher_reach (delivered_context cs lib) pj start s" and "y_new s = N_Done None"
  shows "\<exists>c. y_lastX s = Some c \<and> delivered_context cs lib c \<and>
    X509Source_GetX509SVID ((src s)\<lparr>xsrc_closed := False\<rparr>) =
      (case pick picker (xc_SVIDs c) of Some svid \<Rightarrow> Ok svid
         | None \<Rightarrow> Err (wrapX509sourceErr (New ''missing X509-SVID''))) \<and>
    (picker = None \<longrightarrow> pick picker (xc_SVIDs c) = Some (hd (xc_SVIDs c)) \<and> xc_SVIDs c \<noteq> []) \<and>
    (\<forall>td. X509Source_GetX509BundleForTrustDomain ((src s)\<lparr>xsrc_closed := False\<rparr>) td =
       x509bundle_Set_GetX509BundleForTrustDomain (xc_Bundles c) td) \<and>
    (let err = wrapX509sourceErr (New ''source is closed''); closed = (src s)\<lparr>xsrc_closed := True\<rparr> in
      X509Source_GetX509SVID closed = Err err \<and> (\<forall>td. X509Source_GetX509BundleForTrustDomain closed td = Err err)) \<and>
    (xsrc_closed (src s) \<longleftrightarrow> y_called s)"
proof -
  obtain c where c: "y_lastX s = Some c"
    using constructed_updates [OF assms(2) [unfolded start_def] assms(3)] by auto
  have r: "X509Source_rel picker (Some c) (y_lastJ s) (src s)" "delivered_context cs lib c"
    using x509_source.reach_rel [OF assms(2) [unfolded start_def]] c by simp_all
  show ?thesis using c r delivered_context_ok [OF r(2)] x509_source.closed_iff_called [OF assms(2) [unfolded start_def]]
    by (auto simp: X509Source_rel_def X509Source_GetX509SVID_def X509Source_GetX509BundleForTrustDomain_def
        X509Source_checkClosed_def pick_def Let_def split: option.splits)
qed


definition ex_context :: X509Context where
  "ex_context = \<lparr>xc_SVIDs = [\<lparr>xs_ID = mk_ID ''td'' ''/w'', xs_Certificates = [ex_leaf],
       xs_PrivateKey = Ed25519_PrivateKey ''seed'' ''pub'', xs_Hint = ''h''\<rparr>],
     xc_Bundles = [(TrustDomain ''td'', ex_bundle)]\<rparr>"

lemma ex_context_delivered: "delivered_context Backcompat_Deny ex_lib ex_context"
proof -
  have td: "TrustDomainFromString Backcompat_Deny ''spiffe://td/w'' = Ok (TrustDomain ''td'')" by code_simp
  have cert: "lib_ParseCertificates ex_lib ''root'' = Ok [ex_root]" by (simp add: ex_lib_def)
  have b: "parseX509Bundle Backcompat_Deny ex_lib ''spiffe://td/w'' ''root'' = Ok ex_bundle"
    by (simp only: parseX509Bundle_def td cert bind_res.simps x509bundle_FromX509Authorities_def CopyX509Authorities_id
        ex_bundle_def)
  have "parseX509Bundles Backcompat_Deny ex_lib ex_x509_resp = Ok (xc_Bundles ex_context)"
    by (simp add: parseX509Bundles_def b ex_x509_resp_def x509bundle_NewSet_def) (simp add: ex_context_def ex_bundle_def)
  moreover have "parseX509SVIDs Backcompat_Deny ex_lib ex_x509_resp False = Ok (xc_SVIDs ex_context)"
    using ex_ParseRaw by (simp add: parseX509SVIDs_def ex_x509_resp_def ex_context_def)
  ultimately have "parseX509Context Backcompat_Deny ex_lib ex_x509_resp = Ok ex_context"
    by (simp add: parseX509Context_def)
  then show ?thesis unfolding delivered_context_def by blast
qed

lemma ex_x509_run:
  "\<exists>s. watcher_reach (delivered_context Backcompat_Deny ex_lib) pj
      (start_sys True (Some X509Source_setX509Context) None X509Source_setClosed (X509Source_new None)) s \<and> y_new s = N_Done None \<and>
     y_lastX s = Some ex_context \<and> \<not> xsrc_closed (src s) \<and> y_x509 s = Watching \<and> y_jwt s = NotStarted"
proof -
  let ?R = "watcher_reach (delivered_context Backcompat_Deny ex_lib) pj (start_sys True (Some X509Source_setX509Context) None X509Source_setClosed (X509Source_new None))"
  obtain s where s: "?R s" "y_new s = N_X509" "src s = X509Source_new None" "y_jwt s = NotStarted"
    using run_start [of "delivered_context Backcompat_Deny ex_lib" pj "Some X509Source_setX509Context" None X509Source_setClosed "X509Source_new None"]
    by blast
  obtain s1 where s1: "X509Source_setX509Context ex_context (src s) = Ok s1" "\<not> xsrc_closed s1"
    by (simp add: s X509Source_setX509Context_def X509Context_DefaultSVID_def X509Source_new_def ex_context_def)
  from run_x509 [OF s(1,2) ex_context_delivered s1(1)]
  obtain t where t: "?R t" "y_new t = N_JWT" "src t = s1" "y_lastX t = Some ex_context" "y_x509 t = Watching" "y_jwt t = NotStarted"
    using s(4) by auto
  show ?thesis
    using run_drain [OF run_jwt_skip [OF t(1,2)]] t(3-6) s1(2) by auto
qed

theorem X509Source_serves_latest_witness:
  "\<exists>s. watcher_reach (delivered_context Backcompat_Deny ex_lib) (\<lambda>_. False)
      (start_sys True (Some X509Source_setX509Context) None X509Source_setClosed (X509Source_new None)) s \<and> y_new s = N_Done None \<and>
     X509Source_GetX509SVID ((src s)\<lparr>xsrc_closed := False\<rparr>) = Ok (hd (xc_SVIDs ex_context))"
proof -
  obtain v where v: "watcher_reach (delivered_context Backcompat_Deny ex_lib) (\<lambda>_. False)
      (start_sys True (Some X509Source_setX509Context) None X509Source_setClosed (X509Source_new None)) v"
      "y_new v = N_Done None" "y_lastX v = Some ex_context"
    using ex_x509_run by blast
  show ?thesis using X509Source_serves_latest [OF v(1,2)] v by auto
qed

lemma jwtbundle_Parse_wf: "jwtbundle_Parse u td s = Ok b \<Longrightarrow> jwtbundle_wf b"
proof -
  have "jwtbundle_Parse_loop i ks b0 = Ok b \<Longrightarrow> jwtbundle_wf b0 \<Longrightarrow> jwtbundle_wf b" for i ks b0
    by (induction i ks b0 rule: jwtbundle_Parse_loop.induct)
      (auto simp: jwtbundle_AddJWTAuthority_def jwtbundle_wf_def split: prod.splits option.splits if_splits)
  then show "jwtbundle_Parse u td s = Ok b \<Longrightarrow> jwtbundle_wf b"
    by (fastforce simp: jwtbundle_Parse_def jwtbundle_New_def jwtbundle_wf_def)
qed

lemma delivered_bundles_wf:
  assumes "delivered_bundles cs u j" "jwtbundle_Set_Get j t = Some b"
  shows "jwtbundle_wf b \<and> jb_trustDomain b = t"
proof -
  obtain resp bs where bs: "mapM_res (\<lambda>(tdID, b). bind_res (TrustDomainFromString cs tdID) (\<lambda>td. jwtbundle_Parse u td b)) resp = Ok bs"
      "j = jwtbundle_NewSet (map Some bs)"
    using assms(1) by (auto simp: delivered_bundles_def parseJWTSVIDBundles_def)
  have "b \<in> set bs"
    using assms(2) unfolding bs(2) jwt_set.get_new_all by (auto simp: map_filter_def dest!: map_of_SomeD)
  then show ?thesis
    using bs(1) jwtbundle_Parse_wf jwt_set.get_key [OF delivered_bundles_ok [OF assms(1)] assms(2)]
    by (fastforce simp: mapM_res_Ok_iff jwtbundle_TrustDomain_def dest: list_all2_right)
qed

text \<open>
  C24: A \<open>BundleSource\<close> refines its specification. The abstract state of a source is the last
  X.509 bundle set and the last JWT bundle set delivered. In every reachable state of a
  constructed source that is not closed, the X.509 and JWT getters give exactly the bundle
  of the last set of their kind, and the SPIFFE getter the two together; trust domains that
  the last sets no longer hold are gone. Once closed, every getter fails; it is closed exactly if
  its \<open>Close\<close> has been called.
\<close>
theorem BundleSource_refines:
  fixes cs lib u client
  defines "start \<equiv> start_sys client (Some BundleSource_setX509Context) (Some BundleSource_setJWTBundles) BundleSource_setClosed BundleSource_new"
  assumes "watcher_reach (delivered_context cs lib) (delivered_bundles cs u) start s" and "y_new s = N_Done None"
  shows "\<exists>c j. y_lastX s = Some c \<and> y_lastJ s = Some j \<and> (bsrc_closed (src s) \<longleftrightarrow> y_called s) \<and>
    (let open = (src s)\<lparr>bsrc_closed := False\<rparr>; closed = (src s)\<lparr>bsrc_closed := True\<rparr>;
         err = wrapBundlesourceErr (New ''source is closed'') in
      \<forall>td. BundleSource_GetX509BundleForTrustDomain open td =
          (case x509bundle_Set_Get (xc_Bundles c) td of Some b \<Rightarrow> Ok b
             | None \<Rightarrow> Err (wrapBundlesourceErr (Errorf ''no X.509 bundle for trust domain %q'' [TrustDomain_String td]))) \<and>
        BundleSource_GetJWTBundleForTrustDomain open td =
          (case jwtbundle_Set_Get j td of Some b \<Rightarrow> Ok b
             | None \<Rightarrow> Err (wrapBundlesourceErr (Errorf ''no JWT bundle for trust domain %q'' [TrustDomain_String td]))) \<and>
        BundleSource_GetBundleForTrustDomain open td =
          (case (x509bundle_Set_Get (xc_Bundles c) td, jwtbundle_Set_Get j td) of
             (None, None) \<Rightarrow> Err (wrapBundlesourceErr (Errorf ''no SPIFFE bundle for trust domain %q'' [TrustDomain_String td]))
           | (x, y) \<Rightarrow> Ok ((spiffebundle_New td)
               \<lparr>sb_x509Authorities := (case x of Some b \<Rightarrow> xb_x509Authorities b | None \<Rightarrow> []),
                sb_jwtAuthorities := (case y of Some b \<Rightarrow> jb_jwtAuthorities b | None \<Rightarrow> [])\<rparr>)) \<and>
        BundleSource_GetX509BundleForTrustDomain closed td = Err err \<and>
        BundleSource_GetJWTBundleForTrustDomain closed td = Err err \<and>
        BundleSource_GetBundleForTrustDomain closed td = Err err)"
proof -
  obtain c j where l: "y_lastX s = Some c" "y_lastJ s = Some j"
    using constructed_updates [OF assms(2) [unfolded start_def] assms(3)] by auto
  have r: "BundleSource_rel (Some c) (Some j) (src s)" "delivered_context cs lib c" "delivered_bundles cs u j"
    using bundle_src.reach_rel [OF assms(2) [unfolded start_def]] l by simp_all
  have x: "gm_get (bsrc_x509Authorities (src s)) td = map_option xb_x509Authorities (x509bundle_Set_Get (xc_Bundles c) td)"
    and jw: "gm_get (bsrc_jwtAuthorities (src s)) td = map_option jb_jwtAuthorities (jwtbundle_Set_Get j td)" for td
    using r(1) delivered_bundles_wf [OF r(3), of td]
    by (auto simp: BundleSource_rel_def abs_x509_def abs_jwt_def x509bundle_X509Authorities_def
        jwtbundle_JWTAuthorities_def jwtbundle_wf_def option.map_comp comp_def intro!: option.map_cong0)
  have xtd: "xb_trustDomain b = td" if "x509bundle_Set_Get (xc_Bundles c) td = Some b" for b td
    using x509_set.get_key [of "xc_Bundles c" td b] delivered_context_ok [OF r(2)] that by (simp add: x509bundle_TrustDomain_def)
  note defs = BundleSource_GetX509BundleForTrustDomain_def BundleSource_GetJWTBundleForTrustDomain_def
    BundleSource_GetBundleForTrustDomain_def BundleSource_checkClosed_def x509bundle_FromX509Authorities_def
    jwtbundle_FromJWTAuthorities_def spiffebundle_SetX509Authorities_def spiffebundle_SetJWTAuthorities_def
    spiffebundle_New_def
  show ?thesis
    by (rule exI [of _ c], rule exI [of _ j])
      (use xtd delivered_bundles_wf [OF r(3)] bundle_src.closed_iff_called [OF assms(2) [unfolded start_def]] in
        \<open>auto simp: l defs x jw Let_def jwtbundle_wf_def split: option.splits\<close>)
qed


lemma ex_bundles_delivered:
  "\<exists>j. delivered_bundles Backcompat_Deny no_keys j \<and> jwtbundle_Set_Get j (TrustDomain ''td1'') \<noteq> None"
proof -
  have td: "TrustDomainFromString Backcompat_Deny ''td1'' = Ok (TrustDomain ''td1'')" by code_simp
  obtain j where j: "parseJWTSVIDBundles Backcompat_Deny no_keys [(''td1'', ''a'')] = Ok j"
      "jwtbundle_Set_Get j (TrustDomain ''td1'') \<noteq> None"
    by (simp add: parseJWTSVIDBundles_def td jwtbundle_Parse_def no_keys_def jwks_list_def
        jwtbundle_AddJWTAuthority_def zero_jwk_def jwtbundle_NewSet_def jwtbundle_New_def jwtbundle_Set_Get_def)
  then show ?thesis unfolding delivered_bundles_def by blast
qed

theorem BundleSource_refines_witness:
  "\<exists>s b. watcher_reach (delivered_context Backcompat_Deny ex_lib) (delivered_bundles Backcompat_Deny no_keys)
      (start_sys True (Some BundleSource_setX509Context) (Some BundleSource_setJWTBundles) BundleSource_setClosed BundleSource_new) s \<and> y_new s = N_Done None \<and>
     BundleSource_GetJWTBundleForTrustDomain ((src s)\<lparr>bsrc_closed := False\<rparr>) (TrustDomain ''td1'') = Ok b"
proof -
  let ?px = "delivered_context Backcompat_Deny ex_lib" and ?pj = "delivered_bundles Backcompat_Deny no_keys"
  let ?R = "watcher_reach ?px ?pj (start_sys True (Some BundleSource_setX509Context) (Some BundleSource_setJWTBundles) BundleSource_setClosed BundleSource_new)"
  obtain j b where j: "?pj j" "jwtbundle_Set_Get j (TrustDomain ''td1'') = Some b" using ex_bundles_delivered by blast
  obtain s where s: "?R s" "y_new s = N_X509" "src s = BundleSource_new"
    using run_start [of ?px ?pj "Some BundleSource_setX509Context" "Some BundleSource_setJWTBundles" BundleSource_setClosed BundleSource_new] by blast
  obtain s1 where "BundleSource_setX509Context ex_context (src s) = Ok s1" by (simp add: BundleSource_setX509Context_def Let_def case_prod_unfold)
  from run_x509 [OF s(1,2) ex_context_delivered this]
  obtain t where t: "?R t" "y_new t = N_JWT" "y_lastX t = Some ex_context" by blast
  obtain s2 where "BundleSource_setJWTBundles j (src t) = Ok s2" by (simp add: BundleSource_setJWTBundles_def Let_def case_prod_unfold)
  from run_jwt [OF t(1,2) j(1) this]
  obtain u where u: "?R u" "y_new u = N_Drain" "y_lastJ u = Some j" by blast
  obtain v where v: "?R v" "y_new v = N_Done None" "y_lastJ v = Some j" using run_drain [OF u(1,2)] u(3) by auto
  have "BundleSource_GetJWTBundleForTrustDomain ((src v)\<lparr>bsrc_closed := False\<rparr>) (TrustDomain ''td1'') = Ok b"
    using BundleSource_refines [OF v(1,2)] v(3) j(2) by (auto simp: Let_def)
  then show ?thesis using v by blast
qed


text \<open>
  C23: Closing a source. \<open>X509Source\<close>, \<open>JWTSource\<close> and \<open>BundleSource\<close>, in every reachable state of a
  constructed source: until its \<open>Close\<close> is called the source is not closed; from the call on, even
  while \<open>Close\<close> still waits for the goroutines, every getter and every fetch fails with the
  source's own error; once \<open>Close\<close> has completed no update changes the source any more, the client
  is not closed again, and calling \<open>Close\<close> again changes nothing and returns the same error; and a
  \<open>Close\<close> that is called while no callback runs can complete with the watcher and the error that the
  code's \<open>Close\<close> gives, by steps of the watcher alone, which ends its watches by cancelling them.
\<close>
theorem sources_close:
  "(watcher_reach (delivered_context cs lib) pj
       (start_sys client (Some X509Source_setX509Context) None X509Source_setClosed (X509Source_new picker)) s \<and>
     y_new s = N_Done None \<longrightarrow>
     closes_for_good X509Source_refuses X509Source_checkClosed X509Source_Close (delivered_context cs lib) pj s) \<and>
   (watcher_reach px (delivered_bundles cs u)
       (start_sys client None (Some JWTSource_setJWTBundles) JWTSource_setClosed (JWTSource_new jpicker)) sj \<and>
     y_new sj = N_Done None \<longrightarrow>
     closes_for_good JWTSource_refuses JWTSource_checkClosed JWTSource_Close px (delivered_bundles cs u) sj) \<and>
   (watcher_reach (delivered_context cs lib) (delivered_bundles cs u)
       (start_sys client (Some BundleSource_setX509Context) (Some BundleSource_setJWTBundles) BundleSource_setClosed BundleSource_new) sb \<and>
     y_new sb = N_Done None \<longrightarrow>
     closes_for_good BundleSource_refuses BundleSource_checkClosed BundleSource_Close
       (delivered_context cs lib) (delivered_bundles cs u) sb)"
  using x509_source.closes_for_good jwt_source.closes_for_good bundle_src.closes_for_good by blast

theorem sources_close_witness:
  "\<exists>s t. watcher_reach (delivered_context Backcompat_Deny ex_lib) (\<lambda>_. False)
      (start_sys True (Some X509Source_setX509Context) None X509Source_setClosed (X509Source_new None)) s \<and>
     X509Source_GetX509SVID (src s) = Ok (hd (xc_SVIDs ex_context)) \<and>
     X509Source_Close None (y_w s) = (y_w t, wb_closeErr (base t)) \<and> wb_closed (base t) \<and> X509Source_refuses (src t)"
proof -
  let ?px = "delivered_context Backcompat_Deny ex_lib" and ?pj = "\<lambda>_. False"
  let ?start = "start_sys True (Some X509Source_setX509Context) None X509Source_setClosed (X509Source_new None)"
  obtain s where s: "watcher_reach ?px ?pj ?start s" "y_new s = N_Done None" "y_lastX s = Some ex_context"
      "\<not> xsrc_closed (src s)" "y_x509 s = Watching" "y_jwt s = NotStarted"
    using ex_x509_run by blast
  have g: "X509Source_GetX509SVID (src s) = Ok (hd (xc_SVIDs ex_context))"
    using s by (elim X509Source_answers) (simp_all add: pick_def)
  have c: "closes_for_good X509Source_refuses X509Source_checkClosed X509Source_Close ?px ?pj s"
    using sources_close [THEN conjunct1] s(1,2) by blast
  have "\<not> y_called s" using x509_source.closed_iff_called [OF s(1)] s(4) by simp
  then obtain s1 t where t: "watcher_step ?px ?pj s s1" "y_called s1" "wb_closed (base t)"
      "X509Source_Close None (y_w s) = (y_w t, wb_closeErr (base t))"
    using c s(5,6) unfolding closes_for_good_def by fastforce
  moreover have "(src s)\<lparr>xsrc_closed := True\<rparr> = src t"
    using t(4) by (auto simp: X509Source_Close_def watcher_Close_def X509Source_setClosed_def split: prod.splits
        dest!: arg_cong [of _ _ w_src])
  from arg_cong [OF this, of xsrc_closed] have "xsrc_closed (src t)" by simp
  then have "X509Source_refuses (src t)" by (rule x509_source.refuses_closed)
  ultimately show ?thesis using s(1) g by blast
qed

text \<open>
  C26: A \<open>WITSource\<close> serves the last updates. Both watches run at once, so the constructor may have
  seen any number of updates of either kind when it returns; it returns a source only after at
  least one of each. Then, until the source is closed, it answers from the last ones: the first
  SVID of the last list with the given SPIFFE ID, and the bundle of the last set. Closed, it
  answers nothing; the client has then been closed once if the source owns it; a constructor
  that fails leaves a closed source; and no goroutine is ever blocked on the error channel.
\<close>
theorem WITSource_serves_latest:
  assumes "wit_reach ps pb owns s"
  shows "(z_new s = W_Done None \<longrightarrow> (\<exists>svids bundles. z_lastS s = Some svids \<and> ps svids \<and> z_lastB s = Some bundles \<and> pb bundles \<and>
      (\<forall>i td. (\<not> wb_closed (wsrc_base (z_s s)) \<longrightarrow>
           GetWITSVIDForID (z_s s) i = (case List.find (\<lambda>svid. ws_ID svid = i) svids of Some svid \<Rightarrow> Ok svid
             | None \<Rightarrow> Err (Errorf ''witsource: no WIT-SVID found for SPIFFE ID %q'' [ID_String i])) \<and>
           WITSource_GetWITBundleForTrustDomain (z_s s) td = witbundle_Set_GetWITBundleForTrustDomain bundles td) \<and>
         (wb_closed (wsrc_base (z_s s)) \<longrightarrow>
           GetWITSVIDForID (z_s s) i = Err (New ''witsource: source is closed'') \<and>
           WITSource_GetWITBundleForTrustDomain (z_s s) td = Err (New ''witsource: source is closed''))))) \<and>
    z_closes s = (if wb_closed (wsrc_base (z_s s)) \<and> wsrc_ownsClient (z_s s) then 1 else 0) \<and>
    (\<forall>e. z_new s = W_Done (Some e) \<longrightarrow> wb_closed (wsrc_base (z_s s))) \<and>
    (z_svids s = Watching \<or> z_bundles s = Watching \<longrightarrow> length (z_errCh s) < errCh_cap)"
proof -
  note inv = wit_reach_inv [OF assms]
  have "length (z_errCh s) < errCh_cap" if "z_svids s = Watching \<or> z_bundles s = Watching"
    using inv that by (auto simp: wit_room_def live_def finished_def)
  moreover have "\<exists>svids bundles. z_lastS s = Some svids \<and> ps svids \<and> z_lastB s = Some bundles \<and> pb bundles \<and>
      wsrc_svids (z_s s) = svids \<and> wsrc_bundles (z_s s) = bundles" if "z_new s = W_Done None"
    using inv that by (auto simp: wit_rel_def split: option.splits)
  ultimately show ?thesis
    using inv by (auto simp: wit_close_inv_def GetWITSVIDForID_def WITSource_GetWITBundleForTrustDomain_def WITSource_checkClosed_def)
qed


definition ex_wit_svid :: witsvid_SVID where
  "ex_wit_svid = \<lparr>ws_ID = mk_ID ''td'' ''/w'', ws_Expiry = 10, ws_PublicKey = Ed25519_PublicKey ''k'', ws_KeyID = ''kid'',
     ws_PrivateKey = None, ws_Hint = [], ws_token = ''tok''\<rparr>"

theorem WITSource_serves_latest_witness:
  "\<exists>s. wit_reach (\<lambda>ss. ss = [ex_wit_svid]) (\<lambda>b. b = []) True s \<and> GetWITSVIDForID (z_s s) (mk_ID ''td'' ''/w'') = Ok ex_wit_svid"
proof -
  obtain s where s: "wit_reach (\<lambda>ss. ss = [ex_wit_svid]) (\<lambda>b. b = []) True s" "z_new s = W_Done None"
      "z_lastS s = Some [ex_wit_svid]" "\<not> wb_closed (wsrc_base (z_s s))"
    using wit_source_run [of "\<lambda>ss. ss = [ex_wit_svid]" _ "\<lambda>b. b = []"] by blast
  then have "GetWITSVIDForID (z_s s) (mk_ID ''td'' ''/w'') = Ok ex_wit_svid"
    using WITSource_serves_latest [OF s(1)] by (auto simp: ex_wit_svid_def)
  then show ?thesis using s(1) by blast
qed

end
