(* ===== verification/Workload_Addr.thy ===== *)
theory Workload_Addr
  imports Workload_Sources Go_URL
begin

text \<open>
  Connecting to the Workload API: endpoint addresses (\<open>workloadapi/addr.go\<close> and its variants
  for the two operating systems), the options of clients and sources (\<open>option.go\<close>), the
  creation of a client (\<open>New\<close> in \<open>client.go\<close>, \<open>client_posix.go\<close>, \<open>client_windows.go\<close>) and the
  functions that work with a client of their own (\<open>convenience.go\<close>). \<open>url.Parse\<close>,
  \<open>net.ParseIP\<close>, the Windows \<open>filepath.Join\<close>, the environment and gRPC are parameters.
\<close>

section \<open>Definitions\<close>

subsection \<open>Addresses\<close>

text \<open>The build variants. \<open>nl_ParseIP h\<close> is \<open>net.ParseIP(h).String()\<close>, or \<^const>\<open>None\<close> for \<open>nil\<close>.\<close>

datatype os = Posix | Windows

record net_lib =
  nl_url_Parse :: "string \<Rightarrow> URL res"
  nl_ParseIP :: "string \<Rightarrow> string option"
  nl_Join :: "string \<Rightarrow> string \<Rightarrow> string"

definition JoinHostPort :: "string \<Rightarrow> string \<Rightarrow> string" where
  "JoinHostPort host port =
     (if CHR '':'' \<in> set host then ''['' @ host @ '']:'' @ port else host @ '':'' @ port)"

definition namedPipeTarget :: "net_lib \<Rightarrow> string \<Rightarrow> string" where
  "namedPipeTarget lib pipeName = [CHR 0x5C, CHR 0x5C, CHR ''.'', CHR 0x5C] @ nl_Join lib ''pipe'' pipeName"

definition ErrInvalidEndpointScheme :: "os \<Rightarrow> error" where
  "ErrInvalidEndpointScheme os = (case os of
     Posix \<Rightarrow> New ''workload endpoint socket URI must have a \"tcp\" or \"unix\" scheme''
   | Windows \<Rightarrow> New ''workload endpoint socket URI must have a \"tcp\" or \"npipe\" scheme'')"

definition parseTargetFromURLAddrOS_posix :: "URL \<Rightarrow> string res" where
  "parseTargetFromURLAddrOS_posix u =
     (if url_Scheme u = ''unix'' then
        (if url_Opaque u \<noteq> '''' then Err (New ''workload endpoint unix socket URI must not be opaque'')
         else if url_User u \<noteq> None then Err (New ''workload endpoint unix socket URI must not include user info'')
         else if url_Host u = '''' \<and> url_Path u = '''' then Err (New ''workload endpoint unix socket URI must include a path'')
         else if url_RawQuery u \<noteq> '''' then Err (New ''workload endpoint unix socket URI must not include query values'')
         else if url_Fragment u \<noteq> '''' then Err (New ''workload endpoint unix socket URI must not include a fragment'')
         else Ok (URL_String u))
      else Err (ErrInvalidEndpointScheme Posix))"

definition parseTargetFromURLAddrOS_windows :: "net_lib \<Rightarrow> URL \<Rightarrow> string res" where
  "parseTargetFromURLAddrOS_windows lib u =
     (if url_Scheme u = ''npipe'' then
        (if url_Opaque u = '''' \<and> url_Host u \<noteq> '''' then Err (New ''workload endpoint named pipe URI must be opaque'')
         else if url_Opaque u = '''' then Err (New ''workload endpoint named pipe URI must include an opaque part'')
         else if url_RawQuery u \<noteq> '''' then Err (New ''workload endpoint named pipe URI must not include query values'')
         else if url_Fragment u \<noteq> '''' then Err (New ''workload endpoint named pipe URI must not include a fragment'')
         else Ok (namedPipeTarget lib (url_Opaque u)))
      else Err (ErrInvalidEndpointScheme Windows))"

definition parseTargetFromURLAddr :: "os \<Rightarrow> net_lib \<Rightarrow> URL \<Rightarrow> string res" where
  "parseTargetFromURLAddr os lib u =
     (if url_Scheme u = ''tcp'' then
        (if url_Opaque u \<noteq> '''' then Err (New ''workload endpoint tcp socket URI must not be opaque'')
         else if url_User u \<noteq> None then Err (New ''workload endpoint tcp socket URI must not include user info'')
         else if url_Host u = '''' then Err (New ''workload endpoint tcp socket URI must include a host'')
         else if url_Path u \<noteq> '''' then Err (New ''workload endpoint tcp socket URI must not include a path'')
         else if url_RawQuery u \<noteq> '''' then Err (New ''workload endpoint tcp socket URI must not include query values'')
         else if url_Fragment u \<noteq> '''' then Err (New ''workload endpoint tcp socket URI must not include a fragment'')
         else case nl_ParseIP lib (URL_Hostname u) of
             None \<Rightarrow> Err (New ''workload endpoint tcp socket URI host component must be an IP:port'')
           | Some ip \<Rightarrow>
               let port = URL_Port u in
               if port = '''' then Err (New ''workload endpoint tcp socket URI host component must include a port'')
               else Ok (JoinHostPort ip port))
      else case os of Posix \<Rightarrow> parseTargetFromURLAddrOS_posix u | Windows \<Rightarrow> parseTargetFromURLAddrOS_windows lib u)"

text \<open>The error of \<open>url.Parse\<close> is appended as text.\<close>

definition TargetFromAddress :: "os \<Rightarrow> net_lib \<Rightarrow> string \<Rightarrow> string res" where
  "TargetFromAddress os lib addr =
     bind_res (map_err (\<lambda>err. Opaque ''workload endpoint socket is not a valid URI: %v'' [] err) (nl_url_Parse lib addr))
       (parseTargetFromURLAddr os lib)"

definition ValidateAddress :: "os \<Rightarrow> net_lib \<Rightarrow> string \<Rightarrow> unit res" where
  "ValidateAddress os lib addr = bind_res (TargetFromAddress os lib addr) (\<lambda>_. Ok ())"

definition SocketEnv :: string where
  "SocketEnv = ''SPIFFE_ENDPOINT_SOCKET''"

definition GetDefaultAddress :: "(string \<Rightarrow> string option) \<Rightarrow> string option" where
  "GetDefaultAddress LookupEnv = LookupEnv SocketEnv"

subsection \<open>Client options and creation\<close>

text \<open>\<^const>\<open>None\<close> is \<open>logger.Null\<close> and the default backoff strategy.\<close>

record ('d, 'l, 'b) clientConfig =
  cc_address :: string
  cc_namedPipeName :: string
  cc_dialOptions :: "'d list"
  cc_log :: "'l option"
  cc_backoffStrategy :: "'b option"

type_synonym ('d, 'l, 'b) ClientOption = "('d, 'l, 'b) clientConfig \<Rightarrow> ('d, 'l, 'b) clientConfig"

definition defaultClientConfig :: "('d, 'l, 'b) clientConfig" where
  "defaultClientConfig = \<lparr>cc_address = '''', cc_namedPipeName = '''', cc_dialOptions = [], cc_log = None, cc_backoffStrategy = None\<rparr>"

definition WithAddr :: "string \<Rightarrow> ('d, 'l, 'b) ClientOption" where
  "WithAddr addr c = c\<lparr>cc_address := addr\<rparr>"

definition WithDialOptions :: "'d list \<Rightarrow> ('d, 'l, 'b) ClientOption" where
  "WithDialOptions options c = c\<lparr>cc_dialOptions := cc_dialOptions c @ options\<rparr>"

definition WithLogger :: "'l \<Rightarrow> ('d, 'l, 'b) ClientOption" where
  "WithLogger logger c = c\<lparr>cc_log := Some logger\<rparr>"

definition WithBackoffStrategy :: "'b \<Rightarrow> ('d, 'l, 'b) ClientOption" where
  "WithBackoffStrategy backoffStrategy c = c\<lparr>cc_backoffStrategy := Some backoffStrategy\<rparr>"

definition WithNamedPipeName :: "string \<Rightarrow> ('d, 'l, 'b) ClientOption" where
  "WithNamedPipeName pipeName c = c\<lparr>cc_namedPipeName := pipeName\<rparr>"

text \<open>What gRPC gives: the two dial options the client adds, and \<open>grpc.DialContext\<close>.\<close>

record ('d, 'conn) grpc_lib =
  gl_insecure :: 'd
  gl_pipe_dialer :: 'd
  gl_Dial :: "string \<Rightarrow> 'd list \<Rightarrow> 'conn res"

definition setAddress_posix ::
  "net_lib \<Rightarrow> (string \<Rightarrow> string option) \<Rightarrow> ('d, 'l, 'b) clientConfig \<Rightarrow> ('d, 'l, 'b) clientConfig res" where
  "setAddress_posix lib LookupEnv c =
     (if cc_namedPipeName c \<noteq> '''' then Err (New ''named pipes not supported in this platform'')
      else bind_res (if cc_address c = '''' then
             (case GetDefaultAddress LookupEnv of
                None \<Rightarrow> Err (New ''workload endpoint socket address is not configured'')
              | Some a \<Rightarrow> Ok a)
           else Ok (cc_address c)) (\<lambda>address.
         bind_res (TargetFromAddress Posix lib address) (\<lambda>target. Ok (c\<lparr>cc_address := target\<rparr>))))"

definition setAddress_windows ::
  "net_lib \<Rightarrow> ('d, 'conn) grpc_lib \<Rightarrow> (string \<Rightarrow> string option) \<Rightarrow> ('d, 'l, 'b) clientConfig \<Rightarrow> ('d, 'l, 'b) clientConfig res" where
  "setAddress_windows lib grpc LookupEnv c =
     (if cc_namedPipeName c \<noteq> '''' then
        (if cc_address c \<noteq> '''' then Err (New ''only one of WithAddr or WithNamedPipeName options can be used, not both'')
         else Ok (c\<lparr>cc_address := namedPipeTarget lib (cc_namedPipeName c)\<rparr>))
      else bind_res (if cc_address c = '''' then
             (case GetDefaultAddress LookupEnv of
                None \<Rightarrow> Err (New ''workload endpoint socket address is not configured'')
              | Some a \<Rightarrow> Ok a)
           else Ok (cc_address c)) (\<lambda>address.
         let c = (if has_prefix address ''npipe:'' then c\<lparr>cc_dialOptions := cc_dialOptions c @ [gl_pipe_dialer grpc]\<rparr> else c) in
         bind_res (TargetFromAddress Windows lib address) (\<lambda>target. Ok (c\<lparr>cc_address := target\<rparr>))))"

definition appendDialOptionsOS_posix :: "('d, 'l, 'b) clientConfig \<Rightarrow> ('d, 'l, 'b) clientConfig" where
  "appendDialOptionsOS_posix c = c"

definition appendDialOptionsOS_windows :: "('d, 'conn) grpc_lib \<Rightarrow> ('d, 'l, 'b) clientConfig \<Rightarrow> ('d, 'l, 'b) clientConfig" where
  "appendDialOptionsOS_windows grpc c =
     (if cc_namedPipeName c \<noteq> '''' then c\<lparr>cc_dialOptions := cc_dialOptions c @ [gl_pipe_dialer grpc]\<rparr> else c)"

definition newConn :: "os \<Rightarrow> ('d, 'conn) grpc_lib \<Rightarrow> ('d, 'l, 'b) clientConfig \<Rightarrow> (('d, 'l, 'b) clientConfig \<times> 'conn) res" where
  "newConn os grpc c =
     (let c = c\<lparr>cc_dialOptions := cc_dialOptions c @ [gl_insecure grpc]\<rparr>;
          c = (case os of Posix \<Rightarrow> appendDialOptionsOS_posix c | Windows \<Rightarrow> appendDialOptionsOS_windows grpc c)
      in bind_res (gl_Dial grpc (cc_address c) (cc_dialOptions c)) (\<lambda>conn. Ok (c, conn)))"

record ('d, 'l, 'b, 'conn) Client =
  cl_conn :: 'conn
  cl_config :: "('d, 'l, 'b) clientConfig"

definition Client_New ::
  "os \<Rightarrow> net_lib \<Rightarrow> ('d, 'conn) grpc_lib \<Rightarrow> (string \<Rightarrow> string option) \<Rightarrow> ('d, 'l, 'b) ClientOption list \<Rightarrow>
   ('d, 'l, 'b, 'conn) Client res" where
  "Client_New os lib grpc LookupEnv options =
     (let c = fold (\<lambda>opt c. opt c) options defaultClientConfig in
      bind_res (case os of Posix \<Rightarrow> setAddress_posix lib LookupEnv c | Windows \<Rightarrow> setAddress_windows lib grpc LookupEnv c) (\<lambda>c.
      bind_res (newConn os grpc c) (\<lambda>(c, conn). Ok \<lparr>cl_conn = conn, cl_config = c\<rparr>)))"

text \<open>What closing the connection returns is an argument.\<close>

definition Client_Close :: "('conn \<Rightarrow> error option) \<Rightarrow> ('d, 'l, 'b, 'conn) Client \<Rightarrow> error option" where
  "Client_Close conn_Close c = conn_Close (cl_conn c)"

subsection \<open>Source options\<close>

text \<open>
  The client of a watcher configuration is an interface: \<^const>\<open>None\<close> when it was never set,
  \<open>Some p\<close> when it holds the pointer \<open>p\<close> -- which may itself be nil, as
  \<open>WithClient(nil)\<close> stores it. A WIT source keeps the pointer.
\<close>

record ('c, 'o) watcherConfig =
  wc_client :: "'c option option"
  wc_clientOptions :: "'o list"

record ('c, 'o) x509SourceConfig =
  xc_watcher :: "('c, 'o) watcherConfig"
  xc_picker :: "(x509svid_SVID list \<Rightarrow> x509svid_SVID option) option"

record ('c, 'o) jwtSourceConfig =
  jc_watcher :: "('c, 'o) watcherConfig"
  jc_picker :: "(jwtsvid_SVID list \<Rightarrow> jwtsvid_SVID option) option"

record ('c, 'o) bundleSourceConfig =
  bc_watcher :: "('c, 'o) watcherConfig"

record ('c, 'o) witSourceConfig =
  wic_client :: "'c option"
  wic_clientOptions :: "'o list"

datatype ('c, 'o) SourceOption = withClient "'c option" | withClientOptions "'o list"

fun configureX509Source :: "('c, 'o) SourceOption \<Rightarrow> ('c, 'o) x509SourceConfig \<Rightarrow> ('c, 'o) x509SourceConfig" where
  "configureX509Source (withClient client) config = config\<lparr>xc_watcher := (xc_watcher config)\<lparr>wc_client := Some client\<rparr>\<rparr>"
| "configureX509Source (withClientOptions options) config =
     config\<lparr>xc_watcher := (xc_watcher config)\<lparr>wc_clientOptions := options\<rparr>\<rparr>"

fun configureJWTSource :: "('c, 'o) SourceOption \<Rightarrow> ('c, 'o) jwtSourceConfig \<Rightarrow> ('c, 'o) jwtSourceConfig" where
  "configureJWTSource (withClient client) config = config\<lparr>jc_watcher := (jc_watcher config)\<lparr>wc_client := Some client\<rparr>\<rparr>"
| "configureJWTSource (withClientOptions options) config =
     config\<lparr>jc_watcher := (jc_watcher config)\<lparr>wc_clientOptions := options\<rparr>\<rparr>"

fun configureBundleSource :: "('c, 'o) SourceOption \<Rightarrow> ('c, 'o) bundleSourceConfig \<Rightarrow> ('c, 'o) bundleSourceConfig" where
  "configureBundleSource (withClient client) config = config\<lparr>bc_watcher := (bc_watcher config)\<lparr>wc_client := Some client\<rparr>\<rparr>"
| "configureBundleSource (withClientOptions options) config =
     config\<lparr>bc_watcher := (bc_watcher config)\<lparr>wc_clientOptions := options\<rparr>\<rparr>"

fun configureWITSource :: "('c, 'o) SourceOption \<Rightarrow> ('c, 'o) witSourceConfig \<Rightarrow> ('c, 'o) witSourceConfig" where
  "configureWITSource (withClient client) config = config\<lparr>wic_client := client\<rparr>"
| "configureWITSource (withClientOptions options) config = config\<lparr>wic_clientOptions := options\<rparr>"

definition withDefaultX509SVIDPicker ::
  "(x509svid_SVID list \<Rightarrow> x509svid_SVID option) \<Rightarrow> ('c, 'o) x509SourceConfig \<Rightarrow> ('c, 'o) x509SourceConfig" where
  "withDefaultX509SVIDPicker picker config = config\<lparr>xc_picker := Some picker\<rparr>"

definition withDefaultJWTSVIDPicker ::
  "(jwtsvid_SVID list \<Rightarrow> jwtsvid_SVID option) \<Rightarrow> ('c, 'o) jwtSourceConfig \<Rightarrow> ('c, 'o) jwtSourceConfig" where
  "withDefaultJWTSVIDPicker picker config = config\<lparr>jc_picker := Some picker\<rparr>"

text \<open>The start of \<open>NewX509Source\<close>, \<open>NewJWTSource\<close> and \<open>NewBundleSource\<close>: the configuration the
  options give, and with it the start of the machine of \<open>newWatcher\<close>.\<close>

definition empty_watcherConfig :: "('c, 'o) watcherConfig" where
  "empty_watcherConfig = \<lparr>wc_client = None, wc_clientOptions = []\<rparr>"

definition NewX509Source_start where
  "NewX509Source_start options =
     (let config = fold (\<lambda>option config. option config) options \<lparr>xc_watcher = empty_watcherConfig, xc_picker = None\<rparr>
      in start_sys (wc_client (xc_watcher config) \<noteq> None) (Some X509Source_setX509Context) None X509Source_setClosed (X509Source_new (xc_picker config)))"

definition NewJWTSource_start where
  "NewJWTSource_start options =
     (let config = fold (\<lambda>option config. option config) options \<lparr>jc_watcher = empty_watcherConfig, jc_picker = None\<rparr>
      in start_sys (wc_client (jc_watcher config) \<noteq> None) None (Some JWTSource_setJWTBundles) JWTSource_setClosed (JWTSource_new (jc_picker config)))"

definition NewBundleSource_start where
  "NewBundleSource_start options =
     (let config = fold (\<lambda>option config. option config) options \<lparr>bc_watcher = empty_watcherConfig\<rparr>
      in start_sys (wc_client (bc_watcher config) \<noteq> None) (Some BundleSource_setX509Context) (Some BundleSource_setJWTBundles) BundleSource_setClosed
           BundleSource_new)"

text \<open>\<open>NewWITSource\<close> creates its client first and returns its error as it is.\<close>

definition NewWITSource_start :: "(('o list) \<Rightarrow> 'c res) \<Rightarrow> (('c, 'o) witSourceConfig \<Rightarrow> ('c, 'o) witSourceConfig) list \<Rightarrow> ('c \<times> wit_sys) res" where
  "NewWITSource_start new options =
     (let config = fold (\<lambda>option config. option config) options \<lparr>wic_client = None, wic_clientOptions = []\<rparr> in
      case wic_client config of
        Some client \<Rightarrow> Ok (client, wit_start False)
      | None \<Rightarrow> bind_res (new (wic_clientOptions config)) (\<lambda>client. Ok (client, wit_start True)))"

subsection \<open>One call with a client of its own\<close>

text \<open>The functions of \<open>convenience.go\<close>: the number is how often the client was closed; the
  deferred \<open>Close\<close> runs however the call ends. \<open>conn c\<close> is what the Workload API answers the
  client \<open>c\<close>.\<close>

definition short_lived :: "'c res \<Rightarrow> ('c \<Rightarrow> 'a res) \<Rightarrow> 'a res \<times> nat" where
  "short_lived new call = (case new of Ok c \<Rightarrow> (call c, 1) | Err err \<Rightarrow> (Err err, 0) | Panic e \<Rightarrow> (Panic e, 0))"

definition convenience_FetchX509SVID where
  "convenience_FetchX509SVID cs lib new conn = short_lived new (\<lambda>c. FetchX509SVID cs lib (conn c))"

definition convenience_FetchX509SVIDs where
  "convenience_FetchX509SVIDs cs lib new conn = short_lived new (\<lambda>c. FetchX509SVIDs cs lib (conn c))"

definition convenience_FetchX509Bundles where
  "convenience_FetchX509Bundles cs lib new conn = short_lived new (\<lambda>c. FetchX509Bundles cs lib (conn c))"

definition convenience_FetchX509Context where
  "convenience_FetchX509Context cs lib new conn = short_lived new (\<lambda>c. FetchX509Context cs lib (conn c))"

definition convenience_WatchX509Context where
  "convenience_WatchX509Context bs status_Code cs lib new conn = short_lived new (\<lambda>c. WatchX509Context bs status_Code cs lib (conn c))"

definition convenience_FetchJWTSVID where
  "convenience_FetchJWTSVID cs lib now new conn params = short_lived new (\<lambda>c. FetchJWTSVID cs lib now (conn c) params)"

definition convenience_FetchJWTSVIDs where
  "convenience_FetchJWTSVIDs cs lib now new conn params = short_lived new (\<lambda>c. FetchJWTSVIDs cs lib now (conn c) params)"

definition convenience_FetchJWTBundles where
  "convenience_FetchJWTBundles cs unmarshal new conn = short_lived new (\<lambda>c. FetchJWTBundles cs unmarshal (conn c))"

definition convenience_WatchJWTBundles where
  "convenience_WatchJWTBundles bs status_Code cs unmarshal new conn = short_lived new (\<lambda>c. WatchJWTBundles bs status_Code cs unmarshal (conn c))"

definition convenience_WatchX509Bundles where
  "convenience_WatchX509Bundles bs status_Code cs lib new conn = short_lived new (\<lambda>c. WatchX509Bundles bs status_Code cs lib (conn c))"

definition convenience_ValidateJWTSVID where
  "convenience_ValidateJWTSVID cs lib now new conn token audience = short_lived new (\<lambda>c. ValidateJWTSVID cs lib now (conn c) token audience)"

definition convenience_FetchWITSVID where
  "convenience_FetchWITSVID cs lib key_of_jwk now new conn spiffeID = short_lived new (\<lambda>c. FetchWITSVID cs lib key_of_jwk now (conn c) spiffeID)"

definition convenience_FetchWITSVIDs where
  "convenience_FetchWITSVIDs cs lib key_of_jwk now new conn spiffeID = short_lived new (\<lambda>c. FetchWITSVIDs cs lib key_of_jwk now (conn c) spiffeID)"

definition convenience_FetchWITBundles where
  "convenience_FetchWITBundles cs unmarshal new conn = short_lived new (\<lambda>c. FetchWITBundles cs unmarshal (conn c))"

section \<open>Properties\<close>

lemma URL_Port_empty_host: "url_Host u = '''' \<Longrightarrow> URL_Port u = ''''"
  by (simp add: URL_Port_def splitHostPort_def Let_def)

text \<open>
  C36: Which endpoint addresses are accepted, and the gRPC target each gives. On every platform a
  \<open>tcp\<close> URI with an IP address and a port and nothing else gives host and port, an IPv6 address
  in brackets again; on POSIX a \<open>unix\<close> URI with an authority or a path and no user, query or
  fragment gives the URI itself; on Windows an opaque \<open>npipe\<close> URI without query and fragment
  gives the pipe's path. Everything else is an error.
\<close>
theorem TargetFromAddress_accepts:
  "let tcp = (\<lambda>u t. url_Scheme u = ''tcp'' \<and> url_Opaque u = '''' \<and> url_User u = None \<and> url_Path u = '''' \<and>
          url_RawQuery u = '''' \<and> url_Fragment u = '''' \<and> URL_Port u \<noteq> '''' \<and>
          (\<exists>ip. nl_ParseIP lib (URL_Hostname u) = Some ip \<and> t = JoinHostPort ip (URL_Port u)));
       unix = (\<lambda>u t. url_Scheme u = ''unix'' \<and> url_Opaque u = '''' \<and> url_User u = None \<and>
          \<not> (url_Host u = '''' \<and> url_Path u = '''') \<and> url_RawQuery u = '''' \<and> url_Fragment u = '''' \<and> t = URL_String u);
       npipe = (\<lambda>u t. url_Scheme u = ''npipe'' \<and> url_Opaque u \<noteq> '''' \<and> url_RawQuery u = '''' \<and> url_Fragment u = '''' \<and>
          t = namedPipeTarget lib (url_Opaque u))
   in (TargetFromAddress Posix lib addr = Ok t \<longleftrightarrow> (\<exists>u. nl_url_Parse lib addr = Ok u \<and> (tcp u t \<or> unix u t))) \<and>
      (TargetFromAddress Windows lib addr = Ok t \<longleftrightarrow> (\<exists>u. nl_url_Parse lib addr = Ok u \<and> (tcp u t \<or> npipe u t))) \<and>
      (is_Panic (TargetFromAddress os lib addr) \<longleftrightarrow> is_Panic (nl_url_Parse lib addr))"
proof -
  have "parseTargetFromURLAddr Posix lib u = Ok t \<longleftrightarrow>
      (url_Scheme u = ''tcp'' \<and> url_Opaque u = '''' \<and> url_User u = None \<and> url_Path u = '''' \<and>
          url_RawQuery u = '''' \<and> url_Fragment u = '''' \<and> URL_Port u \<noteq> '''' \<and>
          (\<exists>ip. nl_ParseIP lib (URL_Hostname u) = Some ip \<and> t = JoinHostPort ip (URL_Port u))) \<or>
      (url_Scheme u = ''unix'' \<and> url_Opaque u = '''' \<and> url_User u = None \<and>
          \<not> (url_Host u = '''' \<and> url_Path u = '''') \<and> url_RawQuery u = '''' \<and> url_Fragment u = '''' \<and> t = URL_String u)" for u
    using URL_Port_empty_host [of u]
    by (auto simp: parseTargetFromURLAddr_def parseTargetFromURLAddrOS_posix_def Let_def split: option.splits if_splits)
  moreover have "parseTargetFromURLAddr Windows lib u = Ok t \<longleftrightarrow>
      (url_Scheme u = ''tcp'' \<and> url_Opaque u = '''' \<and> url_User u = None \<and> url_Path u = '''' \<and>
          url_RawQuery u = '''' \<and> url_Fragment u = '''' \<and> URL_Port u \<noteq> '''' \<and>
          (\<exists>ip. nl_ParseIP lib (URL_Hostname u) = Some ip \<and> t = JoinHostPort ip (URL_Port u))) \<or>
      (url_Scheme u = ''npipe'' \<and> url_Opaque u \<noteq> '''' \<and> url_RawQuery u = '''' \<and> url_Fragment u = '''' \<and>
          t = namedPipeTarget lib (url_Opaque u))" for u
    using URL_Port_empty_host [of u]
    by (auto simp: parseTargetFromURLAddr_def parseTargetFromURLAddrOS_windows_def Let_def split: option.splits if_splits)
  moreover have "\<not> is_Panic (parseTargetFromURLAddr os lib u)" for u
    by (auto simp: parseTargetFromURLAddr_def parseTargetFromURLAddrOS_posix_def parseTargetFromURLAddrOS_windows_def
        Let_def split: option.splits os.splits if_splits)
  ultimately show ?thesis by (simp add: TargetFromAddress_def Let_def)
qed


text \<open>\<open>WithClient(nil)\<close>: the WIT source then creates a client, the other sources take the nil
  pointer for a client.\<close>

lemma with_nil_client:
  "w_client (y_w (NewX509Source_start [configureX509Source (withClient None)]))"
  "w_client (y_w (NewJWTSource_start [configureJWTSource (withClient None)]))"
  "w_client (y_w (NewBundleSource_start [configureBundleSource (withClient None)]))"
  "NewWITSource_start new [configureWITSource (withClient None)] = bind_res (new []) (\<lambda>client. Ok (client, wit_start True))"
  by (simp_all add: NewX509Source_start_def NewJWTSource_start_def NewBundleSource_start_def NewWITSource_start_def
      start_sys_def new_watcher_def)

end
