(* ===== verification/Federation.thy ===== *)
theory Federation
  imports Tlsconfig Spiffebundle "HOL-Library.Sublist"
begin

text \<open>
  Package \<open>federation\<close>: fetching a bundle from a bundle endpoint, watching an endpoint, and the
  handler that serves one. Requests and responses of \<open>net/http\<close> are parameters: a request for a
  URL, the body it gets over a transport with a TLS configuration. A watch is run on a list of
  rounds, one per iteration of its loop.
\<close>

section \<open>Definitions\<close>

subsection \<open>Fetching\<close>

datatype authMethod = authMethodDefault | authMethodSPIFFE | authMethodWebPKI

record ('w, 'e, 'x) fetchOptions =
  fo_TLSClientConfig :: "('w, 'e, 'x) tls_Config option"
  fo_authMethod :: authMethod

type_synonym ('w, 'e, 'x) FetchOption = "('w, 'e, 'x) fetchOptions \<Rightarrow> ('w, 'e, 'x) fetchOptions res"

definition wrapFederationErr :: "error \<Rightarrow> error" where
  "wrapFederationErr err = Wrap ''federation: %w'' [] err"

definition WithSPIFFEAuth ::
  "charset \<Rightarrow> 't x509_lib \<Rightarrow> 'x \<Rightarrow> ('w \<Rightarrow> x509_source) option \<Rightarrow> ID \<Rightarrow> ('w, 'e, 'x) FetchOption" where
  "WithSPIFFEAuth cs lib zero bundleSource endpointID =
     (\<lambda>o'. if fo_authMethod o' \<noteq> authMethodDefault
       then Err (wrapFederationErr (New ''cannot use both SPIFFE and Web PKI authentication''))
       else Ok (o'\<lparr>fo_TLSClientConfig := Some (TLSClientConfig cs lib zero bundleSource (AuthorizeID endpointID)),
                  fo_authMethod := authMethodSPIFFE\<rparr>))"

definition WithWebPKIRoots :: "'x \<Rightarrow> CertPool option \<Rightarrow> ('w, 'e, 'x) FetchOption" where
  "WithWebPKIRoots zero rootCAs =
     (\<lambda>o'. if fo_authMethod o' \<noteq> authMethodDefault
       then Err (wrapFederationErr (New ''cannot use both SPIFFE and Web PKI authentication''))
       else Ok (o'\<lparr>fo_TLSClientConfig := Some ((newTLSConfig zero)\<lparr>cfg_RootCAs := rootCAs\<rparr>),
                  fo_authMethod := authMethodWebPKI\<rparr>))"

fun apply_options :: "('w, 'e, 'x) FetchOption list \<Rightarrow> ('w, 'e, 'x) fetchOptions \<Rightarrow> ('w, 'e, 'x) fetchOptions res" where
  "apply_options [] opts = Ok opts"
| "apply_options (o' # os) opts = bind_res (o' opts) (apply_options os)"

text \<open>What \<open>net/http\<close> does: \<open>ht_NewRequest url\<close> is a request or an error; \<open>ht_Do config request\<close>
  is what reading the body of the response gives, or the error of the request. The clone of
  the default transport has the TLS configuration \<open>ht_default\<close>.\<close>

record ('req, 'w, 'e, 'x) http_lib =
  ht_default :: "('w, 'e, 'x) tls_Config option"
  ht_NewRequest :: "string \<Rightarrow> 'req res"
  ht_Do :: "('w, 'e, 'x) tls_Config option \<Rightarrow> 'req \<Rightarrow> string res res"

definition FetchBundle ::
  "('req, 'w, 'e, 'x) http_lib \<Rightarrow> (string \<Rightarrow> bundleDoc res) \<Rightarrow> TrustDomain \<Rightarrow> string \<Rightarrow> ('w, 'e, 'x) FetchOption list \<Rightarrow>
   spiffebundle_Bundle res" where
  "FetchBundle http unmarshal trustDomain url options =
     bind_res (apply_options options \<lparr>fo_TLSClientConfig = ht_default http, fo_authMethod = authMethodDefault\<rparr>) (\<lambda>opts.
     bind_res (map_err (\<lambda>err. wrapFederationErr (Wrap ''could not create request: %w'' [] err)) (ht_NewRequest http url)) (\<lambda>request.
     bind_res (map_err (\<lambda>err. wrapFederationErr (Wrap ''could not GET bundle: %w'' [] err)) (ht_Do http (fo_TLSClientConfig opts) request)) (\<lambda>body.
       map_err wrapFederationErr (spiffebundle_Read unmarshal trustDomain body))))"

subsection \<open>Watching\<close>

text \<open>One iteration: what the network does, the context's error after the fetch, the watcher's
  \<open>NextRefresh\<close>, and how the \<open>select\<close> ends (the timer, or the context with its error).\<close>

record ('req, 'w, 'e, 'x) round =
  rd_http :: "('req, 'w, 'e, 'x) http_lib"
  rd_ctx_err :: "error option"
  rd_NextRefresh :: "64 word \<Rightarrow> 64 word"
  rd_done :: "error option"

datatype watch_event = OnBundle spiffebundle_Bundle | OnError error | Refresh "64 word" "64 word"

datatype bundle_watch = Stopped error | Watching_on

definition context_Canceled :: error where
  "context_Canceled = New ''context canceled''"

definition zero_Bundle :: spiffebundle_Bundle where
  "zero_Bundle = \<lparr>sb_trustDomain = zero_TrustDomain, sb_refreshHint = None, sb_sequenceNumber = None,
     sb_jwtAuthorities = [], sb_witAuthorities = [], sb_x509Authorities = []\<rparr>"

text \<open>\<open>Refresh hint next\<close>: \<open>NextRefresh\<close> was called with \<open>hint\<close> and the timer set to \<open>next\<close>.\<close>

fun WatchBundle_loop ::
  "(string \<Rightarrow> bundleDoc res) \<Rightarrow> TrustDomain \<Rightarrow> string \<Rightarrow> ('w, 'e, 'x) FetchOption list \<Rightarrow>
   ('req, 'w, 'e, 'x) round list \<Rightarrow> spiffebundle_Bundle \<Rightarrow> watch_event list \<Rightarrow> (watch_event list \<times> bundle_watch) res" where
  "WatchBundle_loop unmarshal trustDomain url options [] latestBundle evs = Ok (evs, Watching_on)"
| "WatchBundle_loop unmarshal trustDomain url options (r # rs) latestBundle evs =
     (let fetched = FetchBundle (rd_http r) unmarshal trustDomain url options in
      if is_Panic fetched then Panic (New ''panic in FetchBundle'')
      else if rd_ctx_err r = Some context_Canceled then Ok (evs, Stopped context_Canceled)
      else
        let (latestBundle, evs) = (case fetched of
              Ok bundle \<Rightarrow> if \<not> spiffebundle_Equal (Some latestBundle) (Some bundle)
                then (bundle, evs @ [OnBundle bundle]) else (latestBundle, evs)
            | Err err \<Rightarrow> (latestBundle, evs @ [OnError err])
            | Panic e \<Rightarrow> (latestBundle, evs));
            (refreshHint, ok) = spiffebundle_RefreshHint latestBundle;
            arg = (if ok then refreshHint else 0);
            evs = evs @ [Refresh arg (rd_NextRefresh r arg)]
        in case rd_done r of
             None \<Rightarrow> WatchBundle_loop unmarshal trustDomain url options rs latestBundle evs
           | Some e \<Rightarrow> Ok (evs, Stopped e))"

definition WatchBundle where
  "WatchBundle unmarshal trustDomain url watcher_nil options rounds =
     (if watcher_nil then Ok ([], Stopped (wrapFederationErr (New ''watcher cannot be nil'')))
      else WatchBundle_loop unmarshal trustDomain url options rounds zero_Bundle [])"

subsection \<open>Serving\<close>

record 'l handlerConfig =
  hc_log :: "'l option"

definition federation_WithLogger :: "'l \<Rightarrow> 'l handlerConfig \<Rightarrow> 'l handlerConfig res" where
  "federation_WithLogger log c = Ok (c\<lparr>hc_log := Some log\<rparr>)"

fun apply_handler_options :: "('l handlerConfig \<Rightarrow> 'l handlerConfig res) list \<Rightarrow> 'l handlerConfig \<Rightarrow> 'l handlerConfig res" where
  "apply_handler_options [] conf = Ok conf"
| "apply_handler_options (opt # opts) conf =
     bind_res (map_err (\<lambda>err. Wrap ''handler configuration is invalid: %w'' [] err) (opt conf)) (apply_handler_options opts)"

datatype response = http_Error "string \<times> string list" nat | http_OK "string \<times> string" string

text \<open>A request is its method. An error response is its message (a format and its arguments) and
  status, a success its header and body.\<close>

definition serve_bundle ::
  "(bundleDoc \<Rightarrow> string res) \<Rightarrow> TrustDomain \<Rightarrow> (TrustDomain \<Rightarrow> spiffebundle_Bundle res) \<Rightarrow> string \<Rightarrow> response res" where
  "serve_bundle marshal trustDomain source_get r_method =
     (if r_method \<noteq> ''GET'' then Ok (http_Error (''method is not allowed'', []) 405)
      else case source_get trustDomain of
          Panic e \<Rightarrow> Panic e
        | Err err \<Rightarrow> Ok (http_Error (''unable to serve bundle for %q'', [TrustDomain_String trustDomain]) 500)
        | Ok bundle \<Rightarrow>
            (case spiffebundle_Marshal marshal bundle of
                Panic e \<Rightarrow> Panic e
              | Err err \<Rightarrow> Ok (http_Error (''unable to serve bundle for %q'', [TrustDomain_String trustDomain]) 500)
              | Ok data \<Rightarrow> Ok (http_OK (''Content-Type'', ''application/json'') data)))"

definition NewHandler where
  "NewHandler marshal trustDomain source opts =
     bind_res (apply_handler_options opts \<lparr>hc_log = None\<rparr>) (\<lambda>conf. Ok (serve_bundle marshal trustDomain source))"

section \<open>Lemmas\<close>

subsection \<open>The watch\<close>

text \<open>
  The specification of a watch in terms of its rounds: which of them are carried out, why the
  watch ends, and what of each kind is reported.
\<close>

fun carried_out :: "('req, 'w, 'e, 'x) round list \<Rightarrow> ('req, 'w, 'e, 'x) round list" where
  "carried_out [] = []"
| "carried_out (r # rs) =
     (if rd_ctx_err r = Some context_Canceled then []
      else r # (if rd_done r = None then carried_out rs else []))"

fun watch_end :: "('req, 'w, 'e, 'x) round list \<Rightarrow> bundle_watch" where
  "watch_end [] = Watching_on"
| "watch_end (r # rs) =
     (if rd_ctx_err r = Some context_Canceled then Stopped context_Canceled
      else case rd_done r of None \<Rightarrow> watch_end rs | Some e \<Rightarrow> Stopped e)"

definition oks :: "'a res list \<Rightarrow> 'a list" where
  "oks rs = List.map_filter (\<lambda>r. case r of Ok x \<Rightarrow> Some x | _ \<Rightarrow> None) rs"

definition errs :: "'a res list \<Rightarrow> error list" where
  "errs rs = List.map_filter (\<lambda>r. case r of Err e \<Rightarrow> Some e | _ \<Rightarrow> None) rs"

definition bundles_of :: "watch_event list \<Rightarrow> spiffebundle_Bundle list" where
  "bundles_of evs = List.map_filter (\<lambda>e. case e of OnBundle b \<Rightarrow> Some b | _ \<Rightarrow> None) evs"

definition errors_of :: "watch_event list \<Rightarrow> error list" where
  "errors_of evs = List.map_filter (\<lambda>e. case e of OnError b \<Rightarrow> Some b | _ \<Rightarrow> None) evs"

definition hints_of :: "watch_event list \<Rightarrow> 64 word list" where
  "hints_of evs = List.map_filter (\<lambda>e. case e of Refresh a n \<Rightarrow> Some a | _ \<Rightarrow> None) evs"

definition hint_of :: "spiffebundle_Bundle \<Rightarrow> 64 word" where
  "hint_of b = (case sb_refreshHint b of None \<Rightarrow> 0 | Some h \<Rightarrow> h)"

text \<open>The bundle held after a list of fetches is the last one fetched, up to \<open>Equal\<close>.\<close>

definition same_bundle :: "spiffebundle_Bundle \<Rightarrow> spiffebundle_Bundle \<Rightarrow> bool" where
  "same_bundle a b \<longleftrightarrow> a = b \<or> spiffebundle_Equal (Some a) (Some b)"

text \<open>Every element differs from the one before it.\<close>

fun changing :: "spiffebundle_Bundle \<Rightarrow> spiffebundle_Bundle list \<Rightarrow> bool" where
  "changing a [] = True"
| "changing a (b # bs) = (\<not> spiffebundle_Equal (Some a) (Some b) \<and> changing b bs)"

declare spiffebundle_Equal.simps [simp del]

lemma selectors_simps [simp]:
  "oks [] = []" "errs [] = []" "bundles_of [] = []" "errors_of [] = []" "hints_of [] = []"
  "oks (rs @ rs') = oks rs @ oks rs'" "errs (rs @ rs') = errs rs @ errs rs'"
  "bundles_of (evs @ evs') = bundles_of evs @ bundles_of evs'"
  "errors_of (evs @ evs') = errors_of evs @ errors_of evs'"
  "hints_of (evs @ evs') = hints_of evs @ hints_of evs'"
  "oks (r # rs) = (case r of Ok x \<Rightarrow> [x] | _ \<Rightarrow> []) @ oks rs"
  "errs (r # rs) = (case r of Err e \<Rightarrow> [e] | _ \<Rightarrow> []) @ errs rs"
  "bundles_of (e # evs) = (case e of OnBundle b \<Rightarrow> [b] | _ \<Rightarrow> []) @ bundles_of evs"
  "errors_of (e # evs) = (case e of OnError b \<Rightarrow> [b] | _ \<Rightarrow> []) @ errors_of evs"
  "hints_of (e # evs) = (case e of Refresh a n \<Rightarrow> [a] | _ \<Rightarrow> []) @ hints_of evs"
  by (simp_all add: oks_def errs_def bundles_of_def errors_of_def hints_of_def List.map_filter_def
      split: res.splits watch_event.splits)

lemma changing_snoc [simp]:
  "changing a (bs @ [b]) \<longleftrightarrow> changing a bs \<and> \<not> spiffebundle_Equal (Some (last (a # bs))) (Some b)"
  by (induction bs arbitrary: a) auto

lemma RefreshHint_hint_of [simp]:
  "(if snd (spiffebundle_RefreshHint b) then fst (spiffebundle_RefreshHint b) else 0) = hint_of b"
  by (simp add: spiffebundle_RefreshHint_def hint_of_def split: option.splits)

lemma same_hint: "same_bundle a b \<Longrightarrow> hint_of a = hint_of b"
  by (auto simp: same_bundle_def hint_of_def refreshHintEqual_def spiffebundle_Equal.simps split: option.splits)

text \<open>What the watch has reported after the fetches \<open>fs\<close>: \<open>latest\<close> is the bundle it holds.\<close>

definition watch_state :: "spiffebundle_Bundle res list \<Rightarrow> spiffebundle_Bundle \<Rightarrow> watch_event list \<Rightarrow> bool" where
  "watch_state fs latest evs \<longleftrightarrow>
     errors_of evs = errs fs \<and> subseq (bundles_of evs) (oks fs) \<and> changing zero_Bundle (bundles_of evs) \<and>
     latest = last (zero_Bundle # bundles_of evs) \<and> same_bundle latest (last (zero_Bundle # oks fs)) \<and>
     hints_of evs = map (\<lambda>i. hint_of (last (zero_Bundle # oks (take (Suc i) fs)))) [0 ..< length fs]"

text \<open>One iteration, as a step on what is held and what was reported.\<close>

definition watch_report ::
  "('req, 'w, 'e, 'x) round \<Rightarrow> spiffebundle_Bundle res \<Rightarrow> spiffebundle_Bundle \<times> watch_event list \<Rightarrow>
   spiffebundle_Bundle \<times> watch_event list" where
  "watch_report r fetched = (\<lambda>(latest, evs).
     let (latest, evs) = (case fetched of
           Ok b \<Rightarrow> if \<not> spiffebundle_Equal (Some latest) (Some b) then (b, evs @ [OnBundle b]) else (latest, evs)
         | Err e \<Rightarrow> (latest, evs @ [OnError e])
         | Panic e \<Rightarrow> (latest, evs))
     in (latest, evs @ [Refresh (hint_of latest) (rd_NextRefresh r (hint_of latest))]))"

lemma hints_snoc:
  "hs = map (\<lambda>i. hint_of (last (zero_Bundle # oks (take (Suc i) fs)))) [0 ..< length fs] \<Longrightarrow>
   h = hint_of (last (zero_Bundle # oks (fs @ [f]))) \<Longrightarrow>
   hs @ [h] = map (\<lambda>i. hint_of (last (zero_Bundle # oks (take (Suc i) (fs @ [f]))))) [0 ..< length (fs @ [f])]"
  by (auto simp del: last.simps)

lemma watch_state_snoc:
  assumes "watch_state fs latest evs"
    and "errors_of new = errs [f]" "hints_of new = [hint_of latest']"
    and "bundles_of new = [] \<and> latest' = latest \<or>
      bundles_of new = oks [f] \<and> oks [f] = [latest'] \<and> \<not> spiffebundle_Equal (Some latest) (Some latest')"
    and same: "same_bundle latest' (last (zero_Bundle # oks (fs @ [f])))"
  shows "watch_state (fs @ [f]) latest' (evs @ new)"
proof -
  have s: "subseq (bundles_of evs) (oks fs)" "changing zero_Bundle (bundles_of evs)"
      "latest = last (zero_Bundle # bundles_of evs)" "errors_of evs = errs fs"
    using assms(1) by (simp_all only: watch_state_def)
  have "hints_of (evs @ new) =
      map (\<lambda>i. hint_of (last (zero_Bundle # oks (take (Suc i) (fs @ [f]))))) [0 ..< length (fs @ [f])]"
    unfolding selectors_simps(10) assms(3)
    using assms(1) same_hint [OF same] by (intro hints_snoc) (simp_all only: watch_state_def)
  moreover have "errors_of (evs @ new) = errs (fs @ [f])"
    unfolding selectors_simps(7,9) s(4) assms(2) ..
  moreover from assms(4) have "subseq (bundles_of (evs @ new)) (oks (fs @ [f])) \<and>
      changing zero_Bundle (bundles_of (evs @ new)) \<and> latest' = last (zero_Bundle # bundles_of (evs @ new))"
  proof
    assume n: "bundles_of new = [] \<and> latest' = latest"
    then have b: "bundles_of (evs @ new) = bundles_of evs" by simp
    have "subseq (bundles_of evs) (oks (fs @ [f]))"
      unfolding selectors_simps(6) using s(1) by (rule subseq_order.trans) (rule list_emb_append_mono [of _ _ _ "[]", simplified], simp_all)
    then show ?thesis unfolding b using n s(2,3) by simp
  next
    assume n: "bundles_of new = oks [f] \<and> oks [f] = [latest'] \<and> \<not> spiffebundle_Equal (Some latest) (Some latest')"
    then have b: "bundles_of (evs @ new) = bundles_of evs @ [latest']" "oks (fs @ [f]) = oks fs @ [latest']"
      by (simp_all only: selectors_simps(6,8))
    have "subseq (bundles_of evs @ [latest']) (oks fs @ [latest'])"
      using s(1) by (intro list_emb_append_mono) simp_all
    then show ?thesis unfolding b using n s(2,3) by simp
  qed
  ultimately show ?thesis using same by (simp only: watch_state_def)
qed

lemma watch_report_state:
  assumes "watch_state fs latest evs" "\<not> is_Panic f" "watch_report r f (latest, evs) = (latest', evs')"
  shows "watch_state (fs @ [f]) latest' evs'"
proof -
  have same: "same_bundle latest (last (zero_Bundle # oks fs))"
    using assms(1) unfolding watch_state_def by blast
  have keep: "watch_state (fs @ [Err e]) latest (evs @ [OnError e, Refresh (hint_of latest) n])" for e n
    using assms(1) same by (intro watch_state_snoc) simp_all
  have old: "watch_state (fs @ [Ok b]) latest (evs @ [Refresh (hint_of latest) n])"
    if "spiffebundle_Equal (Some latest) (Some b)" for b n
    using assms(1) that by (intro watch_state_snoc) (simp_all add: same_bundle_def)
  have new: "watch_state (fs @ [Ok b]) b (evs @ [OnBundle b, Refresh (hint_of b) n])"
    if "\<not> spiffebundle_Equal (Some latest) (Some b)" for b n
    using assms(1) that by (intro watch_state_snoc) (simp_all add: same_bundle_def)
  show ?thesis
    using assms(2,3) keep old new by (cases f) (auto simp: watch_report_def split: if_splits)
qed

text \<open>Without panics the loop is a fold over the rounds that are carried out.\<close>

lemma WatchBundle_loop_fold:
  assumes "\<forall>r \<in> set rounds. \<not> is_Panic (FetchBundle (rd_http r) unmarshal td url options)"
  shows "WatchBundle_loop unmarshal td url options rounds latest evs =
    Ok (snd (fold (\<lambda>r. watch_report r (FetchBundle (rd_http r) unmarshal td url options)) (carried_out rounds) (latest, evs)),
        watch_end rounds)"
  using assms
proof (induction rounds arbitrary: latest evs)
  case (Cons r rs)
  let ?f = "FetchBundle (rd_http r) unmarshal td url options"
  have np: "\<not> is_Panic ?f" "\<forall>r \<in> set rs. \<not> is_Panic (FetchBundle (rd_http r) unmarshal td url options)"
    using Cons.prems by simp_all
  note [simp] = Cons.IH [OF np(2)]
  note hint = RefreshHint_hint_of [simplified]
  show ?case
  proof (cases ?f)
    case (Ok b)
    then show ?thesis
      by (cases "rd_done r"; cases "spiffebundle_Equal (Some latest) (Some b)")
        (simp_all add: Let_def case_prod_beta watch_report_def hint)
  next
    case (Err e)
    then show ?thesis
      by (cases "rd_done r") (simp_all add: Let_def case_prod_beta watch_report_def hint)
  qed (use np in simp)
qed simp

lemma watch_reports_state:
  assumes "\<forall>r \<in> set rs. \<not> is_Panic (f r)" "watch_state fs (fst s) (snd s)"
  shows "watch_state (fs @ map f rs) (fst (fold (\<lambda>r. watch_report r (f r)) rs s))
    (snd (fold (\<lambda>r. watch_report r (f r)) rs s))"
  using assms
proof (induction rs arbitrary: fs s)
  case (Cons r rs)
  have "watch_state (fs @ [f r]) (fst (watch_report r (f r) s)) (snd (watch_report r (f r) s))"
    using Cons.prems by (intro watch_report_state [of fs "fst s" "snd s"]) simp_all
  then show ?case using Cons.IH [of "fs @ [f r]" "watch_report r (f r) s"] Cons.prems by simp
qed simp

lemma carried_out_subset: "r \<in> set (carried_out rounds) \<Longrightarrow> r \<in> set rounds"
  by (induction rounds) (auto split: if_splits)

lemma same_bundle_refl [simp]: "same_bundle b b"
  by (simp add: same_bundle_def)

lemma watch_reports_fetched:
  assumes np: "\<forall>r \<in> set rounds. \<not> is_Panic (FetchBundle (rd_http r) unmarshal td url options)"
  shows "\<exists>evs latest. WatchBundle unmarshal td url False options rounds = Ok (evs, watch_end rounds) \<and>
    watch_state (map (\<lambda>r. FetchBundle (rd_http r) unmarshal td url options) (carried_out rounds)) latest evs"
proof -
  have "watch_state [] zero_Bundle []" by (simp add: watch_state_def)
  moreover have "\<forall>r \<in> set (carried_out rounds). \<not> is_Panic (FetchBundle (rd_http r) unmarshal td url options)"
    using np carried_out_subset by blast
  ultimately show ?thesis
    using watch_reports_state [of "carried_out rounds" "\<lambda>r. FetchBundle (rd_http r) unmarshal td url options" "[]" "(zero_Bundle, [])"]
    by (auto simp: WatchBundle_def WatchBundle_loop_fold [OF np])
qed

lemma FetchBundle_Ok:
  assumes "FetchBundle http unmarshal td url options = Ok b"
  shows "spiffebundle_wf b \<and> sb_trustDomain b = td"
  using assms spiffebundle_Parse_Ok by (auto simp: FetchBundle_def spiffebundle_Read_def)

text \<open>Comparing a bundle with itself.\<close>

definition comparable :: "spiffebundle_Bundle \<Rightarrow> bool" where
  "comparable b \<longleftrightarrow> list_all (supported_key \<circ> snd) (sb_jwtAuthorities b) \<and>
     list_all (supported_key \<circ> snd) (sb_witAuthorities b)"

lemma Equal_self: "spiffebundle_wf b \<Longrightarrow> spiffebundle_Equal (Some b) (Some b) \<longleftrightarrow> comparable b"
  by (simp add: spiffebundle_Equal_iff comparable_def)

lemma watch_same_bundle:
  assumes "spiffebundle_wf b"
  shows "bundles_of (snd (fold (\<lambda>r. watch_report r (Ok b)) rs (b, evs))) =
    bundles_of evs @ (if comparable b then [] else replicate (length rs) b)"
proof (induction rs arbitrary: evs)
  case (Cons r rs)
  obtain evs' where "watch_report r (Ok b) (b, evs) = (b, evs')"
      "bundles_of evs' = bundles_of evs @ (if comparable b then [] else [b])"
    using Equal_self [OF assms] by (fastforce simp: watch_report_def)
  then show ?case using Cons.IH [of evs'] by simp
qed simp

subsection \<open>Authentication\<close>

text \<open>A body comes from a server (\<open>serves raw body\<close>: one that presents \<open>raw\<close>) that the TLS
  configuration admits, except when the request or a redirect of it goes out without TLS.\<close>

definition tls_transport ::
  "std_verify \<Rightarrow> ('req \<Rightarrow> bool) \<Rightarrow> (string list \<Rightarrow> string res \<Rightarrow> bool) \<Rightarrow> ('req, 'w, 'e, 'x) http_lib \<Rightarrow> bool" where
  "tls_transport std plain serves http \<longleftrightarrow>
     (\<forall>config request body. ht_Do http (Some config) request = Ok body \<longrightarrow>
        plain request \<or> (\<exists>w raw. serves raw body \<and> client_admits std config w raw))"

definition auth_option ::
  "charset \<Rightarrow> 't x509_lib \<Rightarrow> 'x \<Rightarrow> ('w \<Rightarrow> x509_source) option \<times> ID + CertPool option \<Rightarrow> ('w, 'e, 'x) FetchOption" where
  "auth_option cs lib zero c = (case c of
      Inl (bundleSource, endpointID) \<Rightarrow> WithSPIFFEAuth cs lib zero bundleSource endpointID
    | Inr rootCAs \<Rightarrow> WithWebPKIRoots zero rootCAs)"

lemma TLSClientConfig_admits:
  assumes "client_admits std (TLSClientConfig cs lib zero (Some src) (AuthorizeID endpointID)) w raw"
  shows "\<exists>chs. peer_ok cs lib (src w) (AuthorizeID endpointID) raw endpointID chs"
proof -
  obtain spid chs where p: "peer_ok cs lib (src w) (AuthorizeID endpointID) raw spid chs"
    using assms by (auto simp: new_config_admits)
  then have "spid = endpointID"
    by (auto simp: peer_ok_def AuthorizeID_def AdaptMatcher_def MatchID_None_iff)
  then show ?thesis using p by blast
qed

subsection \<open>Examples\<close>

text \<open>A document that decodes without authorities, one with a JWT authority of a key type that
  \<open>cryptoutil\<close> does not know, and a network with one answer.\<close>

definition ex_unmarshal :: "string \<Rightarrow> bundleDoc res" where
  "ex_unmarshal s =
     (if s = ''1'' then Ok \<lparr>doc_Keys = Some [], doc_SequenceNumber = Some 1, doc_RefreshHint = Some 5\<rparr>
      else if s = ''2'' then Ok \<lparr>doc_Keys = Some [(zero_jwk (Other_PublicKey ''[]uint8'') ''k'')\<lparr>jwk_Use := jwtSVIDUse\<rparr>],
        doc_SequenceNumber = None, doc_RefreshHint = None\<rparr>
      else Err (New ''bad''))"

definition ex_one :: spiffebundle_Bundle where
  "ex_one = \<lparr>sb_trustDomain = example_td, sb_refreshHint = Some 5000000000, sb_sequenceNumber = Some 1,
     sb_jwtAuthorities = [], sb_witAuthorities = [], sb_x509Authorities = []\<rparr>"

definition ex_two :: spiffebundle_Bundle where
  "ex_two = \<lparr>sb_trustDomain = example_td, sb_refreshHint = None, sb_sequenceNumber = None,
     sb_jwtAuthorities = [(''k'', Other_PublicKey ''[]uint8'')], sb_witAuthorities = [], sb_x509Authorities = []\<rparr>"

definition ex_http :: "string \<Rightarrow> (string, nat, nat, unit) http_lib" where
  "ex_http body = \<lparr>ht_default = None, ht_NewRequest = Ok, ht_Do = (\<lambda>_ _. Ok (Ok body))\<rparr>"

definition ex_round :: "string \<Rightarrow> error option \<Rightarrow> (string, nat, nat, unit) round" where
  "ex_round body d = \<lparr>rd_http = ex_http body, rd_ctx_err = None, rd_NextRefresh = (\<lambda>h. h), rd_done = d\<rparr>"

lemma ex_fetch:
  "FetchBundle (rd_http (ex_round ''1'' d)) ex_unmarshal example_td ''url'' [] = Ok ex_one"
  "FetchBundle (rd_http (ex_round ''2'' d)) ex_unmarshal example_td ''url'' [] = Ok ex_two"
  "\<exists>e. FetchBundle (rd_http (ex_round ''3'' d)) ex_unmarshal example_td ''url'' [] = Err e"
  by (simp_all add: FetchBundle_def ex_round_def ex_http_def spiffebundle_Read_def spiffebundle_Parse_def
      ex_unmarshal_def spiffebundle_New_def spiffebundle_SetRefreshHint_def spiffebundle_SetSequenceNumber_def
      ex_one_def ex_two_def time_Second_def zero_jwk_def spiffebundle_AddJWTAuthority_def)

text \<open>A network with one server, which presents \<open>ex_leaf\<close> and completes a handshake if the client admits it.\<close>

definition ex_secure_http :: "(string, nat, nat, unit) http_lib" where
  "ex_secure_http = \<lparr>ht_default = None, ht_NewRequest = Ok,
     ht_Do = (\<lambda>config _. case config of None \<Rightarrow> Err (New ''unknown authority'')
       | Some c \<Rightarrow> if client_admits (\<lambda>_ _. None) c 0 [''leaf''] then Ok (Ok ''1'') else Err (New ''bad certificate''))\<rparr>"

lemma ex_secure_fetch:
  "FetchBundle ex_secure_http ex_unmarshal example_td ''url''
     [WithSPIFFEAuth Backcompat_Deny ex_lib () (Some (\<lambda>_. x509bundle_GetX509BundleForTrustDomain ex_bundle)) (mk_ID ''td'' ''/w'')] =
     Ok ex_one"
proof -
  have "client_admits (\<lambda>_ _. None) (TLSClientConfig Backcompat_Deny ex_lib ()
      (Some (\<lambda>_::nat. x509bundle_GetX509BundleForTrustDomain ex_bundle)) (AuthorizeID (mk_ID ''td'' ''/w''))) 0 [''leaf'']"
    using ex_peer_ok by (auto simp: new_config_admits)
  then show ?thesis using ex_fetch(1)
    by (simp add: FetchBundle_def ex_secure_http_def WithSPIFFEAuth_def ex_round_def ex_http_def)
qed

section \<open>Properties\<close>

text \<open>
  C29: What \<open>WatchBundle\<close> reports. It carries out a round per refresh until the context ends, and
  returns only then, with the context's error. Every failed fetch is reported, in order; the
  bundles reported are among those fetched, in order, each different (\<open>Equal\<close>) from the one
  before it, and after any number of rounds the one reported last is the one fetched last, up
  to \<open>Equal\<close>. \<open>NextRefresh\<close> is asked once per round, with the hint of the bundle fetched last,
  0 when it has none or nothing was fetched.
\<close>
theorem WatchBundle_reports:
  assumes "\<forall>r \<in> set rounds. \<not> is_Panic (FetchBundle (rd_http r) unmarshal td url options)"
  defines "fetches \<equiv> map (\<lambda>r. FetchBundle (rd_http r) unmarshal td url options) (carried_out rounds)"
  shows "\<exists>evs. WatchBundle unmarshal td url False options rounds = Ok (evs, watch_end rounds) \<and>
    errors_of evs = errs fetches \<and>
    subseq (bundles_of evs) (oks fetches) \<and> changing zero_Bundle (bundles_of evs) \<and>
    same_bundle (last (zero_Bundle # bundles_of evs)) (last (zero_Bundle # oks fetches)) \<and>
    hints_of evs = map (\<lambda>i. hint_of (last (zero_Bundle # oks (take (Suc i) fetches)))) [0 ..< length fetches]"
  using watch_reports_fetched [OF assms(1)] unfolding fetches_def watch_state_def by blast

theorem WatchBundle_reports_witness:
  "\<exists>evs. WatchBundle ex_unmarshal example_td ''url'' False []
      [ex_round ''1'' None, ex_round ''3'' None, ex_round ''1'' (Some context_Canceled)] = Ok (evs, Stopped context_Canceled) \<and>
    length (errors_of evs) = 1 \<and> hints_of evs = [5000000000, 5000000000, 5000000000]"
proof -
  let ?rs = "[ex_round ''1'' None, ex_round ''3'' None, ex_round ''1'' (Some context_Canceled)]"
  obtain e where e: "FetchBundle (rd_http (ex_round ''3'' None)) ex_unmarshal example_td ''url'' [] = Err e"
    using ex_fetch(3) by blast
  have co: "carried_out ?rs = ?rs" "watch_end ?rs = Stopped context_Canceled" by (simp_all add: ex_round_def)
  show ?thesis
    using WatchBundle_reports [of ?rs ex_unmarshal example_td "''url''" "[]"] unfolding co
    by (fastforce simp: ex_fetch e upt_rec hint_of_def ex_one_def)
qed

text \<open>
  A bundle that does not change. When every fetch gives the same bundle, it is reported once
  if \<open>cryptoutil\<close> can compare all its keys; if one of its JWT or WIT authorities is of another
  type of key, the bundle is unequal to itself and is reported at every refresh.
\<close>
theorem WatchBundle_unchanged:
  assumes "\<forall>r \<in> set rounds. FetchBundle (rd_http r) unmarshal td url options = Ok b" "td \<noteq> zero_TrustDomain"
  shows "\<exists>evs. WatchBundle unmarshal td url False options rounds = Ok (evs, watch_end rounds) \<and>
    bundles_of evs =
      (if comparable b then take 1 (replicate (length (carried_out rounds)) b)
       else replicate (length (carried_out rounds)) b)"
proof (cases "carried_out rounds")
  case Nil
  then show ?thesis using assms(1) by (simp add: WatchBundle_def WatchBundle_loop_fold)
next
  case (Cons r rs)
  have co: "\<forall>r \<in> set (carried_out rounds). FetchBundle (rd_http r) unmarshal td url options = Ok b"
    using assms(1) carried_out_subset by blast
  then have b: "spiffebundle_wf b" "sb_trustDomain b = td" using Cons FetchBundle_Ok by fastforce+
  have "\<not> spiffebundle_Equal (Some zero_Bundle) (Some b)"
    using b assms(2) by (simp add: zero_Bundle_def spiffebundle_Equal.simps)
  then obtain evs where e: "watch_report r (Ok b) (zero_Bundle, []) = (b, evs)" "bundles_of evs = [b]"
    by (fastforce simp: watch_report_def)
  have "fold (\<lambda>r. watch_report r (FetchBundle (rd_http r) unmarshal td url options)) (carried_out rounds) =
      fold (\<lambda>r. watch_report r (Ok b)) (carried_out rounds)"
    using co by (intro ext fold_cong) simp_all
  then show ?thesis
    using Cons assms(1) e watch_same_bundle [OF b(1), of rs evs]
    by (simp add: WatchBundle_def WatchBundle_loop_fold)
qed

theorem WatchBundle_unchanged_witness:
  "\<exists>evs. WatchBundle ex_unmarshal example_td ''url'' False [] [ex_round ''2'' None, ex_round ''2'' None] = Ok (evs, Watching_on) \<and>
    bundles_of evs = [ex_two, ex_two]"
proof -
  let ?rs = "[ex_round ''2'' None, ex_round ''2'' None]"
  have "\<forall>r \<in> set ?rs. FetchBundle (rd_http r) ex_unmarshal example_td ''url'' [] = Ok ex_two"
    using ex_fetch(2) by simp
  moreover have "example_td \<noteq> zero_TrustDomain" by (simp add: example_td_def)
  moreover have "carried_out ?rs = ?rs" "watch_end ?rs = Watching_on" by (simp_all add: ex_round_def)
  moreover have "\<not> comparable ex_two" by (simp add: comparable_def ex_two_def)
  ultimately show ?thesis using WatchBundle_unchanged [of ?rs ex_unmarshal example_td "''url''" "[]" ex_two] by simp
qed

text \<open>
  C30: Authentication of a fetch with \<open>WithSPIFFEAuth\<close>. A bundle that is returned was read from
  what a server said whose certificates verify, at that moment, against the bundle source and
  whose SPIFFE ID is the expected one, unless a request went out without TLS: the scheme of the
  URL is not checked. A second authentication option is refused before any request is made.
  The hypothesis on \<open>net/http\<close> is that a body comes from a server that the TLS configuration
  admits, except over plain HTTP.
\<close>
theorem FetchBundle_authenticated:
  assumes "tls_transport std plain serves http"
  shows "(FetchBundle http unmarshal td url [WithSPIFFEAuth cs lib zero (Some src) endpointID] = Ok b \<longrightarrow>
      (\<exists>request body. ht_NewRequest http url = Ok request \<and> spiffebundle_Read unmarshal td body = Ok b \<and>
        (plain request \<or>
          (\<exists>w raw chs. serves raw body \<and> peer_ok cs lib (src w) (AuthorizeID endpointID) raw endpointID chs)))) \<and>
    FetchBundle http unmarshal td url (auth_option cs lib zero c1 # auth_option cs lib zero c2 # options) =
      Err (wrapFederationErr (New ''cannot use both SPIFFE and Web PKI authentication''))"
proof
  show "FetchBundle http unmarshal td url [WithSPIFFEAuth cs lib zero (Some src) endpointID] = Ok b \<longrightarrow>
      (\<exists>request body. ht_NewRequest http url = Ok request \<and> spiffebundle_Read unmarshal td body = Ok b \<and>
        (plain request \<or>
          (\<exists>w raw chs. serves raw body \<and> peer_ok cs lib (src w) (AuthorizeID endpointID) raw endpointID chs)))"
  proof
    assume "FetchBundle http unmarshal td url [WithSPIFFEAuth cs lib zero (Some src) endpointID] = Ok b"
    then obtain request body where r: "ht_NewRequest http url = Ok request"
        "spiffebundle_Read unmarshal td body = Ok b"
        "ht_Do http (Some (TLSClientConfig cs lib zero (Some src) (AuthorizeID endpointID))) request = Ok body"
      by (auto simp: FetchBundle_def WithSPIFFEAuth_def)
    have "plain request \<or> (\<exists>w raw chs. serves raw body \<and>
        peer_ok cs lib (src w) (AuthorizeID endpointID) raw endpointID chs)"
      using tls_transport_def [THEN iffD1, OF assms, rule_format, OF r(3)]
        TLSClientConfig_admits [of std cs lib zero src endpointID] by blast
    then show "\<exists>request body. ht_NewRequest http url = Ok request \<and> spiffebundle_Read unmarshal td body = Ok b \<and>
        (plain request \<or>
          (\<exists>w raw chs. serves raw body \<and> peer_ok cs lib (src w) (AuthorizeID endpointID) raw endpointID chs))"
      using r(1,2) by blast
  qed
qed (cases c1; cases c2; auto simp: FetchBundle_def auth_option_def WithSPIFFEAuth_def WithWebPKIRoots_def)

theorem FetchBundle_authenticated_witness:
  "\<exists>w raw chs. raw = [''leaf''] \<and> peer_ok Backcompat_Deny ex_lib (x509bundle_GetX509BundleForTrustDomain ex_bundle)
     (AuthorizeID (mk_ID ''td'' ''/w'')) raw (mk_ID ''td'' ''/w'') chs"
proof -
  have "tls_transport (\<lambda>_ _. None) (\<lambda>_. False) (\<lambda>raw _. raw = [''leaf'']) ex_secure_http"
    by (auto simp: tls_transport_def ex_secure_http_def split: if_splits)
  from FetchBundle_authenticated [OF this, THEN conjunct1, rule_format, OF ex_secure_fetch]
  show ?thesis by blast
qed

text \<open>
  C31: Serving and fetching. What a handler for a trust domain answers to a GET request, read by
  \<open>FetchBundle\<close> for that trust domain, is the bundle of its source with the refresh hint rounded
  up to whole seconds (under the conditions of the round trip of a bundle document).
\<close>
theorem served_bundle_is_fetched:
  assumes "NewHandler marshal (sb_trustDomain b) source [] = Ok handler" "source (sb_trustDomain b) = Ok b"
    and "handler ''GET'' = Ok (http_OK header data)"
    and "spiffebundle_wf b" "distinct (map cert_Raw (sb_x509Authorities b))" "\<not> spiffebundle_Empty b"
    and "[] \<notin> fst ` set (sb_jwtAuthorities b)" "[] \<notin> fst ` set (sb_witAuthorities b)"
    and "case sb_refreshHint b of None \<Rightarrow> True | Some h \<Rightarrow> 0 \<le> sint h \<and> sint h < 2 ^ 63 - 999999999"
    and "json_roundtrips marshal unmarshal (spiffebundle_doc b)"
    and "ht_NewRequest http url = Ok request" "ht_Do http (ht_default http) request = Ok (Ok data)"
  shows "header = (''Content-Type'', ''application/json'') \<and>
    FetchBundle http unmarshal (sb_trustDomain b) url [] =
      Ok (b\<lparr>sb_refreshHint := map_option (\<lambda>h. word_of_int (1000000000 * ceil_seconds (sint h))) (sb_refreshHint b)\<rparr>)"
proof -
  have h: "spiffebundle_Marshal marshal b = Ok data" "header = (''Content-Type'', ''application/json'')"
    using assms(1-3) by (auto simp: NewHandler_def serve_bundle_def split: res.splits)
  then show ?thesis
    using spiffebundle_Parse_Marshal [OF assms(4-10) h(1)] assms(11,12)
    by (simp add: FetchBundle_def spiffebundle_Read_def)
qed

theorem served_bundle_is_fetched_witness:
  "FetchBundle (ex_http ''{}'') (\<lambda>s. if s = ''{}'' then Ok (spiffebundle_doc example_bundle) else Err (New ''bad''))
     example_td ''url'' [] = Ok (example_bundle\<lparr>sb_refreshHint := Some 2000000000\<rparr>)"
proof -
  let ?m = "\<lambda>d. if d = spiffebundle_doc example_bundle then Ok ''{}'' else Err (New ''bad'')"
  let ?u = "\<lambda>s. if s = ''{}'' then Ok (spiffebundle_doc example_bundle) else Err (New ''bad'')"
  let ?src = "spiffebundle_GetBundleForTrustDomain example_bundle"
  have td: "sb_trustDomain example_bundle = example_td" by (simp add: example_bundle_def)
  have "FetchBundle (ex_http ''{}'') ?u (sb_trustDomain example_bundle) ''url'' [] =
      Ok (example_bundle\<lparr>sb_refreshHint := map_option (\<lambda>h. word_of_int (1000000000 * ceil_seconds (sint h)))
        (sb_refreshHint example_bundle)\<rparr>)"
    by (rule served_bundle_is_fetched [where source = ?src and marshal = ?m and data = "''{}''" and
          header = "(''Content-Type'', ''application/json'')" and request = "''url''" and
          handler = "serve_bundle ?m (sb_trustDomain example_bundle) ?src", THEN conjunct2])
      (simp_all add: NewHandler_def serve_bundle_def spiffebundle_GetBundleForTrustDomain_def ex_http_def
        example_bundle_def spiffebundle_wf_def spiffebundle_Empty_def json_roundtrips_def spiffebundle_Marshal_def)
  then show ?thesis by (simp add: td) (simp add: example_bundle_def ceil_seconds_def)
qed

end
