(* ===== verification/Spiffetls.thy ===== *)
theory Spiffetls
  imports Tlsconfig Workload_Sources
begin

text \<open>
  Package \<open>spiffetls\<close>: dial and listen modes, \<open>DialWithMode\<close>, \<open>NewListenerWithMode\<close>,
  \<open>ListenWithMode\<close> and the connections and listeners they return. An X509Source is a handle; the
  state \<open>'w\<close> of the program says what it holds when it is asked. Creating a source, dialing and
  listening are parameters. The result of an operation is recorded together with its effects:
  the source it created, the sources it closed, what it wrote into the mode and into the TLS
  configuration (the caller's object when a base was given; not recorded after a panic).
\<close>

section \<open>Definitions\<close>

subsection \<open>Modes\<close>

definition tlsClientMode :: int where "tlsClientMode = 0"
definition mtlsClientMode :: int where "mtlsClientMode = 1"
definition mtlsWebClientMode :: int where "mtlsWebClientMode = 2"
definition tlsServerMode :: int where "tlsServerMode = 0"
definition mtlsServerMode :: int where "mtlsServerMode = 1"
definition mtlsWebServerMode :: int where "mtlsWebServerMode = 2"

text \<open>A nil interface of SVIDs panics when it is called, at the handshake. The authorizer that a mode
  leaves unset is never called.\<close>

type_synonym 'w svid_source = "'w \<Rightarrow> x509svid_SVID res"
type_synonym 'w bundle_source = "'w \<Rightarrow> x509_source"

definition nil_svid_source :: "'w svid_source" where
  "nil_svid_source w = Panic (New ''nil pointer dereference'')"

definition unset_authorizer :: Authorizer where
  "unset_authorizer = (\<lambda>_ _. Some (New ''nil authorizer''))"

record ('w, 'src, 'o) dialMode =
  dm_mode :: int
  dm_sourceUnneeded :: bool
  dm_authorizer :: Authorizer
  dm_source :: "'src option"
  dm_options :: "'o list"
  dm_bundle :: "'w bundle_source option"
  dm_svid :: "'w svid_source"
  dm_roots :: "CertPool option"

record ('w, 'src, 'o) listenMode =
  lm_mode :: int
  lm_sourceUnneeded :: bool
  lm_authorizer :: Authorizer
  lm_source :: "'src option"
  lm_options :: "'o list"
  lm_bundle :: "'w bundle_source option"
  lm_svid :: "'w svid_source"
  lm_cert :: "tls_certificate option"

definition dialMode_of :: "int \<Rightarrow> ('w, 'src, 'o) dialMode" where
  "dialMode_of m = \<lparr>dm_mode = m, dm_sourceUnneeded = False, dm_authorizer = unset_authorizer, dm_source = None,
     dm_options = [], dm_bundle = None, dm_svid = nil_svid_source, dm_roots = None\<rparr>"

definition listenMode_of :: "int \<Rightarrow> ('w, 'src, 'o) listenMode" where
  "listenMode_of m = \<lparr>lm_mode = m, lm_sourceUnneeded = False, lm_authorizer = unset_authorizer, lm_source = None,
     lm_options = [], lm_bundle = None, lm_svid = nil_svid_source, lm_cert = None\<rparr>"

definition TLSClient :: "Authorizer \<Rightarrow> ('w, 'src, 'o) dialMode" where
  "TLSClient authorizer = (dialMode_of tlsClientMode)\<lparr>dm_authorizer := authorizer\<rparr>"

definition TLSClientWithSource :: "Authorizer \<Rightarrow> 'src option \<Rightarrow> ('w, 'src, 'o) dialMode" where
  "TLSClientWithSource authorizer source = (dialMode_of tlsClientMode)\<lparr>dm_authorizer := authorizer, dm_source := source\<rparr>"

definition TLSClientWithSourceOptions :: "Authorizer \<Rightarrow> 'o list \<Rightarrow> ('w, 'src, 'o) dialMode" where
  "TLSClientWithSourceOptions authorizer options = (dialMode_of tlsClientMode)\<lparr>dm_authorizer := authorizer, dm_options := options\<rparr>"

definition TLSClientWithRawConfig :: "Authorizer \<Rightarrow> 'w bundle_source option \<Rightarrow> ('w, 'src, 'o) dialMode" where
  "TLSClientWithRawConfig authorizer bundle = (dialMode_of tlsClientMode)\<lparr>dm_sourceUnneeded := True, dm_authorizer := authorizer, dm_bundle := bundle\<rparr>"

definition MTLSClient :: "Authorizer \<Rightarrow> ('w, 'src, 'o) dialMode" where
  "MTLSClient authorizer = (dialMode_of mtlsClientMode)\<lparr>dm_authorizer := authorizer\<rparr>"

definition MTLSClientWithSource :: "Authorizer \<Rightarrow> 'src option \<Rightarrow> ('w, 'src, 'o) dialMode" where
  "MTLSClientWithSource authorizer source = (dialMode_of mtlsClientMode)\<lparr>dm_authorizer := authorizer, dm_source := source\<rparr>"

definition MTLSClientWithSourceOptions :: "Authorizer \<Rightarrow> 'o list \<Rightarrow> ('w, 'src, 'o) dialMode" where
  "MTLSClientWithSourceOptions authorizer options = (dialMode_of mtlsClientMode)\<lparr>dm_authorizer := authorizer, dm_options := options\<rparr>"

definition MTLSClientWithRawConfig :: "Authorizer \<Rightarrow> 'w svid_source \<Rightarrow> 'w bundle_source option \<Rightarrow> ('w, 'src, 'o) dialMode" where
  "MTLSClientWithRawConfig authorizer svid bundle = (dialMode_of mtlsClientMode)\<lparr>dm_sourceUnneeded := True, dm_authorizer := authorizer, dm_svid := svid, dm_bundle := bundle\<rparr>"

definition MTLSWebClient :: "CertPool option \<Rightarrow> ('w, 'src, 'o) dialMode" where
  "MTLSWebClient roots = (dialMode_of mtlsWebClientMode)\<lparr>dm_roots := roots\<rparr>"

definition MTLSWebClientWithSource :: "CertPool option \<Rightarrow> 'src option \<Rightarrow> ('w, 'src, 'o) dialMode" where
  "MTLSWebClientWithSource roots source = (dialMode_of mtlsWebClientMode)\<lparr>dm_roots := roots, dm_source := source\<rparr>"

definition MTLSWebClientWithSourceOptions :: "CertPool option \<Rightarrow> 'o list \<Rightarrow> ('w, 'src, 'o) dialMode" where
  "MTLSWebClientWithSourceOptions roots options = (dialMode_of mtlsWebClientMode)\<lparr>dm_roots := roots, dm_options := options\<rparr>"

definition MTLSWebClientWithRawConfig :: "CertPool option \<Rightarrow> 'w svid_source \<Rightarrow> ('w, 'src, 'o) dialMode" where
  "MTLSWebClientWithRawConfig roots svid = (dialMode_of mtlsWebClientMode)\<lparr>dm_sourceUnneeded := True, dm_roots := roots, dm_svid := svid\<rparr>"

definition TLSServer :: "('w, 'src, 'o) listenMode" where
  "TLSServer = listenMode_of tlsServerMode"

definition TLSServerWithSource :: "'src option \<Rightarrow> ('w, 'src, 'o) listenMode" where
  "TLSServerWithSource source = (listenMode_of tlsServerMode)\<lparr>lm_source := source\<rparr>"

definition TLSServerWithSourceOptions :: "'o list \<Rightarrow> ('w, 'src, 'o) listenMode" where
  "TLSServerWithSourceOptions options = (listenMode_of tlsServerMode)\<lparr>lm_options := options\<rparr>"

definition TLSServerWithRawConfig :: "'w svid_source \<Rightarrow> ('w, 'src, 'o) listenMode" where
  "TLSServerWithRawConfig svid = (listenMode_of tlsServerMode)\<lparr>lm_sourceUnneeded := True, lm_svid := svid\<rparr>"

definition MTLSServer :: "Authorizer \<Rightarrow> ('w, 'src, 'o) listenMode" where
  "MTLSServer authorizer = (listenMode_of mtlsServerMode)\<lparr>lm_authorizer := authorizer\<rparr>"

definition MTLSServerWithSource :: "Authorizer \<Rightarrow> 'src option \<Rightarrow> ('w, 'src, 'o) listenMode" where
  "MTLSServerWithSource authorizer source = (listenMode_of mtlsServerMode)\<lparr>lm_authorizer := authorizer, lm_source := source\<rparr>"

definition MTLSServerWithSourceOptions :: "Authorizer \<Rightarrow> 'o list \<Rightarrow> ('w, 'src, 'o) listenMode" where
  "MTLSServerWithSourceOptions authorizer options = (listenMode_of mtlsServerMode)\<lparr>lm_authorizer := authorizer, lm_options := options\<rparr>"

definition MTLSServerWithRawConfig :: "Authorizer \<Rightarrow> 'w svid_source \<Rightarrow> 'w bundle_source option \<Rightarrow> ('w, 'src, 'o) listenMode" where
  "MTLSServerWithRawConfig authorizer svid bundle = (listenMode_of mtlsServerMode)\<lparr>lm_sourceUnneeded := True, lm_authorizer := authorizer, lm_svid := svid, lm_bundle := bundle\<rparr>"

definition MTLSWebServer :: "Authorizer \<Rightarrow> tls_certificate option \<Rightarrow> ('w, 'src, 'o) listenMode" where
  "MTLSWebServer authorizer cert = (listenMode_of mtlsWebServerMode)\<lparr>lm_authorizer := authorizer, lm_cert := cert\<rparr>"

definition MTLSWebServerWithSource :: "Authorizer \<Rightarrow> tls_certificate option \<Rightarrow> 'src option \<Rightarrow> ('w, 'src, 'o) listenMode" where
  "MTLSWebServerWithSource authorizer cert source = (listenMode_of mtlsWebServerMode)\<lparr>lm_authorizer := authorizer, lm_cert := cert, lm_source := source\<rparr>"

definition MTLSWebServerWithSourceOptions :: "Authorizer \<Rightarrow> tls_certificate option \<Rightarrow> 'o list \<Rightarrow> ('w, 'src, 'o) listenMode" where
  "MTLSWebServerWithSourceOptions authorizer cert options = (listenMode_of mtlsWebServerMode)\<lparr>lm_authorizer := authorizer, lm_cert := cert, lm_options := options\<rparr>"

definition MTLSWebServerWithRawConfig :: "Authorizer \<Rightarrow> tls_certificate option \<Rightarrow> 'w bundle_source option \<Rightarrow> ('w, 'src, 'o) listenMode" where
  "MTLSWebServerWithRawConfig authorizer cert bundle = (listenMode_of mtlsWebServerMode)\<lparr>lm_sourceUnneeded := True, lm_authorizer := authorizer, lm_cert := cert, lm_bundle := bundle\<rparr>"

subsection \<open>Options\<close>

record ('w, 'v, 'e, 'x, 'd) dialConfig =
  dc_baseTLSConf :: "('w, 'e, 'x) tls_Config option"
  dc_dialer :: "'d option"
  dc_tlsOptions :: "('v, 'e) Option list"

record ('w, 'v, 'e, 'x) listenConfig =
  lc_baseTLSConf :: "('w, 'e, 'x) tls_Config option"
  lc_tlsOptions :: "('v, 'e) Option list"

type_synonym ('w, 'v, 'e, 'x, 'd) DialOption =
  "('w, 'v, 'e, 'x, 'd) dialConfig \<Rightarrow> ('w, 'v, 'e, 'x, 'd) dialConfig"
type_synonym ('w, 'v, 'e, 'x) ListenOption = "('w, 'v, 'e, 'x) listenConfig \<Rightarrow> ('w, 'v, 'e, 'x) listenConfig"

definition WithDialTLSConfigBase :: "('w, 'e, 'x) tls_Config option \<Rightarrow> ('w, 'v, 'e, 'x, 'd) DialOption" where
  "WithDialTLSConfigBase conf c = c\<lparr>dc_baseTLSConf := conf\<rparr>"

definition WithDialTLSOptions :: "('v, 'e) Option list \<Rightarrow> ('w, 'v, 'e, 'x, 'd) DialOption" where
  "WithDialTLSOptions opts c = c\<lparr>dc_tlsOptions := opts\<rparr>"

definition WithDialer :: "'d option \<Rightarrow> ('w, 'v, 'e, 'x, 'd) DialOption" where
  "WithDialer dialer c = c\<lparr>dc_dialer := dialer\<rparr>"

definition WithListenTLSConfigBase :: "('w, 'e, 'x) tls_Config option \<Rightarrow> ('w, 'v, 'e, 'x) ListenOption" where
  "WithListenTLSConfigBase conf c = c\<lparr>lc_baseTLSConf := conf\<rparr>"

definition WithListenTLSOptions :: "('v, 'e) Option list \<Rightarrow> ('w, 'v, 'e, 'x) ListenOption" where
  "WithListenTLSOptions opts c = c\<lparr>lc_tlsOptions := opts\<rparr>"

subsection \<open>Dialing\<close>

record ('w, 'src, 'o, 'd, 'e, 'x, 'conn, 'l) tls_env =
  te_charset :: charset
  te_NewX509Source :: "'o list \<Rightarrow> 'src res"
  te_deref :: "'w \<Rightarrow> 'src \<Rightarrow> X509Source"
  te_zero :: 'x
  te_DialWithDialer :: "'d \<Rightarrow> string \<Rightarrow> string \<Rightarrow> ('w, 'e, 'x) tls_Config \<Rightarrow> 'conn res"
  te_Dial :: "string \<Rightarrow> string \<Rightarrow> ('w, 'e, 'x) tls_Config \<Rightarrow> 'conn res"
  te_Listen :: "string \<Rightarrow> string \<Rightarrow> 'l res"

record ('m, 'src, 'w, 'e, 'x, 'r) outcome =
  out_mode :: 'm
  out_created :: "'src option"
  out_closed :: "'src list"
  out_config :: "('w, 'e, 'x) tls_Config option"
  out_result :: "'r res"

text \<open>The source in use, if one is needed, and the source to close, if it was created here.\<close>

definition open_source ::
  "('w, 'src, 'o, 'd, 'e, 'x, 'conn, 'l) tls_env \<Rightarrow> bool \<Rightarrow> 'src option \<Rightarrow> 'o list \<Rightarrow> ('src option \<times> 'src option) res" where
  "open_source env sourceUnneeded source options =
     (if sourceUnneeded then Ok (None, None)
      else case source of
          Some s \<Rightarrow> Ok (Some s, None)
        | None \<Rightarrow> bind_res (map_err (\<lambda>err. wrapSpiffetlsErr (Wrap ''cannot create X.509 source: %w'' [] err))
            (te_NewX509Source env options)) (\<lambda>s. Ok (Some s, Some s)))"

definition source_bundle :: "('w, 'src, 'o, 'd, 'e, 'x, 'conn, 'l) tls_env \<Rightarrow> 'src \<Rightarrow> 'w bundle_source" where
  "source_bundle env s = (\<lambda>w. X509Source_GetX509BundleForTrustDomain (te_deref env w s))"

definition source_svid :: "('w, 'src, 'o, 'd, 'e, 'x, 'conn, 'l) tls_env \<Rightarrow> 'src \<Rightarrow> 'w svid_source" where
  "source_svid env s = (\<lambda>w. X509Source_GetX509SVID (te_deref env w s))"

record ('conn, 'src) clientConn =
  cc_Conn :: 'conn
  cc_sourceCloser :: "'src option"

text \<open>The two uses of the source, the configuration that the options ask to start from, the \<open>switch\<close>
  over the modes, and the call that connects.\<close>

definition bind_client_source ::
  "('w, 'src, 'o, 'd, 'e, 'x, 'conn, 'l) tls_env \<Rightarrow> 'src option \<Rightarrow> ('w, 'src, 'o) dialMode \<Rightarrow> ('w, 'src, 'o) dialMode" where
  "bind_client_source env source m = (case source of
      None \<Rightarrow> m
    | Some s \<Rightarrow> m\<lparr>dm_bundle := Some (source_bundle env s), dm_svid := source_svid env s\<rparr>)"

definition dial_options :: "('w, 'v, 'e, 'x, 'd) DialOption list \<Rightarrow> ('w, 'v, 'e, 'x, 'd) dialConfig" where
  "dial_options options = fold (\<lambda>option opt. option opt) options
     \<lparr>dc_baseTLSConf = None, dc_dialer = None, dc_tlsOptions = []\<rparr>"

definition base_config :: "'x \<Rightarrow> ('w, 'e, 'x) tls_Config option \<Rightarrow> ('w, 'e, 'x) tls_Config" where
  "base_config zero baseTLSConf = (case baseTLSConf of None \<Rightarrow> newTLSConfig zero | Some conf \<Rightarrow> conf)"

definition hook_client_mode ::
  "charset \<Rightarrow> 't x509_lib \<Rightarrow> ('w, 'src, 'o) dialMode \<Rightarrow> ('v, 'e) Option list \<Rightarrow> ('w, 'e, 'x) tls_Config \<Rightarrow>
   ('w, 'e, 'x) tls_Config res" where
  "hook_client_mode cs lib m tlsOptions tlsConfig =
     (if dm_mode m = tlsClientMode then
        Ok (HookTLSClientConfig cs lib tlsConfig (dm_bundle m) (dm_authorizer m))
      else if dm_mode m = mtlsClientMode then
        Ok (HookMTLSClientConfig cs lib tlsConfig (dm_svid m) (dm_bundle m) (dm_authorizer m) tlsOptions)
      else if dm_mode m = mtlsWebClientMode then
        Ok (HookMTLSWebClientConfig tlsConfig (dm_svid m) (dm_roots m) tlsOptions)
      else Err (wrapSpiffetlsErr (Errorf ''unknown client mode: %v'' [itoa (nat (dm_mode m))])))"

definition tls_Dial ::
  "('w, 'src, 'o, 'd, 'e, 'x, 'conn, 'l) tls_env \<Rightarrow> 'd option \<Rightarrow> string \<Rightarrow> string \<Rightarrow> ('w, 'e, 'x) tls_Config \<Rightarrow> 'conn res" where
  "tls_Dial env dialer network addr tlsConfig =
     map_err (\<lambda>err. wrapSpiffetlsErr (Wrap ''unable to dial: %w'' [] err))
       (case dialer of Some d \<Rightarrow> te_DialWithDialer env d network addr tlsConfig
        | None \<Rightarrow> te_Dial env network addr tlsConfig)"

text \<open>The deferred function: a source that was created is closed when the function returns an error.\<close>

definition close_on_error :: "'src option \<Rightarrow> 'r res \<Rightarrow> 'src list" where
  "close_on_error sourceCloser r = (case r of
      Err _ \<Rightarrow> (case sourceCloser of None \<Rightarrow> [] | Some s \<Rightarrow> [s])
    | _ \<Rightarrow> [])"

definition DialWithMode where
  "DialWithMode env lib network addr m options =
     (case open_source env (dm_sourceUnneeded m) (dm_source m) (dm_options m) of
        Err e \<Rightarrow> \<lparr>out_mode = m, out_created = None, out_closed = [], out_config = None, out_result = Err e\<rparr>
      | Panic e \<Rightarrow> \<lparr>out_mode = m, out_created = None, out_closed = [], out_config = None, out_result = Panic e\<rparr>
      | Ok (source, sourceCloser) \<Rightarrow>
          let m = bind_client_source env source m;
              opt = dial_options options;
              hooked = hook_client_mode (te_charset env) lib m (dc_tlsOptions opt)
                (base_config (te_zero env) (dc_baseTLSConf opt));
              conn = bind_res hooked (tls_Dial env (dc_dialer opt) network addr);
              result = bind_res conn (\<lambda>conn. Ok \<lparr>cc_Conn = conn, cc_sourceCloser = sourceCloser\<rparr>)
          in \<lparr>out_mode = m, out_created = sourceCloser, out_closed = close_on_error sourceCloser result,
              out_config = (case hooked of Ok config \<Rightarrow> Some config | _ \<Rightarrow> None), out_result = result\<rparr>)"

definition Dial where
  "Dial env lib network addr authorizer options = DialWithMode env lib network addr (MTLSClient authorizer) options"

text \<open>What closing the source and the TLS connection return are arguments. The result is what was
  closed, source first, and the error.\<close>

datatype ('src, 'c) closing = Source_closed 'src | Conn_closed 'c

definition close_group :: "'src option \<Rightarrow> 'c \<Rightarrow> error option \<Rightarrow> error option \<Rightarrow> ('src, 'c) closing list \<times> error option" where
  "close_group sourceCloser conn source_err conn_err =
     (let group = (case sourceCloser of None \<Rightarrow> [] | Some _ \<Rightarrow> [source_err]);
          group = (case conn_err of None \<Rightarrow> group
                   | Some err \<Rightarrow> group @ [Some (wrapSpiffetlsErr (Wrap ''unable to close TLS connection: %w'' [] err))])
      in ((case sourceCloser of None \<Rightarrow> [] | Some s \<Rightarrow> [Source_closed s]) @ [Conn_closed conn], errors_Join group))"

definition clientConn_Close where
  "clientConn_Close c source_err conn_err = close_group (cc_sourceCloser c) (cc_Conn c) source_err conn_err"

text \<open>The connection state is the list of peer certificates.\<close>

definition clientConn_PeerID :: "charset \<Rightarrow> certificate list \<Rightarrow> ID res" where
  "clientConn_PeerID cs connectionState = PeerIDFromConnectionState cs connectionState"

subsection \<open>Listening\<close>

record ('l, 'src, 'w, 'e, 'x) listener =
  ls_inner :: "'l \<times> ('w, 'e, 'x) tls_Config"
  ls_sourceCloser :: "'src option"

definition bind_server_source ::
  "('w, 'src, 'o, 'd, 'e, 'x, 'conn, 'l) tls_env \<Rightarrow> 'src option \<Rightarrow> ('w, 'src, 'o) listenMode \<Rightarrow> ('w, 'src, 'o) listenMode" where
  "bind_server_source env source m = (case source of
      None \<Rightarrow> m
    | Some s \<Rightarrow> m\<lparr>lm_bundle := Some (source_bundle env s), lm_svid := source_svid env s\<rparr>)"

definition listen_options :: "('w, 'v, 'e, 'x) ListenOption list \<Rightarrow> ('w, 'v, 'e, 'x) listenConfig" where
  "listen_options options = fold (\<lambda>option opt. option opt) options \<lparr>lc_baseTLSConf = None, lc_tlsOptions = []\<rparr>"

definition hook_server_mode ::
  "charset \<Rightarrow> 't x509_lib \<Rightarrow> ('w, 'src, 'o) listenMode \<Rightarrow> ('v, 'e) Option list \<Rightarrow> ('w, 'e, 'x) tls_Config \<Rightarrow>
   ('w, 'e, 'x) tls_Config res" where
  "hook_server_mode cs lib m tlsOptions tlsConfig =
     (if lm_mode m = tlsServerMode then Ok (HookTLSServerConfig tlsConfig (lm_svid m) tlsOptions)
      else if lm_mode m = mtlsServerMode then
        Ok (HookMTLSServerConfig cs lib tlsConfig (lm_svid m) (lm_bundle m) (lm_authorizer m) tlsOptions)
      else if lm_mode m = mtlsWebServerMode then
        HookMTLSWebServerConfig cs lib tlsConfig (lm_cert m) (lm_bundle m) (lm_authorizer m)
      else Err (wrapSpiffetlsErr (Errorf ''unknown server mode: %v'' [itoa (nat (lm_mode m))])))"

definition NewListenerWithMode where
  "NewListenerWithMode env lib inner m options =
     (case open_source env (lm_sourceUnneeded m) (lm_source m) (lm_options m) of
        Err e \<Rightarrow> \<lparr>out_mode = m, out_created = None, out_closed = [], out_config = None, out_result = Err e\<rparr>
      | Panic e \<Rightarrow> \<lparr>out_mode = m, out_created = None, out_closed = [], out_config = None, out_result = Panic e\<rparr>
      | Ok (source, sourceCloser) \<Rightarrow>
          let m = bind_server_source env source m;
              opt = listen_options options;
              hooked = hook_server_mode (te_charset env) lib m (lc_tlsOptions opt)
                (base_config (te_zero env) (lc_baseTLSConf opt));
              result = bind_res hooked (\<lambda>tlsConfig. Ok \<lparr>ls_inner = (inner, tlsConfig), ls_sourceCloser = sourceCloser\<rparr>)
          in \<lparr>out_mode = m, out_created = sourceCloser, out_closed = close_on_error sourceCloser result,
              out_config = (case hooked of Ok config \<Rightarrow> Some config | _ \<Rightarrow> None), out_result = result\<rparr>)"

definition NewListener where
  "NewListener env lib inner authorizer options = NewListenerWithMode env lib inner (MTLSServer authorizer) options"

text \<open>The second component: the inner listeners that were opened and closed again.\<close>

definition ListenWithMode where
  "ListenWithMode env lib network laddr m options =
     (case te_Listen env network laddr of
        Err e \<Rightarrow> (\<lparr>out_mode = m, out_created = None, out_closed = [], out_config = None, out_result = Err e\<rparr>, [])
      | Panic e \<Rightarrow> (\<lparr>out_mode = m, out_created = None, out_closed = [], out_config = None, out_result = Panic e\<rparr>, [])
      | Ok inner \<Rightarrow>
          (let l = NewListenerWithMode env lib inner m options
           in (l, case out_result l of Err _ \<Rightarrow> [inner] | _ \<Rightarrow> [])))"

definition Listen where
  "Listen env lib network laddr authorizer options = ListenWithMode env lib network laddr (MTLSServer authorizer) options"

text \<open>What the inner listener accepts: a TLS connection, or something else of a named type; the flag
  says whether the connection was closed.\<close>

datatype 'conn accepted = TLS_Conn 'conn | Other_Conn string 'conn

definition listener_Accept :: "'conn accepted res \<Rightarrow> 'conn res \<times> bool" where
  "listener_Accept accept =
     (case accept of
        Err e \<Rightarrow> (Err e, False)
      | Panic e \<Rightarrow> (Panic e, False)
      | Ok (Other_Conn t conn) \<Rightarrow>
          (Err (wrapSpiffetlsErr (Errorf ''unexpected conn type %T returned by TLS listener'' [t])), True)
      | Ok (TLS_Conn tlsConn) \<Rightarrow> (Ok tlsConn, False))"

definition listener_Addr :: "('l \<Rightarrow> 'a) \<Rightarrow> ('l, 'src, 'w, 'e, 'x) listener \<Rightarrow> 'a" where
  "listener_Addr inner_addr l = inner_addr (fst (ls_inner l))"

definition listener_Close where
  "listener_Close l source_err inner_err = close_group (ls_sourceCloser l) (fst (ls_inner l)) source_err inner_err"

definition serverConn_PeerID :: "charset \<Rightarrow> certificate list \<Rightarrow> ID res" where
  "serverConn_PeerID cs connectionState = PeerIDFromConnectionState cs connectionState"

section \<open>Lemmas\<close>

lemmas mode_numbers = tlsClientMode_def mtlsClientMode_def mtlsWebClientMode_def
  tlsServerMode_def mtlsServerMode_def mtlsWebServerMode_def

lemmas dial_mode_defs = dialMode_of_def TLSClient_def TLSClientWithSource_def TLSClientWithSourceOptions_def
  TLSClientWithRawConfig_def MTLSClient_def MTLSClientWithSource_def MTLSClientWithSourceOptions_def
  MTLSClientWithRawConfig_def MTLSWebClient_def MTLSWebClientWithSource_def
  MTLSWebClientWithSourceOptions_def MTLSWebClientWithRawConfig_def

lemmas listen_mode_defs = listenMode_of_def MTLSServer_def MTLSServerWithSource_def
  MTLSServerWithSourceOptions_def MTLSServerWithRawConfig_def MTLSWebServer_def MTLSWebServerWithSource_def
  MTLSWebServerWithSourceOptions_def MTLSWebServerWithRawConfig_def

text \<open>The modes that authenticate a SPIFFE peer with an authorizer.\<close>

definition spiffe_client_mode :: "Authorizer \<Rightarrow> ('w, 'src, 'o) dialMode \<Rightarrow> bool" where
  "spiffe_client_mode auth m \<longleftrightarrow>
     m = TLSClient auth \<or> (\<exists>s. m = TLSClientWithSource auth s) \<or> (\<exists>os. m = TLSClientWithSourceOptions auth os) \<or>
     (\<exists>b. m = TLSClientWithRawConfig auth b) \<or>
     m = MTLSClient auth \<or> (\<exists>s. m = MTLSClientWithSource auth s) \<or> (\<exists>os. m = MTLSClientWithSourceOptions auth os) \<or>
     (\<exists>sv b. m = MTLSClientWithRawConfig auth sv b)"

definition spiffe_server_mode :: "Authorizer \<Rightarrow> ('w, 'src, 'o) listenMode \<Rightarrow> bool" where
  "spiffe_server_mode auth m \<longleftrightarrow>
     m = MTLSServer auth \<or> (\<exists>s. m = MTLSServerWithSource auth s) \<or> (\<exists>os. m = MTLSServerWithSourceOptions auth os) \<or>
     (\<exists>sv b. m = MTLSServerWithRawConfig auth sv b) \<or>
     (\<exists>c. m = MTLSWebServer auth c) \<or> (\<exists>c s. m = MTLSWebServerWithSource auth c s) \<or>
     (\<exists>c os. m = MTLSWebServerWithSourceOptions auth c os) \<or> (\<exists>c b. m = MTLSWebServerWithRawConfig auth c b)"

definition web_client_mode :: "CertPool option \<Rightarrow> ('w, 'src, 'o) dialMode \<Rightarrow> bool" where
  "web_client_mode roots m \<longleftrightarrow>
     m = MTLSWebClient roots \<or> (\<exists>s. m = MTLSWebClientWithSource roots s) \<or>
     (\<exists>os. m = MTLSWebClientWithSourceOptions roots os) \<or> (\<exists>sv. m = MTLSWebClientWithRawConfig roots sv)"

lemma spiffe_client_modeD:
  "spiffe_client_mode auth m \<Longrightarrow> dm_authorizer m = auth \<and> (dm_mode m = tlsClientMode \<or> dm_mode m = mtlsClientMode)"
  by (auto simp: spiffe_client_mode_def dial_mode_defs)

lemma web_client_modeD: "web_client_mode roots m \<Longrightarrow> dm_roots m = roots \<and> dm_mode m = mtlsWebClientMode"
  by (auto simp: web_client_mode_def dial_mode_defs)

lemma spiffe_server_modeD:
  "spiffe_server_mode auth m \<Longrightarrow> lm_authorizer m = auth \<and> (lm_mode m = mtlsServerMode \<or> lm_mode m = mtlsWebServerMode)"
  by (auto simp: spiffe_server_mode_def listen_mode_defs)

lemma bind_client_source_keeps [simp]:
  "dm_mode (bind_client_source env source m) = dm_mode m"
  "dm_authorizer (bind_client_source env source m) = dm_authorizer m"
  "dm_roots (bind_client_source env source m) = dm_roots m"
  by (simp_all add: bind_client_source_def split: option.splits)

lemma bind_server_source_keeps [simp]:
  "lm_mode (bind_server_source env source m) = lm_mode m"
  "lm_authorizer (bind_server_source env source m) = lm_authorizer m"
  by (simp_all add: bind_server_source_def split: option.splits)

lemma hook_client_mode_admits:
  assumes "hook_client_mode cs lib m opts conf = Ok config" "dm_mode m = tlsClientMode \<or> dm_mode m = mtlsClientMode"
  shows "cfg_VerifyPeerCertificate config =
      Some (WrapVerifyPeerCertificate cs lib (cfg_VerifyPeerCertificate conf) (dm_bundle m) (dm_authorizer m))"
    and "client_admits std config w raw \<longleftrightarrow> spiffe_peer cs lib (dm_bundle m) (dm_authorizer m) conf w raw"
proof -
  have h: "hooked_client cs lib conf (dm_bundle m) (dm_authorizer m) config"
    using assms Hook_hooked(1,2) by (auto simp: hook_client_mode_def mode_numbers)
  then show "cfg_VerifyPeerCertificate config =
      Some (WrapVerifyPeerCertificate cs lib (cfg_VerifyPeerCertificate conf) (dm_bundle m) (dm_authorizer m))"
    by (simp add: hooked_client_def)
  show "client_admits std config w raw \<longleftrightarrow> spiffe_peer cs lib (dm_bundle m) (dm_authorizer m) conf w raw"
    using h by (rule hooked_client_admits)
qed

lemma hook_server_mode_admits:
  assumes "hook_server_mode cs lib m opts conf = Ok config" "lm_mode m = mtlsServerMode \<or> lm_mode m = mtlsWebServerMode"
  shows "server_admits std config hello w raw \<longleftrightarrow> (case config_for conf w hello of
      Ok None \<Rightarrow> spiffe_peer cs lib (lm_bundle m) (lm_authorizer m) conf w raw
    | Ok (Some other) \<Rightarrow> admits_client std other w raw
    | _ \<Rightarrow> False)"
proof -
  have "hooked_server cs lib conf (lm_bundle m) (lm_authorizer m) config"
    using assms Hook_hooked(3,4) by (auto simp: hook_server_mode_def mode_numbers)
  then show ?thesis by (rule hooked_server_admits)
qed

lemma hook_mode_presents:
  "hook_client_mode cs lib m opts conf = Ok config \<Longrightarrow> dm_mode m = mtlsClientMode \<Longrightarrow>
     cfg_GetClientCertificate config = Some (\<lambda>w. getTLSCertificate (dm_svid m w) (opt_trace (newOptions opts)))"
  "hook_server_mode cs lib m' opts conf = Ok config \<Longrightarrow> lm_mode m' = mtlsServerMode \<Longrightarrow>
     cfg_GetCertificate config = Some (\<lambda>w. getTLSCertificate (lm_svid m' w) (opt_trace (newOptions opts)))"
  by (auto simp: hook_client_mode_def hook_server_mode_def mode_numbers HookMTLSClientConfig_def HookMTLSServerConfig_def
      GetCertificate_def GetClientCertificate_def Let_def)

lemma hook_client_mode_web:
  assumes "hook_client_mode cs lib m opts conf = Ok config" "dm_mode m = mtlsWebClientMode"
  shows "cfg_RootCAs config = dm_roots m \<and> \<not> cfg_InsecureSkipVerify config"
  using assms by (auto simp: hook_client_mode_def mode_numbers HookMTLSWebClientConfig_def resetAuthFields_def Let_def)

lemma open_source_Ok:
  "open_source env unneeded source options = Ok (used, closer) \<longleftrightarrow>
     (if unneeded then used = None \<and> closer = None
      else case source of Some s \<Rightarrow> used = Some s \<and> closer = None
        | None \<Rightarrow> closer = used \<and> (\<exists>s. te_NewX509Source env options = Ok s \<and> used = Some s))"
  by (auto simp: open_source_def split: option.splits)

lemma DialWithMode_result:
  assumes "out_result (DialWithMode env lib network addr m options) = Ok c"
  obtains source closer config where
    "open_source env (dm_sourceUnneeded m) (dm_source m) (dm_options m) = Ok (source, closer)"
    "hook_client_mode (te_charset env) lib (bind_client_source env source m) (dc_tlsOptions (dial_options options))
       (base_config (te_zero env) (dc_baseTLSConf (dial_options options))) = Ok config"
    "out_config (DialWithMode env lib network addr m options) = Some config"
    "tls_Dial env (dc_dialer (dial_options options)) network addr config = Ok (cc_Conn c)"
    "cc_sourceCloser c = closer"
    "out_mode (DialWithMode env lib network addr m options) = bind_client_source env source m"
  using assms by (auto simp: DialWithMode_def Let_def split: res.splits)

lemma DialWithMode_config:
  assumes "out_config (DialWithMode env lib network addr m options) = Some config"
  shows "\<exists>source. hook_client_mode (te_charset env) lib (bind_client_source env source m) (dc_tlsOptions (dial_options options))
       (base_config (te_zero env) (dc_baseTLSConf (dial_options options))) = Ok config"
  using assms by (auto simp: DialWithMode_def Let_def split: res.splits)

lemma dial_config_admits:
  assumes "out_config (DialWithMode env lib network addr m options) = Some config" "spiffe_client_mode auth m"
  defines "conf \<equiv> base_config (te_zero env) (dc_baseTLSConf (dial_options options))"
  shows "\<exists>b. cfg_VerifyPeerCertificate config =
      Some (WrapVerifyPeerCertificate (te_charset env) lib (cfg_VerifyPeerCertificate conf) b auth) \<and>
    (\<forall>std w raw. client_admits std config w raw \<longleftrightarrow> spiffe_peer (te_charset env) lib b auth conf w raw)"
proof -
  obtain source where h: "hook_client_mode (te_charset env) lib (bind_client_source env source m) (dc_tlsOptions (dial_options options))
       (base_config (te_zero env) (dc_baseTLSConf (dial_options options))) = Ok config"
    using DialWithMode_config [OF assms(1)] by blast
  show ?thesis
    using hook_client_mode_admits [OF h] spiffe_client_modeD [OF assms(2)] unfolding conf_def by auto
qed

lemma NewListenerWithMode_result:
  assumes "out_result (NewListenerWithMode env lib inner m options) = Ok l"
  obtains source closer config where
    "open_source env (lm_sourceUnneeded m) (lm_source m) (lm_options m) = Ok (source, closer)"
    "hook_server_mode (te_charset env) lib (bind_server_source env source m) (lc_tlsOptions (listen_options options))
       (base_config (te_zero env) (lc_baseTLSConf (listen_options options))) = Ok config"
    "l = \<lparr>ls_inner = (inner, config), ls_sourceCloser = closer\<rparr>"
    "out_mode (NewListenerWithMode env lib inner m options) = bind_server_source env source m"
  using assms by (auto simp: NewListenerWithMode_def Let_def split: res.splits)

definition opt_list :: "'a option \<Rightarrow> 'a list" where
  "opt_list x = (case x of None \<Rightarrow> [] | Some y \<Rightarrow> [y])"

lemma close_on_error_simps [simp]:
  "close_on_error s (Ok x) = []" "close_on_error s (Err e) = opt_list s" "close_on_error s (Panic e) = []"
  by (simp_all add: close_on_error_def opt_list_def)

lemma close_group_snd: "snd (close_group s c e1 e2) = None \<longleftrightarrow> (s = None \<or> e1 = None) \<and> e2 = None"
  by (auto simp: close_group_def errors_Join_def List.map_filter_def Let_def split: option.splits list.splits)

lemma close_group_fst: "fst (close_group s c e1 e2) = map Source_closed (opt_list s) @ [Conn_closed c]"
  by (simp add: close_group_def opt_list_def Let_def split: option.splits)

text \<open>What \<open>DialWithMode\<close> and \<open>NewListenerWithMode\<close> do with the source they create.\<close>

definition dial_accounted where
  "dial_accounted d \<longleftrightarrow> (case out_result d of
      Ok c \<Rightarrow> cc_sourceCloser c = out_created d \<and> out_closed d = [] \<and>
        (\<forall>e1 e2. fst (clientConn_Close c e1 e2) = map Source_closed (opt_list (out_created d)) @ [Conn_closed (cc_Conn c)] \<and>
          (snd (clientConn_Close c e1 e2) = None \<longleftrightarrow> (out_created d = None \<or> e1 = None) \<and> e2 = None))
    | Err e \<Rightarrow> out_closed d = opt_list (out_created d)
    | Panic e \<Rightarrow> out_closed d = [])"

definition listen_accounted where
  "listen_accounted inner l \<longleftrightarrow> (case out_result l of
      Ok c \<Rightarrow> ls_sourceCloser c = out_created l \<and> out_closed l = [] \<and>
        (\<forall>e1 e2. fst (listener_Close c e1 e2) = map Source_closed (opt_list (out_created l)) @ [Conn_closed inner] \<and>
          (snd (listener_Close c e1 e2) = None \<longleftrightarrow> (out_created l = None \<or> e1 = None) \<and> e2 = None))
    | Err e \<Rightarrow> out_closed l = opt_list (out_created l)
    | Panic e \<Rightarrow> out_closed l = [])"

lemma DialWithMode_accounted: "dial_accounted (DialWithMode env lib network addr m options)"
  by (auto simp: dial_accounted_def DialWithMode_def Let_def opt_list_def [of None]
      clientConn_Close_def close_group_fst close_group_snd split: res.splits prod.splits)

lemma NewListenerWithMode_accounted: "listen_accounted inner (NewListenerWithMode env lib inner m options)"
  by (auto simp: listen_accounted_def NewListenerWithMode_def Let_def opt_list_def [of None]
      listener_Close_def close_group_fst close_group_snd split: res.splits prod.splits)

lemma out_created_eq:
  "out_created (DialWithMode env lib network addr dm dopts) =
     (case open_source env (dm_sourceUnneeded dm) (dm_source dm) (dm_options dm) of Ok p \<Rightarrow> snd p | _ \<Rightarrow> None)"
  "out_created (NewListenerWithMode env lib inner lm lopts) =
     (case open_source env (lm_sourceUnneeded lm) (lm_source lm) (lm_options lm) of Ok p \<Rightarrow> snd p | _ \<Rightarrow> None)"
  by (simp_all add: DialWithMode_def NewListenerWithMode_def Let_def split: res.splits prod.splits)

subsection \<open>Examples\<close>

definition ex_env :: "(nat, nat, nat, nat, nat, unit, nat, nat) tls_env" where
  "ex_env = \<lparr>te_charset = Backcompat_Deny, te_NewX509Source = (\<lambda>_. Ok 0),
     te_deref = (\<lambda>_ _. (X509Source_new None)\<lparr>xsrc_bundles := Some (x509bundle_NewSet [Some ex_bundle])\<rparr>),
     te_zero = (),
     te_DialWithDialer = (\<lambda>_ _ _ _. Ok 7), te_Dial = (\<lambda>_ _ _. Ok 7), te_Listen = (\<lambda>_ _. Ok 3)\<rparr>"

definition ex_auth :: Authorizer where
  "ex_auth = AuthorizeID (mk_ID ''td'' ''/w'')"

lemma ex_dial:
  "out_result (DialWithMode ex_env ex_lib ''tcp'' ''a'' (TLSClient ex_auth) ([] :: (nat, nat, nat, unit, nat) DialOption list)) =
     Ok \<lparr>cc_Conn = 7, cc_sourceCloser = Some 0\<rparr>"
  by (simp add: DialWithMode_def open_source_def TLSClient_def dialMode_of_def ex_env_def Let_def
      hook_client_mode_def tls_Dial_def dial_options_def)

lemma ex_listen:
  "\<exists>config. out_result (NewListenerWithMode ex_env ex_lib 3 (MTLSServer ex_auth) ([] :: (nat, nat, nat, unit) ListenOption list)) =
     Ok \<lparr>ls_inner = (3, config), ls_sourceCloser = Some 0\<rparr>"
  by (simp add: NewListenerWithMode_def open_source_def MTLSServer_def listenMode_of_def ex_env_def Let_def
      hook_server_mode_def mode_numbers)

lemma ex_dial_config:
  "\<exists>config. out_config (DialWithMode ex_env ex_lib ''tcp'' ''a'' (TLSClient auth)
     [WithDialTLSConfigBase conf :: (nat, nat, nat, unit, nat) DialOption]) = Some config"
  by (simp add: DialWithMode_def open_source_def TLSClient_def dialMode_of_def ex_env_def Let_def
      hook_client_mode_def)

section \<open>Properties\<close>

text \<open>
  C32: Who a dialed connection authenticates. The connection was made with a configuration that,
  for the eight modes with an authorizer, admits exactly the servers that verify against the
  bundle source of the mode (the raw source given, else the X509Source given, else the one
  created), whose ID the authorizer accepts, and that the callbacks of the base configuration
  (\<open>VerifyPeerCertificate\<close> and \<open>VerifyConnection\<close>) accept; for the four web modes it admits no server that the roots do not verify.
\<close>
theorem dial_authenticates:
  assumes "out_result (DialWithMode env lib network addr m options) = Ok c"
  shows "\<exists>config source.
    open_source env (dm_sourceUnneeded m) (dm_source m) (dm_options m) = Ok (source, cc_sourceCloser c) \<and>
    tls_Dial env (dc_dialer (dial_options options)) network addr config = Ok (cc_Conn c) \<and>
    (spiffe_client_mode auth m \<longrightarrow> (\<forall>std w raw. client_admits std config w raw \<longleftrightarrow>
       spiffe_peer (te_charset env) lib (case source of Some s \<Rightarrow> Some (source_bundle env s) | None \<Rightarrow> dm_bundle m) auth
         (base_config (te_zero env) (dc_baseTLSConf (dial_options options))) w raw)) \<and>
    (web_client_mode roots m \<longrightarrow> (\<forall>std w raw. client_admits std config w raw \<longrightarrow> std roots raw \<noteq> None))"
proof -
  obtain source closer config where r:
      "open_source env (dm_sourceUnneeded m) (dm_source m) (dm_options m) = Ok (source, closer)"
      "hook_client_mode (te_charset env) lib (bind_client_source env source m) (dc_tlsOptions (dial_options options))
         (base_config (te_zero env) (dc_baseTLSConf (dial_options options))) = Ok config"
      "tls_Dial env (dc_dialer (dial_options options)) network addr config = Ok (cc_Conn c)" "cc_sourceCloser c = closer"
    using assms by (rule DialWithMode_result)
  have "dm_bundle (bind_client_source env source m) =
      (case source of Some s \<Rightarrow> Some (source_bundle env s) | None \<Rightarrow> dm_bundle m)"
    by (simp add: bind_client_source_def split: option.splits)
  then have "client_admits std config w raw \<longleftrightarrow>
       spiffe_peer (te_charset env) lib (case source of Some s \<Rightarrow> Some (source_bundle env s) | None \<Rightarrow> dm_bundle m) auth
         (base_config (te_zero env) (dc_baseTLSConf (dial_options options))) w raw"
    if "spiffe_client_mode auth m" for std w raw
    using hook_client_mode_admits(2) [OF r(2)] spiffe_client_modeD [OF that] by simp
  moreover have "std roots raw \<noteq> None" if "web_client_mode roots m" "client_admits std config w raw" for std w raw
    using hook_client_mode_web [OF r(2)] web_client_modeD [OF that(1)] that(2)
    by (auto simp: client_admits_def verified_callbacks_def split: option.splits)
  ultimately show ?thesis using r by blast
qed

theorem dial_authenticates_witness:
  "\<exists>config :: (nat, nat, unit) tls_Config. \<forall>w raw. client_admits (\<lambda>_ _. None) config w raw \<longleftrightarrow>
     spiffe_peer Backcompat_Deny ex_lib (Some (source_bundle ex_env 0)) ex_auth (newTLSConfig () :: (nat, nat, unit) tls_Config) w raw"
proof -
  have m: "spiffe_client_mode ex_auth (TLSClient ex_auth :: (nat, nat, nat) dialMode)"
    by (simp add: spiffe_client_mode_def)
  obtain config :: "(nat, nat, unit) tls_Config" and source where c: "open_source ex_env False None [] = Ok (source, Some 0)"
      "\<forall>std w raw. client_admits std config w raw \<longleftrightarrow> spiffe_peer (te_charset ex_env) ex_lib
         (case source of Some s \<Rightarrow> Some (source_bundle ex_env s) | None \<Rightarrow> dm_bundle (TLSClient ex_auth :: (nat, nat, nat) dialMode)) ex_auth
         (base_config (te_zero ex_env) (dc_baseTLSConf (dial_options
           ([] :: (nat, nat, nat, unit, nat) DialOption list)))) w raw"
    using dial_authenticates [OF ex_dial, of ex_auth] m
    by (simp add: TLSClient_def dialMode_of_def) blast
  then have "source = Some 0" by (simp add: open_source_Ok)
  then show ?thesis using c(2)
    by (intro exI [of _ config]) (simp add: ex_env_def dial_options_def base_config_def)
qed

text \<open>
  C33: Who a listener authenticates. A listener made with one of the eight modes that have an
  authorizer hands its connections a configuration that admits exactly the clients that verify
  against the bundle source of the mode, whose ID the authorizer accepts, and that the
  callbacks of the base configuration (\<open>VerifyPeerCertificate\<close> and \<open>VerifyConnection\<close>) accept -- unless
  the \<open>GetConfigForClient\<close> of the base configuration, which hooking keeps, takes the handshake over:
  then the configuration it gives decides alone, and nobody is admitted if it fails.
\<close>
theorem listen_authenticates:
  fixes options
  assumes "out_result (NewListenerWithMode env lib inner m options) = Ok l" "spiffe_server_mode auth m"
  defines "conf \<equiv> base_config (te_zero env) (lc_baseTLSConf (listen_options options))"
  shows "\<exists>source. open_source env (lm_sourceUnneeded m) (lm_source m) (lm_options m) = Ok (source, ls_sourceCloser l) \<and>
    fst (ls_inner l) = inner \<and>
    (\<forall>std hello w raw. server_admits std (snd (ls_inner l)) hello w raw \<longleftrightarrow>
       (case config_for conf w hello of
          Ok None \<Rightarrow> spiffe_peer (te_charset env) lib
            (case source of Some s \<Rightarrow> Some (source_bundle env s) | None \<Rightarrow> lm_bundle m) auth conf w raw
        | Ok (Some other) \<Rightarrow> admits_client std other w raw
        | _ \<Rightarrow> False))"
proof -
  obtain source closer config where r:
      "open_source env (lm_sourceUnneeded m) (lm_source m) (lm_options m) = Ok (source, closer)"
      "hook_server_mode (te_charset env) lib (bind_server_source env source m) (lc_tlsOptions (listen_options options))
         conf = Ok config"
      "l = \<lparr>ls_inner = (inner, config), ls_sourceCloser = closer\<rparr>"
    using assms(1) unfolding conf_def by (rule NewListenerWithMode_result)
  have b: "lm_bundle (bind_server_source env source m) =
      (case source of Some s \<Rightarrow> Some (source_bundle env s) | None \<Rightarrow> lm_bundle m)"
    by (simp add: bind_server_source_def split: option.splits)
  have "server_admits std config hello w raw \<longleftrightarrow> (case config_for conf w hello of
       Ok None \<Rightarrow> spiffe_peer (te_charset env) lib
         (case source of Some s \<Rightarrow> Some (source_bundle env s) | None \<Rightarrow> lm_bundle m) auth conf w raw
     | Ok (Some other) \<Rightarrow> admits_client std other w raw
     | _ \<Rightarrow> False)" for std hello w raw
    using hook_server_mode_admits [OF r(2), of std hello w raw] spiffe_server_modeD [OF assms(2)] unfolding b
    by (simp only: bind_server_source_keeps)
  then show ?thesis using r(1,3) by simp
qed

theorem listen_authenticates_witness:
  "\<exists>config :: (nat, nat, unit) tls_Config. \<forall>hello w raw. server_admits (\<lambda>_ _. None) config hello w raw \<longleftrightarrow>
     spiffe_peer Backcompat_Deny ex_lib (Some (source_bundle ex_env 0)) ex_auth (newTLSConfig () :: (nat, nat, unit) tls_Config) w raw"
proof -
  obtain config :: "(nat, nat, unit) tls_Config" where l: "out_result (NewListenerWithMode ex_env ex_lib (3 :: nat) (MTLSServer ex_auth)
      ([] :: (nat, nat, nat, unit) ListenOption list)) = Ok \<lparr>ls_inner = (3, config), ls_sourceCloser = Some 0\<rparr>"
    using ex_listen by blast
  have "spiffe_server_mode ex_auth (MTLSServer ex_auth :: (nat, nat, nat) listenMode)"
    by (simp add: spiffe_server_mode_def)
  from listen_authenticates [OF l this] show ?thesis
    by (intro exI [of _ config])
      (auto simp: open_source_Ok ex_env_def listen_options_def base_config_def MTLSServer_def listenMode_of_def)
qed

text \<open>
  C34: No X509Source is leaked or closed behind its owner's back. A source is created only when
  none was given and one is needed; if the operation fails the created source is closed, if it
  succeeds it belongs to the connection or listener, whose \<open>Close\<close> closes it, once and before
  the connection, and reports an error exactly if one of the two closes fails. A source that
  was given is never closed. A listening socket opened by \<open>ListenWithMode\<close> is closed exactly
  when it returns an error.
\<close>
theorem sources_accounted:
  "dial_accounted (DialWithMode env lib network addr dm dopts) \<and>
   listen_accounted inner (NewListenerWithMode env lib inner lm lopts) \<and>
   (dm_sourceUnneeded dm \<or> dm_source dm \<noteq> None \<longrightarrow> out_created (DialWithMode env lib network addr dm dopts) = None) \<and>
   (lm_sourceUnneeded lm \<or> lm_source lm \<noteq> None \<longrightarrow> out_created (NewListenerWithMode env lib inner lm lopts) = None) \<and>
   (te_Listen env network laddr = Ok inner \<longrightarrow>
      ListenWithMode env lib network laddr lm lopts =
        (NewListenerWithMode env lib inner lm lopts,
         if \<exists>e. out_result (NewListenerWithMode env lib inner lm lopts) = Err e then [inner] else []))"
proof -
  have "dm_sourceUnneeded dm \<or> dm_source dm \<noteq> None \<longrightarrow> out_created (DialWithMode env lib network addr dm dopts) = None"
    "lm_sourceUnneeded lm \<or> lm_source lm \<noteq> None \<longrightarrow> out_created (NewListenerWithMode env lib inner lm lopts) = None"
    by (auto simp: out_created_eq open_source_Ok split: res.splits if_splits)
  moreover have "te_Listen env network laddr = Ok inner \<longrightarrow>
      ListenWithMode env lib network laddr lm lopts =
        (NewListenerWithMode env lib inner lm lopts,
         if \<exists>e. out_result (NewListenerWithMode env lib inner lm lopts) = Err e then [inner] else [])"
    by (simp add: ListenWithMode_def Let_def split: res.splits)
  ultimately show ?thesis
    by (intro conjI DialWithMode_accounted NewListenerWithMode_accounted)
qed

theorem sources_accounted_witness:
  "out_created (DialWithMode ex_env ex_lib ''tcp'' ''a'' (TLSClientWithSource ex_auth (Some 5))
     ([] :: (nat, nat, nat, unit, nat) DialOption list)) = None"
  by (rule sources_accounted [where inner = 3 and lm = TLSServer and lopts = "[] :: (nat, nat, nat, unit) ListenOption list" and
        laddr = "''''", THEN conjunct2, THEN conjunct2, THEN conjunct1, rule_format])
    (simp add: TLSClientWithSource_def)

text \<open>
  A base TLS configuration is good for one dial. \<open>DialWithMode\<close> hooks the caller's object in
  place and wraps the callback it finds there, so that a second dial with the same base and
  another ID to authorize admits no server at all.
\<close>
theorem dial_base_reused:
  assumes "spiffe_client_mode (AuthorizeID i) m1" "spiffe_client_mode (AuthorizeID j) m2" "i \<noteq> j"
    and "out_config (DialWithMode env lib network addr m1 [WithDialTLSConfigBase conf]) = Some conf1"
    and "out_config (DialWithMode env lib network' addr' m2 [WithDialTLSConfigBase (Some conf1)]) = Some conf2"
  shows "\<not> client_admits std conf2 w raw"
proof
  assume a: "client_admits std conf2 w raw"
  obtain b1 b2 where 1: "cfg_VerifyPeerCertificate conf1 =
        Some (WrapVerifyPeerCertificate (te_charset env) lib (cfg_VerifyPeerCertificate (base_config (te_zero env) conf)) b1 (AuthorizeID i))"
      and 2: "spiffe_peer (te_charset env) lib b2 (AuthorizeID j) conf1 w raw"
    using dial_config_admits [OF assms(4,1)] dial_config_admits [OF assms(5,2)] a
    by (auto simp: dial_options_def WithDialTLSConfigBase_def base_config_def)
  obtain src spid chs where p: "peer_ok (te_charset env) lib (src w) (AuthorizeID j) raw spid chs"
      "run_callback (cfg_VerifyPeerCertificate conf1) w raw chs"
    using 2 by (auto simp: spiffe_peer_def accepted_by_def)
  obtain src' spid' chs' where q: "peer_ok (te_charset env) lib (src' w) (AuthorizeID i) raw spid' chs'"
    using p(2) by (cases b1) (auto simp: 1 run_callback_def [of "Some _"] Wrap_Ok_iff Wrap_nil_source)
  have "spid = j" "spid' = i"
    using p(1) q by (auto simp: peer_ok_def AuthorizeID_def AdaptMatcher_def MatchID_None_iff)
  then show False using peer_ok_unique [OF p(1) q] assms(3) by simp
qed

theorem dial_base_reused_witness:
  "\<exists>conf1 conf2. out_config (DialWithMode ex_env ex_lib ''tcp'' ''a'' (TLSClient (AuthorizeID (mk_ID ''td'' ''/w'')))
       [WithDialTLSConfigBase None :: (nat, nat, nat, unit, nat) DialOption]) = Some conf1 \<and>
     out_config (DialWithMode ex_env ex_lib ''tcp'' ''a'' (TLSClient (AuthorizeID (mk_ID ''td'' ''/v'')))
       [WithDialTLSConfigBase (Some conf1) :: (nat, nat, nat, unit, nat) DialOption]) = Some conf2 \<and>
     \<not> client_admits (\<lambda>_ _. None) conf2 0 [''leaf'']"
proof -
  obtain conf1 where 1: "out_config (DialWithMode ex_env ex_lib ''tcp'' ''a'' (TLSClient (AuthorizeID (mk_ID ''td'' ''/w'')))
       [WithDialTLSConfigBase None :: (nat, nat, nat, unit, nat) DialOption]) = Some conf1"
    using ex_dial_config by blast
  obtain conf2 where 2: "out_config (DialWithMode ex_env ex_lib ''tcp'' ''a'' (TLSClient (AuthorizeID (mk_ID ''td'' ''/v'')))
       [WithDialTLSConfigBase (Some conf1) :: (nat, nat, nat, unit, nat) DialOption]) = Some conf2"
    using ex_dial_config by blast
  have m: "spiffe_client_mode (AuthorizeID i) (TLSClient (AuthorizeID i) :: (nat, nat, nat) dialMode)" for i
    by (simp add: spiffe_client_mode_def)
  have "mk_ID ''td'' ''/w'' \<noteq> mk_ID ''td'' ''/v''" by (simp add: mk_ID_inject)
  from dial_base_reused [OF m m this 1 2] 1 2 show ?thesis by blast
qed

end
