(* ===== verification/Grpccredentials.thy ===== *)
theory Grpccredentials
  imports Tlsconfig
begin

text \<open>
  Package \<open>spiffegrpc/grpccredentials\<close>: gRPC transport credentials over the configurations of
  \<open>tlsconfig\<close>, and the wrapper that exposes the SPIFFE ID of the peer. The TLS credentials of
  gRPC are parameters: making them from a configuration, their two handshakes, \<open>Info\<close>, \<open>Clone\<close>
  and \<open>OverrideServerName\<close>.
\<close>

section \<open>Definitions\<close>

text \<open>Authentication information: that of a TLS connection has the peer's SPIFFE ID as a URL
  pointer; the rest of it is opaque.\<close>

datatype 'a AuthInfo = TLSInfo "URL option" 'a | Other_AuthInfo 'a

record ('c, 'conn, 'a, 'i, 'w, 'e, 'x) grpc_credentials =
  gc_NewTLS :: "('w, 'e, 'x) tls_Config \<Rightarrow> 'c"
  gc_ClientHandshake :: "'c \<Rightarrow> string \<Rightarrow> 'conn \<Rightarrow> ('conn \<times> 'a AuthInfo) res"
  gc_ServerHandshake :: "'c \<Rightarrow> 'conn \<Rightarrow> ('conn \<times> 'a AuthInfo) res"
  gc_Info :: "'c \<Rightarrow> 'i"
  gc_Clone :: "'c \<Rightarrow> 'c"
  gc_OverrideServerName :: "'c \<Rightarrow> string \<Rightarrow> 'c \<times> error option"

record 'c credentialsWrapper =
  cw_c :: 'c
  cw_expectPeerID :: bool

record 'a authInfoWrapper =
  aw_AuthInfo :: "'a AuthInfo"
  aw_peerID :: ID

definition TLSClientCredentials where
  "TLSClientCredentials grpc cs lib zero b authorizer =
     \<lparr>cw_c = gc_NewTLS grpc (TLSClientConfig cs lib zero b authorizer), cw_expectPeerID = True\<rparr>"

definition MTLSClientCredentials where
  "MTLSClientCredentials grpc cs lib zero svid b authorizer opts =
     \<lparr>cw_c = gc_NewTLS grpc (MTLSClientConfig cs lib zero svid b authorizer opts), cw_expectPeerID = True\<rparr>"

definition MTLSWebClientCredentials where
  "MTLSWebClientCredentials grpc zero svid roots opts =
     \<lparr>cw_c = gc_NewTLS grpc (MTLSWebClientConfig zero svid roots opts), cw_expectPeerID = False\<rparr>"

definition TLSServerCredentials where
  "TLSServerCredentials grpc zero svid opts =
     \<lparr>cw_c = gc_NewTLS grpc (TLSServerConfig zero svid opts), cw_expectPeerID = False\<rparr>"

definition MTLSServerCredentials where
  "MTLSServerCredentials grpc cs lib zero svid b authorizer opts =
     \<lparr>cw_c = gc_NewTLS grpc (MTLSServerConfig cs lib zero svid b authorizer opts), cw_expectPeerID = True\<rparr>"

definition MTLSWebServerCredentials where
  "MTLSWebServerCredentials grpc cs lib zero cert b authorizer =
     bind_res (MTLSWebServerConfig cs lib zero cert b authorizer) (\<lambda>config.
       Ok \<lparr>cw_c = gc_NewTLS grpc config, cw_expectPeerID = True\<rparr>)"

text \<open>The result of a handshake and whether the connection was closed. The URL of a TLS peer without
  SPIFFE ID is nil and \<open>String\<close> panics on it.\<close>

definition wrapHandshake ::
  "charset \<Rightarrow> 'c credentialsWrapper \<Rightarrow> ('conn \<times> 'a AuthInfo) res \<Rightarrow> ('conn \<times> 'a authInfoWrapper) res \<times> bool" where
  "wrapHandshake cs w handshake =
     (case handshake of
        Err handshakeErr \<Rightarrow> (Err handshakeErr, False)
      | Panic e \<Rightarrow> (Panic e, False)
      | Ok (conn, authInfo) \<Rightarrow>
          (case authInfo of
             TLSInfo spiffeID rest \<Rightarrow>
               (if cw_expectPeerID w then
                  (case spiffeID of
                     None \<Rightarrow> (Panic (New ''nil pointer dereference''), False)
                   | Some u \<Rightarrow>
                       (case FromString cs (URL_String u) of
                          Err err \<Rightarrow> (Err (Wrap ''invalid peer SPIFFE ID: %w'' [] err), True)
                        | Panic e \<Rightarrow> (Panic e, False)
                        | Ok peerID \<Rightarrow> (Ok (conn, \<lparr>aw_AuthInfo = authInfo, aw_peerID = peerID\<rparr>), False)))
                else (Ok (conn, \<lparr>aw_AuthInfo = authInfo, aw_peerID = zero_ID\<rparr>), False))
           | Other_AuthInfo rest \<Rightarrow> (Ok (conn, \<lparr>aw_AuthInfo = authInfo, aw_peerID = zero_ID\<rparr>), False)))"

definition wrapper_ClientHandshake where
  "wrapper_ClientHandshake cs grpc w authority rawConn =
     wrapHandshake cs w (gc_ClientHandshake grpc (cw_c w) authority rawConn)"

definition wrapper_ServerHandshake where
  "wrapper_ServerHandshake cs grpc w rawConn = wrapHandshake cs w (gc_ServerHandshake grpc (cw_c w) rawConn)"

definition wrapper_Info where
  "wrapper_Info grpc w = gc_Info grpc (cw_c w)"

definition wrapper_Clone where
  "wrapper_Clone grpc w = \<lparr>cw_c = gc_Clone grpc (cw_c w), cw_expectPeerID = cw_expectPeerID w\<rparr>"

definition wrapper_OverrideServerName where
  "wrapper_OverrideServerName grpc w serverName =
     (let (c, err) = gc_OverrideServerName grpc (cw_c w) serverName in (w\<lparr>cw_c := c\<rparr>, err))"

definition wrapper_PeerID :: "'a authInfoWrapper \<Rightarrow> ID \<times> bool" where
  "wrapper_PeerID w = (aw_peerID w, \<not> ID_IsZero (aw_peerID w))"

text \<open>The authentication information of a peer: the wrapper of this package or something else.\<close>

definition PeerIDFromPeer :: "'a authInfoWrapper option \<Rightarrow> ID \<times> bool" where
  "PeerIDFromPeer p = (case p of None \<Rightarrow> (zero_ID, False) | Some authInfo \<Rightarrow> wrapper_PeerID authInfo)"

definition PeerIDFromContext :: "'a authInfoWrapper option option \<Rightarrow> ID \<times> bool" where
  "PeerIDFromContext ctx = (case ctx of None \<Rightarrow> (zero_ID, False) | Some p \<Rightarrow> PeerIDFromPeer p)"

section \<open>Lemmas\<close>

text \<open>
  What gRPC documents of its TLS credentials. A handshake succeeds only with a peer that the
  configuration admits (\<open>admits w raw\<close>: for a client or a server); the SPIFFE ID it reports, when
  there is one, is the URI of the peer's leaf certificate.
\<close>

definition reports_leaf ::
  "'t x509_lib \<Rightarrow> ('w \<Rightarrow> string list \<Rightarrow> bool) \<Rightarrow> ('conn \<times> 'a AuthInfo) res \<Rightarrow> bool" where
  "reports_leaf lib admits handshake \<longleftrightarrow>
     (\<forall>conn info. handshake = Ok (conn, info) \<longrightarrow>
        (\<exists>spiffeID rest w raw leaf. info = TLSInfo spiffeID rest \<and> admits w raw \<and> raw \<noteq> [] \<and>
           lib_ParseCertificate lib (hd raw) = Ok leaf \<and> (\<forall>u. spiffeID = Some u \<longrightarrow> cert_URIs leaf = [u])))"

lemma FromString_not_zero: "FromString cs s = Ok i \<Longrightarrow> \<not> ID_IsZero i"
  by (auto simp: FromString_Ok_iff ID_IsZero_def)

lemma peer_ok_leaf:
  assumes "peer_ok cs lib src auth raw spid chs" "lib_ParseCertificate lib (hd raw) = Ok leaf" "cert_URIs leaf = [u]"
  shows "FromString cs (URL_String u) = Ok spid"
proof -
  obtain certs where c: "list_all2 (\<lambda>r c. lib_ParseCertificate lib r = Ok c) raw certs"
      "x509svid_Verify cs lib certs (Some src) [] = Ok (spid, chs, None)"
    using assms(1) by (auto simp: peer_ok_def)
  then obtain l rest where "certs = l # rest" "leaf_ok cs l spid"
    unfolding Verify_Ok_iff by blast
  moreover from this have "l = leaf" using c(1) assms(2) by (cases raw) auto
  ultimately show ?thesis using assms(3) by (auto simp: leaf_ok_def FromURI_def)
qed

definition grpc_tls ::
  "std_verify \<Rightarrow> 't x509_lib \<Rightarrow> ('c, 'conn, 'a, 'i, 'w, 'e, 'x) grpc_credentials \<Rightarrow> bool" where
  "grpc_tls std lib grpc \<longleftrightarrow>
     (\<forall>config authority rawConn. reports_leaf lib (client_admits std config)
        (gc_ClientHandshake grpc (gc_NewTLS grpc config) authority rawConn)) \<and>
     (\<forall>config rawConn. \<exists>hello. reports_leaf lib (server_admits std config hello)
        (gc_ServerHandshake grpc (gc_NewTLS grpc config) rawConn))"

text \<open>The peers that SPIFFE authentication against \<open>b\<close> with \<open>auth\<close> lets through.\<close>

definition only_spiffe_peers ::
  "charset \<Rightarrow> 't x509_lib \<Rightarrow> ('w \<Rightarrow> x509_source) \<Rightarrow> Authorizer \<Rightarrow> ('w \<Rightarrow> string list \<Rightarrow> bool) \<Rightarrow> bool" where
  "only_spiffe_peers cs lib b auth admits \<longleftrightarrow>
     (\<forall>w raw. admits w raw \<longrightarrow> (\<exists>spid chs. peer_ok cs lib (b w) auth raw spid chs))"

lemma client_only_spiffe_peers:
  "only_spiffe_peers cs lib b auth (client_admits std (TLSClientConfig cs lib zero (Some b) auth))"
  "only_spiffe_peers cs lib b auth (client_admits std (MTLSClientConfig cs lib zero svid (Some b) auth opts))"
  by (auto simp: only_spiffe_peers_def new_config_admits)

lemma server_only_spiffe_peers:
  "only_spiffe_peers cs lib b auth (server_admits std (MTLSServerConfig cs lib zero svid (Some b) auth opts) hello)"
  "MTLSWebServerConfig cs lib zero cert (Some b) auth = Ok config \<Longrightarrow>
   only_spiffe_peers cs lib b auth (server_admits std config hello)"
  by (auto simp: only_spiffe_peers_def new_config_admits)

text \<open>For an authenticated peer the wrapper never refuses the ID: it exposes it, or panics when gRPC
  reported none.\<close>

lemma wrapHandshake_authenticated:
  assumes "reports_leaf lib admits h" "only_spiffe_peers cs lib b auth admits" "cw_expectPeerID c" "h = Ok (conn, info)"
  shows "\<exists>spiffeID rest w raw spid chs. info = TLSInfo spiffeID rest \<and> peer_ok cs lib (b w) auth raw spid chs \<and>
    wrapHandshake cs c h =
      ((case spiffeID of None \<Rightarrow> Panic (New ''nil pointer dereference'')
        | Some u \<Rightarrow> Ok (conn, \<lparr>aw_AuthInfo = info, aw_peerID = spid\<rparr>)), False)"
proof -
  obtain spiffeID rest w raw leaf where i: "info = TLSInfo spiffeID rest" "admits w raw"
      "lib_ParseCertificate lib (hd raw) = Ok leaf" "\<forall>u. spiffeID = Some u \<longrightarrow> cert_URIs leaf = [u]"
    using assms(1,4) unfolding reports_leaf_def by blast
  obtain spid chs where p: "peer_ok cs lib (b w) auth raw spid chs"
    using assms(2) i(2) unfolding only_spiffe_peers_def by blast
  have "FromString cs (URL_String u) = Ok spid" if "spiffeID = Some u" for u
    using peer_ok_leaf [OF p i(3)] i(4) that by blast
  then show ?thesis
    using p i(1) assms(3,4) by (fastforce simp: wrapHandshake_def split: option.splits)
qed

lemma wrapHandshake_exposes:
  assumes "reports_leaf lib admits h" "only_spiffe_peers cs lib b auth admits" "cw_expectPeerID c"
    and "wrapHandshake cs c h = (Ok (conn, info), closed)"
  shows "\<exists>w raw spid chs. peer_ok cs lib (b w) auth raw spid chs \<and> PeerIDFromPeer (Some info) = (spid, True)"
proof -
  obtain conn' info' where h: "h = Ok (conn', info')"
    using assms(4) by (cases h) (auto simp: wrapHandshake_def)
  obtain spiffeID rest w raw spid chs where p: "info' = TLSInfo spiffeID rest" "peer_ok cs lib (b w) auth raw spid chs"
      "wrapHandshake cs c h = ((case spiffeID of None \<Rightarrow> Panic (New ''nil pointer dereference'')
        | Some u \<Rightarrow> Ok (conn', \<lparr>aw_AuthInfo = info', aw_peerID = spid\<rparr>)), False)"
    using wrapHandshake_authenticated [OF assms(1-3) h] by (elim exE conjE) (rule that)
  from p(3) have "aw_peerID info = spid"
    using assms(4) by (auto split: option.splits)
  moreover obtain l where "leaf_ok cs l spid"
    using p(2) unfolding peer_ok_def Verify_Ok_iff by blast
  then have "\<not> ID_IsZero spid"
    using FromString_not_zero by (auto simp: leaf_ok_def FromURI_def)
  ultimately show ?thesis
    using p(2) by (auto simp: PeerIDFromPeer_def wrapper_PeerID_def)
qed

lemma client_handshake_exposes:
  assumes "grpc_tls std lib grpc" "only_spiffe_peers cs lib b auth (client_admits std config)"
    and "wrapper_ClientHandshake cs grpc \<lparr>cw_c = gc_NewTLS grpc config, cw_expectPeerID = True\<rparr> authority rawConn =
      (Ok (conn, info), closed)"
  shows "\<exists>w raw spid chs. peer_ok cs lib (b w) auth raw spid chs \<and> PeerIDFromPeer (Some info) = (spid, True)"
proof -
  have "reports_leaf lib (client_admits std config) (gc_ClientHandshake grpc (gc_NewTLS grpc config) authority rawConn)"
    using assms(1) by (simp add: grpc_tls_def)
  from wrapHandshake_exposes [OF this assms(2) _ assms(3) [unfolded wrapper_ClientHandshake_def credentialsWrapper.simps]]
  show ?thesis by simp
qed

lemma server_handshake_exposes:
  assumes "grpc_tls std lib grpc" "\<And>hello. only_spiffe_peers cs lib b auth (server_admits std config hello)"
    and "wrapper_ServerHandshake cs grpc \<lparr>cw_c = gc_NewTLS grpc config, cw_expectPeerID = True\<rparr> rawConn =
      (Ok (conn, info), closed)"
  shows "\<exists>w raw spid chs. peer_ok cs lib (b w) auth raw spid chs \<and> PeerIDFromPeer (Some info) = (spid, True)"
proof -
  obtain hello where "reports_leaf lib (server_admits std config hello) (gc_ServerHandshake grpc (gc_NewTLS grpc config) rawConn)"
    using assms(1) unfolding grpc_tls_def by blast
  from wrapHandshake_exposes [OF this assms(2) _ assms(3) [unfolded wrapper_ServerHandshake_def credentialsWrapper.simps]]
  show ?thesis by simp
qed

subsection \<open>Examples\<close>

text \<open>A gRPC whose peer presents \<open>ex_leaf\<close> and which reports the ID \<open>u\<close> for it.\<close>

definition ex_grpc ::
  "URL option \<Rightarrow> ((nat, nat, unit) tls_Config, nat, unit, unit, nat, nat, unit) grpc_credentials" where
  "ex_grpc u = \<lparr>gc_NewTLS = (\<lambda>c. c),
     gc_ClientHandshake = (\<lambda>c _ conn. if client_admits (\<lambda>_ _. None) c 0 [''leaf''] then Ok (conn, TLSInfo u ()) else Err (New ''bad certificate'')),
     gc_ServerHandshake = (\<lambda>c conn. if server_admits (\<lambda>_ _. None) c ''hello'' 0 [''leaf''] then Ok (conn, TLSInfo u ()) else Err (New ''bad certificate'')),
     gc_Info = (\<lambda>_. ()), gc_Clone = (\<lambda>c. c), gc_OverrideServerName = (\<lambda>c _. (c, None))\<rparr>"

definition ex_uri :: URL where
  "ex_uri = hd (cert_URIs ex_leaf)"

definition ex_creds where
  "ex_creds u = MTLSServerCredentials (ex_grpc u) Backcompat_Deny ex_lib () (\<lambda>_. Err (New ''no svid''))
     (Some (\<lambda>_. x509bundle_GetX509BundleForTrustDomain ex_bundle)) (AuthorizeID (mk_ID ''td'' ''/w'')) ([] :: (nat, nat) Option list)"

lemma ex_grpc_tls:
  assumes "u = None \<or> u = Some ex_uri"
  shows "grpc_tls (\<lambda>_ _. None) ex_lib (ex_grpc u)"
proof -
  have "lib_ParseCertificate ex_lib ''leaf'' = Ok ex_leaf" "cert_URIs ex_leaf = [ex_uri]"
    by (simp add: ex_lib_def) (simp add: ex_uri_def ex_leaf_def)
  then have "reports_leaf ex_lib admits (if admits 0 [''leaf''] then Ok (conn, TLSInfo u ()) else Err e)"
    for admits :: "nat \<Rightarrow> string list \<Rightarrow> bool" and conn :: nat and e
    unfolding reports_leaf_def using assms
    by (auto intro!: exI [of _ u] exI [of _ 0] exI [of _ "[''leaf'']"] exI [of _ ex_leaf] split: if_splits)
  then show ?thesis unfolding grpc_tls_def ex_grpc_def by (intro conjI allI exI [of _ "''hello''"]) simp_all
qed

lemma ex_server_handshake:
  "gc_ServerHandshake (ex_grpc u) (cw_c (ex_creds u)) conn = Ok (conn, TLSInfo u ())"
proof -
  have "server_admits (\<lambda>_ _. None) (cw_c (ex_creds u)) ''hello'' 0 [''leaf'']"
    using ex_peer_ok
    by (auto simp: ex_creds_def MTLSServerCredentials_def ex_grpc_def new_config_admits)
  then show ?thesis by (simp add: ex_grpc_def)
qed

lemma ex_wrapped_handshake:
  "wrapper_ServerHandshake Backcompat_Deny (ex_grpc (Some ex_uri)) (ex_creds (Some ex_uri)) 5 =
     (Ok (5, \<lparr>aw_AuthInfo = TLSInfo (Some ex_uri) (), aw_peerID = mk_ID ''td'' ''/w''\<rparr>), False)"
proof -
  have "FromString Backcompat_Deny (URL_String ex_uri) = Ok (mk_ID ''td'' ''/w'')"
    using ex_leaf_ID by (simp add: ex_uri_def FromURI_def)
  moreover have "cw_expectPeerID (ex_creds (Some ex_uri))"
    by (simp add: ex_creds_def MTLSServerCredentials_def)
  ultimately show ?thesis
    by (simp add: wrapper_ServerHandshake_def ex_server_handshake wrapHandshake_def)
qed

section \<open>Properties\<close>

text \<open>
  C35: The ID that a gRPC connection exposes. After a handshake with the credentials for a TLS or
  mTLS client or for an mTLS server, \<open>PeerIDFromPeer\<close> gives an ID, and it is the one of a peer whose
  certificates verified against the bundle source during the handshake and that the authorizer
  accepted. The hypothesis is what gRPC documents of its TLS credentials.
\<close>
theorem grpc_peer_identity:
  assumes "grpc_tls std lib grpc"
  shows "(wrapper_ClientHandshake cs grpc (TLSClientCredentials grpc cs lib zero (Some b) auth) authority rawConn =
        (Ok (conn, info), closed) \<longrightarrow>
      (\<exists>w raw spid chs. peer_ok cs lib (b w) auth raw spid chs \<and> PeerIDFromPeer (Some info) = (spid, True))) \<and>
    (wrapper_ClientHandshake cs grpc (MTLSClientCredentials grpc cs lib zero svid (Some b) auth opts) authority rawConn =
        (Ok (conn, info), closed) \<longrightarrow>
      (\<exists>w raw spid chs. peer_ok cs lib (b w) auth raw spid chs \<and> PeerIDFromPeer (Some info) = (spid, True))) \<and>
    (wrapper_ServerHandshake cs grpc (MTLSServerCredentials grpc cs lib zero svid (Some b) auth opts) rawConn =
        (Ok (conn, info), closed) \<longrightarrow>
      (\<exists>w raw spid chs. peer_ok cs lib (b w) auth raw spid chs \<and> PeerIDFromPeer (Some info) = (spid, True))) \<and>
    (MTLSWebServerCredentials grpc cs lib zero cert (Some b) auth = Ok creds \<longrightarrow>
      wrapper_ServerHandshake cs grpc creds rawConn = (Ok (conn, info), closed) \<longrightarrow>
      (\<exists>w raw spid chs. peer_ok cs lib (b w) auth raw spid chs \<and> PeerIDFromPeer (Some info) = (spid, True)))"
proof (intro conjI impI)
  show "\<exists>w raw spid chs. peer_ok cs lib (b w) auth raw spid chs \<and> PeerIDFromPeer (Some info) = (spid, True)"
    if "wrapper_ClientHandshake cs grpc (TLSClientCredentials grpc cs lib zero (Some b) auth) authority rawConn =
      (Ok (conn, info), closed)"
    using client_handshake_exposes [OF assms client_only_spiffe_peers(1)] that
    unfolding TLSClientCredentials_def .
  show "\<exists>w raw spid chs. peer_ok cs lib (b w) auth raw spid chs \<and> PeerIDFromPeer (Some info) = (spid, True)"
    if "wrapper_ClientHandshake cs grpc (MTLSClientCredentials grpc cs lib zero svid (Some b) auth opts) authority rawConn =
      (Ok (conn, info), closed)"
    using client_handshake_exposes [OF assms client_only_spiffe_peers(2)] that
    unfolding MTLSClientCredentials_def .
  show "\<exists>w raw spid chs. peer_ok cs lib (b w) auth raw spid chs \<and> PeerIDFromPeer (Some info) = (spid, True)"
    if "wrapper_ServerHandshake cs grpc (MTLSServerCredentials grpc cs lib zero svid (Some b) auth opts) rawConn =
      (Ok (conn, info), closed)"
    using server_handshake_exposes [OF assms server_only_spiffe_peers(1)] that
    unfolding MTLSServerCredentials_def .
  show "\<exists>w raw spid chs. peer_ok cs lib (b w) auth raw spid chs \<and> PeerIDFromPeer (Some info) = (spid, True)"
    if creds: "MTLSWebServerCredentials grpc cs lib zero cert (Some b) auth = Ok creds"
      and h: "wrapper_ServerHandshake cs grpc creds rawConn = (Ok (conn, info), closed)"
  proof -
    obtain config where config: "MTLSWebServerConfig cs lib zero cert (Some b) auth = Ok config"
        "creds = \<lparr>cw_c = gc_NewTLS grpc config, cw_expectPeerID = True\<rparr>"
      using creds by (auto simp: MTLSWebServerCredentials_def)
    have "only_spiffe_peers cs lib b auth (server_admits std config hello)" for hello
      using config(1) by (rule server_only_spiffe_peers(2))
    from server_handshake_exposes [OF assms this] show ?thesis using h config(2) by blast
  qed
qed

theorem grpc_peer_identity_witness:
  "\<exists>raw spid chs. peer_ok Backcompat_Deny ex_lib (x509bundle_GetX509BundleForTrustDomain ex_bundle)
       (AuthorizeID (mk_ID ''td'' ''/w'')) raw spid chs \<and>
     PeerIDFromPeer (Some \<lparr>aw_AuthInfo = TLSInfo (Some ex_uri) (), aw_peerID = mk_ID ''td'' ''/w''\<rparr>) = (spid, True)"
  using grpc_peer_identity [OF ex_grpc_tls, THEN conjunct2, THEN conjunct2, THEN conjunct1, rule_format,
      OF _ ex_wrapped_handshake [unfolded ex_creds_def]]
  by blast

text \<open>
  The branches of \<open>wrapHandshake\<close> for a peer that an mTLS server authenticated. Its ID is never
  refused: the handshake gives the connection with that ID. The exception is a peer whose SPIFFE
  ID gRPC does not report (its \<open>SPIFFEID\<close> is nil): then the wrapper dereferences nil and panics.
  An error of the handshake is passed on, and credentials that expect no SPIFFE peer expose none.
\<close>
theorem wrapHandshake_outcomes:
  assumes "grpc_tls std lib grpc"
    and "w = MTLSServerCredentials grpc cs lib zero svid (Some b) auth opts"
  shows "(case gc_ServerHandshake grpc (cw_c w) rawConn of
      Err e \<Rightarrow> wrapper_ServerHandshake cs grpc w rawConn = (Err e, False)
    | Panic e \<Rightarrow> wrapper_ServerHandshake cs grpc w rawConn = (Panic e, False)
    | Ok (conn, info) \<Rightarrow> \<exists>spiffeID rest st raw spid chs. info = TLSInfo spiffeID rest \<and>
        peer_ok cs lib (b st) auth raw spid chs \<and>
        wrapper_ServerHandshake cs grpc w rawConn =
          ((case spiffeID of None \<Rightarrow> Panic (New ''nil pointer dereference'')
            | Some u \<Rightarrow> Ok (conn, \<lparr>aw_AuthInfo = info, aw_peerID = spid\<rparr>)), False)) \<and>
    (wrapper_ServerHandshake cs grpc (TLSServerCredentials grpc zero svid opts) rawConn = (Ok (conn, info), closed) \<longrightarrow>
      PeerIDFromPeer (Some info) = (zero_ID, False))"
proof -
  obtain hello where s: "reports_leaf lib (server_admits std (MTLSServerConfig cs lib zero svid (Some b) auth opts) hello)
      (gc_ServerHandshake grpc (cw_c w) rawConn)"
    using assms(1) unfolding grpc_tls_def assms(2) MTLSServerCredentials_def credentialsWrapper.simps by blast
  have e: "cw_expectPeerID w" by (simp add: assms(2) MTLSServerCredentials_def)
  have "case gc_ServerHandshake grpc (cw_c w) rawConn of
      Err e \<Rightarrow> wrapper_ServerHandshake cs grpc w rawConn = (Err e, False)
    | Panic e \<Rightarrow> wrapper_ServerHandshake cs grpc w rawConn = (Panic e, False)
    | Ok (conn, info) \<Rightarrow> \<exists>spiffeID rest st raw spid chs. info = TLSInfo spiffeID rest \<and>
        peer_ok cs lib (b st) auth raw spid chs \<and>
        wrapper_ServerHandshake cs grpc w rawConn =
          ((case spiffeID of None \<Rightarrow> Panic (New ''nil pointer dereference'')
            | Some u \<Rightarrow> Ok (conn, \<lparr>aw_AuthInfo = info, aw_peerID = spid\<rparr>)), False)"
  proof (cases "gc_ServerHandshake grpc (cw_c w) rawConn")
    case (Ok p)
    then obtain conn info where p: "gc_ServerHandshake grpc (cw_c w) rawConn = Ok (conn, info)"
      by (cases p) simp
    show ?thesis
      using wrapHandshake_authenticated [OF s server_only_spiffe_peers(1) e p] p
      by (simp add: wrapper_ServerHandshake_def)
  qed (simp_all add: wrapper_ServerHandshake_def wrapHandshake_def)
  moreover have "PeerIDFromPeer (Some info) = (zero_ID, False)"
    if "wrapper_ServerHandshake cs grpc (TLSServerCredentials grpc zero svid opts) rawConn = (Ok (conn, info), closed)"
    using that by (auto simp: wrapper_ServerHandshake_def TLSServerCredentials_def wrapHandshake_def PeerIDFromPeer_def
        wrapper_PeerID_def split: res.splits AuthInfo.splits)
  ultimately show ?thesis by blast
qed

theorem wrapHandshake_outcomes_witness:
  "wrapper_ServerHandshake Backcompat_Deny (ex_grpc None) (ex_creds None) 5 =
     (Panic (New ''nil pointer dereference''), False)"
  using wrapHandshake_outcomes [OF ex_grpc_tls ex_creds_def, where rawConn = 5 and u1 = None, THEN conjunct1]
    ex_server_handshake [of None 5]
  by auto

end
