(* ===== verification/Locks.thy ===== *)
theory Locks
  imports Prelude
begin

text \<open>
  Goroutines and \<open>sync.RWMutex\<close>. A method is the sequence of what it does with the mutexes and the
  state that they protect, and goroutines that run methods are interleaved action by action. A
  goroutine that has called \<open>Lock\<close> keeps new readers out while it waits for the present ones to
  leave. The lock discipline is a type system, and typed programs are free of races and deadlocks;
  a theory that uses it says what its mutexes and their order are.
\<close>

section \<open>Definitions\<close>

subsection \<open>Mutexes\<close>

datatype 'm action = RLock 'm | RUnlock 'm | Lock 'm | Unlock 'm | Read 'm | Write 'm

text \<open>\<open>k_rd m i\<close> is how often goroutine \<open>i\<close> holds \<open>m\<close> for reading; \<open>k_wr m\<close> the goroutine that has called
  \<open>Lock\<close> and whether it has got the mutex.\<close>

record ('m, 'i) lock_sys =
  k_prog :: "'i \<Rightarrow> 'm action list"
  k_rd :: "'m \<Rightarrow> 'i \<Rightarrow> nat"
  k_wr :: "'m \<Rightarrow> ('i \<times> bool) option"

definition k_start :: "('i \<Rightarrow> 'm action list) \<Rightarrow> ('m, 'i) lock_sys" where
  "k_start prog = \<lparr>k_prog = prog, k_rd = (\<lambda>_ _. 0), k_wr = (\<lambda>_. None)\<rparr>"

inductive lock_step :: "('m, 'i) lock_sys \<Rightarrow> ('m, 'i) lock_sys \<Rightarrow> bool" where
  rlock: "k_prog s i = RLock m # p \<Longrightarrow> k_wr s m = None \<Longrightarrow>
    lock_step s (s\<lparr>k_prog := (k_prog s)(i := p), k_rd := (k_rd s)(m := (k_rd s m)(i := Suc (k_rd s m i)))\<rparr>)"
| runlock: "k_prog s i = RUnlock m # p \<Longrightarrow> 0 < k_rd s m i \<Longrightarrow>
    lock_step s (s\<lparr>k_prog := (k_prog s)(i := p), k_rd := (k_rd s)(m := (k_rd s m)(i := k_rd s m i - 1))\<rparr>)"
| announce: "k_prog s i = Lock m # p \<Longrightarrow> k_wr s m = None \<Longrightarrow>
    lock_step s (s\<lparr>k_wr := (k_wr s)(m := Some (i, False))\<rparr>)"
| acquire: "k_prog s i = Lock m # p \<Longrightarrow> k_wr s m = Some (i, False) \<Longrightarrow> \<forall>j. k_rd s m j = 0 \<Longrightarrow>
    lock_step s (s\<lparr>k_prog := (k_prog s)(i := p), k_wr := (k_wr s)(m := Some (i, True))\<rparr>)"
| unlock: "k_prog s i = Unlock m # p \<Longrightarrow> k_wr s m = Some (i, True) \<Longrightarrow>
    lock_step s (s\<lparr>k_prog := (k_prog s)(i := p), k_wr := (k_wr s)(m := None)\<rparr>)"
| reads: "k_prog s i = Read m # p \<Longrightarrow> lock_step s (s\<lparr>k_prog := (k_prog s)(i := p)\<rparr>)"
| writes: "k_prog s i = Write m # p \<Longrightarrow> lock_step s (s\<lparr>k_prog := (k_prog s)(i := p)\<rparr>)"

inductive lock_reach :: "('m, 'i) lock_sys \<Rightarrow> ('m, 'i) lock_sys \<Rightarrow> bool" for s where
  reach_none: "lock_reach s s"
| reach_more: "lock_reach s t \<Longrightarrow> lock_step t u \<Longrightarrow> lock_reach s u"

definition reading :: "'m \<Rightarrow> 'm action list \<Rightarrow> 'm action list" where
  "reading m body = RLock m # body @ [RUnlock m]"

definition writing :: "'m \<Rightarrow> 'm action list \<Rightarrow> 'm action list" where
  "writing m body = Lock m # body @ [Unlock m]"

text \<open>Two goroutines.\<close>

definition two_programs :: "'m action list \<Rightarrow> 'm action list \<Rightarrow> nat \<Rightarrow> 'm action list" where
  "two_programs p q i = (if i = 0 then p else if i = 1 then q else [])"

text \<open>A race: two goroutines are about to access what the same mutex protects, and one writes.\<close>

definition race :: "('m, 'i) lock_sys \<Rightarrow> bool" where
  "race s \<longleftrightarrow> (\<exists>i j m p q. i \<noteq> j \<and> k_prog s i = Write m # p \<and>
     (k_prog s j = Write m # q \<or> k_prog s j = Read m # q))"

subsection \<open>The lock discipline as a type system\<close>

text \<open>
  \<open>typed level held p\<close>: the program \<open>p\<close> of a goroutine that holds \<open>held\<close> takes mutexes of
  growing \<open>level\<close>, so that it never takes one that it holds already, releases what it takes, reads
  under a lock and writes under a write lock.
\<close>

datatype mode = R | W

fun typed :: "('m \<Rightarrow> nat) \<Rightarrow> ('m \<times> mode) list \<Rightarrow> 'm action list \<Rightarrow> bool" where
  "typed level held [] = (held = [])"
| "typed level held (RLock m # p) = (list_all (\<lambda>(m', _). level m' < level m) held \<and> typed level ((m, R) # held) p)"
| "typed level held (Lock m # p) = (list_all (\<lambda>(m', _). level m' < level m) held \<and> typed level ((m, W) # held) p)"
| "typed level held (RUnlock m # p) = ((m, R) \<in> set held \<and> typed level (remove1 (m, R) held) p)"
| "typed level held (Unlock m # p) = ((m, W) \<in> set held \<and> typed level (remove1 (m, W) held) p)"
| "typed level held (Read m # p) = (m \<in> fst ` set held \<and> typed level held p)"
| "typed level held (Write m # p) = ((m, W) \<in> set held \<and> typed level held p)"

text \<open>A state is typed if the mutexes agree with what each goroutine holds.\<close>

definition agrees :: "('m \<Rightarrow> nat) \<Rightarrow> ('i \<Rightarrow> ('m \<times> mode) list) \<Rightarrow> ('m, 'i) lock_sys \<Rightarrow> bool" where
  "agrees level held s \<longleftrightarrow>
     (\<forall>i. typed level (held i) (k_prog s i) \<and> distinct (map fst (held i))) \<and>
     (\<forall>m i. k_rd s m i = (if (m, R) \<in> set (held i) then 1 else 0)) \<and>
     (\<forall>m i. (m, W) \<in> set (held i) \<longleftrightarrow> k_wr s m = Some (i, True)) \<and>
     (\<forall>m i. k_wr s m = Some (i, False) \<longrightarrow> (\<exists>p. k_prog s i = Lock m # p)) \<and>
     (\<forall>m i j. k_wr s m = Some (i, True) \<longrightarrow> k_rd s m j = 0)"

definition typed_sys :: "('m \<Rightarrow> nat) \<Rightarrow> ('m, 'i) lock_sys \<Rightarrow> bool" where
  "typed_sys level s \<longleftrightarrow> (\<exists>held. agrees level held s)"

section \<open>Lemmas\<close>

subsection \<open>Typed states\<close>

lemma typed_append: "typed level held p \<Longrightarrow> typed level [] q \<Longrightarrow> typed level held (p @ q)"
  by (induction held p rule: typed.induct) auto

lemma typed_start: "\<forall>i. typed level [] (prog i) \<Longrightarrow> typed_sys level (k_start prog)"
  unfolding typed_sys_def by (rule exI [of _ "\<lambda>_. []"]) (simp add: agrees_def k_start_def)

lemma lower_notin:
  fixes level :: "'m \<Rightarrow> nat"
  shows "list_all (\<lambda>(m', _). level m' < level m) held \<Longrightarrow> (m, x) \<notin> set held"
  by (auto simp: list_all_iff)

lemma agreesD:
  assumes "agrees level held s"
  shows "typed level (held i) (k_prog s i)" "distinct (map fst (held i))"
    "k_rd s m i = (if (m, R) \<in> set (held i) then 1 else 0)"
    "(m, W) \<in> set (held i) \<longleftrightarrow> k_wr s m = Some (i, True)"
    "k_wr s m = Some (i, False) \<Longrightarrow> \<exists>p. k_prog s i = Lock m # p"
    "k_wr s m = Some (i, True) \<Longrightarrow> (m, R) \<notin> set (held j)"
proof -
  note a = assms [unfolded agrees_def]
  show "typed level (held i) (k_prog s i)" "distinct (map fst (held i))"
    using a by simp_all
  show rd: "k_rd s m i = (if (m, R) \<in> set (held i) then 1 else 0)" for i
    using a by simp
  show "(m, W) \<in> set (held i) \<longleftrightarrow> k_wr s m = Some (i, True)"
    using a by simp
  show "\<exists>p. k_prog s i = Lock m # p" if "k_wr s m = Some (i, False)"
    using a that by simp
  show "(m, R) \<notin> set (held j)" if "k_wr s m = Some (i, True)"
  proof -
    have "k_rd s m j = 0" using a that by blast
    then show ?thesis using rd [of j] by (auto split: if_splits)
  qed
qed

lemma distinct_fst_remove1: "distinct (map fst xs) \<Longrightarrow> distinct (map fst (remove1 x xs))"
  by (induction xs) (auto dest: notin_set_remove1 simp: image_iff)

lemma distinct_fst_mode: "distinct (map fst h) \<Longrightarrow> (m, x) \<in> set h \<Longrightarrow> (m, y) \<in> set h \<Longrightarrow> x = y"
  by (meson eq_key_imp_eq_value)

lemma in_remove1: "distinct (map fst h) \<Longrightarrow> y \<in> set (remove1 x h) \<longleftrightarrow> y \<in> set h \<and> y \<noteq> x"
  by (simp add: distinct_map)

text \<open>A goroutine \<open>i\<close> goes on with the program \<open>p\<close> and holds \<open>h\<close>; the mutexes change accordingly.\<close>

lemma agrees_update:
  assumes a: "agrees level held s" and h: "typed level h p" "distinct (map fst h)"
    and t: "k_prog t = (k_prog s)(i := p)"
    and rd: "\<And>m j. k_rd t m j = (if j = i then (if (m, R) \<in> set h then 1 else 0) else k_rd s m j)"
    and wr: "\<And>m j. k_wr t m = Some (j, True) \<longleftrightarrow> (if j = i then (m, W) \<in> set h else k_wr s m = Some (j, True))"
    and pend: "\<And>m j. k_wr t m = Some (j, False) \<Longrightarrow> j \<noteq> i \<and> k_wr s m = Some (j, False)"
    and ex: "\<And>m j. (m, W) \<in> set h \<Longrightarrow> j \<noteq> i \<Longrightarrow> k_rd s m j = 0"
    and ex': "\<And>m j. (m, R) \<in> set h \<Longrightarrow> k_wr s m \<noteq> Some (j, True)"
  shows "agrees level (held(i := h)) t"
proof -
  have "(m, R) \<notin> set h" if "(m, W) \<in> set h" for m
    using distinct_fst_mode [OF h(2) that, of R] by blast
  then have "k_rd t m j = 0" if "k_wr t m = Some (k, True)" for m j k
    using that a wr [of m k] rd [of m j] ex [of m j] ex' [of m k]
    by (auto simp: agrees_def split: if_splits)
  then show ?thesis
    using a h t rd wr pend unfolding agrees_def by (simp split: if_split_asm)
qed

lemma agrees_step:
  assumes "agrees level held s" "lock_step s t"
  shows "\<exists>held'. agrees level held' t"
  using assms(2)
proof cases
  case (rlock i m p)
  have np: "k_wr s m' \<noteq> Some (i, False)" for m'
    using agreesD(5) [OF assms(1), of m' i] rlock(2) by auto
  have "typed level (held i) (RLock m # p)" "distinct (map fst (held i))"
    using rlock(2) agreesD(1,2) [OF assms(1), of i] by simp_all
  then have "agrees level (held(i := (m, R) # held i)) t"
    using rlock np lower_notin [of level m "held i"] agreesD(3,4,6) [OF assms(1)]
    by (intro agrees_update [OF assms(1), of _ p]) (auto simp: image_iff split: if_splits)
  then show ?thesis by blast
next
  case (runlock i m p)
  have np: "k_wr s m' \<noteq> Some (i, False)" for m'
    using agreesD(5) [OF assms(1), of m' i] runlock(2) by auto
  have "typed level (held i) (RUnlock m # p)" and d: "distinct (map fst (held i))"
    using runlock(2) agreesD(1,2) [OF assms(1), of i] by simp_all
  then have "agrees level (held(i := remove1 (m, R) (held i))) t"
    using runlock np in_remove1 [OF d] distinct_fst_remove1 [OF d] agreesD(3,4,6) [OF assms(1)]
    by (intro agrees_update [OF assms(1), of _ p]) (auto split: if_splits)
  then show ?thesis by blast
next
  case (announce i m p)
  have "k_rd t m' j = 0" if "k_wr t m' = Some (k, True)" for m' j k
  proof -
    have "k_wr s m' = Some (k, True)" using that announce(1,3) by (simp split: if_splits)
    then show ?thesis using agreesD(3,6) [OF assms(1)] announce(1) by simp
  qed
  then have "agrees level held t"
    using agreesD(1-5) [OF assms(1)] announce unfolding agrees_def by simp
  then show ?thesis by blast
next
  case (acquire i m p)
  have np: "k_wr s m' = Some (i, False) \<Longrightarrow> m' = m" for m'
    using agreesD(5) [OF assms(1), of m' i] acquire(2) by auto
  have ty: "typed level (held i) (Lock m # p)" and d: "distinct (map fst (held i))"
    using acquire(2) agreesD(1,2) [OF assms(1), of i] by simp_all
  then have new: "(m, x) \<notin> set (held i)" for x
    using lower_notin [of level m "held i"] by simp
  have "agrees level (held(i := (m, W) # held i)) t"
  proof (rule agrees_update [OF assms(1), of _ p])
    show "typed level ((m, W) # held i) p" "distinct (map fst ((m, W) # held i))"
      using ty d new by (auto simp: image_iff)
    show "k_wr t m' = Some (j, False) \<Longrightarrow> j \<noteq> i \<and> k_wr s m' = Some (j, False)" for m' j
      using np [of m'] acquire(1) by (cases "m' = m") auto
    show "(m', W) \<in> set ((m, W) # held i) \<Longrightarrow> j \<noteq> i \<Longrightarrow> k_rd s m' j = 0" for m' j
      using acquire(4) agreesD(4,6) [OF assms(1), where m = m'] agreesD(3) [OF assms(1), of m' j] by auto
    show "k_rd t m' j = (if j = i then (if (m', R) \<in> set ((m, W) # held i) then 1 else 0) else k_rd s m' j)" for m' j
      using agreesD(3) [OF assms(1)] acquire(1) by simp
    show "k_wr t m' = Some (j, True) \<longleftrightarrow> (if j = i then (m', W) \<in> set ((m, W) # held i) else k_wr s m' = Some (j, True))" for m' j
      using agreesD(4) [OF assms(1), of m' i] acquire(1,3) by simp
    show "(m', R) \<in> set ((m, W) # held i) \<Longrightarrow> k_wr s m' \<noteq> Some (j, True)" for m' j
      using agreesD(6) [OF assms(1), of m' j i] by auto
  qed (simp add: acquire(1))
  then show ?thesis by blast
next
  case (unlock i m p)
  have np: "k_wr s m' \<noteq> Some (i, False)" for m'
    using agreesD(5) [OF assms(1), of m' i] unlock(2) by auto
  have "typed level (held i) (Unlock m # p)" and d: "distinct (map fst (held i))"
    using unlock(2) agreesD(1,2) [OF assms(1), of i] by simp_all
  then have "agrees level (held(i := remove1 (m, W) (held i))) t"
    using unlock np in_remove1 [OF d] distinct_fst_remove1 [OF d] agreesD(3,4,6) [OF assms(1)]
    by (intro agrees_update [OF assms(1), of _ p]) (auto split: if_splits)
  then show ?thesis by blast
next
  case (reads i m p)
  have np: "k_wr s m' \<noteq> Some (i, False)" for m'
    using agreesD(5) [OF assms(1), of m' i] reads(2) by auto
  have "typed level (held i) (Read m # p)" "distinct (map fst (held i))"
    using reads(2) agreesD(1,2) [OF assms(1), of i] by simp_all
  then have "agrees level (held(i := held i)) t"
    using reads np agreesD(3,4,6) [OF assms(1)]
    by (intro agrees_update [OF assms(1), of _ p]) (auto split: if_splits)
  then show ?thesis by blast
next
  case (writes i m p)
  have np: "k_wr s m' \<noteq> Some (i, False)" for m'
    using agreesD(5) [OF assms(1), of m' i] writes(2) by auto
  have "typed level (held i) (Write m # p)" "distinct (map fst (held i))"
    using writes(2) agreesD(1,2) [OF assms(1), of i] by simp_all
  then have "agrees level (held(i := held i)) t"
    using writes np agreesD(3,4,6) [OF assms(1)]
    by (intro agrees_update [OF assms(1), of _ p]) (auto split: if_splits)
  then show ?thesis by blast
qed

lemma typed_reach: "lock_reach s t \<Longrightarrow> typed_sys level s \<Longrightarrow> typed_sys level t"
  by (induction rule: lock_reach.induct) (auto simp: typed_sys_def dest: agrees_step)

lemma typed_no_race:
  assumes "agrees level held s"
  shows "\<not> race s"
proof
  assume "race s"
  then obtain i j m p q where r: "i \<noteq> j" "k_prog s i = Write m # p"
      "k_prog s j = Write m # q \<or> k_prog s j = Read m # q"
    unfolding race_def by blast
  have i: "(m, W) \<in> set (held i)" using agreesD(1) [OF assms, of i] r(2) by simp
  then have w: "k_wr s m = Some (i, True)" using agreesD(4) [OF assms] by simp
  have "\<exists>x. (m, x) \<in> set (held j)" using agreesD(1) [OF assms, of j] r(3) by force
  then obtain x where "(m, x) \<in> set (held j)" ..
  then show False
    using agreesD(4,6) [OF assms, of m] w r(1) by (cases x) auto
qed

text \<open>Who holds a mutex can go on, or waits for one further up that somebody holds.\<close>

lemma enabled:
  assumes "agrees level held s" "k_prog s i = a # p"
  shows "(\<exists>t. lock_step s t) \<or> (\<exists>m. (a = RLock m \<or> a = Lock m) \<and> k_wr s m \<noteq> None)"
proof (cases a)
  case (RLock m)
  then show ?thesis using assms(2) lock_step.rlock [of s i m p] by (cases "k_wr s m") blast+
next
  case (RUnlock m)
  then have "0 < k_rd s m i" using agreesD(1,3) [OF assms(1), where i = i] assms(2) by simp
  then show ?thesis using RUnlock assms(2) lock_step.runlock [of s i m p] by auto
next
  case (Lock m)
  then show ?thesis using assms(2) lock_step.announce [of s i m p] by (cases "k_wr s m") blast+
next
  case (Unlock m)
  then have "k_wr s m = Some (i, True)" using agreesD(1,4) [OF assms(1), where i = i] assms(2) by simp
  then show ?thesis using Unlock assms(2) lock_step.unlock [of s i m p] by auto
next
  case (Read m)
  then show ?thesis using assms(2) lock_step.reads [of s i m p] by auto
next
  case (Write m)
  then show ?thesis using assms(2) lock_step.writes [of s i m p] by auto
qed

text \<open>What keeps a mutex from being taken is a goroutine that holds it, or a step is possible.\<close>

lemma blocker:
  assumes "agrees level held s" "k_wr s m = Some (j, b)"
  shows "(\<exists>t. lock_step s t) \<or> (\<exists>k x. (m, x) \<in> set (held k))"
proof (cases b)
  case True
  then show ?thesis using agreesD(4) [OF assms(1), of m j] assms(2) by auto
next
  case False
  then obtain p where p: "k_prog s j = Lock m # p"
    using agreesD(5) [OF assms(1), of m j] assms(2) by auto
  show ?thesis
  proof (cases "\<forall>k. k_rd s m k = 0")
    case True
    then show ?thesis using lock_step.acquire [OF p] assms(2) \<open>\<not> b\<close> by auto
  next
    case False
    then obtain k where "k_rd s m k \<noteq> 0" by blast
    then show ?thesis using agreesD(3) [OF assms(1), of m k] by (auto split: if_splits)
  qed
qed

subsection \<open>Deadlock freedom\<close>

text \<open>The levels are bounded, so that a chain of goroutines that wait for each other ends.\<close>

locale lock_order =
  fixes level :: "'m \<Rightarrow> nat" and top :: nat
  assumes bounded: "level m \<le> top"
begin

lemma holder_progress:
  assumes "agrees level held s" "(m, x) \<in> set (held i)"
  shows "\<exists>t. lock_step s t"
  using assms(2)
proof (induction "top - level m" arbitrary: m x i rule: less_induct)
  case less
  obtain a p where p: "k_prog s i = a # p"
    using agreesD(1) [OF assms(1), of i] less.prems by (cases "k_prog s i") auto
  show ?case
  proof (rule ccontr)
    assume stuck: "\<nexists>t. lock_step s t"
    then obtain m' where m': "a = RLock m' \<or> a = Lock m'" "k_wr s m' \<noteq> None"
      using enabled [OF assms(1) p] by blast
    then obtain k y where "(m', y) \<in> set (held k)"
      using blocker [OF assms(1), of m'] stuck by fastforce
    moreover have "level m < level m'"
      using agreesD(1) [OF assms(1), of i] p m'(1) less.prems by (auto simp: list_all_iff)
    then have "top - level m' < top - level m"
      using bounded [of m'] by simp
    ultimately show False using less.hyps stuck by blast
  qed
qed

lemma typed_progress:
  assumes "agrees level held s" "k_prog s i \<noteq> []"
  shows "\<exists>t. lock_step s t"
proof -
  obtain a p where p: "k_prog s i = a # p" using assms(2) by (cases "k_prog s i") auto
  show ?thesis
  proof (rule ccontr)
    assume stuck: "\<nexists>t. lock_step s t"
    then obtain m where "k_wr s m \<noteq> None" using enabled [OF assms(1) p] by blast
    then obtain k x where "(m, x) \<in> set (held k)"
      using blocker [OF assms(1), of m] stuck by fastforce
    then show False using holder_progress [OF assms(1)] stuck by blast
  qed
qed

lemma typed_safe:
  assumes "\<forall>i. typed level [] (prog i)" "lock_reach (k_start prog) s"
  shows "\<not> race s \<and> ((\<exists>i. k_prog s i \<noteq> []) \<longrightarrow> (\<exists>t. lock_step s t))"
proof -
  obtain held where held: "agrees level held s"
    using typed_reach [OF assms(2) typed_start [OF assms(1)]] unfolding typed_sys_def by blast
  show ?thesis
    using typed_no_race [OF held] typed_progress [OF held] by blast
qed

end

subsection \<open>Runs\<close>

lemma lock_reach_trans: "lock_reach t u \<Longrightarrow> lock_reach s t \<Longrightarrow> lock_reach s u"
  by (induction rule: lock_reach.induct) (auto intro: lock_reach.intros)

text \<open>A goroutine reads under a lock that nobody wants to write under; one takes a free mutex.\<close>

lemma run_reading:
  assumes "k_prog s i = reading m [Read m] @ p" "k_wr s m = None"
  shows "lock_reach s (s\<lparr>k_prog := (k_prog s)(i := p)\<rparr>)"
proof -
  let ?a = "s\<lparr>k_prog := (k_prog s)(i := Read m # RUnlock m # p), k_rd := (k_rd s)(m := (k_rd s m)(i := Suc (k_rd s m i)))\<rparr>"
  let ?b = "?a\<lparr>k_prog := (k_prog ?a)(i := RUnlock m # p)\<rparr>"
  let ?c = "?b\<lparr>k_prog := (k_prog ?b)(i := p), k_rd := (k_rd ?b)(m := (k_rd ?b m)(i := k_rd ?b m i - 1))\<rparr>"
  have "lock_step s ?a" by (rule lock_step.rlock) (use assms in \<open>simp_all add: reading_def\<close>)
  moreover have "lock_step ?a ?b" by (rule lock_step.reads [where m = m]) simp
  moreover have "lock_step ?b ?c" by (rule lock_step.runlock) simp_all
  ultimately have "lock_reach s ?c" by (blast intro: lock_reach.intros)
  moreover have "?c = s\<lparr>k_prog := (k_prog s)(i := p)\<rparr>" by simp
  ultimately show ?thesis by metis
qed

lemma run_lock:
  assumes "k_prog s i = Lock m # p" "k_wr s m = None" "\<forall>j. k_rd s m j = 0"
  shows "lock_reach s (s\<lparr>k_prog := (k_prog s)(i := p), k_wr := (k_wr s)(m := Some (i, True))\<rparr>)"
proof -
  let ?a = "s\<lparr>k_wr := (k_wr s)(m := Some (i, False))\<rparr>"
  let ?b = "?a\<lparr>k_prog := (k_prog ?a)(i := p), k_wr := (k_wr ?a)(m := Some (i, True))\<rparr>"
  have "lock_step s ?a" by (rule lock_step.announce [OF assms(1,2)])
  moreover have "lock_step ?a ?b" by (rule lock_step.acquire) (use assms in simp_all)
  ultimately have "lock_reach s ?b" by (blast intro: lock_reach.intros)
  then show ?thesis by simp
qed

text \<open>A read without the lock, after a program that leaves the mutexes as they were, races with a
  goroutine that writes under it.\<close>

lemma unlocked_read_races:
  assumes "lock_reach (k_start (two_programs p (Lock m # q @ Write m # r)))
      (k_start (two_programs (Read m # p') (Lock m # q @ Write m # r)))" "q = [] \<or> q = [Read m]"
  shows "\<exists>s. lock_reach (k_start (two_programs p (Lock m # q @ Write m # r))) s \<and> race s"
proof -
  let ?s = "k_start (two_programs (Read m # p') (Lock m # q @ Write m # r))"
  let ?t = "?s\<lparr>k_prog := (k_prog ?s)(1 := q @ Write m # r), k_wr := (k_wr ?s)(m := Some (1, True))\<rparr>"
  let ?u = "?t\<lparr>k_prog := (k_prog ?t)(1 := Write m # r)\<rparr>"
  have t: "lock_reach ?s ?t" by (rule run_lock) (simp_all add: k_start_def two_programs_def)
  have "lock_reach ?t ?u"
  proof (cases "q = []")
    case True
    then have "?u = ?t" by simp
    then show ?thesis by (metis lock_reach.reach_none)
  next
    case False
    then have "q = [Read m]" using assms(2) by blast
    then show ?thesis
      by (intro lock_reach.reach_more [OF lock_reach.reach_none] lock_step.reads [where m = m]) simp
  qed
  then have "lock_reach (k_start (two_programs p (Lock m # q @ Write m # r))) ?u"
    using lock_reach_trans [OF _ lock_reach_trans [OF t assms(1)]] by blast
  moreover have "race ?u"
    unfolding race_def by (intro exI [of _ 1] exI [of _ 0] exI [of _ m]) (simp add: k_start_def two_programs_def)
  ultimately show ?thesis by blast
qed

text \<open>A goroutine that holds a mutex for reading and calls \<open>RLock\<close> again behind a waiting writer.\<close>

lemma relock_deadlocks:
  "\<exists>s. lock_reach (k_start (two_programs (RLock m # RLock m # p) (Lock m # q))) s \<and>
     (\<nexists>t. lock_step s t) \<and> k_prog s 0 \<noteq> [] \<and> k_prog s 1 \<noteq> []"
proof -
  let ?s = "k_start (two_programs (RLock m # RLock m # p) (Lock m # q))"
  let ?t = "?s\<lparr>k_prog := (k_prog ?s)(0 := RLock m # p), k_rd := (k_rd ?s)(m := (k_rd ?s m)(0 := Suc (k_rd ?s m 0)))\<rparr>"
  let ?u = "?t\<lparr>k_wr := (k_wr ?t)(m := Some (1, False))\<rparr>"
  have u: "k_prog ?u i = (if i = 0 then RLock m # p else if i = 1 then Lock m # q else [])" for i
    by (simp add: k_start_def two_programs_def)
  have "lock_step ?s ?t" by (rule lock_step.rlock) (simp_all add: k_start_def two_programs_def)
  moreover have "lock_step ?t ?u" by (rule lock_step.announce) (simp_all add: k_start_def two_programs_def)
  ultimately have "lock_reach ?s ?u" by (blast intro: lock_reach.intros)
  moreover have "\<not> lock_step ?u v" for v
  proof
    have k: "k_wr ?u m = Some (1, False)" "k_rd ?u m 0 \<noteq> 0" by simp_all
    assume "lock_step ?u v"
    then show False
    proof cases
      case (rlock i m' p')
      have "i = 0 \<or> i = 1" "m' = m" using rlock(2) u [of i] by (simp_all split: if_splits)
      then show False using rlock(3) k(1) by simp
    next
      case (acquire i m' p')
      have "m' = m" using acquire(2) u [of i] by (simp split: if_splits)
      then show False using spec [OF acquire(4), of 0] k(2) by simp
    next
      case (announce i m' p')
      have "m' = m" using announce(2) u [of i] by (simp split: if_splits)
      then show False using announce(3) k(1) by simp
    qed (use u in \<open>simp_all split: if_splits\<close>)
  qed
  then have "\<nexists>v. lock_step ?u v" by blast
  moreover have "k_prog ?u 0 \<noteq> []" "k_prog ?u 1 \<noteq> []" using u [of 0] u [of 1] by simp_all
  ultimately show ?thesis by (intro exI conjI)
qed

end
