(* ===== verification/Bundle_Locks.thy ===== *)
theory Bundle_Locks
  imports Locks
begin

text \<open>
  The locking of \<open>spiffebundle.Bundle\<close> and \<open>spiffebundle.Set\<close>. The other theories treat a method as
  one step; this one looks inside: a method is the sequence of what it does with the mutexes and the
  state they protect.
\<close>

section \<open>Definitions\<close>

datatype mutex = Set_mtx | Bundle_mtx nat

text \<open>A set comes before the bundles in it.\<close>

primrec level :: "mutex \<Rightarrow> nat" where
  "level Set_mtx = 0"
| "level (Bundle_mtx _) = 1"

subsection \<open>Methods\<close>

text \<open>The methods of a bundle. The flags say which way a method goes: whether the authority is
  already there, whether the key ID is empty, whether the trust domain is the bundle's. \<open>Equal\<close> gets
  the other bundle, nil perhaps, and whether the two trust domains are the same. The trust domain of
  a bundle never changes, so that reading it is not an action.\<close>

datatype bundle_method =
    B_TrustDomain | B_X509Authorities | B_AddX509Authority bool | B_RemoveX509Authority bool | B_HasX509Authority
  | B_SetX509Authorities | B_JWTAuthorities | B_FindJWTAuthority | B_HasJWTAuthority | B_AddJWTAuthority bool
  | B_RemoveJWTAuthority | B_SetJWTAuthorities | B_WITAuthorities | B_FindWITAuthority | B_HasWITAuthority
  | B_AddWITAuthority bool | B_RemoveWITAuthority | B_SetWITAuthorities | B_Empty | B_RefreshHint | B_SetRefreshHint
  | B_ClearRefreshHint | B_SequenceNumber | B_SetSequenceNumber | B_ClearSequenceNumber | B_Marshal | B_Clone
  | B_X509Bundle | B_JWTBundle | B_WITBundle | B_GetBundleForTrustDomain | B_GetX509BundleForTrustDomain bool
  | B_GetJWTBundleForTrustDomain bool | B_GetWITBundleForTrustDomain bool | B_Equal "nat option" bool

text \<open>\<open>X509Bundle\<close>, \<open>JWTBundle\<close> and \<open>WITBundle\<close>.\<close>

definition view_actions :: "nat \<Rightarrow> mutex action list" where
  "view_actions b = reading (Bundle_mtx b) [Read (Bundle_mtx b)]"

fun bundle_actions :: "nat \<Rightarrow> bundle_method \<Rightarrow> mutex action list" where
  "bundle_actions b B_TrustDomain = []"
| "bundle_actions b B_X509Authorities = reading (Bundle_mtx b) [Read (Bundle_mtx b)]"
| "bundle_actions b (B_AddX509Authority present) =
     writing (Bundle_mtx b) (Read (Bundle_mtx b) # (if present then [] else [Write (Bundle_mtx b)]))"
| "bundle_actions b (B_RemoveX509Authority present) =
     writing (Bundle_mtx b) (Read (Bundle_mtx b) # (if present then [Write (Bundle_mtx b)] else []))"
| "bundle_actions b B_HasX509Authority = reading (Bundle_mtx b) [Read (Bundle_mtx b)]"
| "bundle_actions b B_SetX509Authorities = writing (Bundle_mtx b) [Write (Bundle_mtx b)]"
| "bundle_actions b B_JWTAuthorities = reading (Bundle_mtx b) [Read (Bundle_mtx b)]"
| "bundle_actions b B_FindJWTAuthority = reading (Bundle_mtx b) [Read (Bundle_mtx b)]"
| "bundle_actions b B_HasJWTAuthority = reading (Bundle_mtx b) [Read (Bundle_mtx b)]"
| "bundle_actions b (B_AddJWTAuthority no_id) = (if no_id then [] else writing (Bundle_mtx b) [Write (Bundle_mtx b)])"
| "bundle_actions b B_RemoveJWTAuthority = writing (Bundle_mtx b) [Write (Bundle_mtx b)]"
| "bundle_actions b B_SetJWTAuthorities = writing (Bundle_mtx b) [Write (Bundle_mtx b)]"
| "bundle_actions b B_WITAuthorities = reading (Bundle_mtx b) [Read (Bundle_mtx b)]"
| "bundle_actions b B_FindWITAuthority = reading (Bundle_mtx b) [Read (Bundle_mtx b)]"
| "bundle_actions b B_HasWITAuthority = reading (Bundle_mtx b) [Read (Bundle_mtx b)]"
| "bundle_actions b (B_AddWITAuthority no_id) = (if no_id then [] else writing (Bundle_mtx b) [Write (Bundle_mtx b)])"
| "bundle_actions b B_RemoveWITAuthority = writing (Bundle_mtx b) [Write (Bundle_mtx b)]"
| "bundle_actions b B_SetWITAuthorities = writing (Bundle_mtx b) [Write (Bundle_mtx b)]"
| "bundle_actions b B_Empty = reading (Bundle_mtx b) [Read (Bundle_mtx b)]"
| "bundle_actions b B_RefreshHint = reading (Bundle_mtx b) [Read (Bundle_mtx b)]"
| "bundle_actions b B_SetRefreshHint = writing (Bundle_mtx b) [Write (Bundle_mtx b)]"
| "bundle_actions b B_ClearRefreshHint = writing (Bundle_mtx b) [Write (Bundle_mtx b)]"
| "bundle_actions b B_SequenceNumber = reading (Bundle_mtx b) [Read (Bundle_mtx b)]"
| "bundle_actions b B_SetSequenceNumber = writing (Bundle_mtx b) [Write (Bundle_mtx b)]"
| "bundle_actions b B_ClearSequenceNumber = writing (Bundle_mtx b) [Write (Bundle_mtx b)]"
| "bundle_actions b B_Marshal = reading (Bundle_mtx b) [Read (Bundle_mtx b)]"
| "bundle_actions b B_Clone = reading (Bundle_mtx b) [Read (Bundle_mtx b)]"
| "bundle_actions b B_X509Bundle = view_actions b"
| "bundle_actions b B_JWTBundle = view_actions b"
| "bundle_actions b B_WITBundle = view_actions b"
| "bundle_actions b B_GetBundleForTrustDomain = reading (Bundle_mtx b) []"
| "bundle_actions b (B_GetX509BundleForTrustDomain matches) =
     reading (Bundle_mtx b) (if matches then view_actions b else [])"
| "bundle_actions b (B_GetJWTBundleForTrustDomain matches) =
     reading (Bundle_mtx b) (if matches then view_actions b else [])"
| "bundle_actions b (B_GetWITBundleForTrustDomain matches) =
     reading (Bundle_mtx b) (if matches then view_actions b else [])"
| "bundle_actions b (B_Equal other same_domain) =
     (case other of None \<Rightarrow> []
      | Some c \<Rightarrow> if same_domain then [Read (Bundle_mtx b), Read (Bundle_mtx c)] else [])"

text \<open>The methods of a set; the argument of a getter is the bundle it finds.\<close>

datatype set_method =
    Set_Add bool | Set_Remove | Set_Has | Set_Get | Set_Bundles | Set_Len | Set_GetBundleForTrustDomain
  | Set_GetX509BundleForTrustDomain "nat option" | Set_GetJWTBundleForTrustDomain "nat option"
  | Set_GetWITBundleForTrustDomain "nat option"

definition on_found :: "bundle_method \<Rightarrow> nat option \<Rightarrow> mutex action list" where
  "on_found m found = (case found of None \<Rightarrow> [] | Some b \<Rightarrow> bundle_actions b m)"

fun set_actions :: "set_method \<Rightarrow> mutex action list" where
  "set_actions (Set_Add is_nil) = writing Set_mtx (if is_nil then [] else [Write Set_mtx])"
| "set_actions Set_Remove = writing Set_mtx [Write Set_mtx]"
| "set_actions Set_Has = reading Set_mtx [Read Set_mtx]"
| "set_actions Set_Get = reading Set_mtx [Read Set_mtx]"
| "set_actions Set_Bundles = reading Set_mtx [Read Set_mtx]"
| "set_actions Set_Len = reading Set_mtx [Read Set_mtx]"
| "set_actions Set_GetBundleForTrustDomain = reading Set_mtx [Read Set_mtx]"
| "set_actions (Set_GetX509BundleForTrustDomain found) = reading Set_mtx (Read Set_mtx # on_found B_X509Bundle found)"
| "set_actions (Set_GetJWTBundleForTrustDomain found) = reading Set_mtx (Read Set_mtx # on_found B_JWTBundle found)"
| "set_actions (Set_GetWITBundleForTrustDomain found) = reading Set_mtx (Read Set_mtx # on_found B_WITBundle found)"

datatype method_call = On_Bundle nat bundle_method | On_Set set_method

fun call_actions :: "method_call \<Rightarrow> mutex action list" where
  "call_actions (On_Bundle b m) = bundle_actions b m"
| "call_actions (On_Set m) = set_actions m"

text \<open>A goroutine runs a list of calls.\<close>

definition goroutine :: "method_call list \<Rightarrow> mutex action list" where
  "goroutine calls = concat (map call_actions calls)"

text \<open>The methods that keep the discipline: all but \<open>Equal\<close>, where it reads two bundles without a lock,
  and the three getters, which lock the bundle again when the trust domain matches.\<close>

primrec disciplined :: "method_call \<Rightarrow> bool" where
  "disciplined (On_Bundle b m) =
     (case m of B_Equal other same_domain \<Rightarrow> other = None \<or> \<not> same_domain
      | B_GetX509BundleForTrustDomain matches \<Rightarrow> \<not> matches
      | B_GetJWTBundleForTrustDomain matches \<Rightarrow> \<not> matches | B_GetWITBundleForTrustDomain matches \<Rightarrow> \<not> matches | _ \<Rightarrow> True)"
| "disciplined (On_Set m) = True"

section \<open>Lemmas\<close>

interpretation bundle_order: lock_order level 1
proof
  show "level m \<le> 1" for m by (cases m) simp_all
qed

lemma typed_call: "disciplined c \<Longrightarrow> typed level [] (call_actions c)"
proof (cases c)
  case (On_Bundle b m)
  then show "disciplined c \<Longrightarrow> ?thesis" by (cases m) (auto simp: reading_def writing_def view_actions_def split: option.splits)
next
  case (On_Set m)
  then show ?thesis by (cases m) (auto simp: reading_def writing_def view_actions_def on_found_def split: option.splits)
qed

lemma typed_goroutine: "list_all disciplined calls \<Longrightarrow> typed level [] (goroutine calls)"
  by (induction calls) (auto simp: goroutine_def intro: typed_append typed_call)

lemma goroutine_single: "goroutine [c] = call_actions c"
  by (simp add: goroutine_def)

section \<open>Properties\<close>

text \<open>
  C6: The lock discipline of SPIFFE bundles and bundle sets. Goroutines that call any methods of
  any bundles and of the set, \<open>Equal\<close> and the three getters for a trust domain that matches
  excepted, never race for the protected state and never deadlock: as long as one of them is not
  finished, some goroutine can go on.
\<close>
theorem lock_discipline:
  assumes "\<forall>i. list_all disciplined (calls i)" "lock_reach (k_start (\<lambda>i. goroutine (calls i))) s"
  shows "\<not> race s \<and> ((\<exists>i. k_prog s i \<noteq> []) \<longrightarrow> (\<exists>t. lock_step s t))"
  using assms typed_goroutine by (intro bundle_order.typed_safe [of "\<lambda>i. goroutine (calls i)"]) blast+

theorem lock_discipline_witness:
  "\<not> race (k_start (\<lambda>i. goroutine (if i = (0::nat) then [On_Bundle 0 (B_AddX509Authority False)]
       else [On_Set (Set_GetX509BundleForTrustDomain (Some 0))])))
   \<and> (\<exists>t. lock_step (k_start (\<lambda>i. goroutine (if i = (0::nat) then [On_Bundle 0 (B_AddX509Authority False)]
       else [On_Set (Set_GetX509BundleForTrustDomain (Some 0))]))) t)"
proof -
  let ?calls = "\<lambda>i. if i = (0::nat) then [On_Bundle 0 (B_AddX509Authority False)]
       else [On_Set (Set_GetX509BundleForTrustDomain (Some 0))]"
  have "k_prog (k_start (\<lambda>i. goroutine (?calls i))) 0 \<noteq> []"
    by (simp add: k_start_def goroutine_def writing_def)
  moreover have "\<forall>i. list_all disciplined (?calls i)" by simp
  ultimately show ?thesis
    using lock_discipline [of ?calls, OF _ lock_reach.reach_none] by blast
qed

text \<open>
  C7: The discipline is exact. Each method that it leaves out goes wrong next to a single
  \<open>AddX509Authority\<close> on the same bundle: \<open>GetX509BundleForTrustDomain\<close>, \<open>GetJWTBundleForTrustDomain\<close> and
  \<open>GetWITBundleForTrustDomain\<close>, for the bundle's own trust domain, call \<open>RLock\<close> a second time, and if the
  other goroutine has called \<open>Lock\<close> in between, both wait for ever; \<open>Equal\<close> reads the fields that
  the other goroutine is writing.
\<close>
theorem undisciplined_goes_wrong:
  assumes "\<not> disciplined (On_Bundle b m)"
  shows "\<exists>s. lock_reach (k_start (two_programs (goroutine [On_Bundle b m]) (goroutine [On_Bundle b (B_AddX509Authority False)]))) s \<and>
    (race s \<or> (\<nexists>t. lock_step s t) \<and> k_prog s 0 \<noteq> [] \<and> k_prog s 1 \<noteq> [])"
proof -
  let ?m = "Bundle_mtx b"
  have w: "goroutine [On_Bundle b (B_AddX509Authority False)] = Lock ?m # [Read ?m] @ Write ?m # [Unlock ?m]"
    by (simp add: goroutine_single writing_def)
  show ?thesis
  proof (cases "\<exists>p. bundle_actions b m = RLock ?m # RLock ?m # p")
    case True
    then obtain p where "goroutine [On_Bundle b m] = RLock ?m # RLock ?m # p"
      by (auto simp: goroutine_single)
    then show ?thesis
      unfolding w using relock_deadlocks [of ?m p "[Read ?m] @ Write ?m # [Unlock ?m]"] by metis
  next
    case False
    then obtain c where "goroutine [On_Bundle b m] = [Read ?m, Read (Bundle_mtx c)]"
      using assms by (cases m) (auto simp: goroutine_single reading_def view_actions_def split: option.splits if_splits)
    then show ?thesis
      unfolding w using unlocked_read_races [OF lock_reach.reach_none, of "[Read ?m]" ?m "[Read (Bundle_mtx c)]" "[Unlock ?m]"]
      by auto
  qed
qed

theorem undisciplined_goes_wrong_witness:
  "\<exists>s. lock_reach (k_start (two_programs (goroutine [On_Bundle 0 (B_GetX509BundleForTrustDomain True)])
       (goroutine [On_Bundle 0 (B_AddX509Authority False)]))) s \<and>
    (race s \<or> (\<nexists>t. lock_step s t) \<and> k_prog s 0 \<noteq> [] \<and> k_prog s 1 \<noteq> [])"
  by (rule undisciplined_goes_wrong) simp

end
