(* ===== verification/Source_Locks.thy ===== *)
theory Source_Locks
  imports Locks
begin

text \<open>
  The locking of the sources of \<open>workloadapi\<close>: \<open>X509Source\<close>, \<open>JWTSource\<close>, \<open>BundleSource\<close> and \<open>WITSource\<close>. A
  source has a mutex for its data, one for its closed flag and one in its watcher; it calls
  methods of bundle sets and of bundles, which have theirs. The first \<open>Close\<close> waits for the
  goroutines of the watches while it holds the mutex of its watcher. The wait group is a mutex
  here too: a watch goroutine holds it for reading from before it starts until it is done, and
  \<open>wg.Wait\<close> takes it for writing and gives it back. Cancelling the watches uses no mutex; that it ends
  them is the subject of \<open>Workload_Watcher\<close>.
\<close>

section \<open>Definitions\<close>

text \<open>The number in the first four is the source.\<close>

datatype source_mutex =
  Src_close nat | Src_watch nat | Src_wg nat | Src_data nat | Src_set nat | Src_bundle nat

primrec source_level :: "source_mutex \<Rightarrow> nat" where
  "source_level (Src_close _) = 0"
| "source_level (Src_watch _) = 0"
| "source_level (Src_wg _) = 1"
| "source_level (Src_data _) = 2"
| "source_level (Src_set _) = 3"
| "source_level (Src_bundle _) = 4"

subsection \<open>What the methods share\<close>

text \<open>\<open>closed\<close> says what the check finds; \<open>set_actions_of\<close> is a lookup in a bundle set, \<open>closeBase\<close> the
  first call of \<open>Close\<close> on a watcher or a later one, with a closer of the client or without.\<close>

definition set_actions_of :: "nat \<Rightarrow> source_mutex action list" where
  "set_actions_of n = reading (Src_set n) [Read (Src_set n)]"

definition closeBase_actions :: "nat \<Rightarrow> bool \<Rightarrow> bool \<Rightarrow> source_mutex action list" where
  "closeBase_actions k again closer = writing (Src_watch k) (Read (Src_watch k) #
     (if again then [] else writing (Src_wg k) [] @ (if closer then [Write (Src_watch k)] else []) @ [Write (Src_watch k)]) @ [Read (Src_watch k)])"

definition checkClosed_actions :: "nat \<Rightarrow> source_mutex action list" where
  "checkClosed_actions k = reading (Src_close k) [Read (Src_close k)]"

definition source_Close_actions :: "nat \<Rightarrow> bool \<Rightarrow> bool \<Rightarrow> source_mutex action list" where
  "source_Close_actions k again closer = writing (Src_close k) [Write (Src_close k)] @ closeBase_actions k again closer"

definition if_open :: "nat \<Rightarrow> bool \<Rightarrow> source_mutex action list \<Rightarrow> source_mutex action list" where
  "if_open k closed p = checkClosed_actions k @ (if closed then [] else p)"

subsection \<open>The four sources\<close>

datatype x509source_method = XS_Close bool bool | XS_GetX509SVID bool | XS_GetX509BundleForTrustDomain bool nat | XS_setX509Context

fun X509Source_actions :: "nat \<Rightarrow> x509source_method \<Rightarrow> source_mutex action list" where
  "X509Source_actions k (XS_Close again closer) = source_Close_actions k again closer"
| "X509Source_actions k (XS_GetX509SVID closed) = if_open k closed (reading (Src_data k) [Read (Src_data k)])"
| "X509Source_actions k (XS_GetX509BundleForTrustDomain closed bundles) =
     if_open k closed (Read (Src_data k) # set_actions_of bundles)"
| "X509Source_actions k XS_setX509Context = writing (Src_data k) [Write (Src_data k), Write (Src_data k)]"

datatype jwtsource_method =
    JS_Close bool bool | JS_FetchJWTSVID bool | JS_FetchJWTSVIDs bool | JS_GetJWTBundleForTrustDomain bool nat | JS_setJWTBundles

fun JWTSource_actions :: "nat \<Rightarrow> jwtsource_method \<Rightarrow> source_mutex action list" where
  "JWTSource_actions k (JS_Close again closer) = source_Close_actions k again closer"
| "JWTSource_actions k (JS_FetchJWTSVID closed) = if_open k closed []"
| "JWTSource_actions k (JS_FetchJWTSVIDs closed) = if_open k closed []"
| "JWTSource_actions k (JS_GetJWTBundleForTrustDomain closed bundles) =
     if_open k closed (Read (Src_data k) # set_actions_of bundles)"
| "JWTSource_actions k JS_setJWTBundles = writing (Src_data k) [Write (Src_data k)]"

text \<open>A setter reads the set, copies the authorities of every bundle under the bundle's lock, and
  deletes what is stale.\<close>

datatype bundlesource_method =
    BS_Close bool bool | BS_GetBundleForTrustDomain bool | BS_GetX509BundleForTrustDomain bool
  | BS_GetJWTBundleForTrustDomain bool | BS_setX509Context nat "nat list" bool | BS_setJWTBundles nat "nat list" bool

definition replace_authorities :: "nat \<Rightarrow> nat list \<Rightarrow> source_mutex action list" where
  "replace_authorities k newBundles =
     concat (map (\<lambda>b. reading (Src_bundle b) [Read (Src_bundle b)] @ [Write (Src_data k)]) newBundles)"

definition setter_actions :: "nat \<Rightarrow> nat \<Rightarrow> nat list \<Rightarrow> bool \<Rightarrow> source_mutex action list" where
  "setter_actions k bundles newBundles stale = writing (Src_data k)
     (set_actions_of bundles @ replace_authorities k newBundles @ Read (Src_data k) # (if stale then [Write (Src_data k)] else []))"

fun BundleSource_actions :: "nat \<Rightarrow> bundlesource_method \<Rightarrow> source_mutex action list" where
  "BundleSource_actions k (BS_Close again closer) = source_Close_actions k again closer"
| "BundleSource_actions k (BS_GetBundleForTrustDomain closed) = if_open k closed (reading (Src_data k) [Read (Src_data k)])"
| "BundleSource_actions k (BS_GetX509BundleForTrustDomain closed) = if_open k closed (reading (Src_data k) [Read (Src_data k)])"
| "BundleSource_actions k (BS_GetJWTBundleForTrustDomain closed) = if_open k closed (reading (Src_data k) [Read (Src_data k)])"
| "BundleSource_actions k (BS_setX509Context bundles newBundles stale) = setter_actions k bundles newBundles stale"
| "BundleSource_actions k (BS_setJWTBundles bundles newBundles stale) = setter_actions k bundles newBundles stale"

text \<open>A \<open>WITSource\<close> uses the mutex of its watcher for the closed flag, and takes it for writing.\<close>

datatype witsource_method =
    WS_Close bool bool | WS_GetWITSVIDForID bool | WS_GetWITBundleForTrustDomain bool nat | WS_OnWITSVIDsUpdate | WS_OnWITBundlesUpdate

definition WITSource_checkClosed_actions :: "nat \<Rightarrow> source_mutex action list" where
  "WITSource_checkClosed_actions k = writing (Src_watch k) [Read (Src_watch k)]"

fun WITSource_actions :: "nat \<Rightarrow> witsource_method \<Rightarrow> source_mutex action list" where
  "WITSource_actions k (WS_Close again closer) = closeBase_actions k again closer"
| "WITSource_actions k (WS_GetWITSVIDForID closed) =
     WITSource_checkClosed_actions k @ (if closed then [] else reading (Src_data k) [Read (Src_data k)])"
| "WITSource_actions k (WS_GetWITBundleForTrustDomain closed bundles) =
     WITSource_checkClosed_actions k @ (if closed then [] else reading (Src_data k) (Read (Src_data k) # set_actions_of bundles))"
| "WITSource_actions k WS_OnWITSVIDsUpdate = writing (Src_data k) [Write (Src_data k)]"
| "WITSource_actions k WS_OnWITBundlesUpdate = writing (Src_data k) [Write (Src_data k)]"

text \<open>A watch goroutine of a source: the updates that it applies, until it is done.\<close>

datatype watch_update =
    Up_X509Source | Up_JWTSource | Up_BundleX509 nat "nat list" bool | Up_BundleJWT nat "nat list" bool
  | Up_WITSVIDs | Up_WITBundles

primrec update_actions :: "nat \<Rightarrow> watch_update \<Rightarrow> source_mutex action list" where
  "update_actions k Up_X509Source = X509Source_actions k XS_setX509Context"
| "update_actions k Up_JWTSource = JWTSource_actions k JS_setJWTBundles"
| "update_actions k (Up_BundleX509 bundles newBundles stale) = BundleSource_actions k (BS_setX509Context bundles newBundles stale)"
| "update_actions k (Up_BundleJWT bundles newBundles stale) = BundleSource_actions k (BS_setJWTBundles bundles newBundles stale)"
| "update_actions k Up_WITSVIDs = WITSource_actions k WS_OnWITSVIDsUpdate"
| "update_actions k Up_WITBundles = WITSource_actions k WS_OnWITBundlesUpdate"

definition watch_actions :: "nat \<Rightarrow> watch_update list \<Rightarrow> source_mutex action list" where
  "watch_actions k updates = reading (Src_wg k) (concat (map (update_actions k) updates))"

datatype source_call =
    On_X509Source nat x509source_method | On_JWTSource nat jwtsource_method
  | On_BundleSource nat bundlesource_method | On_WITSource nat witsource_method
  | On_watch nat "watch_update list"

fun source_actions :: "source_call \<Rightarrow> source_mutex action list" where
  "source_actions (On_X509Source k m) = X509Source_actions k m"
| "source_actions (On_JWTSource k m) = JWTSource_actions k m"
| "source_actions (On_BundleSource k m) = BundleSource_actions k m"
| "source_actions (On_WITSource k m) = WITSource_actions k m"
| "source_actions (On_watch k updates) = watch_actions k updates"

text \<open>All methods keep the discipline but two: the getters of bundles of \<open>X509Source\<close> and \<open>JWTSource\<close>
  use the set without the lock when the source is open.\<close>

primrec source_disciplined :: "source_call \<Rightarrow> bool" where
  "source_disciplined (On_X509Source k m) = (case m of XS_GetX509BundleForTrustDomain closed _ \<Rightarrow> closed | _ \<Rightarrow> True)"
| "source_disciplined (On_JWTSource k m) = (case m of JS_GetJWTBundleForTrustDomain closed _ \<Rightarrow> closed | _ \<Rightarrow> True)"
| "source_disciplined (On_BundleSource k m) = True"
| "source_disciplined (On_WITSource k m) = True"
| "source_disciplined (On_watch k updates) = True"

section \<open>Lemmas\<close>

interpretation source_order: lock_order source_level 4
proof
  show "source_level m \<le> 4" for m by (cases m) simp_all
qed

lemmas source_action_defs = reading_def writing_def set_actions_of_def closeBase_actions_def checkClosed_actions_def
  source_Close_actions_def if_open_def WITSource_checkClosed_actions_def

lemma typed_replace_authorities:
  assumes "list_all (\<lambda>(m, _). source_level m < 2) held" "typed source_level ((Src_data k, W) # held) p"
  shows "typed source_level ((Src_data k, W) # held) (replace_authorities k bs @ p)"
  using assms by (induction bs) (auto simp: replace_authorities_def reading_def list_all_iff)

lemma typed_setter:
  assumes "list_all (\<lambda>(m, _). source_level m < 2) held" "typed source_level held p"
  shows "typed source_level held (setter_actions k bundles bs stale @ p)"
proof -
  have "typed source_level ((Src_data k, W) # held)
      (replace_authorities k bs @ Read (Src_data k) # (if stale then [Write (Src_data k)] else []) @ Unlock (Src_data k) # p)"
    using assms by (intro typed_replace_authorities) (simp_all add: list_all_iff)
  then show ?thesis
    using assms(1) by (auto simp: setter_actions_def writing_def set_actions_of_def reading_def list_all_iff)
qed

text \<open>An update of a watch goroutine, and the goroutine: it holds its wait group all the time.\<close>

lemma typed_update:
  assumes "typed source_level [(Src_wg k, R)] p"
  shows "typed source_level [(Src_wg k, R)] (update_actions k u @ p)"
  using assms by (cases u) (auto simp: writing_def intro: typed_setter)

lemma typed_watch: "typed source_level [] (watch_actions k us)"
proof -
  have "typed source_level [(Src_wg k, R)] (concat (map (update_actions k) us) @ [RUnlock (Src_wg k)])"
    by (induction us) (simp_all add: typed_update)
  then show ?thesis by (simp add: watch_actions_def reading_def)
qed

lemma typed_source_call: "source_disciplined c \<Longrightarrow> typed source_level [] (source_actions c)"
proof (cases c)
  case (On_X509Source k m)
  then show "source_disciplined c \<Longrightarrow> ?thesis" by (cases m) (auto simp: source_action_defs)
next
  case (On_JWTSource k m)
  then show "source_disciplined c \<Longrightarrow> ?thesis" by (cases m) (auto simp: source_action_defs)
next
  case (On_BundleSource k m)
  then show ?thesis
    using typed_setter [of "[]" "[]"] by (cases m) (auto simp: source_action_defs)
next
  case (On_WITSource k m)
  then show ?thesis by (cases m) (auto simp: source_action_defs)
qed (simp add: typed_watch)

lemma typed_source_calls: "list_all source_disciplined calls \<Longrightarrow> typed source_level [] (concat (map source_actions calls))"
  by (induction calls) (auto intro: typed_append typed_source_call)

text \<open>The check for a closed source leaves the mutexes as they were.\<close>

lemma run_checkClosed:
  "lock_reach (k_start (two_programs (checkClosed_actions k @ p) q)) (k_start (two_programs p q))"
proof -
  let ?s = "k_start (two_programs (checkClosed_actions k @ p) q)"
  have "lock_reach ?s (?s\<lparr>k_prog := (k_prog ?s)(0 := p)\<rparr>)"
    by (rule run_reading [where m = "Src_close k"]) (simp_all add: k_start_def two_programs_def checkClosed_actions_def)
  moreover have "?s\<lparr>k_prog := (k_prog ?s)(0 := p)\<rparr> = k_start (two_programs p q)"
    by (simp add: k_start_def two_programs_def fun_eq_iff)
  ultimately show ?thesis by simp
qed

section \<open>Properties\<close>

text \<open>
  C8: The lock discipline of the sources. Goroutines that call any methods of any sources, and the
  watches that update them, never race for the data of a source, its closed flag, or the bundles
  and sets it reads, and never wait for each other's mutexes for ever -- not even a \<open>Close\<close>, which
  waits for the watches of its source while it holds the mutex of its watcher, since no watch
  takes that mutex; the two getters of bundles of an open \<open>X509Source\<close> or \<open>JWTSource\<close> are excepted.
\<close>
theorem source_lock_discipline:
  assumes "\<forall>i. list_all source_disciplined (calls i)"
    and "lock_reach (k_start (\<lambda>i. concat (map source_actions (calls i)))) s"
  shows "\<not> race s \<and> ((\<exists>i. k_prog s i \<noteq> []) \<longrightarrow> (\<exists>t. lock_step s t))"
  using assms typed_source_calls
  by (intro source_order.typed_safe [of "\<lambda>i. concat (map source_actions (calls i))"]) blast+

theorem source_lock_discipline_witness:
  "\<not> race (k_start (\<lambda>i. concat (map source_actions (if i = (0::nat) then [On_watch 0 [Up_BundleX509 0 [1, 2] True]]
       else [On_BundleSource 0 (BS_GetBundleForTrustDomain False), On_BundleSource 0 (BS_Close False True)]))))
   \<and> (\<exists>t. lock_step (k_start (\<lambda>i. concat (map source_actions (if i = (0::nat) then [On_watch 0 [Up_BundleX509 0 [1, 2] True]]
       else [On_BundleSource 0 (BS_GetBundleForTrustDomain False), On_BundleSource 0 (BS_Close False True)])))) t)"
proof -
  let ?calls = "\<lambda>i. if i = (0::nat) then [On_watch 0 [Up_BundleX509 0 [1, 2] True]]
       else [On_BundleSource 0 (BS_GetBundleForTrustDomain False), On_BundleSource 0 (BS_Close False True)]"
  have "k_prog (k_start (\<lambda>i. concat (map source_actions (?calls i)))) 0 \<noteq> []"
    by (simp add: k_start_def watch_actions_def reading_def)
  moreover have "\<forall>i. list_all source_disciplined (?calls i)" by simp
  ultimately show ?thesis
    using source_lock_discipline [of ?calls, OF _ lock_reach.reach_none] by blast
qed

text \<open>
  C9: The two getters race. \<open>GetX509BundleForTrustDomain\<close> of an open \<open>X509Source\<close> and
  \<open>GetJWTBundleForTrustDomain\<close> of an open \<open>JWTSource\<close> read the field with the set of bundles without
  the mutex that protects it: next to one update by the watch there is a schedule in which the
  read and the write meet.
\<close>
theorem bundle_getters_race:
  "(\<exists>s. lock_reach (k_start (two_programs (X509Source_actions k (XS_GetX509BundleForTrustDomain False n))
       (X509Source_actions k XS_setX509Context))) s \<and> race s) \<and>
   (\<exists>s. lock_reach (k_start (two_programs (JWTSource_actions k (JS_GetJWTBundleForTrustDomain False n))
       (JWTSource_actions k JS_setJWTBundles))) s \<and> race s)"
proof -
  have "\<exists>s. lock_reach (k_start (two_programs (checkClosed_actions k @ Read (Src_data k) # set_actions_of n)
      (Lock (Src_data k) # [] @ Write (Src_data k) # r))) s \<and> race s" for r
    by (rule unlocked_read_races [OF run_checkClosed]) simp
  from this [of "[Write (Src_data k), Unlock (Src_data k)]"] this [of "[Unlock (Src_data k)]"]
  show ?thesis by (simp add: if_open_def writing_def)
qed

end
