(* ===== verification/Logger.thy ===== *)
theory Logger
  imports Prelude
begin

text \<open>
  Package \<open>logger\<close>: the interface, the logger that drops everything, the one over the standard \<open>log\<close>
  package and the one over a writer. Formatting is a parameter, and so is the header that the flags
  of the standard logger ask for; the output is the list of what was written, one element for
  each \<open>Write\<close>.
\<close>

section \<open>Definitions\<close>

record ('arg, 'out) Logger =
  lg_Debugf :: "string \<Rightarrow> 'arg list \<Rightarrow> 'out \<Rightarrow> 'out"
  lg_Infof :: "string \<Rightarrow> 'arg list \<Rightarrow> 'out \<Rightarrow> 'out"
  lg_Warnf :: "string \<Rightarrow> 'arg list \<Rightarrow> 'out \<Rightarrow> 'out"
  lg_Errorf :: "string \<Rightarrow> 'arg list \<Rightarrow> 'out \<Rightarrow> 'out"

definition newline :: string where "newline = [CHR 0x0A]"

definition nullLogger_Debugf :: "string \<Rightarrow> 'arg list \<Rightarrow> 'out \<Rightarrow> 'out" where "nullLogger_Debugf format args out = out"
definition nullLogger_Infof :: "string \<Rightarrow> 'arg list \<Rightarrow> 'out \<Rightarrow> 'out" where "nullLogger_Infof format args out = out"
definition nullLogger_Warnf :: "string \<Rightarrow> 'arg list \<Rightarrow> 'out \<Rightarrow> 'out" where "nullLogger_Warnf format args out = out"
definition nullLogger_Errorf :: "string \<Rightarrow> 'arg list \<Rightarrow> 'out \<Rightarrow> 'out" where "nullLogger_Errorf format args out = out"

definition Null :: "('arg, 'out) Logger" where
  "Null = \<lparr>lg_Debugf = nullLogger_Debugf, lg_Infof = nullLogger_Infof, lg_Warnf = nullLogger_Warnf, lg_Errorf = nullLogger_Errorf\<rparr>"

text \<open>\<open>log.Printf\<close> ends the line when the message does not, and writes it after the header; \<open>Fprintf\<close>
  writes the message as it is.\<close>

type_synonym 'arg sprintf = "string \<Rightarrow> 'arg list \<Rightarrow> string"

definition log_Printf :: "string \<Rightarrow> 'arg sprintf \<Rightarrow> string \<Rightarrow> 'arg list \<Rightarrow> string list \<Rightarrow> string list" where
  "log_Printf header sprintf format args out =
     (let s = sprintf format args in out @ [header @ s @ (if s = [] \<or> last s \<noteq> CHR 0x0A then newline else [])])"

definition stdLogger_Debugf where
  "stdLogger_Debugf header sprintf format args out = log_Printf header sprintf (''[DEBUG] '' @ format @ newline) args out"
definition stdLogger_Infof where
  "stdLogger_Infof header sprintf format args out = log_Printf header sprintf (''[INFO] '' @ format @ newline) args out"
definition stdLogger_Warnf where
  "stdLogger_Warnf header sprintf format args out = log_Printf header sprintf (''[WARN] '' @ format @ newline) args out"
definition stdLogger_Errorf where
  "stdLogger_Errorf header sprintf format args out = log_Printf header sprintf (''[ERROR] '' @ format @ newline) args out"

definition Std :: "string \<Rightarrow> 'arg sprintf \<Rightarrow> ('arg, string list) Logger" where
  "Std header sprintf = \<lparr>lg_Debugf = stdLogger_Debugf header sprintf, lg_Infof = stdLogger_Infof header sprintf,
     lg_Warnf = stdLogger_Warnf header sprintf, lg_Errorf = stdLogger_Errorf header sprintf\<rparr>"

definition fmt_Fprintf :: "'arg sprintf \<Rightarrow> string \<Rightarrow> 'arg list \<Rightarrow> string list \<Rightarrow> string list" where
  "fmt_Fprintf sprintf format args out = out @ [sprintf format args]"

definition writer_Debugf where
  "writer_Debugf sprintf format args out = fmt_Fprintf sprintf (''[DEBUG] '' @ format @ newline) args out"
definition writer_Infof where
  "writer_Infof sprintf format args out = fmt_Fprintf sprintf (''[INFO] '' @ format @ newline) args out"
definition writer_Warnf where
  "writer_Warnf sprintf format args out = fmt_Fprintf sprintf (''[WARN] '' @ format @ newline) args out"
definition writer_Errorf where
  "writer_Errorf sprintf format args out = fmt_Fprintf sprintf (''[ERROR] '' @ format @ newline) args out"

definition Writer :: "'arg sprintf \<Rightarrow> ('arg, string list) Logger" where
  "Writer sprintf = \<lparr>lg_Debugf = writer_Debugf sprintf, lg_Infof = writer_Infof sprintf,
     lg_Warnf = writer_Warnf sprintf, lg_Errorf = writer_Errorf sprintf\<rparr>"

section \<open>The contract of a logger\<close>

datatype level = Debug | Info | Warn | Error

primrec log_at :: "('arg, 'out) Logger \<Rightarrow> level \<Rightarrow> string \<Rightarrow> 'arg list \<Rightarrow> 'out \<Rightarrow> 'out" where
  "log_at l Debug = lg_Debugf l"
| "log_at l Info = lg_Infof l"
| "log_at l Warn = lg_Warnf l"
| "log_at l Error = lg_Errorf l"

primrec tag :: "level \<Rightarrow> string" where
  "tag Debug = ''[DEBUG] ''"
| "tag Info = ''[INFO] ''"
| "tag Warn = ''[WARN] ''"
| "tag Error = ''[ERROR] ''"

text \<open>A call writes the line of the logger for it, if any, after what was written before.\<close>

locale logger =
  fixes l :: "('arg, string list) Logger" and line :: "level \<Rightarrow> string \<Rightarrow> 'arg list \<Rightarrow> string option"
  assumes appends: "log_at l lv format args out = out @ (case line lv format args of None \<Rightarrow> [] | Some s \<Rightarrow> [s])"
begin

lemma calls:
  "fold (\<lambda>(lv, format, args). log_at l lv format args) cs out =
     out @ List.map_filter (\<lambda>(lv, format, args). line lv format args) cs"
  by (induction cs arbitrary: out) (auto simp: appends List.map_filter_def split: option.splits)

end

definition std_line where
  "std_line header sprintf lv format args =
     (let s = sprintf (tag lv @ format @ newline) args
      in Some (header @ s @ (if s = [] \<or> last s \<noteq> CHR 0x0A then newline else [])))"

interpretation null: logger Null "\<lambda>_ _ _. None"
  by (rule logger.intro, case_tac lv) (simp_all add: Null_def nullLogger_Debugf_def nullLogger_Infof_def
      nullLogger_Warnf_def nullLogger_Errorf_def)

interpretation std: logger "Std header sprintf" "std_line header sprintf" for header sprintf
  by (rule logger.intro, case_tac lv) (simp_all add: Std_def stdLogger_Debugf_def stdLogger_Infof_def stdLogger_Warnf_def
      stdLogger_Errorf_def log_Printf_def std_line_def Let_def)

interpretation writer: logger "Writer sprintf" "\<lambda>lv format args. Some (sprintf (tag lv @ format @ newline) args)" for sprintf
  by (rule logger.intro, case_tac lv) (simp_all add: Writer_def writer_Debugf_def writer_Infof_def writer_Warnf_def
      writer_Errorf_def fmt_Fprintf_def)

text \<open>Without a header the standard logger writes what the writer's logger writes, as long as formatting
  keeps the end of the line.\<close>

lemma Std_is_Writer:
  assumes "\<And>format args. \<exists>s. sprintf (format @ newline) args = s @ newline"
  shows "fold (\<lambda>(lv, format, args). log_at (Std '''' sprintf) lv format args) cs out =
    fold (\<lambda>(lv, format, args). log_at (Writer sprintf) lv format args) cs out"
proof -
  have "std_line '''' sprintf lv format args = Some (sprintf (tag lv @ format @ newline) args)" for lv format args
    using assms [of "tag lv @ format" args] by (auto simp: std_line_def Let_def newline_def)
  then have "std_line '''' sprintf lv = (\<lambda>format args. Some (sprintf (tag lv @ format @ newline) args))" for lv
    by (simp add: fun_eq_iff)
  then show ?thesis unfolding std.calls writer.calls by simp
qed

end
