(* ===== verification/Example_Auth.thy ===== *)
theory Example_Auth
  imports Jwtsvid Workload_Sources
begin

text \<open>
  The token middleware of the example servers (\<open>examples/spiffe-jwt/server\<close> and
  \<open>examples/spiffe-jwt-using-proxy/server\<close>): \<open>authenticateClient\<close>, the handler \<open>index\<close> behind it, and
  the claims it passes on in the context of the request. Of the standard library the code uses
  \<open>strings.Fields\<close>, request headers, contexts and the writing of a response.
\<close>

section \<open>Definitions\<close>

subsection \<open>Fields of a string\<close>

text \<open>
  The number of bytes of the white space character at the head of a string, zero if there is none:
  the code points of \<open>unicode.IsSpace\<close> in UTF-8. A byte of a malformed encoding is no white
  space, and no valid encoding contains the first byte of another, so looking at the bytes is
  looking at the runes.
\<close>

definition space_len :: "string \<Rightarrow> nat" where
  "space_len s = (let b = map of_char (take 3 s) :: nat list in
     if b \<noteq> [] \<and> (9 \<le> hd b \<and> hd b \<le> 13 \<or> hd b = 0x20) then 1
     else if take 2 b = [0xC2, 0x85] \<or> take 2 b = [0xC2, 0xA0] then 2
     else if b \<in> {[0xE1, 0x9A, 0x80], [0xE2, 0x80, 0xA8], [0xE2, 0x80, 0xA9], [0xE2, 0x80, 0xAF], [0xE2, 0x81, 0x9F],
                  [0xE3, 0x80, 0x80]} \<or>
             length b = 3 \<and> take 2 b = [0xE2, 0x80] \<and> 0x80 \<le> b ! 2 \<and> b ! 2 \<le> 0x8A then 3
     else 0)"

fun fields_scan :: "string \<Rightarrow> string \<Rightarrow> string list" where
  "fields_scan field [] = (if field = [] then [] else [field])"
| "fields_scan field (c # s) =
     (case space_len (c # s) of
        0 \<Rightarrow> fields_scan (field @ [c]) s
      | Suc n \<Rightarrow> (if field = [] then [] else [field]) @ fields_scan [] (drop n s))"

definition strings_Fields :: "string \<Rightarrow> string list" where
  "strings_Fields s = fields_scan [] s"

subsection \<open>Requests and responses\<close>

text \<open>The keys in use are in the canonical form that \<open>Get\<close> and \<open>Set\<close> give them.\<close>

type_synonym http_Header = "(string, string list) gomap"

definition Header_Get :: "http_Header \<Rightarrow> string \<Rightarrow> string" where
  "Header_Get h key = (case gm_get h key of Some (v # _) \<Rightarrow> v | _ \<Rightarrow> '''')"

definition Header_Set :: "string \<Rightarrow> string \<Rightarrow> http_Header \<Rightarrow> http_Header" where
  "Header_Set key v h = gm_set key [v] h"

text \<open>A context is the list of the values it was given, the latest first.\<close>

datatype ctx_key = svidClaimsKey | Library_Key string

datatype ctx_value = Claims_Value "(string, json) gomap" | Other_Value

type_synonym req_context = "(ctx_key \<times> ctx_value) list"

definition context_WithValue :: "req_context \<Rightarrow> ctx_key \<Rightarrow> ctx_value \<Rightarrow> req_context" where
  "context_WithValue ctx key v = (key, v) # ctx"

definition context_Value :: "req_context \<Rightarrow> ctx_key \<Rightarrow> ctx_value option" where
  "context_Value ctx key = map_of ctx key"

record request =
  rq_Method :: string
  rq_URL :: string
  rq_Header :: http_Header
  rq_ctx :: req_context

text \<open>The response so far (the status is unset until something is written) and what was logged. A
  second \<open>WriteHeader\<close> has no effect; a write without one is a 200. A handler runs in the state of
  the program at that moment.\<close>

datatype log_line = Log_Print string | Log_Claims string "(string, json) gomap" | Log_Error string error
  | Log_Request string string string

record exchange =
  hx_status :: "nat option"
  hx_Header :: http_Header
  hx_body :: string
  hx_log :: "log_line list"

type_synonym 'w handler = "'w \<Rightarrow> request \<Rightarrow> exchange \<Rightarrow> exchange res"

definition StatusOK :: nat where "StatusOK = 200"
definition StatusUnauthorized :: nat where "StatusUnauthorized = 401"

definition log_add :: "log_line \<Rightarrow> exchange \<Rightarrow> exchange" where
  "log_add l x = x\<lparr>hx_log := hx_log x @ [l]\<rparr>"

definition WriteHeader :: "nat \<Rightarrow> exchange \<Rightarrow> exchange" where
  "WriteHeader code x = (case hx_status x of None \<Rightarrow> x\<lparr>hx_status := Some code\<rparr> | Some _ \<Rightarrow> x)"

definition io_WriteString :: "string \<Rightarrow> exchange \<Rightarrow> exchange" where
  "io_WriteString s x = (let x = WriteHeader StatusOK x in x\<lparr>hx_body := hx_body x @ s\<rparr>)"

definition http_Error :: "string \<Rightarrow> nat \<Rightarrow> exchange \<Rightarrow> exchange" where
  "http_Error msg code x =
     (let x = x\<lparr>hx_Header := Header_Set ''X-Content-Type-Options'' ''nosniff''
            (Header_Set ''Content-Type'' ''text/plain; charset=utf-8'' (gm_delete ''Content-Length'' (hx_Header x)))\<rparr>;
          x = WriteHeader code x
      in x\<lparr>hx_body := hx_body x @ msg @ [CHR 0x0A]\<rparr>)"

subsection \<open>The middleware\<close>

text \<open>A \<open>JWTSource\<close> is a handle: the state of the program says what it holds, and what time it is.\<close>

record 'j authenticator =
  au_jwtSource :: 'j
  au_audiences :: "string list"

record ('w, 'j, 'b) auth_env =
  ae_charset :: charset
  ae_jose :: "'b jose_lib"
  ae_now :: "'w \<Rightarrow> int"
  ae_deref :: "'w \<Rightarrow> 'j \<Rightarrow> JWTSource"

definition jwt_server_withSVIDClaims :: "req_context \<Rightarrow> (string, json) gomap \<Rightarrow> req_context" where
  "jwt_server_withSVIDClaims ctx claims = context_WithValue ctx svidClaimsKey (Claims_Value claims)"

text \<open>A nil map reads like the empty one.\<close>

definition jwt_server_svidClaims :: "req_context \<Rightarrow> (string, json) gomap" where
  "jwt_server_svidClaims ctx = (case context_Value ctx svidClaimsKey of Some (Claims_Value claims) \<Rightarrow> claims | _ \<Rightarrow> [])"

definition jwt_server_index :: "'w handler" where
  "jwt_server_index w r x =
     (let x = log_add (Log_Claims ''Request received'' (jwt_server_svidClaims (rq_ctx r))) x
      in Ok (io_WriteString ''Success!!!'' x))"

definition jwt_server_authenticateClient ::
  "('w, 'j, 'b, 'z) auth_env_scheme \<Rightarrow> 'j authenticator \<Rightarrow> 'w handler \<Rightarrow> 'w handler" where
  "jwt_server_authenticateClient env a next_handler = (\<lambda>w req x.
     let fields = strings_Fields (Header_Get (rq_Header req) ''Authorization'') in
     if length fields \<noteq> 2 \<or> fields ! 0 \<noteq> ''Bearer'' then
       (let x = log_add (Log_Print ''Malformed header'') x
        in Ok (http_Error ''Invalid or unsupported authorization header'' StatusUnauthorized x))
     else
       let token = fields ! 1 in
       case jwtsvid_ParseAndValidate (ae_charset env) (ae_jose env) (ae_now env w) token
           (JWTSource_GetJWTBundleForTrustDomain (ae_deref env w (au_jwtSource a))) (au_audiences a) of
         Panic e \<Rightarrow> Panic e
       | Err err \<Rightarrow>
           (let x = log_add (Log_Error ''Invalid token: %v'' err) x
            in Ok (http_Error ''Unauthorized'' StatusUnauthorized x))
       | Ok svid \<Rightarrow>
           (let req = req\<lparr>rq_ctx := jwt_server_withSVIDClaims (rq_ctx req) (js_Claims svid)\<rparr>
            in next_handler w req x))"

definition proxied_server_index :: "'w handler" where
  "proxied_server_index w r x =
     (let x = log_add (Log_Print ''Request received'') x in Ok (io_WriteString ''Success!!!'' x))"

definition proxied_server_authenticateClient ::
  "('w, 'j, 'b, 'z) auth_env_scheme \<Rightarrow> 'j authenticator \<Rightarrow> 'w handler \<Rightarrow> 'w handler" where
  "proxied_server_authenticateClient env a next_handler = (\<lambda>w req x.
     let fields = strings_Fields (Header_Get (rq_Header req) ''Authorization'') in
     if length fields \<noteq> 2 \<or> fields ! 0 \<noteq> ''Bearer'' then
       (let x = log_add (Log_Print ''Malformed header'') x
        in Ok (http_Error ''Invalid or unsupported authorization header'' StatusUnauthorized x))
     else
       let token = fields ! 1 in
       case jwtsvid_ParseAndValidate (ae_charset env) (ae_jose env) (ae_now env w) token
           (JWTSource_GetJWTBundleForTrustDomain (ae_deref env w (au_jwtSource a))) (au_audiences a) of
         Panic e \<Rightarrow> Panic e
       | Err err \<Rightarrow>
           (let x = log_add (Log_Error ''Invalid token: %v'' err) x
            in Ok (http_Error ''Unauthorized'' StatusUnauthorized x))
       | Ok _ \<Rightarrow> next_handler w req x)"

section \<open>Lemmas\<close>

subsection \<open>Fields\<close>

definition graphic :: "char \<Rightarrow> bool" where
  "graphic c \<longleftrightarrow> 0x21 \<le> (of_char c :: nat) \<and> (of_char c :: nat) \<le> 0x7E"

lemma space_len_graphic: "graphic c \<Longrightarrow> space_len (c # s) = 0"
  by (auto simp: space_len_def graphic_def Let_def numeral_2_eq_2 numeral_3_eq_3)

lemma fields_scan_graphic:
  "list_all graphic t \<Longrightarrow> fields_scan field (t @ s) = fields_scan (field @ t) s"
  by (induction t arbitrary: field) (simp_all add: space_len_graphic)

lemma space_len_blank: "space_len (CHR '' '' # s) = 1"
  by (simp add: space_len_def Let_def numeral_3_eq_3)

lemma Fields_bearer:
  assumes "list_all graphic t" "t \<noteq> []"
  shows "strings_Fields (''Bearer '' @ t) = [''Bearer'', t]"
proof -
  have b: "list_all graphic ''Bearer''" by (simp add: graphic_def)
  have "strings_Fields (''Bearer '' @ t) = fields_scan [] (''Bearer'' @ CHR '' '' # t)"
    by (simp add: strings_Fields_def)
  also have "\<dots> = fields_scan ''Bearer'' (CHR '' '' # t)"
    using fields_scan_graphic [OF b, of "[]" "CHR '' '' # t"] by simp
  also have "\<dots> = ''Bearer'' # fields_scan [] t" by (simp add: space_len_blank)
  also have "fields_scan [] t = [t]" using fields_scan_graphic [OF assms(1), of "[]" "[]"] assms(2) by simp
  finally show ?thesis .
qed

text \<open>The fields are never empty and have no white space.\<close>

text \<open>The length in terms of the bytes.\<close>

definition space_bytes :: "nat list \<Rightarrow> nat" where
  "space_bytes b =
     (if b \<noteq> [] \<and> (9 \<le> hd b \<and> hd b \<le> 13 \<or> hd b = 0x20) then 1
     else if take 2 b = [0xC2, 0x85] \<or> take 2 b = [0xC2, 0xA0] then 2
     else if b \<in> {[0xE1, 0x9A, 0x80], [0xE2, 0x80, 0xA8], [0xE2, 0x80, 0xA9], [0xE2, 0x80, 0xAF], [0xE2, 0x81, 0x9F],
                  [0xE3, 0x80, 0x80]} \<or>
             length b = 3 \<and> take 2 b = [0xE2, 0x80] \<and> 0x80 \<le> b ! 2 \<and> b ! 2 \<le> 0x8A then 3
     else 0)"

lemma space_len_bytes: "space_len s = space_bytes (take 3 (map of_char s))"
  unfolding space_len_def space_bytes_def Let_def take_map ..

lemma space_bytes_append:
  assumes "space_bytes (take 3 b) \<noteq> 0"
  shows "space_bytes (take 3 (b @ r)) = space_bytes (take 3 b)"
proof (cases "3 \<le> length b")
  case False
  then have b: "take 3 b = b" "length b < 3" by simp_all
  then have hd: "b \<noteq> [] \<Longrightarrow> hd (take 3 (b @ r)) = hd b" by (cases b) (simp_all add: numeral_3_eq_3)
  show ?thesis
  proof (cases "b \<noteq> [] \<and> (9 \<le> hd b \<and> hd b \<le> 13 \<or> hd b = 0x20)")
    case True
    then show ?thesis using hd by (simp add: space_bytes_def b(1))
  next
    case not_ascii: False
    with assms have two: "take 2 b = [0xC2, 0x85] \<or> take 2 b = [0xC2, 0xA0]"
      using b by (auto simp: space_bytes_def split: if_splits)
    then have "b = [0xC2, 0x85] \<or> b = [0xC2, 0xA0]" using b(2) by (cases "length b = 2") auto
    moreover from this have "hd (take 3 (b @ r)) = 0xC2" "take 2 (take 3 (b @ r)) = b" "take 3 (b @ r) \<noteq> []"
      by auto
    ultimately show ?thesis unfolding space_bytes_def b(1) by (elim disjE) simp_all
  qed
qed simp

lemma space_len_append: "space_len s \<noteq> 0 \<Longrightarrow> space_len (s @ r) = space_len s"
  using space_bytes_append [of "map of_char s" "map of_char r"] by (simp add: space_len_bytes)

definition no_space :: "string \<Rightarrow> bool" where
  "no_space s \<longleftrightarrow> (\<forall>i < length s. space_len (drop i s) = 0)"

lemma fields_scan_fields:
  assumes "\<forall>i < length field. space_len (drop i field @ s) = 0" "f \<in> set (fields_scan field s)"
  shows "f \<noteq> [] \<and> no_space f"
  using assms
proof (induction field s rule: fields_scan.induct)
  case (1 field)
  then show ?case by (auto simp: no_space_def split: if_splits)
next
  case (2 field c s)
  have field: "no_space field"
    unfolding no_space_def using 2(3) space_len_append by (metis)
  show ?case
  proof (cases "space_len (c # s)")
    case 0
    have "space_len (drop i (field @ [c]) @ s) = 0" if "i < length (field @ [c])" for i
      using that 2(3) 0 by (cases "i = length field") auto
    then show ?thesis using 2(1,4) 0 by auto
  next
    case (Suc n)
    then show ?thesis using 2(2,4) field by (auto split: if_splits)
  qed
qed

lemma Fields_no_space: "f \<in> set (strings_Fields s) \<Longrightarrow> f \<noteq> [] \<and> no_space f"
  unfolding strings_Fields_def by (rule fields_scan_fields [of "[]"]) simp_all

subsection \<open>The middleware\<close>

text \<open>The token that a request carries, and what the validation against the source says of it.\<close>

definition bearer_token :: "request \<Rightarrow> string option" where
  "bearer_token req = (case strings_Fields (Header_Get (rq_Header req) ''Authorization'') of
     [scheme, token] \<Rightarrow> if scheme = ''Bearer'' then Some token else None | _ \<Rightarrow> None)"

definition validated ::
  "('w, 'j, 'b, 'z) auth_env_scheme \<Rightarrow> 'j authenticator \<Rightarrow> 'w \<Rightarrow> string \<Rightarrow> jwtsvid_SVID res" where
  "validated env a w token = jwtsvid_ParseAndValidate (ae_charset env) (ae_jose env) (ae_now env w) token
     (JWTSource_GetJWTBundleForTrustDomain (ae_deref env w (au_jwtSource a))) (au_audiences a)"

definition malformed :: "exchange \<Rightarrow> exchange" where
  "malformed x = http_Error ''Invalid or unsupported authorization header'' StatusUnauthorized
     (log_add (Log_Print ''Malformed header'') x)"

definition unauthorized :: "error \<Rightarrow> exchange \<Rightarrow> exchange" where
  "unauthorized err x = http_Error ''Unauthorized'' StatusUnauthorized (log_add (Log_Error ''Invalid token: %v'' err) x)"

lemma two_fields:
  "(if length fs \<noteq> 2 \<or> fs ! 0 \<noteq> v then a else f (fs ! 1)) =
     (case (case fs of [s, t] \<Rightarrow> if s = v then Some t else None | _ \<Rightarrow> None) of None \<Rightarrow> a | Some t \<Rightarrow> f t)"
  by (cases fs; cases "tl fs"; cases "tl (tl fs)") auto

lemma bearer_token_Some:
  "bearer_token req = Some t \<longleftrightarrow> strings_Fields (Header_Get (rq_Header req) ''Authorization'') = [''Bearer'', t]"
  by (auto simp: bearer_token_def split: list.splits if_splits)

lemma bearer_token_header:
  "Header_Get (rq_Header req) ''Authorization'' = ''Bearer '' @ t \<Longrightarrow> list_all graphic t \<Longrightarrow> t \<noteq> [] \<Longrightarrow>
     bearer_token req = Some t"
  unfolding bearer_token_Some using Fields_bearer [of t] by simp

lemma jwt_server_authenticateClient_cases:
  "jwt_server_authenticateClient env a nh w req x =
     (case bearer_token req of
        None \<Rightarrow> Ok (malformed x)
      | Some token \<Rightarrow> (case validated env a w token of
            Panic e \<Rightarrow> Panic e | Err err \<Rightarrow> Ok (unauthorized err x)
          | Ok svid \<Rightarrow> nh w (req\<lparr>rq_ctx := jwt_server_withSVIDClaims (rq_ctx req) (js_Claims svid)\<rparr>) x))"
  unfolding jwt_server_authenticateClient_def Let_def bearer_token_def malformed_def unauthorized_def validated_def
  by (rule two_fields)

lemma proxied_server_authenticateClient_cases:
  "proxied_server_authenticateClient env a nh w req x =
     (case bearer_token req of
        None \<Rightarrow> Ok (malformed x)
      | Some token \<Rightarrow> (case validated env a w token of
            Panic e \<Rightarrow> Panic e | Err err \<Rightarrow> Ok (unauthorized err x) | Ok svid \<Rightarrow> nh w req x))"
  unfolding proxied_server_authenticateClient_def Let_def bearer_token_def malformed_def unauthorized_def validated_def
  by (rule two_fields)

text \<open>What a client sees of a response: the status and the body.\<close>

definition new_exchange :: exchange where
  "new_exchange = \<lparr>hx_status = None, hx_Header = [], hx_body = '''', hx_log = []\<rparr>"

definition answer :: "exchange res \<Rightarrow> (nat option \<times> string) res" where
  "answer r = bind_res r (\<lambda>x. Ok (hx_status x, hx_body x))"

lemma answers [simp]:
  "answer (Ok (malformed new_exchange)) =
     Ok (Some 401, ''Invalid or unsupported authorization header'' @ [CHR 0x0A])"
  "answer (Ok (unauthorized err new_exchange)) = Ok (Some 401, ''Unauthorized'' @ [CHR 0x0A])"
  "answer (jwt_server_index w req new_exchange) = Ok (Some 200, ''Success!!!'')"
  "answer (proxied_server_index w req new_exchange) = Ok (Some 200, ''Success!!!'')"
  "answer (Panic e) = Panic e"
  by (simp_all add: answer_def malformed_def unauthorized_def http_Error_def io_WriteString_def WriteHeader_def log_add_def
      new_exchange_def jwt_server_index_def proxied_server_index_def StatusUnauthorized_def StatusOK_def)

text \<open>Both servers answer alike; the first also hands the claims to its handler.\<close>

definition guarded_answer ::
  "('w, 'j, 'b, 'z) auth_env_scheme \<Rightarrow> 'j authenticator \<Rightarrow> 'w \<Rightarrow> request \<Rightarrow> (nat option \<times> string) res" where
  "guarded_answer env a w req =
     (case bearer_token req of
        None \<Rightarrow> Ok (Some 401, ''Invalid or unsupported authorization header'' @ [CHR 0x0A])
      | Some token \<Rightarrow> (case validated env a w token of
            Panic e \<Rightarrow> Panic e
          | Err err \<Rightarrow> Ok (Some 401, ''Unauthorized'' @ [CHR 0x0A])
          | Ok svid \<Rightarrow> Ok (Some 200, ''Success!!!'')))"

lemma guarded_answers:
  "answer (jwt_server_authenticateClient env a jwt_server_index w req new_exchange) = guarded_answer env a w req"
  "answer (proxied_server_authenticateClient env a proxied_server_index w req new_exchange) = guarded_answer env a w req"
  by (simp_all add: jwt_server_authenticateClient_cases proxied_server_authenticateClient_cases guarded_answer_def
      split: option.splits res.splits)

lemma svidClaims_withSVIDClaims [simp]: "jwt_server_svidClaims (jwt_server_withSVIDClaims ctx claims) = claims"
  by (simp add: jwt_server_svidClaims_def jwt_server_withSVIDClaims_def context_Value_def context_WithValue_def)

end
