(* ===== verification/Example_Programs.thy ===== *)
theory Example_Programs
  imports Example_Auth Spiffetls Grpccredentials Workload_Addr
begin

text \<open>
  The example programs (\<open>examples/\<close>, the watcher excepted): HTTP over mTLS, tokens over HTTPS with
  and without a proxy, TLS, gRPC. Each is the function \<open>run\<close> of its \<open>main.go\<close>, translated call by
  call: what it opened, registered, sent and closed, in order, and what it returned. A deferred
  \<open>Close\<close> runs on every way out. A server that still serves has no result. Sources, servers,
  requests, connections and bodies are the environment.
\<close>

section \<open>Definitions\<close>

subsection \<open>Effects\<close>

datatype ('h, 'a) effect = Opened 'h | Closed 'h | Did 'a

type_synonym ('h, 'a, 'r) program = "('h, 'a) effect list \<times> 'r res option"

text \<open>\<open>returning\<close> ends the function; \<open>performing\<close> is a call that cannot fail; \<open>trying\<close> a call
  whose error is wrapped and returned; \<open>waiting\<close> one that may not have returned yet; \<open>holding\<close>
  acquires a resource and defers its \<open>Close\<close>; \<open>leaving\<close> acquires one that is not closed.\<close>

definition returning :: "'r res \<Rightarrow> ('h, 'a, 'r) program" where
  "returning r = ([], Some r)"

definition performing :: "'a \<Rightarrow> ('h, 'a, 'r) program \<Rightarrow> ('h, 'a, 'r) program" where
  "performing a p = (Did a # fst p, snd p)"

definition trying :: "(error \<Rightarrow> error) \<Rightarrow> 'v res \<Rightarrow> ('v \<Rightarrow> ('h, 'a, 'r) program) \<Rightarrow> ('h, 'a, 'r) program" where
  "trying wrap call k = (case call of
     Ok v \<Rightarrow> k v | Err err \<Rightarrow> returning (Err (wrap err)) | Panic e \<Rightarrow> returning (Panic e))"

definition waiting :: "(error \<Rightarrow> error) \<Rightarrow> 'v res option \<Rightarrow> ('v \<Rightarrow> ('h, 'a, 'r) program) \<Rightarrow> ('h, 'a, 'r) program" where
  "waiting wrap call k = (case call of None \<Rightarrow> ([], None) | Some r \<Rightarrow> trying wrap r k)"

definition holding :: "'h \<Rightarrow> ('h, 'a, 'r) program \<Rightarrow> ('h, 'a, 'r) program" where
  "holding h p = (Opened h # fst p @ (if snd p = None then [] else [Closed h]), snd p)"

definition leaving :: "'h \<Rightarrow> ('h, 'a, 'r) program \<Rightarrow> ('h, 'a, 'r) program" where
  "leaving h p = (Opened h # fst p, snd p)"

datatype ('src, 'j, 'c) handle =
  H_Context | H_X509Source 'src | H_JWTSource 'j | H_Body 'c | H_Listener 'c | H_Conn 'c

subsection \<open>HTTP\<close>

record ('w, 'e, 'x) http_Server =
  sv_Addr :: string
  sv_TLSConfig :: "('w, 'e, 'x) tls_Config"
  sv_ReadHeaderTimeout :: int

record 'body http_Response =
  hr_StatusCode :: nat
  hr_Body :: 'body

text \<open>\<open>Handles pattern h\<close> is a registration at the default mux, which every server here uses;
  \<open>Serves\<close> is the call of \<open>ListenAndServeTLS\<close>, \<open>Sends\<close> a request over a transport with the
  configuration.\<close>

datatype ('w, 'e, 'x) http_act =
    Handles string "'w handler"
  | Serves "('w, 'e, 'x) http_Server"
  | Sends "('w, 'e, 'x) tls_Config" request
  | Logs string

record ('w, 'j, 'b, 't, 'src, 'o, 'e, 'x, 'body) http_env = "('w, 'j, 'b) auth_env" +
  he_x509 :: "'t x509_lib"
  he_derefX :: "'w \<Rightarrow> 'src \<Rightarrow> X509Source"
  he_NewX509Source :: "'o list \<Rightarrow> 'src res"
  he_NewJWTSource :: "'o list \<Rightarrow> 'j res"
  he_client :: "'j \<Rightarrow> sourceClient"
  he_zero :: 'x
  he_ListenAndServeTLS :: "('w, 'e, 'x) http_Server \<Rightarrow> unit res option"
  he_NewRequest :: "string \<Rightarrow> string \<Rightarrow> request res"
  he_Do :: "('w, 'e, 'x) tls_Config \<Rightarrow> request \<Rightarrow> 'body http_Response res"
  he_ReadAll :: "'body \<Rightarrow> string res"
  he_url_Parse :: "string \<Rightarrow> URL res"
  he_ReverseProxy :: "URL \<Rightarrow> ('w, 'e, 'x) tls_Config \<Rightarrow> 'w handler"

definition socketPath :: string where
  "socketPath = ''unix:///tmp/agent.sock''"

text \<open>\<open>workloadapi.WithClientOptions(workloadapi.WithAddr(socketPath))\<close>\<close>

definition socket_option :: "('c, ('d, 'l, 'k) ClientOption) SourceOption" where
  "socket_option = withClientOptions [WithAddr socketPath]"

definition http_bundle where
  "http_bundle env source = (\<lambda>w. X509Source_GetX509BundleForTrustDomain (he_derefX env w source))"

definition http_svid where
  "http_svid env source = (\<lambda>w. X509Source_GetX509SVID (he_derefX env w source))"

text \<open>No options are passed: no trace.\<close>

abbreviation no_options :: "(unit, 'e) Option list" where "no_options \<equiv> []"
abbreviation no_dial_options :: "('w, unit, 'e, 'x, 'd) DialOption list" where "no_dial_options \<equiv> []"
abbreviation no_listen_options :: "('w, unit, 'e, 'x) ListenOption list" where "no_listen_options \<equiv> []"

definition seconds :: "int \<Rightarrow> int" where "seconds n = n * 1000000000"

subsection \<open>\<open>spiffe-http\<close>\<close>

definition http_server_root :: "'w handler" where
  "http_server_root w r x =
     (let x = log_add (Log_Print ''Request received'') x in Ok (io_WriteString ''Success!!!'' x))"

definition http_server_run where
  "http_server_run env =
     holding H_Context (
     performing (Handles ''/'' http_server_root) (
     trying (Wrap ''unable to create X509Source: %w'' []) (he_NewX509Source env [socket_option]) (\<lambda>source.
     holding (H_X509Source source) (
     trying id (RequireFromString (ae_charset env) ''spiffe://example.org/client'') (\<lambda>clientID.
     let tlsConfig = MTLSServerConfig (ae_charset env) (he_x509 env) (he_zero env) (http_svid env source)
           (Some (http_bundle env source)) (AuthorizeID clientID) no_options;
         server = \<lparr>sv_Addr = '':8443'', sv_TLSConfig = tlsConfig, sv_ReadHeaderTimeout = seconds 10\<rparr> in
     performing (Serves server) (
     waiting (Wrap ''failed to serve: %w'' []) (he_ListenAndServeTLS env server) (\<lambda>_.
     returning (Ok ()))))))))"

definition http_client_run where
  "http_client_run env =
     holding H_Context (
     trying (Wrap ''unable to create X509Source: %w'' []) (he_NewX509Source env [socket_option]) (\<lambda>source.
     holding (H_X509Source source) (
     trying id (RequireFromString (ae_charset env) ''spiffe://example.org/server'') (\<lambda>serverID.
     let tlsConfig = MTLSClientConfig (ae_charset env) (he_x509 env) (he_zero env) (http_svid env source)
           (Some (http_bundle env source)) (AuthorizeID serverID) no_options;
         serverURL = ''https://localhost:8443/'';
         failed = Wrap ''error connecting to %q: %w'' [serverURL] in
     trying failed (he_NewRequest env ''GET'' serverURL) (\<lambda>req.
     performing (Sends tlsConfig req) (
     trying failed (he_Do env tlsConfig req) (\<lambda>r.
     holding (H_Body (hr_Body r)) (
     trying (Wrap ''unable to read body: %w'' []) (he_ReadAll env (hr_Body r)) (\<lambda>body.
     performing (Logs body) (returning (Ok ())))))))))))"

subsection \<open>\<open>spiffe-jwt\<close>\<close>

definition jwt_server_run where
  "jwt_server_run env =
     (let clientOptions = socket_option in
     trying (Wrap ''unable to create X509Source: %w'' []) (he_NewX509Source env [clientOptions]) (\<lambda>x509Source.
     holding (H_X509Source x509Source) (
     let tlsConfig = TLSServerConfig (he_zero env) (http_svid env x509Source) no_options;
         server = \<lparr>sv_Addr = '':8443'', sv_TLSConfig = tlsConfig, sv_ReadHeaderTimeout = seconds 10\<rparr> in
     trying (Wrap ''unable to create JWTSource: %w'' []) (he_NewJWTSource env [clientOptions]) (\<lambda>jwtSource.
     holding (H_JWTSource jwtSource) (
     let auth = \<lparr>au_jwtSource = jwtSource, au_audiences = [''spiffe://example.org/server'']\<rparr> in
     performing (Handles ''/'' (jwt_server_authenticateClient env auth jwt_server_index)) (
     performing (Serves server) (
     waiting (Wrap ''failed to serve: %w'' []) (he_ListenAndServeTLS env server) (\<lambda>_.
     returning (Ok ())))))))))"

text \<open>The command line is a parameter, and the state in which the token is fetched. A method call on
  a nil SVID panics.\<close>

definition nil_Marshal :: "jwtsvid_SVID option \<Rightarrow> string res" where
  "nil_Marshal svid = (case svid of None \<Rightarrow> Panic (New ''nil pointer dereference'') | Some s \<Rightarrow> Ok (jwtsvid_Marshal s))"

definition jwt_client_run where
  "jwt_client_run env args w =
     holding H_Context (
     let clientOptions = socket_option; serverURL = ''https://localhost:8443'' in
     trying (Wrap ''unable to create X509Source: %w'' []) (he_NewX509Source env [clientOptions]) (\<lambda>x509Source.
     holding (H_X509Source x509Source) (
     trying id (RequireFromString (ae_charset env) ''spiffe://example.org/server'') (\<lambda>serverID.
     let tlsConfig = TLSClientConfig (ae_charset env) (he_x509 env) (he_zero env) (Some (http_bundle env x509Source))
           (AuthorizeID serverID) in
     trying (Wrap ''unable to create request: %w'' []) (he_NewRequest env ''GET'' serverURL) (\<lambda>req.
     let audience = (if length args \<ge> 2 then args ! 1 else ID_String serverID) in
     trying (Wrap ''unable to create JWTSource: %w'' []) (he_NewJWTSource env [clientOptions]) (\<lambda>jwtSource.
     holding (H_JWTSource jwtSource) (
     trying (Wrap ''unable to fetch SVID: %w'' [])
       (JWTSource_FetchJWTSVID (he_client env jwtSource) (ae_deref env w jwtSource)
         \<lparr>jp_Audience = audience, jp_ExtraAudiences = [], jp_Subject = zero_ID\<rparr>) (\<lambda>svid.
     trying id (nil_Marshal svid) (\<lambda>token.
     let req = req\<lparr>rq_Header := Header_Set ''Authorization'' (''Bearer '' @ token) (rq_Header req)\<rparr> in
     performing (Sends tlsConfig req) (
     trying (Wrap ''unable to issue request to %q: %w'' [serverURL]) (he_Do env tlsConfig req) (\<lambda>res.
     holding (H_Body (hr_Body res)) (
     trying (Wrap ''error reading response body: %w'' []) (he_ReadAll env (hr_Body res)) (\<lambda>body.
     performing (Logs body) (returning (Ok ())))))))))))))))"

subsection \<open>\<open>spiffe-jwt-using-proxy\<close>\<close>

definition proxied_server_run where
  "proxied_server_run env =
     (let clientOptions = socket_option in
     trying (Wrap ''unable to create X509Source: %w'' []) (he_NewX509Source env [clientOptions]) (\<lambda>x509Source.
     holding (H_X509Source x509Source) (
     trying (Wrap ''unable to create JWTSource: %w'' []) (he_NewJWTSource env [clientOptions]) (\<lambda>jwtSource.
     holding (H_JWTSource jwtSource) (
     let auth = \<lparr>au_jwtSource = jwtSource, au_audiences = [''spiffe://example.org/server'']\<rparr> in
     performing (Handles ''/'' (proxied_server_authenticateClient env auth proxied_server_index)) (
     let server = \<lparr>sv_Addr = '':8080'', sv_TLSConfig = TLSServerConfig (he_zero env) (http_svid env x509Source) no_options,
           sv_ReadHeaderTimeout = seconds 10\<rparr> in
     performing (Serves server) (
     waiting (Wrap ''failed to serve: %w'' []) (he_ListenAndServeTLS env server) (\<lambda>_.
     returning (Ok ())))))))))"

definition proxied_client_run where
  "proxied_client_run env args w =
     holding H_Context (
     let clientOptions = socket_option; serverURL = ''https://localhost:8443'' in
     trying (Wrap ''unable to create X509Source: %w'' []) (he_NewX509Source env [clientOptions]) (\<lambda>x509Source.
     holding (H_X509Source x509Source) (
     trying id (RequireFromString (ae_charset env) ''spiffe://example.org/server'') (\<lambda>serverID.
     let audience = (if length args \<ge> 2 then args ! 1 else ID_String serverID) in
     trying (Wrap ''unable to create JWTSource: %w'' []) (he_NewJWTSource env [clientOptions]) (\<lambda>jwtSource.
     holding (H_JWTSource jwtSource) (
     trying (Wrap ''unable to fetch SVID: %w'' [])
       (JWTSource_FetchJWTSVID (he_client env jwtSource) (ae_deref env w jwtSource)
         \<lparr>jp_Audience = audience, jp_ExtraAudiences = [], jp_Subject = zero_ID\<rparr>) (\<lambda>svid.
     trying (Wrap ''unable to create request: %w'' []) (he_NewRequest env ''GET'' serverURL) (\<lambda>req.
     trying id (nil_Marshal svid) (\<lambda>token.
     let req = req\<lparr>rq_Header := Header_Set ''Authorization'' (''Bearer '' @ token) (rq_Header req)\<rparr>;
         tlsConfig = TLSClientConfig (ae_charset env) (he_x509 env) (he_zero env) (Some (http_bundle env x509Source))
           (AuthorizeID serverID) in
     performing (Sends tlsConfig req) (
     trying (Wrap ''unable to connect to %q: %w'' [serverURL]) (he_Do env tlsConfig req) (\<lambda>res.
     holding (H_Body (hr_Body res)) (
     if hr_StatusCode res \<noteq> StatusOK then
       returning (Err (Errorf ''unexpected status: %d'' [itoa (hr_StatusCode res)]))
     else
     trying (Wrap ''error reading response body: %w'' []) (he_ReadAll env (hr_Body res)) (\<lambda>body.
     performing (Logs body) (returning (Ok ())))))))))))))))"

definition proxy_handler :: "'w handler \<Rightarrow> 'w handler" where
  "proxy_handler p = (\<lambda>w r x. p w r (log_add (Log_Request ''%s %s'' (rq_Method r) (rq_URL r)) x))"

definition proxy_run where
  "proxy_run env =
     trying (Wrap ''unable to parse server URL: %w'' []) (he_url_Parse env ''https://localhost:8080'') (\<lambda>remote.
     holding H_Context (
     trying (Wrap ''unable to create X509Source: %w'' []) (he_NewX509Source env [socket_option]) (\<lambda>x509Source.
     holding (H_X509Source x509Source) (
     trying id (RequireFromString (ae_charset env) ''spiffe://example.org/server'') (\<lambda>serverID.
     let transport = TLSClientConfig (ae_charset env) (he_x509 env) (he_zero env) (Some (http_bundle env x509Source))
           (AuthorizeID serverID);
         proxy = he_ReverseProxy env remote transport in
     performing (Handles ''/'' (proxy_handler proxy)) (
     let server = \<lparr>sv_Addr = '':8443'', sv_TLSConfig = TLSServerConfig (he_zero env) (http_svid env x509Source) no_options,
           sv_ReadHeaderTimeout = seconds 10\<rparr> in
     performing (Serves server) (
     waiting (Wrap ''failed to serve: %w'' []) (he_ListenAndServeTLS env server) (\<lambda>_.
     returning (Ok ())))))))))"

subsection \<open>\<open>spiffe-tls\<close>\<close>

text \<open>What reading a line and writing give are parameters: the data read, and the error if there is
  one. \<open>Spawns\<close> starts a goroutine that runs \<open>handleConnection\<close>.\<close>

datatype 'conn io_act = Spawns 'conn | Writes string | Prints string string | Prints_err string error

definition server_id_mode where
  "server_id_mode serverID = MTLSClientWithSourceOptions (AuthorizeID serverID) [socket_option]"

definition client_id_mode where
  "client_id_mode clientID = MTLSServerWithSourceOptions (AuthorizeID clientID) [socket_option]"

definition tls_client_run where
  "tls_client_run env lib read_line io_EOF =
     holding H_Context (
     trying id (RequireFromString (te_charset env) ''spiffe://example.org/server'') (\<lambda>serverID.
     trying (Wrap ''unable to create TLS connection: %w'' [])
       (out_result (DialWithMode env lib ''tcp'' ''localhost:55555'' (server_id_mode serverID) no_dial_options)) (\<lambda>conn.
     holding (H_Conn conn) (
     performing (Writes (''Hello server'' @ [CHR 0x0A])) (
     let (status, err) = read_line conn in
     case err of
       Some e \<Rightarrow>
         if e \<noteq> io_EOF then returning (Err (Wrap ''unable to read server response: %w'' [] e))
         else performing (Prints ''Server says: %q'' status) (returning (Ok ()))
     | None \<Rightarrow> performing (Prints ''Server says: %q'' status) (returning (Ok ())))))))"

text \<open>The accept loop, on what the inner listener accepts: when that is used up, the server still waits.\<close>

fun accept_loop :: "'conn accepted res list \<Rightarrow> ('h, 'conn io_act, unit) program" where
  "accept_loop [] = ([], None)"
| "accept_loop (a # as) =
     trying (Wrap ''failed to accept connection: %w'' []) (fst (listener_Accept a)) (\<lambda>conn.
     performing (Spawns conn) (accept_loop as))"

definition tls_server_run where
  "tls_server_run env lib accepts =
     trying id (RequireFromString (te_charset env) ''spiffe://example.org/client'') (\<lambda>clientID.
     trying (Wrap ''unable to create TLS listener: %w'' [])
       (out_result (fst (ListenWithMode env lib ''tcp'' ''localhost:55555'' (client_id_mode clientID) no_listen_options))) (\<lambda>l.
     holding (H_Listener l) (accept_loop accepts)))"

definition handleConnection :: "'conn \<Rightarrow> string \<times> error option \<Rightarrow> error option \<Rightarrow> (('src, 'j, 'conn) handle, 'conn io_act, unit) program" where
  "handleConnection conn read_line write =
     holding (H_Conn conn) (
     let (req, err) = read_line in
     case err of
       Some e \<Rightarrow> performing (Prints_err ''Error reading incoming data: %v'' e) (returning (Ok ()))
     | None \<Rightarrow>
         performing (Prints ''Client says: %q'' req) (
         performing (Writes (''Hello client'' @ [CHR 0x0A])) (
         case write of
           Some e \<Rightarrow> performing (Prints_err ''Unable to send response: %v'' e) (returning (Ok ()))
         | None \<Rightarrow> returning (Ok ()))))"

subsection \<open>\<open>spiffe-grpc\<close>\<close>

text \<open>Connecting, listening, serving and the remote call are parameters. \<open>Serve\<close> closes the listener
  when it returns.\<close>

record ('c, 'conn) grpc_net =
  gn_NewClient :: "string \<Rightarrow> 'c credentialsWrapper \<Rightarrow> 'conn res"
  gn_SayHello :: "'conn \<Rightarrow> string \<Rightarrow> string res"
  gn_Listen :: "string \<Rightarrow> string \<Rightarrow> 'conn res"
  gn_Serve :: "'c credentialsWrapper \<Rightarrow> (string \<Rightarrow> (string \<times> string) \<times> string) \<Rightarrow> 'conn \<Rightarrow> unit res option"

datatype 'c grpc_act = Serves_rpc "'c credentialsWrapper" | Connects "'c credentialsWrapper" | Prints_reply string

text \<open>The handler: what it logs, and the reply.\<close>

definition grpc_server_SayHello :: "string \<Rightarrow> (string \<times> string) \<times> string" where
  "grpc_server_SayHello name = ((''Received: %v'', name), ''Hello '' @ name)"

definition grpc_server_run where
  "grpc_server_run env grpc gn =
     trying (Wrap ''unable to create X509Source: %w'' []) (he_NewX509Source env [socket_option]) (\<lambda>source.
     holding (H_X509Source source) (
     trying id (RequireFromString (ae_charset env) ''spiffe://example.org/client'') (\<lambda>clientID.
     let s = MTLSServerCredentials grpc (ae_charset env) (he_x509 env) (he_zero env) (http_svid env source)
           (Some (http_bundle env source)) (AuthorizeID clientID) no_options in
     trying (Wrap ''error creating listener: %w'' []) (gn_Listen gn ''tcp'' ''127.0.0.1:50051'') (\<lambda>lis.
     holding (H_Listener lis) (
     performing (Serves_rpc s) (
     waiting (Wrap ''failed to serve: %w'' []) (gn_Serve gn s grpc_server_SayHello lis) (\<lambda>_.
     returning (Ok ()))))))))"

text \<open>The connection is never closed.\<close>

definition grpc_client_run where
  "grpc_client_run env grpc gn =
     trying (Wrap ''unable to create X509Source: %w'' []) (he_NewX509Source env [socket_option]) (\<lambda>source.
     holding (H_X509Source source) (
     trying id (RequireFromString (ae_charset env) ''spiffe://example.org/server'') (\<lambda>serverID.
     let creds = MTLSClientCredentials grpc (ae_charset env) (he_x509 env) (he_zero env) (http_svid env source)
           (Some (http_bundle env source)) (AuthorizeID serverID) no_options in
     performing (Connects creds) (
     trying (Wrap ''failed to dial: %w'' []) (gn_NewClient gn ''dns:///localhost:50051'' creds) (\<lambda>conn.
     leaving (H_Conn conn) (
     trying (Wrap ''failed issuing RPC to server: %w'' []) (gn_SayHello gn conn ''world'') (\<lambda>reply.
     performing (Prints_reply reply) (returning (Ok ())))))))))"

section \<open>Lemmas\<close>

subsection \<open>What a program holds\<close>

text \<open>The resources that are open after the effects, the last one first; \<^const>\<open>None\<close> if something was
  closed out of order or twice.\<close>

fun open_after :: "'h list \<Rightarrow> ('h, 'a) effect list \<Rightarrow> 'h list option" where
  "open_after st [] = Some st"
| "open_after st (Opened h # es) = open_after (h # st) es"
| "open_after st (Closed h # es) = (case st of [] \<Rightarrow> None | h' # st' \<Rightarrow> if h = h' then open_after st' es else None)"
| "open_after st (Did a # es) = open_after st es"

lemma open_after_append:
  "open_after st (es @ es') = (case open_after st es of None \<Rightarrow> None | Some st' \<Rightarrow> open_after st' es')"
  by (induction st es rule: open_after.induct) (auto split: list.splits)

text \<open>A program is tidy when it has closed what it opened once it has returned, and has closed nothing
  while it still runs.\<close>

definition tidy :: "('h, 'a, 'r) program \<Rightarrow> bool" where
  "tidy p \<longleftrightarrow> (if snd p = None then \<forall>h. Closed h \<notin> set (fst p) else \<forall>st. open_after st (fst p) = Some st)"

named_theorems tidy_intros "programs that close what they open"

lemma tidy_returning [tidy_intros]: "tidy (returning r)"
  by (simp add: tidy_def returning_def)

lemma tidy_waits [tidy_intros]: "tidy ([], None)"
  by (simp add: tidy_def)

lemma tidy_performing [tidy_intros]: "tidy p \<Longrightarrow> tidy (performing a p)"
  by (simp add: tidy_def performing_def)

lemma tidy_trying [tidy_intros]: "(\<And>v. call = Ok v \<Longrightarrow> tidy (k v)) \<Longrightarrow> tidy (trying wrap call k)"
  by (auto simp: trying_def tidy_returning split: res.splits)

lemma tidy_waiting [tidy_intros]: "(\<And>v. call = Some (Ok v) \<Longrightarrow> tidy (k v)) \<Longrightarrow> tidy (waiting wrap call k)"
  by (auto simp: waiting_def tidy_waits intro: tidy_trying split: option.splits)

lemma tidy_holding [tidy_intros]: "tidy p \<Longrightarrow> tidy (holding h p)"
  by (auto simp: tidy_def holding_def open_after_append)

lemma tidy_accept_loop [tidy_intros]: "tidy (accept_loop accepts)"
  by (induction accepts) (auto intro!: tidy_intros)

subsection \<open>What a program does\<close>

lemma effects_simps [simp]:
  "e \<notin> set (fst (returning r))"
  "e \<in> set (fst (performing a p)) \<longleftrightarrow> e = Did a \<or> e \<in> set (fst p)"
  "e \<in> set (fst (trying wrap call k)) \<longleftrightarrow> (\<exists>v. call = Ok v \<and> e \<in> set (fst (k v)))"
  "e \<in> set (fst (waiting wrap later k)) \<longleftrightarrow> (\<exists>v. later = Some (Ok v) \<and> e \<in> set (fst (k v)))"
  "e \<in> set (fst (holding h p)) \<longleftrightarrow> e = Opened h \<or> e \<in> set (fst p) \<or> snd p \<noteq> None \<and> e = Closed h"
  "e \<in> set (fst (leaving h p)) \<longleftrightarrow> e = Opened h \<or> e \<in> set (fst p)"
  by (auto simp: returning_def performing_def trying_def waiting_def holding_def leaving_def
      split: res.splits option.splits)

lemmas run_defs = http_server_run_def http_client_run_def jwt_server_run_def jwt_client_run_def
  proxied_server_run_def proxied_client_run_def proxy_run_def tls_client_run_def tls_server_run_def
  handleConnection_def grpc_server_run_def grpc_client_run_def

definition example_client :: ID where
  "example_client = mk_ID ''example.org'' ''/client''"

definition example_server :: ID where
  "example_server = mk_ID ''example.org'' ''/server''"

lemma example_IDs:
  "RequireFromString cs ''spiffe://example.org/client'' = Ok (mk_ID ''example.org'' ''/client'')"
  "RequireFromString cs ''spiffe://example.org/server'' = Ok (mk_ID ''example.org'' ''/server'')"
  by (cases cs; code_simp)+

text \<open>A configuration that admits a peer exactly when it is authenticated with the ID \<open>i\<close>.\<close>

definition admits_exactly ::
  "charset \<Rightarrow> 't x509_lib \<Rightarrow> ('w \<Rightarrow> x509_source) \<Rightarrow> ID \<Rightarrow> ('w \<Rightarrow> string list \<Rightarrow> bool) \<Rightarrow> bool" where
  "admits_exactly cs lib b i admits \<longleftrightarrow>
     (\<forall>w raw. admits w raw \<longleftrightarrow> (\<exists>chs. peer_ok cs lib (b w) (AuthorizeID i) raw i chs))"

lemma peer_ok_ID: "peer_ok cs lib b (AuthorizeID i) raw spid chs \<Longrightarrow> spid = i"
  by (simp add: peer_ok_def AuthorizeID_def AdaptMatcher_def MatchID_None_iff)

lemma spiffe_peer_exactly:
  "spiffe_peer cs lib (Some b) (AuthorizeID i) (newTLSConfig zero) w raw \<longleftrightarrow> (\<exists>chs. peer_ok cs lib (b w) (AuthorizeID i) raw i chs)"
  by (auto simp: spiffe_peer_def dest: peer_ok_ID)

lemma exact_configs:
  "admits_exactly cs lib b i (server_admits std (MTLSServerConfig cs lib zero svid (Some b) (AuthorizeID i) opts) hello)"
  "admits_exactly cs lib b i (client_admits std (MTLSClientConfig cs lib zero svid (Some b) (AuthorizeID i) opts))"
  "admits_exactly cs lib b i (client_admits std (TLSClientConfig cs lib zero (Some b) (AuthorizeID i)))"
  by (auto simp: admits_exactly_def new_config_admits dest: peer_ok_ID)

text \<open>The peers are those that the bundles of the source authenticate with the ID \<open>i\<close>, and the source was
  created with the socket path of the examples. A server is asked with the hello message of the client.\<close>

definition uses_source where
  "uses_source open_source_call cs lib bundle i admits \<longleftrightarrow>
     (\<exists>source. open_source_call [socket_option] = Ok source \<and> (\<forall>hello. admits_exactly cs lib (bundle source) i (admits hello)))"

text \<open>The TLS examples go through the modes of \<open>spiffetls\<close>.\<close>

lemma tls_client_conn:
  assumes "out_result (DialWithMode env lib network addr m options) = Ok c" "m = server_id_mode i" "options = no_dial_options"
  shows "\<exists>source config. te_NewX509Source env [socket_option] = Ok source \<and> cc_sourceCloser c = Some source \<and>
    te_Dial env network addr config = Ok (cc_Conn c) \<and>
    admits_exactly (te_charset env) lib (source_bundle env source) i (client_admits std config)"
proof -
  note mode = assms(2,3) server_id_mode_def MTLSClientWithSourceOptions_def dialMode_of_def dial_options_def base_config_def
  obtain source closer config where r0:
    "open_source env (dm_sourceUnneeded m) (dm_source m) (dm_options m) =
       Ok (source, closer)"
    "hook_client_mode (te_charset env) lib (bind_client_source env source m) (dc_tlsOptions (dial_options options))
       (base_config (te_zero env) (dc_baseTLSConf (dial_options options))) = Ok config"
    "tls_Dial env (dc_dialer (dial_options options)) network addr config = Ok (cc_Conn c)" "cc_sourceCloser c = closer"
    using assms(1) by (rule DialWithMode_result)
  then have r: "open_source env False None [socket_option] = Ok (source, closer)"
    "hook_client_mode (te_charset env) lib (bind_client_source env source m) no_options
       (newTLSConfig (te_zero env)) = Ok config"
    "te_Dial env network addr config = Ok (cc_Conn c)" "cc_sourceCloser c = closer"
    by (simp_all add: mode tls_Dial_def)
  then obtain s where s: "te_NewX509Source env [socket_option] = Ok s" "source = Some s" "closer = Some s"
    by (auto simp: open_source_Ok)
  have "client_admits std config w raw \<longleftrightarrow>
      (\<exists>chs. peer_ok (te_charset env) lib (source_bundle env s w) (AuthorizeID i) raw i chs)" for w raw
    using hook_client_mode_admits(2) [OF r(2)] s(2)
    by (simp add: mode mode_numbers bind_client_source_def spiffe_peer_exactly)
  then show ?thesis using r(3,4) s by (auto simp: admits_exactly_def)
qed

lemma tls_server_listener:
  assumes "out_result (fst (ListenWithMode env lib network addr m options)) = Ok l" "m = client_id_mode i" "options = no_listen_options"
  shows "\<exists>source. te_NewX509Source env [socket_option] = Ok source \<and> ls_sourceCloser l = Some source \<and>
    te_Listen env network addr = Ok (fst (ls_inner l)) \<and> (\<forall>hello.
    admits_exactly (te_charset env) lib (source_bundle env source) i (server_admits std (snd (ls_inner l)) hello))"
proof -
  obtain inner where inner: "te_Listen env network addr = Ok inner"
      "out_result (NewListenerWithMode env lib inner m options) = Ok l"
    using assms(1) by (auto simp: ListenWithMode_def Let_def split: res.splits)
  note mode = assms(2,3) client_id_mode_def MTLSServerWithSourceOptions_def listenMode_of_def listen_options_def base_config_def
  obtain source closer config where r0:
    "open_source env (lm_sourceUnneeded m) (lm_source m) (lm_options m) =
       Ok (source, closer)"
    "hook_server_mode (te_charset env) lib (bind_server_source env source m) (lc_tlsOptions (listen_options options))
       (base_config (te_zero env) (lc_baseTLSConf (listen_options options))) = Ok config"
    "l = \<lparr>ls_inner = (inner, config), ls_sourceCloser = closer\<rparr>"
    using inner(2) by (rule NewListenerWithMode_result)
  then have r: "open_source env False None [socket_option] = Ok (source, closer)"
    "hook_server_mode (te_charset env) lib (bind_server_source env source m) no_options
       (newTLSConfig (te_zero env)) = Ok config"
    "l = \<lparr>ls_inner = (inner, config), ls_sourceCloser = closer\<rparr>"
    by (simp_all add: mode)
  then obtain s where s: "te_NewX509Source env [socket_option] = Ok s" "source = Some s" "closer = Some s"
    by (auto simp: open_source_Ok)
  have "server_admits std config hello w raw \<longleftrightarrow>
      (\<exists>chs. peer_ok (te_charset env) lib (source_bundle env s w) (AuthorizeID i) raw i chs)" for hello w raw
    using hook_server_mode_admits [OF r(2)] s(2)
    by (simp add: mode mode_numbers bind_server_source_def spiffe_peer_exactly)
  then show ?thesis using r(3) s inner(1) by (auto simp: admits_exactly_def)
qed

text \<open>The token clients and servers.\<close>

lemma Header_Get_Set: "Header_Get (Header_Set key v h) key = v"
  by (simp add: Header_Get_def Header_Set_def update_conv')

lemma nil_Marshal_Ok: "nil_Marshal svid = Ok t \<longleftrightarrow> (\<exists>s. svid = Some s \<and> t = jwtsvid_Marshal s)"
  by (auto simp: nil_Marshal_def split: option.splits)

lemma token_client_sends:
  assumes "Did (Sends config req) \<in> set (fst (jwt_client_run env args w)) \<union> set (fst (proxied_client_run env args w))"
  shows "\<exists>jc svid req0. he_NewJWTSource env [socket_option] = Ok jc \<and>
    JWTSource_FetchJWTSVID (he_client env jc) (ae_deref env w jc)
       \<lparr>jp_Audience = (if 2 \<le> length args then args ! 1 else ''spiffe://example.org/server''), jp_ExtraAudiences = [],
        jp_Subject = zero_ID\<rparr> = Ok (Some svid) \<and>
    req = req0\<lparr>rq_Header := Header_Set ''Authorization'' (''Bearer '' @ jwtsvid_Marshal svid) (rq_Header req0)\<rparr>"
  using assms
  by (auto simp: jwt_client_run_def proxied_client_run_def example_IDs schemePrefix_def nil_Marshal_Ok Let_def
      split: if_splits)

lemma token_server_handles:
  assumes "Did (Handles p h) \<in> set (fst (jwt_server_run senv)) \<union> set (fst (proxied_server_run senv))"
  shows "\<exists>js. he_NewJWTSource senv [socket_option] = Ok js \<and> (\<forall>sw r. answer (h sw r new_exchange) =
       guarded_answer senv \<lparr>au_jwtSource = js, au_audiences = [''spiffe://example.org/server'']\<rparr> sw r)"
  using assms by (auto simp: jwt_server_run_def proxied_server_run_def guarded_answers Let_def)

subsection \<open>Examples\<close>

text \<open>A library whose tokens are for the audience of the servers, and an environment in which every call
  succeeds and the servers serve on.\<close>

definition ex_jose :: "(string \<times> public_key) jose_lib" where
  "ex_jose = jwt_ex_lib\<lparr>lib_UnsafeClaims := (\<lambda>t. Ok \<lparr>cl_Issuer = [], cl_Subject = fst (tok_body t),
     cl_Audience = [''spiffe://example.org/server''], cl_Expiry = Some 100, cl_NotBefore = None, cl_IssuedAt = None\<rparr>)\<rparr>"

definition ex_http_env :: "('w \<Rightarrow> JWTSource) \<Rightarrow> sourceClient \<Rightarrow> ('w, unit, string \<times> public_key, nat, unit,
    (unit, (unit, unit, unit) ClientOption) SourceOption, unit, unit, string) http_env" where
  "ex_http_env deref client = \<lparr>ae_charset = Backcompat_Deny, ae_jose = ex_jose, ae_now = (\<lambda>_. 90), ae_deref = (\<lambda>w _. deref w),
     he_x509 = ex_lib, he_derefX = (\<lambda>_ _. X509Source_new None), he_NewX509Source = (\<lambda>_. Ok ()),
     he_NewJWTSource = (\<lambda>_. Ok ()), he_client = (\<lambda>_. client), he_zero = (), he_ListenAndServeTLS = (\<lambda>_. None),
     he_NewRequest = (\<lambda>m u. Ok \<lparr>rq_Method = m, rq_URL = u, rq_Header = [], rq_ctx = []\<rparr>),
     he_Do = (\<lambda>_ _. Ok \<lparr>hr_StatusCode = 200, hr_Body = ''Success!!!''\<rparr>), he_ReadAll = Ok,
     he_url_Parse = (\<lambda>_. Ok ex_uri), he_ReverseProxy = (\<lambda>_ _ w r x. Ok x)\<rparr>"

definition ex_svid :: jwtsvid_SVID where
  "ex_svid = \<lparr>js_ID = mk_ID ''td'' ''/w'', js_Audience = [''spiffe://example.org/server''], js_Expiry = 100,
     js_Claims = [(''sub'', JString ''spiffe://td/w'')], js_Hint = [], js_token = ''tok''\<rparr>"

definition ex_client :: sourceClient where
  "ex_client = \<lparr>sc_FetchJWTSVID = (\<lambda>_. Ok ex_svid), sc_FetchJWTSVIDs = (\<lambda>_. Ok [ex_svid])\<rparr>"

text \<open>The state of the server's source: the bundle that verifies the token.\<close>

definition ex_jwt_state :: JWTSource where
  "ex_jwt_state = \<lparr>jsrc_picker = None, jsrc_bundles = Some [(TrustDomain ''td'', jwt_ex_bundle)], jsrc_closed = False\<rparr>"

lemma ex_validated:
  assumes "bundles (TrustDomain ''td'') = Ok jwt_ex_bundle"
  shows "jwtsvid_ParseAndValidate Backcompat_Deny ex_jose 90 ''tok'' bundles [''spiffe://example.org/server''] = Ok ex_svid"
proof -
  have "FromString Backcompat_Deny ''spiffe://td/w'' = Ok (mk_ID ''td'' ''/w'')" by code_simp
  then show ?thesis
    using assms by (simp add: jwtsvid_ParseAndValidate_def jwtsvid_parse_def ex_jose_def jwt_ex_lib_def first_header_def
        jwtsvid_typ_forbidden_def HeaderType_def jwtsvid_verifyClaims_def jwt_ex_bundle_def jwtbundle_FindJWTAuthority_def
        ex_svid_def)
qed

lemma ex_client_sends:
  "\<exists>config req. Did (Sends config req) \<in> set (fst (jwt_client_run (ex_http_env id ex_client) [] (JWTSource_new None)
     :: ((unit, unit, string) handle, (JWTSource, unit, unit) http_act, unit) program))"
  by (simp add: jwt_client_run_def ex_http_env_def example_IDs Let_def JWTSource_FetchJWTSVID_def JWTSource_checkClosed_def
      JWTSource_new_def ex_client_def nil_Marshal_def)

lemma ex_server_serves:
  "\<exists>srv. Did (Serves srv) \<in> set (fst (http_server_run (ex_http_env id ex_client)
     :: ((unit, unit, string) handle, (JWTSource, unit, unit) http_act, unit) program))"
  by (simp add: http_server_run_def ex_http_env_def example_IDs Let_def)

lemma ex_server_handles:
  "\<exists>h. Did (Handles ''/'' h) \<in> set (fst (jwt_server_run (ex_http_env id ex_client)
     :: ((unit, unit, string) handle, (JWTSource, unit, unit) http_act, unit) program))"
  by (simp add: jwt_server_run_def ex_http_env_def Let_def)

section \<open>Properties\<close>

text \<open>
  C38: The examples close what they open. Whatever fails, and wherever, each program has closed its
  contexts, sources, listeners, connections and response bodies, the last opened first, when it
  returns, and while a server serves nothing is closed. The gRPC client alone leaves something
  open: its connection is never closed.
\<close>
theorem examples_close_what_they_open:
  "tidy (http_server_run env) \<and> tidy (http_client_run env) \<and> tidy (jwt_server_run env) \<and> tidy (jwt_client_run env args w) \<and>
   tidy (proxied_server_run env) \<and> tidy (proxied_client_run env args w) \<and> tidy (proxy_run env) \<and>
   tidy (tls_server_run tenv lib accepts) \<and> tidy (tls_client_run tenv lib read_line eof) \<and>
   tidy (handleConnection conn line write) \<and> tidy (grpc_server_run env grpc gn) \<and>
   Closed (H_Conn c) \<notin> set (fst (grpc_client_run env grpc gn))"
proof (intro conjI)
  show "tidy (http_server_run env)" "tidy (http_client_run env)" "tidy (jwt_server_run env)" "tidy (jwt_client_run env args w)"
    "tidy (proxied_server_run env)" "tidy (proxied_client_run env args w)" "tidy (proxy_run env)"
    "tidy (grpc_server_run env grpc gn)"
    unfolding run_defs Let_def by (auto intro!: tidy_intros)
  show "tidy (tls_server_run tenv lib accepts)" "tidy (tls_client_run tenv lib read_line eof)"
    "tidy (handleConnection conn line write)"
    unfolding run_defs Let_def by (auto intro!: tidy_intros split: option.splits prod.splits)
  show "Closed (H_Conn c) \<notin> set (fst (grpc_client_run env grpc gn))"
    by (simp add: grpc_client_run_def Let_def)
qed

text \<open>
  C39: Whom the examples talk to. The configuration of each program comes from a source made with
  the socket path, and for every state of that source: the HTTP, TLS and gRPC servers admit exactly
  the clients that its bundles authenticate as \<open>spiffe://example.org/client\<close>; the HTTP, TLS, gRPC
  and token clients, and the proxy towards its backend, exactly the servers authenticated as
  \<open>spiffe://example.org/server\<close>. What a client says in its hello message makes no difference.
\<close>
theorem example_peers:
  "(Did (Serves srv) \<in> set (fst (http_server_run env)) \<longrightarrow>
      uses_source (he_NewX509Source env) (ae_charset env) (he_x509 env) (http_bundle env) example_client (server_admits std (sv_TLSConfig srv))) \<and>
   (Did (Sends config req) \<in> set (fst (http_client_run env)) \<union> set (fst (jwt_client_run env args w)) \<union>
        set (fst (proxied_client_run env args w)) \<longrightarrow>
      uses_source (he_NewX509Source env) (ae_charset env) (he_x509 env) (http_bundle env) example_server (\<lambda>_::unit. client_admits std config)) \<and>
   (Did (Handles p h) \<in> set (fst (proxy_run env)) \<longrightarrow> (\<exists>remote transport.
      h = proxy_handler (he_ReverseProxy env remote transport) \<and>
      uses_source (he_NewX509Source env) (ae_charset env) (he_x509 env) (http_bundle env) example_server (\<lambda>_::unit. client_admits std transport))) \<and>
   (Did (Serves_rpc creds) \<in> set (fst (grpc_server_run env grpc gn)) \<longrightarrow> (\<exists>config.
      creds = \<lparr>cw_c = gc_NewTLS grpc config, cw_expectPeerID = True\<rparr> \<and>
      uses_source (he_NewX509Source env) (ae_charset env) (he_x509 env) (http_bundle env) example_client (server_admits std config))) \<and>
   (Did (Connects creds) \<in> set (fst (grpc_client_run env grpc gn)) \<longrightarrow> (\<exists>config.
      creds = \<lparr>cw_c = gc_NewTLS grpc config, cw_expectPeerID = True\<rparr> \<and>
      uses_source (he_NewX509Source env) (ae_charset env) (he_x509 env) (http_bundle env) example_server (\<lambda>_::unit. client_admits std config))) \<and>
   (Opened (H_Conn c) \<in> set (fst (tls_client_run tenv lib read_line eof)) \<longrightarrow> (\<exists>config.
      te_Dial tenv ''tcp'' ''localhost:55555'' config = Ok (cc_Conn c) \<and>
      uses_source (te_NewX509Source tenv) (te_charset tenv) lib (source_bundle tenv) example_server (\<lambda>_::unit. client_admits std config))) \<and>
   (Opened (H_Listener l) \<in> set (fst (tls_server_run tenv lib accepts)) \<longrightarrow>
      uses_source (te_NewX509Source tenv) (te_charset tenv) lib (source_bundle tenv) example_client (server_admits std (snd (ls_inner l))))"
proof (intro conjI impI)
  note s = uses_source_def example_client_def example_server_def exact_configs example_IDs Let_def
  show "uses_source (he_NewX509Source env) (ae_charset env) (he_x509 env) (http_bundle env) example_client (server_admits std (sv_TLSConfig srv))"
    if "Did (Serves srv) \<in> set (fst (http_server_run env))"
    using that by (auto simp: http_server_run_def s)
  show "uses_source (he_NewX509Source env) (ae_charset env) (he_x509 env) (http_bundle env) example_server (\<lambda>_::unit. client_admits std config)"
    if "Did (Sends config req) \<in> set (fst (http_client_run env)) \<union> set (fst (jwt_client_run env args w)) \<union>
        set (fst (proxied_client_run env args w))"
    using that by (auto simp: http_client_run_def jwt_client_run_def proxied_client_run_def s split: if_splits)
  show "\<exists>remote transport. h = proxy_handler (he_ReverseProxy env remote transport) \<and>
      uses_source (he_NewX509Source env) (ae_charset env) (he_x509 env) (http_bundle env) example_server (\<lambda>_::unit. client_admits std transport)"
    if proxy: "Did (Handles p h) \<in> set (fst (proxy_run env))"
  proof -
    obtain remote source where "he_NewX509Source env [socket_option] = Ok source"
        "h = proxy_handler (he_ReverseProxy env remote (TLSClientConfig (ae_charset env) (he_x509 env) (he_zero env)
          (Some (http_bundle env source)) (AuthorizeID example_server)))"
      using proxy by (auto simp: proxy_run_def s)
    then show ?thesis unfolding uses_source_def
      by (intro exI conjI allI) (assumption | rule exact_configs(3))+
  qed
  show "\<exists>config. creds = \<lparr>cw_c = gc_NewTLS grpc config, cw_expectPeerID = True\<rparr> \<and>
      uses_source (he_NewX509Source env) (ae_charset env) (he_x509 env) (http_bundle env) example_client (server_admits std config)"
    if "Did (Serves_rpc creds) \<in> set (fst (grpc_server_run env grpc gn))"
    using that by (auto simp: grpc_server_run_def MTLSServerCredentials_def s)
  show "\<exists>config. creds = \<lparr>cw_c = gc_NewTLS grpc config, cw_expectPeerID = True\<rparr> \<and>
      uses_source (he_NewX509Source env) (ae_charset env) (he_x509 env) (http_bundle env) example_server (\<lambda>_::unit. client_admits std config)"
    if "Did (Connects creds) \<in> set (fst (grpc_client_run env grpc gn))"
    using that by (auto simp: grpc_client_run_def MTLSClientCredentials_def s)
  show "\<exists>config. te_Dial tenv ''tcp'' ''localhost:55555'' config = Ok (cc_Conn c) \<and>
      uses_source (te_NewX509Source tenv) (te_charset tenv) lib (source_bundle tenv) example_server (\<lambda>_::unit. client_admits std config)"
    if "Opened (H_Conn c) \<in> set (fst (tls_client_run tenv lib read_line eof))"
  proof -
    have "out_result (DialWithMode tenv lib ''tcp'' ''localhost:55555'' (server_id_mode example_server) no_dial_options) = Ok c"
      using that by (auto simp: tls_client_run_def s case_prod_beta split: option.splits if_splits)
    from tls_client_conn [OF this refl refl, where std = std] show ?thesis unfolding uses_source_def by blast
  qed
  show "uses_source (te_NewX509Source tenv) (te_charset tenv) lib (source_bundle tenv) example_client (server_admits std (snd (ls_inner l)))"
    if "Opened (H_Listener l) \<in> set (fst (tls_server_run tenv lib accepts))"
  proof -
    have "Opened (H_Listener l) \<notin> set (fst (accept_loop accepts))" by (induction accepts) auto
    then have "out_result (fst (ListenWithMode tenv lib ''tcp'' ''localhost:55555'' (client_id_mode example_client) no_listen_options)) = Ok l"
      using that by (auto simp: tls_server_run_def s)
    from tls_server_listener [OF this refl refl, where std = std] show ?thesis unfolding uses_source_def by blast
  qed
qed

theorem example_peers_witness:
  "\<exists>srv. Did (Serves srv) \<in> set (fst (http_server_run (ex_http_env id ex_client)
       :: ((unit, unit, string) handle, (JWTSource, unit, unit) http_act, unit) program)) \<and>
     uses_source (he_NewX509Source (ex_http_env id ex_client)) Backcompat_Deny ex_lib (http_bundle (ex_http_env id ex_client))
       example_client (server_admits (\<lambda>_ _. None) (sv_TLSConfig srv))"
proof -
  obtain srv where srv: "Did (Serves srv) \<in> set (fst (http_server_run (ex_http_env id ex_client)
       :: ((unit, unit, string) handle, (JWTSource, unit, unit) http_act, unit) program))"
    using ex_server_serves by blast
  have "ae_charset (ex_http_env id ex_client) = Backcompat_Deny" "he_x509 (ex_http_env id ex_client) = ex_lib"
    by (simp_all add: ex_http_env_def)
  then show ?thesis
    using example_peers [where std = "\<lambda>_ _. None", THEN conjunct1, THEN mp, OF srv] srv by metis
qed

text \<open>
  C37: A token gets from a client to a server. Whenever one of the token clients sends its request, it
  has fetched an SVID through its own source, for the audience on the command line or, by default,
  the ID of the server, which is the audience the servers expect; and whatever the state of the
  server's source, the handler that a token server registers takes exactly that token from the
  request -- it is in its header, and a token has no white space -- and answers by what
  \<open>ParseAndValidate\<close> says of it against that source.
\<close>
theorem token_reaches_server:
  assumes "Did (Sends config req) \<in> set (fst (jwt_client_run env args w)) \<union> set (fst (proxied_client_run env args w))"
    and "Did (Handles p h) \<in> set (fst (jwt_server_run senv)) \<union> set (fst (proxied_server_run senv))"
  shows "\<exists>jc js svid. he_NewJWTSource env [socket_option] = Ok jc \<and> he_NewJWTSource senv [socket_option] = Ok js \<and>
    JWTSource_FetchJWTSVID (he_client env jc) (ae_deref env w jc)
      \<lparr>jp_Audience = (if 2 \<le> length args then args ! 1 else ''spiffe://example.org/server''), jp_ExtraAudiences = [],
       jp_Subject = zero_ID\<rparr> = Ok (Some svid) \<and>
    (list_all graphic (jwtsvid_Marshal svid) \<and> jwtsvid_Marshal svid \<noteq> [] \<longrightarrow> (\<forall>sw. answer (h sw req new_exchange) =
       (case validated senv \<lparr>au_jwtSource = js, au_audiences = [''spiffe://example.org/server'']\<rparr> sw (jwtsvid_Marshal svid) of
          Panic e \<Rightarrow> Panic e
        | Err e \<Rightarrow> Ok (Some 401, ''Unauthorized'' @ [CHR 0x0A])
        | Ok v \<Rightarrow> Ok (Some 200, ''Success!!!''))))"
proof -
  obtain jc svid req0 where c: "he_NewJWTSource env [socket_option] = Ok jc"
      "JWTSource_FetchJWTSVID (he_client env jc) (ae_deref env w jc)
        \<lparr>jp_Audience = (if 2 \<le> length args then args ! 1 else ''spiffe://example.org/server''), jp_ExtraAudiences = [],
         jp_Subject = zero_ID\<rparr> = Ok (Some svid)"
      "req = req0\<lparr>rq_Header := Header_Set ''Authorization'' (''Bearer '' @ jwtsvid_Marshal svid) (rq_Header req0)\<rparr>"
    using token_client_sends [OF assms(1)] by blast
  obtain js where s: "he_NewJWTSource senv [socket_option] = Ok js"
      "\<forall>sw r. answer (h sw r new_exchange) =
         guarded_answer senv \<lparr>au_jwtSource = js, au_audiences = [''spiffe://example.org/server'']\<rparr> sw r"
    using token_server_handles [OF assms(2)] by blast
  have "Header_Get (rq_Header req) ''Authorization'' = ''Bearer '' @ jwtsvid_Marshal svid"
    unfolding c(3) by (simp add: Header_Get_Set)
  note bearer_token_header [OF this]
  then show ?thesis using c(1,2) s by (auto simp: guarded_answer_def)
qed

theorem token_reaches_server_witness:
  "\<exists>config req h. Did (Sends config req) \<in> set (fst (jwt_client_run (ex_http_env id ex_client) [] (JWTSource_new None)
       :: ((unit, unit, string) handle, (JWTSource, unit, unit) http_act, unit) program)) \<and>
     Did (Handles ''/'' h) \<in> set (fst (jwt_server_run (ex_http_env id ex_client)
       :: ((unit, unit, string) handle, (JWTSource, unit, unit) http_act, unit) program)) \<and>
     answer (h ex_jwt_state req new_exchange) = Ok (Some 200, ''Success!!!'')"
proof -
  obtain config req h where c: "Did (Sends config req) \<in> set (fst (jwt_client_run (ex_http_env id ex_client) [] (JWTSource_new None)
       :: ((unit, unit, string) handle, (JWTSource, unit, unit) http_act, unit) program))"
    and h: "Did (Handles ''/'' h) \<in> set (fst (jwt_server_run (ex_http_env id ex_client)
       :: ((unit, unit, string) handle, (JWTSource, unit, unit) http_act, unit) program))"
    using ex_client_sends ex_server_handles by blast
  obtain js svid where t: "JWTSource_FetchJWTSVID ex_client (JWTSource_new None) \<lparr>jp_Audience = ''spiffe://example.org/server'',
      jp_ExtraAudiences = [], jp_Subject = zero_ID\<rparr> = Ok (Some svid)"
    "list_all graphic (jwtsvid_Marshal svid) \<and> jwtsvid_Marshal svid \<noteq> [] \<longrightarrow> (\<forall>sw. answer (h sw req new_exchange) =
       (case validated (ex_http_env id ex_client) \<lparr>au_jwtSource = js, au_audiences = [''spiffe://example.org/server'']\<rparr> sw
           (jwtsvid_Marshal svid) of
          Panic e \<Rightarrow> Panic e
        | Err e \<Rightarrow> Ok (Some 401, ''Unauthorized'' @ [CHR 0x0A])
        | Ok v \<Rightarrow> Ok (Some 200, ''Success!!!'')))"
    using token_reaches_server [OF UnI1 [OF c] UnI1 [OF h]] by (auto simp: ex_http_env_def)
  have "svid = ex_svid" using t(1)
    by (simp add: JWTSource_FetchJWTSVID_def JWTSource_checkClosed_def JWTSource_new_def ex_client_def)
  then have m: "jwtsvid_Marshal svid = ''tok''" by (simp add: jwtsvid_Marshal_def ex_svid_def)
  have "JWTSource_GetJWTBundleForTrustDomain ex_jwt_state (TrustDomain ''td'') = Ok jwt_ex_bundle"
    by (simp add: JWTSource_GetJWTBundleForTrustDomain_def JWTSource_checkClosed_def ex_jwt_state_def
        jwtbundle_Set_GetJWTBundleForTrustDomain_def)
  then have "validated (ex_http_env id ex_client) \<lparr>au_jwtSource = js, au_audiences = [''spiffe://example.org/server'']\<rparr>
      ex_jwt_state ''tok'' = Ok ex_svid"
    using ex_validated by (simp add: validated_def ex_http_env_def)
  then have "answer (h ex_jwt_state req new_exchange) = Ok (Some 200, ''Success!!!'')"
    using t(2) unfolding m by (simp add: graphic_def)
  then show ?thesis using c h by blast
qed

end
