(* ===== verification/Example_Watcher.thy ===== *)
theory Example_Watcher
  imports Workload_Watch Workload_Addr
begin

text \<open>
  The example watcher (\<open>examples/spiffe-watcher\<close>): two goroutines watch X.509 contexts and JWT bundles
  on one client and print every update. \<open>log.Fatalf\<close> ends the process where it is called: nothing
  that was deferred runs.
\<close>

section \<open>Definitions\<close>

text \<open>What the program does that can be seen from outside; \<open>Finished\<close> is the \<open>wg.Done\<close> of a goroutine.\<close>

datatype watch_act =
    Logged string "string list" | Logged_error string error | Exited_with string error | Crashed error
  | Finished | Client_closed

fun log_svids :: "'t x509_lib \<Rightarrow> x509svid_SVID list \<Rightarrow> watch_act list" where
  "log_svids lib [] = []"
| "log_svids lib (svid # svids) =
     (case x509svid_Marshal lib svid of
        Err err \<Rightarrow> [Exited_with ''Unable to marshal X.509 SVID: %v'' err]
      | Panic e \<Rightarrow> [Crashed e]
      | Ok (pem, _) \<Rightarrow> Logged (''SVID updated for %q: '' @ [CHR 0x0A] @ ''%s'' @ [CHR 0x0A]) [ID_String (xs_ID svid), pem] # log_svids lib svids)"

definition x509Watcher_OnX509ContextUpdate :: "'t x509_lib \<Rightarrow> X509Context \<Rightarrow> watch_act list" where
  "x509Watcher_OnX509ContextUpdate lib c = log_svids lib (xc_SVIDs c)"

definition x509Watcher_OnX509ContextWatchError :: "(error \<Rightarrow> grpc_code) \<Rightarrow> error \<Rightarrow> watch_act list" where
  "x509Watcher_OnX509ContextWatchError status_Code err =
     (if status_Code err \<noteq> Code_Canceled then [Logged_error ''OnX509ContextWatchError error: %v'' err] else [])"

fun log_bundles :: "(jwks \<Rightarrow> string res) \<Rightarrow> jwtbundle_Bundle list \<Rightarrow> watch_act list" where
  "log_bundles marshal [] = []"
| "log_bundles marshal (bundle # bundles) =
     (case jwtbundle_Marshal marshal bundle of
        Err err \<Rightarrow> [Exited_with ''Unable to marshal JWT Bundle : %v'' err]
      | Panic e \<Rightarrow> [Crashed e]
      | Ok jwt \<Rightarrow> Logged ''jwt bundle updated %q: %s'' [TrustDomain_String (jwtbundle_TrustDomain bundle), jwt] #
          log_bundles marshal bundles)"

definition jwtWatcher_OnJWTBundlesUpdate :: "(jwks \<Rightarrow> string res) \<Rightarrow> jwtbundle_Set \<Rightarrow> watch_act list" where
  "jwtWatcher_OnJWTBundlesUpdate marshal bundleSet = log_bundles marshal (jwtbundle_Set_Bundles bundleSet)"

definition jwtWatcher_OnJWTBundlesWatchError :: "(error \<Rightarrow> grpc_code) \<Rightarrow> error \<Rightarrow> watch_act list" where
  "jwtWatcher_OnJWTBundlesWatchError status_Code err =
     (if status_Code err \<noteq> Code_Canceled then [Logged_error ''OnJWTBundlesWatchError error: %v'' err] else [])"

text \<open>A goroutine: the callbacks on what the watch reports, then what follows its return. The error a
  watch returns is never nil.\<close>

definition tell :: "('u \<Rightarrow> watch_act list) \<Rightarrow> (error \<Rightarrow> watch_act list) \<Rightarrow> 'u event list \<Rightarrow> watch_act list" where
  "tell on_update on_error evs =
     concat (map (\<lambda>ev. case ev of OnUpdate u \<Rightarrow> on_update u | OnWatchError e \<Rightarrow> on_error e | Sleep _ \<Rightarrow> []) evs)"

definition watching ::
  "string \<Rightarrow> (error \<Rightarrow> grpc_code) \<Rightarrow> ('u \<Rightarrow> watch_act list) \<Rightarrow> (error \<Rightarrow> watch_act list) \<Rightarrow>
   ('u event list \<times> 'k \<times> watch_result) res \<Rightarrow> watch_act list" where
  "watching fatal status_Code on_update on_error watch =
     (case watch of
        Ok (evs, _, r) \<Rightarrow> tell on_update on_error evs @ (case r of
            Running \<Rightarrow> []
          | Returned err \<Rightarrow> (if status_Code err \<noteq> Code_Canceled then [Exited_with fatal err] else []) @ [Finished])
      | Err e \<Rightarrow> [Crashed e]
      | Panic e \<Rightarrow> [Crashed e])"

definition x509_goroutine where
  "x509_goroutine bs status_Code cs lib script =
     watching ''Error watching X.509 context: %v'' status_Code (x509Watcher_OnX509ContextUpdate lib)
       (x509Watcher_OnX509ContextWatchError status_Code) (WatchX509Context bs status_Code cs lib script)"

definition jwt_goroutine where
  "jwt_goroutine bs status_Code cs unmarshal marshal script =
     watching ''Error watching JWT bundles: %v'' status_Code (jwtWatcher_OnJWTBundlesUpdate marshal)
       (jwtWatcher_OnJWTBundlesWatchError status_Code) (WatchJWTBundles bs status_Code cs unmarshal script)"

text \<open>The process ends with the first exit or crash of either goroutine.\<close>

fun stops :: "watch_act \<Rightarrow> bool" where
  "stops (Exited_with _ _) = True"
| "stops (Crashed _) = True"
| "stops _ = False"

fun until_stop :: "watch_act list \<Rightarrow> watch_act list" where
  "until_stop [] = []"
| "until_stop (a # as) = (if stops a then [a] else a # until_stop as)"

text \<open>A trace of \<open>startWatchers\<close>: the goroutines interleave in any way; \<open>wg.Wait\<close> returns when both have
  finished, and then the deferred \<open>Close\<close> runs.\<close>

definition startWatchers :: "'c res \<Rightarrow> watch_act list \<Rightarrow> watch_act list \<Rightarrow> watch_act list \<Rightarrow> bool" where
  "startWatchers client xs js trace \<longleftrightarrow>
     (case client of
        Err err \<Rightarrow> trace = [Exited_with ''Unable to create workload API client: %v'' err]
      | Panic e \<Rightarrow> trace = [Crashed e]
      | Ok _ \<Rightarrow> (\<exists>zs \<in> shuffles xs js. trace = until_stop zs @
          (if list_all (\<lambda>a. \<not> stops a) zs \<and> Finished \<in> set xs \<and> Finished \<in> set js then [Client_closed] else [])))"

section \<open>Lemmas\<close>

lemma until_stop_none: "list_all (\<lambda>a. \<not> stops a) as \<Longrightarrow> until_stop as = as"
  by (induction as) auto

lemma until_stop_some: "\<exists>a \<in> set as. stops a \<Longrightarrow> until_stop as \<noteq> [] \<and> stops (last (until_stop as))"
  by (induction as) auto

lemma until_stop_set: "set (until_stop as) \<subseteq> set as"
  by (induction as) auto

text \<open>What the callbacks do: nothing else than logging, unless an update cannot be marshaled.\<close>

definition svid_marshals :: "'t x509_lib \<Rightarrow> X509Context \<Rightarrow> bool" where
  "svid_marshals lib c \<longleftrightarrow> (\<forall>svid \<in> set (xc_SVIDs c). is_Ok (x509svid_Marshal lib svid))"

definition bundle_marshals :: "(jwks \<Rightarrow> string res) \<Rightarrow> jwtbundle_Set \<Rightarrow> bool" where
  "bundle_marshals marshal bundleSet \<longleftrightarrow> (\<forall>b \<in> set (jwtbundle_Set_Bundles bundleSet). is_Ok (jwtbundle_Marshal marshal b))"

lemma log_svids_acts:
  "Finished \<notin> set (log_svids lib svids)" "Client_closed \<notin> set (log_svids lib svids)"
  "list_all (\<lambda>a. \<not> stops a) (log_svids lib svids) \<longleftrightarrow> (\<forall>svid \<in> set svids. is_Ok (x509svid_Marshal lib svid))"
  by (induction svids) (auto split: res.splits prod.splits)

lemma log_bundles_acts:
  "Finished \<notin> set (log_bundles marshal bundles)" "Client_closed \<notin> set (log_bundles marshal bundles)"
  "list_all (\<lambda>a. \<not> stops a) (log_bundles marshal bundles) \<longleftrightarrow> (\<forall>b \<in> set bundles. is_Ok (jwtbundle_Marshal marshal b))"
  by (induction bundles) (auto split: res.splits)

text \<open>A watch that ends well: it was cancelled, and every update could be printed.\<close>

definition cancelled :: "(error \<Rightarrow> grpc_code) \<Rightarrow> ('u \<Rightarrow> bool) \<Rightarrow> ('u event list \<times> 'k \<times> watch_result) res \<Rightarrow> bool" where
  "cancelled status_Code printable watch \<longleftrightarrow> (\<exists>evs k err. watch = Ok (evs, k, Returned err) \<and>
     status_Code err = Code_Canceled \<and> (\<forall>u. OnUpdate u \<in> set evs \<longrightarrow> printable u))"

definition logs_only :: "('u \<Rightarrow> watch_act list) \<Rightarrow> ('u \<Rightarrow> bool) \<Rightarrow> (error \<Rightarrow> watch_act list) \<Rightarrow> bool" where
  "logs_only on_update printable on_error \<longleftrightarrow>
     (\<forall>u. Finished \<notin> set (on_update u) \<and> Client_closed \<notin> set (on_update u) \<and>
        (list_all (\<lambda>a. \<not> stops a) (on_update u) \<longleftrightarrow> printable u)) \<and>
     (\<forall>e. set (on_error e) \<subseteq> range (\<lambda>(f, e). Logged_error f e))"

lemma logs_only_x509: "logs_only (x509Watcher_OnX509ContextUpdate lib) (svid_marshals lib) (x509Watcher_OnX509ContextWatchError status_Code)"
  by (auto simp: logs_only_def x509Watcher_OnX509ContextUpdate_def x509Watcher_OnX509ContextWatchError_def log_svids_acts
      svid_marshals_def)

lemma logs_only_jwt: "logs_only (jwtWatcher_OnJWTBundlesUpdate marshal) (bundle_marshals marshal) (jwtWatcher_OnJWTBundlesWatchError status_Code)"
  by (auto simp: logs_only_def jwtWatcher_OnJWTBundlesUpdate_def jwtWatcher_OnJWTBundlesWatchError_def log_bundles_acts
      bundle_marshals_def)

lemma logs_only_error:
  assumes "logs_only on_update printable on_error" "a \<in> set (on_error e)"
  shows "\<not> stops a \<and> a \<noteq> Finished \<and> a \<noteq> Client_closed"
  using assms unfolding logs_only_def by fastforce

lemma tell_acts:
  assumes "logs_only on_update printable on_error"
  shows "Finished \<notin> set (tell on_update on_error evs)" "Client_closed \<notin> set (tell on_update on_error evs)"
    "list_all (\<lambda>a. \<not> stops a) (tell on_update on_error evs) \<longleftrightarrow> (\<forall>u. OnUpdate u \<in> set evs \<longrightarrow> printable u)"
proof -
  have u: "\<And>u. Finished \<notin> set (on_update u) \<and> Client_closed \<notin> set (on_update u) \<and>
      (list_all (\<lambda>a. \<not> stops a) (on_update u) \<longleftrightarrow> printable u)"
    using assms by (simp add: logs_only_def)
  have e: "\<And>e. Finished \<notin> set (on_error e) \<and> Client_closed \<notin> set (on_error e) \<and> list_all (\<lambda>a. \<not> stops a) (on_error e)"
    using logs_only_error [OF assms] by (auto simp: list_all_iff)
  show "Finished \<notin> set (tell on_update on_error evs)" "Client_closed \<notin> set (tell on_update on_error evs)"
    using u e by (auto simp: tell_def split: event.splits)
  show "list_all (\<lambda>a. \<not> stops a) (tell on_update on_error evs) \<longleftrightarrow> (\<forall>u. OnUpdate u \<in> set evs \<longrightarrow> printable u)"
    unfolding tell_def by (induction evs) (use u e in \<open>auto split: event.splits\<close>)
qed

lemma watching_acts:
  assumes "logs_only on_update printable on_error"
  shows "Client_closed \<notin> set (watching fatal status_Code on_update on_error w)"
    "Finished \<in> set (watching fatal status_Code on_update on_error w) \<and>
       list_all (\<lambda>a. \<not> stops a) (watching fatal status_Code on_update on_error w) \<longleftrightarrow> cancelled status_Code printable w"
  using tell_acts [OF assms]
  by (auto simp: watching_def cancelled_def split: res.splits prod.splits watch_result.splits)

lemma watching_running:
  assumes "logs_only on_update printable on_error" "list_all (\<lambda>a. \<not> stops a) (watching fatal status_Code on_update on_error w)"
    "Finished \<notin> set (watching fatal status_Code on_update on_error w)"
  shows "\<exists>evs k. w = Ok (evs, k, Running)"
  using assms(2,3) by (auto simp: watching_def split: res.splits prod.splits watch_result.splits)

lemma interrupted_pause:
  assumes "status_Code e \<noteq> Code_Canceled" "status_Code e \<noteq> Code_InvalidArgument"
  shows "\<exists>evs k. WatchX509Context bs status_Code cs lib [(Open_Err e, Some ctx)] = Ok (evs, k, Returned ctx)"
  using assms by (auto simp: WatchX509Context_def watchX509Context_def watch_stream_def handleWatchError_def Let_def
      split: prod.splits)

lemma append_in_shuffles: "xs @ js \<in> shuffles xs js"
  by (induction xs) (simp_all add: Cons_in_shuffles_leftI)

lemma startWatchers_outcome:
  assumes "startWatchers client xs js trace" "Client_closed \<notin> set xs" "Client_closed \<notin> set js"
  shows "Client_closed \<in> set trace \<longleftrightarrow> is_Ok client \<and>
      (Finished \<in> set xs \<and> list_all (\<lambda>a. \<not> stops a) xs) \<and> (Finished \<in> set js \<and> list_all (\<lambda>a. \<not> stops a) js)"
    and "Client_closed \<notin> set trace \<Longrightarrow> trace \<noteq> [] \<and> stops (last trace) \<or>
      list_all (\<lambda>a. \<not> stops a) xs \<and> Finished \<notin> set xs \<or> list_all (\<lambda>a. \<not> stops a) js \<and> Finished \<notin> set js"
proof (atomize (full), cases "is_Ok client")
  case False
  then show "(Client_closed \<in> set trace \<longleftrightarrow> is_Ok client \<and>
      (Finished \<in> set xs \<and> list_all (\<lambda>a. \<not> stops a) xs) \<and> (Finished \<in> set js \<and> list_all (\<lambda>a. \<not> stops a) js)) \<and>
    (Client_closed \<notin> set trace \<longrightarrow> trace \<noteq> [] \<and> stops (last trace) \<or>
      list_all (\<lambda>a. \<not> stops a) xs \<and> Finished \<notin> set xs \<or> list_all (\<lambda>a. \<not> stops a) js \<and> Finished \<notin> set js)"
    using assms(1) by (cases client) (auto simp: startWatchers_def)
next
  case True
  then obtain zs where z: "zs \<in> shuffles xs js" "trace = until_stop zs @
      (if list_all (\<lambda>a. \<not> stops a) zs \<and> Finished \<in> set xs \<and> Finished \<in> set js then [Client_closed] else [])"
    using assms(1) by (cases client) (auto simp: startWatchers_def)
  have zs: "set zs = set xs \<union> set js" using z(1) by (simp add: set_shuffles)
  then have "Client_closed \<notin> set (until_stop zs)"
    using until_stop_set [of zs] assms(2,3) by blast
  moreover have "list_all (\<lambda>a. \<not> stops a) zs \<longleftrightarrow> list_all (\<lambda>a. \<not> stops a) xs \<and> list_all (\<lambda>a. \<not> stops a) js"
    using zs by (auto simp: list_all_iff)
  ultimately show "(Client_closed \<in> set trace \<longleftrightarrow> is_Ok client \<and>
      (Finished \<in> set xs \<and> list_all (\<lambda>a. \<not> stops a) xs) \<and> (Finished \<in> set js \<and> list_all (\<lambda>a. \<not> stops a) js)) \<and>
    (Client_closed \<notin> set trace \<longrightarrow> trace \<noteq> [] \<and> stops (last trace) \<or>
      list_all (\<lambda>a. \<not> stops a) xs \<and> Finished \<notin> set xs \<or> list_all (\<lambda>a. \<not> stops a) js \<and> Finished \<notin> set js)"
    using True z(2) until_stop_some [of zs] by (auto simp: list_all_iff)
qed

section \<open>Properties\<close>

text \<open>
  C40: How the example watcher ends. However the two goroutines interleave, the client is closed exactly
  when it could be created, both watches returned because they were cancelled, and everything they
  delivered could be printed. Otherwise the process was ended by \<open>log.Fatalf\<close> (or a panic), which
  skips the deferred \<open>Close\<close>, or a watch still runs. In particular an interrupt in the pause between
  two attempts is fatal: the watch then returns the error of the context, whose status code is
  not \<open>Canceled\<close>.
\<close>
theorem watcher_example_shutdown:
  assumes "startWatchers client (x509_goroutine bs status_Code cs lib xscript)
      (jwt_goroutine bs status_Code cs unmarshal marshal jscript) trace"
    and wx: "wx = WatchX509Context bs status_Code cs lib xscript"
    and wj: "wj = WatchJWTBundles bs status_Code cs unmarshal jscript"
  shows "(Client_closed \<in> set trace \<longleftrightarrow> is_Ok client \<and> cancelled status_Code (svid_marshals lib) wx \<and>
      cancelled status_Code (bundle_marshals marshal) wj) \<and>
    (Client_closed \<notin> set trace \<longrightarrow> trace \<noteq> [] \<and> stops (last trace) \<or>
      (\<exists>evs k. wx = Ok (evs, k, Running)) \<or> (\<exists>evs k. wj = Ok (evs, k, Running))) \<and>
    (xscript = [(Open_Err e, Some ctx)] \<and> status_Code e \<notin> {Code_Canceled, Code_InvalidArgument} \<and>
       status_Code ctx \<noteq> Code_Canceled \<longrightarrow> Client_closed \<notin> set trace)"
proof -
  note g = x509_goroutine_def jwt_goroutine_def wx [symmetric] wj [symmetric]
  note t = startWatchers_outcome [OF assms(1) [unfolded g] watching_acts(1) [OF logs_only_x509] watching_acts(1) [OF logs_only_jwt]]
  have ended: "Client_closed \<in> set trace \<longleftrightarrow> is_Ok client \<and> cancelled status_Code (svid_marshals lib) wx \<and>
      cancelled status_Code (bundle_marshals marshal) wj"
    unfolding t(1) watching_acts(2) [OF logs_only_x509] watching_acts(2) [OF logs_only_jwt] ..
  have "Client_closed \<notin> set trace \<Longrightarrow> trace \<noteq> [] \<and> stops (last trace) \<or>
      (\<exists>evs k. wx = Ok (evs, k, Running)) \<or> (\<exists>evs k. wj = Ok (evs, k, Running))"
    using t(2) watching_running [OF logs_only_x509] watching_running [OF logs_only_jwt] by blast
  moreover have "Client_closed \<notin> set trace" if "xscript = [(Open_Err e, Some ctx)]"
    "status_Code e \<notin> {Code_Canceled, Code_InvalidArgument}" "status_Code ctx \<noteq> Code_Canceled"
    using ended interrupted_pause [of status_Code e bs cs lib ctx] that by (auto simp: wx cancelled_def)
  ultimately show ?thesis using ended by blast
qed

text \<open>Both streams are cancelled: the client is closed.\<close>

theorem watcher_example_shutdown_witness:
  "\<exists>trace. startWatchers (Ok (0 :: nat))
     (x509_goroutine defaultBackoffStrategy (\<lambda>_. Code_Canceled) Backcompat_Deny ex_lib [(Stream [] (New ''canceled''), None)])
     (jwt_goroutine defaultBackoffStrategy (\<lambda>_. Code_Canceled) Backcompat_Deny (\<lambda>_. Err (New ''bad'')) (\<lambda>_. Ok ''{}'')
        [(Stream [] (New ''canceled''), None)]) trace \<and> Client_closed \<in> set trace"
proof -
  let ?wx = "WatchX509Context defaultBackoffStrategy (\<lambda>_. Code_Canceled) Backcompat_Deny ex_lib [(Stream [] (New ''canceled''), None)]"
  let ?wj = "WatchJWTBundles defaultBackoffStrategy (\<lambda>_. Code_Canceled) Backcompat_Deny (\<lambda>_. Err (New ''bad''))
    [(Stream [] (New ''canceled''), None)]"
  let ?xs = "x509_goroutine defaultBackoffStrategy (\<lambda>_. Code_Canceled) Backcompat_Deny ex_lib [(Stream [] (New ''canceled''), None)]"
  let ?js = "jwt_goroutine defaultBackoffStrategy (\<lambda>_. Code_Canceled) Backcompat_Deny (\<lambda>_. Err (New ''bad'')) (\<lambda>_. Ok ''{}'')
    [(Stream [] (New ''canceled''), None)]"
  have w: "cancelled (\<lambda>_. Code_Canceled) (svid_marshals ex_lib) ?wx"
    "cancelled (\<lambda>_. Code_Canceled) (bundle_marshals (\<lambda>_. Ok ''{}'')) ?wj"
    by (simp_all add: cancelled_def WatchX509Context_def watchX509Context_def WatchJWTBundles_def watchJWTBundles_def
        watch_stream_def handleWatchError_def)
  obtain trace where "startWatchers (Ok (0 :: nat)) ?xs ?js trace"
    using append_in_shuffles [of ?xs ?js] by (auto simp: startWatchers_def)
  then show ?thesis
    using watcher_example_shutdown [OF _ refl refl, of "Ok (0 :: nat)" defaultBackoffStrategy] w by fastforce
qed

end
