(* ===== verification/Spec2Isabelle.thy ===== *)
theory Spec2Isabelle
  imports Prelude Spiffeid_Path Go_URL Spiffeid Crypto_Types Internal_Utils Bundle_Interfaces Jose_Types
    Jwtbundle Witbundle X509bundle Spiffebundle X509svid Jwt_Lib Jwtsvid Witsvid Tlsconfig Workload_Parse
    Workload_Watch Workload_Watcher Workload_Sources Workload_Addr Federation Spiffetls Grpccredentials
    Locks Bundle_Locks Source_Locks Logger Example_Auth Example_Programs Example_Watcher
begin

text \<open>
  A verification development for \<open>go-spiffe\<close>, the Go library for SPIFFE: workload identities
  (SPIFFE IDs), the documents that carry them (X509-SVIDs, JWT-SVIDs, WIT-SVIDs), the trust
  bundles they are verified against, the client of the Workload API that delivers both, and the
  TLS and gRPC glue that authenticates peers with them. The definitions are translated from the
  Go source; this header says which theory models which part.

  \<^bold>\<open>How the program fits together.\<close> The Workload API pushes responses over gRPC streams. The
  \<open>Client\<close> parses each response into SVIDs and bundle sets and hands them to a watcher; a watch
  is retried with a growing delay until the context ends. A \<open>watcher\<close> runs the watches of a
  source in goroutines, waits for the first update of each and announces later ones. The sources
  (\<open>X509Source\<close>, \<open>JWTSource\<close>, \<open>BundleSource\<close>, \<open>WITSource\<close>) keep the last update and answer lookups.
  \<open>tlsconfig\<close> turns a source into the callbacks of a \<open>tls.Config\<close>: they present the source's SVID
  and verify the peer's chain against the bundle of the peer's own trust domain, then ask an
  authorizer. \<open>spiffetls\<close> and \<open>grpccredentials\<close> wrap dialing, listening and gRPC handshakes around
  such configurations. \<open>federation\<close> serves a SPIFFE bundle over HTTP and fetches or watches one.

  \<^bold>\<open>Theories\<close> (paths are relative to \<open>src/\<close>).
  \<^item> \<open>Prelude\<close>: strings as byte lists, errors, results (value, error or panic), Go maps as association
    lists, slices, and their lemmas.
  \<^item> \<open>Spiffeid_Path\<close>, \<open>Spiffeid\<close>: \<open>spiffeid/\<close>. Both character-set builds, path validation and joining
    as the loops of the source, IDs (a string and an index into it), trust domains, text codecs,
    matchers, the \<open>Require\<close> functions. \<open>Go_URL\<close> is the part of \<open>net/url\<close> that is used.
  \<^item> \<open>Crypto_Types\<close>, \<open>Jose_Types\<close>, \<open>Jwt_Lib\<close>: the data of \<open>crypto/x509\<close>, \<open>encoding/pem\<close> and go-jose that
    the source reads, and records of the functions it calls, with their documented behaviour as
    named predicates.
  \<^item> \<open>Internal_Utils\<close>: \<open>internal/\<close>. Key comparison, authority maps, certificate lists, the PEM loop.
  \<^item> \<open>Bundle_Interfaces\<close>: the contracts that the bundle packages share, as locales.
  \<^item> \<open>X509bundle\<close>, \<open>Jwtbundle\<close>, \<open>Witbundle\<close>, \<open>Spiffebundle\<close>: \<open>bundle/\<close> and \<open>exp/bundle/\<close>. Bundles as records, sets
    as maps from trust domains, every method, parsing and marshaling.
  \<^item> \<open>X509svid\<close>, \<open>Jwtsvid\<close>, \<open>Witsvid\<close>: \<open>svid/\<close> and \<open>exp/svid/\<close>. Parsing, validation, marshaling, chain
    verification.
  \<^item> \<open>Tlsconfig\<close>: \<open>spiffetls/tlsconfig/\<close> and \<open>spiffetls/peerid.go\<close>, and whom a handshake of \<open>crypto/tls\<close> admits
    with a configuration: its certificate checks, \<open>VerifyPeerCertificate\<close>, \<open>VerifyConnection\<close> and, on a
    server, \<open>GetConfigForClient\<close>. The last two are kept by the hooks of the source.
  \<^item> \<open>Workload_Parse\<close>, \<open>Workload_Watch\<close>: \<open>workloadapi/client.go\<close>, \<open>backoff.go\<close>. The parse functions, the
    one-shot fetches and the watch loops. A watch runs on a script of what the stream does.
  \<^item> \<open>Workload_Watcher\<close>: \<open>workloadapi/watcher.go\<close>. The operations, and the constructor, the two
    watch goroutines, \<open>Close\<close> -- that of the source, which sets its closed flag, and that of the watcher,
    which cancels the watches and waits for them -- and a consumer interleaved as a step relation.
  \<^item> \<open>Workload_Sources\<close>: the four sources; \<open>WITSource\<close> has a step relation of its own.
  \<^item> \<open>Workload_Addr\<close>: addresses on both platforms, options, client construction, how the sources
    start, the functions of \<open>convenience.go\<close>.
  \<^item> \<open>Locks\<close>: goroutines and \<open>sync.RWMutex\<close>, and the lock discipline as a type system.
    \<open>Bundle_Locks\<close>: the methods of \<open>bundle/spiffebundle/\<close>, \<open>Source_Locks\<close>: those of the four sources, as sequences
    of actions that goroutines interleave.
  \<^item> \<open>Federation\<close>: \<open>federation/\<close>. \<open>Spiffetls\<close>: \<open>spiffetls/\<close>. \<open>Grpccredentials\<close>: \<open>spiffegrpc/grpccredentials/\<close>.
  \<^item> \<open>Logger\<close>: \<open>logger/\<close>, with the contract of a logger as a locale.
  \<^item> \<open>Example_Auth\<close>: the token middleware of the example servers, down to \<open>strings.Fields\<close>.
    \<open>Example_Programs\<close>: the \<open>run\<close> function of every program under \<open>examples/\<close>, as the list of what it opened, did
    and closed, and its result. \<open>Example_Watcher\<close>: \<open>examples/spiffe-watcher/\<close>, two goroutines interleaved.

  \<^bold>\<open>Conventions.\<close> A record per struct, a definition per function or method, with the source's name
  (prefixed by the package where two packages share it). A mutating method returns the updated
  record. A nil pointer is \<^const>\<open>None\<close>. Integers of fixed width are words: refresh hints and
  sequence numbers have 64 bits. The iteration order of a Go map is the order of the list, and
  the theorems hold for every order. A function that was called with a nil pointer or indexes out
  of range returns \<open>Panic\<close>.

  \<^bold>\<open>What the lemmas show.\<close>
  \<^item> Identities: the parsers accept exactly the grammar of IDs, paths and trust domains; every ID
    obtainable from the package is well formed; the codecs are inverse to each other.
  \<^item> Bundles: the locales give the laws of lookups after updates, set membership and the answers of a
    source for a foreign trust domain; every bundle and set is an interpretation. Documents round
    trip up to the rounding of the hint, with the arithmetic at 64 bits. The locking is a type system:
    methods that are typed neither race nor deadlock, and those that are not do one or the other.
  \<^item> SVIDs: exactly which chains, keys and tokens are accepted, and that verification uses the
    bundle of the ID's own trust domain.
  \<^item> Workload API: what a response contributes; every response and error of a watch is reported in
    order with the delays of the backoff; the watcher terminates because it cancels its
    watches, closes its client at most once and loses no update; the sources refine the last update
    delivered until their \<open>Close\<close> is called, and refuse every call from then on.
  \<^item> Authentication: which peers a configuration, a dialed connection, a listener or a gRPC handshake
    admits -- for every base configuration, with the callbacks that hooking keeps -- and where the ID
    that is exposed comes from; which sources are closed by whom.
  \<^item> Examples: whom each program talks to, that it closes what it opens on every way out, that a token
    gets from a client to a server, that nothing is served without a valid one, and when the example
    watcher shuts down in order.
  \<^item> This theory puts the parts together: from the options of a source and the updates of the Workload
    API through the watcher and the source to the peers a connection or a listener admits, the
    certificate it presents, and the tokens that are accepted, also by the servers of the examples.

  \<^bold>\<open>Bounds.\<close> The loops are structural recursions except the scanners of \<open>spiffeid\<close> (a measure on the
  remaining input) and the PEM loop (a partial function, total when the decoder consumes input).
  There is no fuel. The watch loops and \<open>WatchBundle\<close> run on a finite script of what the
  environment does, and the theorems hold for all scripts; a run that used its script up says
  that it still goes on. The watcher takes at most 24 steps by itself, between two
  updates.

  \<^bold>\<open>Parameters.\<close> Parsing of certificates, keys, PEM, JSON and tokens, chain building and signature
  checking (\<open>crypto/x509\<close>, go-jose), URL parsing, gRPC streams and connections, \<open>net/http\<close>, TLS
  handshakes and the clock are arguments; what the theorems assume of them is a named
  predicate next to the record of their functions, and the examples instantiate all of them.

  \<^bold>\<open>Not modelled.\<close> The generated code under \<open>proto/\<close> and test support. Of the modelled code: the
  log messages of the library, the metadata header of its gRPC calls, the text of library errors,
  goroutine stacks, the \<open>main\<close> functions of the examples, and the TLS session resumption of \<open>crypto/tls\<close>, which does not call the verification
  callback again.
\<close>

section \<open>The components together\<close>

subsection \<open>Definitions\<close>

text \<open>The certificates \<open>raw\<close> authenticate a peer by the X.509 context \<open>ctx\<close>: the ID in the leaf is
  authorized, and every chain ends in an authority that the context has for the ID's trust domain.\<close>

definition anchored_peer :: "charset \<Rightarrow> 't x509_lib \<Rightarrow> X509Context \<Rightarrow> Authorizer \<Rightarrow> string list \<Rightarrow> bool" where
  "anchored_peer cs lib ctx auth raw \<longleftrightarrow> (\<exists>spid chs b. auth spid chs = None \<and> chs \<noteq> [] \<and>
     x509bundle_Set_Get (xc_Bundles ctx) (ID_TrustDomain spid) = Some b \<and>
     (\<forall>ch \<in> set chs. ch \<noteq> [] \<and> lib_ParseCertificate lib (hd raw) = Ok (hd ch) \<and> IDFromCert cs (hd ch) = Ok spid \<and>
        last ch \<in> set (x509bundle_X509Authorities b)))"

text \<open>What the state \<open>s\<close> of a source means for a handshake with a configuration made from \<open>conf\<close>: \<open>admits\<close> says
  which certificates are accepted, \<open>present\<close> the certificate that is presented or the error.\<close>

definition handshake_ok ::
  "charset \<Rightarrow> 't x509_lib \<Rightarrow> (x509svid_SVID list \<Rightarrow> x509svid_SVID option) option \<Rightarrow> Authorizer \<Rightarrow>
   (X509Source sys, 'e, 'x) tls_Config \<Rightarrow> (string list \<Rightarrow> bool) \<Rightarrow> tls_certificate res \<Rightarrow> X509Source sys \<Rightarrow> bool" where
  "handshake_ok cs lib picker auth conf admits present s \<longleftrightarrow>
     (if y_called s then (\<forall>raw. \<not> admits raw) \<and> (\<exists>e. present = Err e)
      else \<exists>ctx. y_lastX s = Some ctx \<and> delivered_context cs lib ctx \<and>
        (\<forall>raw. admits raw \<longleftrightarrow> (\<exists>spid chs. accepted_by conf s raw chs \<and>
           peer_ok cs lib (x509bundle_Set_GetX509BundleForTrustDomain (xc_Bundles ctx)) auth raw spid chs)) \<and>
        (\<forall>raw. admits raw \<longrightarrow> anchored_peer cs lib ctx auth raw) \<and>
        (picker = None \<longrightarrow> (let svid = hd (xc_SVIDs ctx) in svid \<in> set (xc_SVIDs ctx) \<and> x509svid_wf cs svid \<and>
           present = Ok (svid_certificate svid))))"

text \<open>The picker that the options of a source set.\<close>

definition source_picker where
  "source_picker options = xc_picker (fold (\<lambda>option config. option config) options \<lparr>xc_watcher = empty_watcherConfig, xc_picker = None\<rparr>)"

text \<open>For the examples: connections on a source whose state is the world, and a document with one key.\<close>

definition ex_live_env :: "(X509Source sys, unit, nat, nat, nat, unit, nat, nat) tls_env" where
  "ex_live_env = \<lparr>te_charset = Backcompat_Deny, te_NewX509Source = (\<lambda>_. Ok ()), te_deref = (\<lambda>s _. src s),
     te_zero = (), te_DialWithDialer = (\<lambda>_ _ _ _. Ok 7), te_Dial = (\<lambda>_ _ _. Ok 7), te_Listen = (\<lambda>_ _. Ok 3)\<rparr>"

definition ex_client_option :: "(nat, nat) SourceOption" where
  "ex_client_option = withClient (Some 0)"

definition ex_unmarshal :: "string \<Rightarrow> jwks res" where
  "ex_unmarshal s = Ok (Some [zero_jwk (Ed25519_PublicKey ''a'') ''k1''])"

subsection \<open>Lemmas\<close>

lemma peer_ok_anchored:
  assumes "verify_anchored lib" "peer_ok cs lib (x509bundle_Set_GetX509BundleForTrustDomain (xc_Bundles ctx)) auth raw spid chs"
  shows "anchored_peer cs lib ctx auth raw"
proof -
  obtain certs where c: "list_all2 (\<lambda>r c. lib_ParseCertificate lib r = Ok c) raw certs"
      "x509svid_Verify cs lib certs (Some (x509bundle_Set_GetX509BundleForTrustDomain (xc_Bundles ctx))) [] = Ok (spid, chs, None)"
      "auth spid chs = None"
    using assms(2) by (auto simp: peer_ok_def)
  obtain leaf rest where l: "certs = leaf # rest" "IDFromCert cs leaf = Ok spid"
    using c(2) by (auto simp: Verify_Ok_iff leaf_ok_def IDFromCert_Ok_iff)
  obtain b where b: "x509bundle_Set_GetX509BundleForTrustDomain (xc_Bundles ctx) (ID_TrustDomain spid) = Ok b" "chs \<noteq> []"
      "\<forall>ch \<in> set chs. ch \<noteq> [] \<and> hd ch = hd certs \<and> last ch \<in> set (x509bundle_X509Authorities b)"
    using Verify_anchored_chains [OF assms(1) c(2)] by blast
  have "x509bundle_Set_Get (xc_Bundles ctx) (ID_TrustDomain spid) = Some b"
    using b(1) by (simp add: x509bundle_Set_GetX509BundleForTrustDomain_def x509bundle_Set_Get_def split: option.splits)
  moreover have "lib_ParseCertificate lib (hd raw) = Ok leaf"
    using c(1) l(1) by (cases raw) auto
  ultimately show ?thesis using c(3) b(2,3) l unfolding anchored_peer_def
    by (intro exI [of _ spid] exI [of _ chs] exI [of _ b]) simp
qed

lemma peer_ok_failing_source: "\<not> peer_ok cs lib (\<lambda>_. Err e) auth raw spid chs"
  by (auto simp: peer_ok_def Verify_Ok_iff)

lemma handshake_source:
  assumes "verify_anchored lib"
    and run: "watcher_reach (delivered_context cs lib) pj
      (start_sys client (Some X509Source_setX509Context) None X509Source_setClosed (X509Source_new picker)) s" "y_new s = N_Done None"
    and admits: "\<And>raw. admits raw \<longleftrightarrow> spiffe_peer cs lib (Some (\<lambda>s. X509Source_GetX509BundleForTrustDomain (src s))) auth conf s raw"
    and present: "present = snd (getTLSCertificate (X509Source_GetX509SVID (src s)) trace)"
  shows "handshake_ok cs lib picker auth conf admits present s"
proof -
  have called: "xsrc_closed (src s) \<longleftrightarrow> y_called s" by (rule x509_source.closed_iff_called [OF run(1)])
  obtain c where c: "y_lastX s = Some c" "delivered_context cs lib c"
    "X509Source_GetX509SVID (src s) =
      (if xsrc_closed (src s) then Err (wrapX509sourceErr (New ''source is closed''))
       else case pick picker (xc_SVIDs c) of Some svid \<Rightarrow> Ok svid
         | None \<Rightarrow> Err (wrapX509sourceErr (New ''missing X509-SVID'')))"
    "X509Source_GetX509BundleForTrustDomain (src s) =
      (if xsrc_closed (src s) then (\<lambda>_. Err (wrapX509sourceErr (New ''source is closed'')))
       else x509bundle_Set_GetX509BundleForTrustDomain (xc_Bundles c))"
    using run by (rule X509Source_answers)
  show ?thesis
  proof (cases "y_called s")
    case True
    then show ?thesis
      using c(3,4) admits present called
      by (auto simp: handshake_ok_def spiffe_peer_def peer_ok_failing_source getTLSCertificate_cases)
  next
    case False
    have svid: "hd (xc_SVIDs c) \<in> set (xc_SVIDs c)" "x509svid_wf cs (hd (xc_SVIDs c))"
      using delivered_context_ok [OF c(2)] by (cases "xc_SVIDs c"; auto)+
    have "present = Ok (svid_certificate (hd (xc_SVIDs c)))" if "picker = None"
      using present c(3) False called that svid(2) by (auto simp: pick_def getTLSCertificate_cases x509svid_wf_def)
    then show ?thesis
      using c(1,2,4) False called admits svid peer_ok_anchored [OF assms(1), of cs c auth]
      by (auto simp: handshake_ok_def spiffe_peer_def Let_def)
  qed
qed

lemma NewX509Source_start_eq:
  "\<exists>client. NewX509Source_start options =
     start_sys client (Some X509Source_setX509Context) None X509Source_setClosed (X509Source_new (source_picker options))"
  by (auto simp: NewX509Source_start_def source_picker_def Let_def)

lemma handshake_started:
  assumes "verify_anchored lib"
    and "watcher_reach (delivered_context cs lib) pj (NewX509Source_start sopts) s" "y_new s = N_Done None"
    and "\<And>raw. admits raw \<longleftrightarrow> spiffe_peer cs lib (Some (\<lambda>s. X509Source_GetX509BundleForTrustDomain (src s))) auth conf s raw"
    and "present = snd (getTLSCertificate (X509Source_GetX509SVID (src s)) trace)"
  shows "handshake_ok cs lib (source_picker sopts) auth conf admits present s"
proof -
  obtain client where "NewX509Source_start sopts =
      start_sys client (Some X509Source_setX509Context) None X509Source_setClosed (X509Source_new (source_picker sopts))"
    using NewX509Source_start_eq by blast
  then show ?thesis
    using handshake_source [OF assms(1) _ assms(3-5)] assms(2) by simp
qed

lemma ex_live_start: "NewX509Source_start [configureX509Source ex_client_option] =
    start_sys True (Some X509Source_setX509Context) None X509Source_setClosed (X509Source_new None)"
  "source_picker [configureX509Source ex_client_option] = None"
  by (simp_all add: NewX509Source_start_def source_picker_def ex_client_option_def)

text \<open>The states of the source of the examples, with a run that is closed.\<close>

definition ex_live :: "X509Source sys \<Rightarrow> bool" where
  "ex_live s \<longleftrightarrow> watcher_reach (delivered_context Backcompat_Deny ex_lib) (\<lambda>_. False)
     (start_sys True (Some X509Source_setX509Context) None X509Source_setClosed (X509Source_new None)) s \<and> y_new s = N_Done None"

lemma ex_live_run:
  obtains s t where "ex_live s" "y_lastX s = Some ex_context" "\<not> y_called s" "ex_live t" "y_called t"
    "watcher_step (delivered_context Backcompat_Deny ex_lib) (\<lambda>_. False) s t"
proof -
  obtain s where s: "ex_live s" "y_lastX s = Some ex_context" "\<not> xsrc_closed (src s)"
    unfolding ex_live_def using ex_x509_run by blast
  let ?t = "s\<lparr>y_called := True, y_w := (y_w s)\<lparr>w_src := y_closeFn s (src s)\<rparr>\<rparr>"
  have open': "\<not> y_called s"
    using s x509_source.closed_iff_called [of Backcompat_Deny ex_lib "\<lambda>_. False"] unfolding ex_live_def by blast
  have "watcher_step (delivered_context Backcompat_Deny ex_lib) (\<lambda>_. False) s ?t"
    using s(1) open' unfolding ex_live_def by (intro watcher_step.src_close) blast+
  moreover from this have "ex_live ?t"
    using s(1) reach_step unfolding ex_live_def by force
  ultimately show thesis using s(1,2) open' by (intro that [of s ?t]) simp_all
qed

lemma ex_live_peer: "peer_ok Backcompat_Deny ex_lib (x509bundle_Set_GetX509BundleForTrustDomain (xc_Bundles ex_context))
    ex_auth [''leaf''] (mk_ID ''td'' ''/w'') [[ex_leaf, ex_root]]"
proof -
  have "x509bundle_Set_GetX509BundleForTrustDomain (xc_Bundles ex_context) (TrustDomain ''td'') = Ok ex_bundle"
    by (simp add: ex_context_def x509bundle_Set_GetX509BundleForTrustDomain_def)
  then show ?thesis
    using ex_peer_ok by (auto simp: ex_auth_def peer_ok_def Verify_Ok_iff x509bundle_GetX509BundleForTrustDomain_def
        split: if_splits)
qed

lemma ex_handshake:
  assumes "handshake_ok Backcompat_Deny ex_lib None ex_auth (newTLSConfig ()) admits present s" "y_lastX s = Some ex_context"
    "\<not> y_called s"
  shows "admits [''leaf'']" "anchored_peer Backcompat_Deny ex_lib ex_context ex_auth [''leaf'']"
    "present = Ok (svid_certificate (hd (xc_SVIDs ex_context)))"
proof -
  have h: "\<forall>raw. admits raw \<longleftrightarrow> (\<exists>spid chs.
      peer_ok Backcompat_Deny ex_lib (x509bundle_Set_GetX509BundleForTrustDomain (xc_Bundles ex_context)) ex_auth raw spid chs)"
    "\<forall>raw. admits raw \<longrightarrow> anchored_peer Backcompat_Deny ex_lib ex_context ex_auth raw"
    "present = Ok (svid_certificate (hd (xc_SVIDs ex_context)))"
    using assms by (simp_all add: handshake_ok_def Let_def)
  show "admits [''leaf'']" using h(1) ex_live_peer by blast
  then show "anchored_peer Backcompat_Deny ex_lib ex_context ex_auth [''leaf'']" using h(2) by blast
  show "present = Ok (svid_certificate (hd (xc_SVIDs ex_context)))" using h(3) .
qed

lemma ex_jwt_delivered:
  "delivered_bundles Backcompat_Deny ex_unmarshal [(TrustDomain ''td'', jwt_ex_bundle)]"
proof -
  have td: "TrustDomainFromString Backcompat_Deny ''td'' = Ok (TrustDomain ''td'')" by code_simp
  have "parseJWTSVIDBundles Backcompat_Deny ex_unmarshal [(''td'', ''a'')] = Ok [(TrustDomain ''td'', jwt_ex_bundle)]"
    by (simp add: parseJWTSVIDBundles_def td jwtbundle_Parse_def ex_unmarshal_def jwks_list_def
        jwtbundle_AddJWTAuthority_def zero_jwk_def jwtbundle_NewSet_def jwtbundle_New_def jwt_ex_bundle_def)
  then show ?thesis unfolding delivered_bundles_def by blast
qed

lemma token_anchored:
  assumes "validate_checks lib"
    and run: "watcher_reach px (delivered_bundles cs unmarshal) (NewJWTSource_start sopts) s" "y_new s = N_Done None"
    and "jwtsvid_ParseAndValidate cs lib now token (JWTSource_GetJWTBundleForTrustDomain (src s)) audience = Ok svid"
  shows "\<not> jsrc_closed (src s) \<and> (\<exists>bundles b tok h hs a. y_lastJ s = Some bundles \<and> delivered_bundles cs unmarshal bundles \<and>
    jwtbundle_Set_Get bundles (ID_TrustDomain (js_ID svid)) = Some b \<and>
    lib_ParseSigned lib token allowedSignatureAlgorithms = Ok tok \<and> tok_Headers tok = h # hs \<and>
    jwtbundle_FindJWTAuthority b (hd_KeyID h) = Some a \<and> lib_Claims lib tok a = Ok (js_Claims svid)) \<and>
    now \<le> js_Expiry svid + 60 \<and> (audience \<noteq> [] \<longrightarrow> set audience \<inter> set (js_Audience svid) \<noteq> {})"
proof -
  obtain tok h hs b a where p: "lib_ParseSigned lib token allowedSignatureAlgorithms = Ok tok" "tok_Headers tok = h # hs"
    "JWTSource_GetJWTBundleForTrustDomain (src s) (ID_TrustDomain (js_ID svid)) = Ok b"
    "jwtbundle_FindJWTAuthority b (hd_KeyID h) = Some a" "lib_Claims lib tok a = Ok (js_Claims svid)"
    "now \<le> js_Expiry svid + 60" "audience \<noteq> [] \<longrightarrow> set audience \<inter> set (js_Audience svid) \<noteq> {}"
    using assms(1,4) by (rule jwtsvid_ParseAndValidate_checked)
  have open': "\<not> jsrc_closed (src s)"
    using p(3) by (auto simp: JWTSource_GetJWTBundleForTrustDomain_def JWTSource_checkClosed_def)
  obtain client picker where start: "NewJWTSource_start sopts = start_sys client None (Some JWTSource_setJWTBundles) JWTSource_setClosed (JWTSource_new picker)"
    by (auto simp: NewJWTSource_start_def Let_def)
  obtain j where j: "y_lastJ s = Some j" "delivered_bundles cs unmarshal j"
      "\<And>td. JWTSource_GetJWTBundleForTrustDomain ((src s)\<lparr>jsrc_closed := False\<rparr>) td = jwtbundle_Set_GetJWTBundleForTrustDomain j td"
    using JWTSource_serves_latest [OF run(1) [unfolded start] run(2)] by (auto simp: Let_def)
  have "src s = (src s)\<lparr>jsrc_closed := False\<rparr>" using open' by simp
  then have "jwtbundle_Set_GetJWTBundleForTrustDomain j (ID_TrustDomain (js_ID svid)) = Ok b"
    using j(3) p(3) by metis
  then have "jwtbundle_Set_Get j (ID_TrustDomain (js_ID svid)) = Some b"
    by (simp add: jwtbundle_Set_GetJWTBundleForTrustDomain_def jwtbundle_Set_Get_def split: option.splits)
  then show ?thesis using open' j(1,2) p by blast
qed

text \<open>The same of a token that a server of the examples accepts, in the state \<open>s\<close> of its source.\<close>

definition anchored_token ::
  "charset \<Rightarrow> (string \<Rightarrow> jwks res) \<Rightarrow> 'b jose_lib \<Rightarrow> int \<Rightarrow> string \<Rightarrow> string list \<Rightarrow> JWTSource sys \<Rightarrow> jwtsvid_SVID \<Rightarrow> bool" where
  "anchored_token cs unmarshal lib now token audience s svid \<longleftrightarrow>
     \<not> jsrc_closed (src s) \<and> (\<exists>bundles b tok h hs a. y_lastJ s = Some bundles \<and> delivered_bundles cs unmarshal bundles \<and>
       jwtbundle_Set_Get bundles (ID_TrustDomain (js_ID svid)) = Some b \<and>
       lib_ParseSigned lib token allowedSignatureAlgorithms = Ok tok \<and> tok_Headers tok = h # hs \<and>
       jwtbundle_FindJWTAuthority b (hd_KeyID h) = Some a \<and> lib_Claims lib tok a = Ok (js_Claims svid)) \<and>
     now \<le> js_Expiry svid + 60 \<and> set audience \<inter> set (js_Audience svid) \<noteq> {}"

lemma JWTSource_no_panic:
  assumes "watcher_reach px (delivered_bundles cs unmarshal) (NewJWTSource_start sopts) s" "y_new s = N_Done None"
  shows "\<not> is_Panic (JWTSource_GetJWTBundleForTrustDomain (src s) td)"
proof (cases "jsrc_closed (src s)")
  case True
  then show ?thesis by (simp add: JWTSource_GetJWTBundleForTrustDomain_def JWTSource_checkClosed_def)
next
  case False
  obtain client picker where start: "NewJWTSource_start sopts = start_sys client None (Some JWTSource_setJWTBundles) JWTSource_setClosed (JWTSource_new picker)"
    by (auto simp: NewJWTSource_start_def Let_def)
  obtain j where "JWTSource_GetJWTBundleForTrustDomain ((src s)\<lparr>jsrc_closed := False\<rparr>) td = jwtbundle_Set_GetJWTBundleForTrustDomain j td"
    using JWTSource_serves_latest [OF assms(1) [unfolded start] assms(2)] by (auto simp: Let_def)
  moreover have "(src s)\<lparr>jsrc_closed := False\<rparr> = src s" using False by simp
  ultimately show ?thesis by (simp add: jwtbundle_Set_GetJWTBundleForTrustDomain_def split: option.splits)
qed

lemma ex_jwt_run:
  "\<exists>s. watcher_reach (\<lambda>_. False) (delivered_bundles Backcompat_Deny ex_unmarshal)
      (NewJWTSource_start [configureJWTSource ex_client_option]) s \<and> y_new s = N_Done None \<and>
    y_lastJ s = Some [(TrustDomain ''td'', jwt_ex_bundle)] \<and>
    JWTSource_GetJWTBundleForTrustDomain (src s) (TrustDomain ''td'') = Ok jwt_ex_bundle"
proof -
  let ?j = "[(TrustDomain ''td'', jwt_ex_bundle)]"
  have start: "NewJWTSource_start [configureJWTSource ex_client_option] =
      start_sys True None (Some JWTSource_setJWTBundles) JWTSource_setClosed (JWTSource_new None)"
    by (simp add: NewJWTSource_start_def ex_client_option_def)
  obtain s where s: "watcher_reach (\<lambda>_. False) (delivered_bundles Backcompat_Deny ex_unmarshal)
       (NewJWTSource_start [configureJWTSource ex_client_option]) s" "y_new s = N_Done None"
      "y_lastJ s = Some ?j" "\<not> jsrc_closed (src s)"
    using jwt_source_run [of "delivered_bundles Backcompat_Deny ex_unmarshal", OF ex_jwt_delivered, of "\<lambda>_. False"]
    unfolding start by blast
  have "JWTSource_GetJWTBundleForTrustDomain (src s) (TrustDomain ''td'') = Ok jwt_ex_bundle"
    using JWTSource_serves_latest [OF s(1) [unfolded start] s(2)] s(3,4)
    by (auto simp: Let_def JWTSource_GetJWTBundleForTrustDomain_def JWTSource_checkClosed_def
        jwtbundle_Set_GetJWTBundleForTrustDomain_def)
  then show ?thesis using s(1-3) by blast
qed

subsection \<open>Properties\<close>

text \<open>
  C1: From the Workload API to the peer. Dial with mTLS and an \<open>X509Source\<close>. The one configuration
  the connection was made with is right for every state the source reaches later: until the
  source's \<open>Close\<close> is called, a handshake admits exactly the servers that the last X.509 context
  delivered by the Workload API authenticates, the authorizer accepts and the callbacks of the base
  configuration (\<open>VerifyPeerCertificate\<close> and \<open>VerifyConnection\<close>) accept -- so each admitted chain ends
  in an authority that the context holds for the trust domain of the ID in the server's leaf -- and
  without a picker it presents the first SVID of that context, a well-formed one. From the call of
  \<open>Close\<close> on no server is admitted and no certificate presented.
\<close>
theorem workload_dial:
  fixes env :: "(X509Source sys, 'src, 'o, 'd, 'e, 'x, 'conn, 'l) tls_env"
  assumes "verify_anchored lib" and env: "\<And>s. te_deref env s h = src s"
    and dial: "out_result (DialWithMode env lib network addr (MTLSClientWithSource auth (Some h)) options) = Ok c"
  shows "\<exists>config present. tls_Dial env (dc_dialer (dial_options options)) network addr config = Ok (cc_Conn c) \<and>
    cc_sourceCloser c = None \<and> cfg_GetClientCertificate config = Some present \<and>
    (\<forall>std pj sopts s. watcher_reach (delivered_context (te_charset env) lib) pj (NewX509Source_start sopts) s \<longrightarrow>
       y_new s = N_Done None \<longrightarrow>
       handshake_ok (te_charset env) lib (source_picker sopts) auth
         (base_config (te_zero env) (dc_baseTLSConf (dial_options options)))
         (client_admits std config s) (snd (present s)) s)"
proof -
  let ?m = "MTLSClientWithSource auth (Some h) :: (X509Source sys, 'src, 'o) dialMode"
  obtain source closer config where r: "open_source env (dm_sourceUnneeded ?m) (dm_source ?m) (dm_options ?m) = Ok (source, closer)"
      "hook_client_mode (te_charset env) lib (bind_client_source env source ?m) (dc_tlsOptions (dial_options options))
         (base_config (te_zero env) (dc_baseTLSConf (dial_options options))) = Ok config"
      "tls_Dial env (dc_dialer (dial_options options)) network addr config = Ok (cc_Conn c)" "cc_sourceCloser c = closer"
    using dial by (rule DialWithMode_result)
  have "source = Some h" "closer = None"
    using r(1) by (simp_all add: open_source_Ok MTLSClientWithSource_def dialMode_of_def)
  moreover have m: "dm_mode ?m = mtlsClientMode" "dm_authorizer ?m = auth"
    by (simp_all add: MTLSClientWithSource_def dialMode_of_def)
  ultimately have a: "client_admits std config s raw \<longleftrightarrow>
      spiffe_peer (te_charset env) lib (Some (\<lambda>s. X509Source_GetX509BundleForTrustDomain (src s))) auth
        (base_config (te_zero env) (dc_baseTLSConf (dial_options options))) s raw"
    and p: "cfg_GetClientCertificate config = Some (\<lambda>s. getTLSCertificate (X509Source_GetX509SVID (src s))
      (opt_trace (newOptions (dc_tlsOptions (dial_options options)))))" for std s raw
    using hook_client_mode_admits(2) [OF r(2)] hook_mode_presents(1) [OF r(2)]
    by (simp_all add: bind_client_source_def source_bundle_def source_svid_def env)
  have "handshake_ok (te_charset env) lib (source_picker sopts) auth
      (base_config (te_zero env) (dc_baseTLSConf (dial_options options)))
      (client_admits std config s) (snd (getTLSCertificate (X509Source_GetX509SVID (src s))
        (opt_trace (newOptions (dc_tlsOptions (dial_options options)))))) s"
    if "watcher_reach (delivered_context (te_charset env) lib) pj (NewX509Source_start sopts) s" "y_new s = N_Done None"
    for std pj sopts s
    using handshake_started [OF assms(1) that a refl] .
  then show ?thesis using r(3,4) \<open>closer = None\<close> p by blast
qed

theorem workload_dial_witness:
  "\<exists>(config :: (X509Source sys, nat, unit) tls_Config) present s t. cfg_GetClientCertificate config = Some present \<and>
     client_admits (\<lambda>_ _. None) config s [''leaf''] \<and> anchored_peer Backcompat_Deny ex_lib ex_context ex_auth [''leaf''] \<and>
     snd (present s) = Ok (svid_certificate (hd (xc_SVIDs ex_context))) \<and>
     watcher_step (delivered_context Backcompat_Deny ex_lib) (\<lambda>_. False) s t \<and> y_called t \<and>
     \<not> client_admits (\<lambda>_ _. None) config t [''leaf'']"
proof -
  have "out_result (DialWithMode ex_live_env ex_lib ''tcp'' ''a'' (MTLSClientWithSource ex_auth (Some ()))
      ([] :: (X509Source sys, nat, nat, unit, nat) DialOption list)) = Ok \<lparr>cc_Conn = 7, cc_sourceCloser = None\<rparr>"
    by (simp add: DialWithMode_def open_source_def MTLSClientWithSource_def dialMode_of_def ex_live_env_def Let_def
      hook_client_mode_def tls_Dial_def dial_options_def mode_numbers)
  from workload_dial [OF ex_lib_anchored _ this] obtain config :: "(X509Source sys, nat, unit) tls_Config" and present
    where c: "cfg_GetClientCertificate config = Some present"
      "\<And>std pj (sopts :: ((nat, nat) x509SourceConfig \<Rightarrow> (nat, nat) x509SourceConfig) list) s. watcher_reach (delivered_context Backcompat_Deny ex_lib) pj (NewX509Source_start sopts) s \<Longrightarrow>
       y_new s = N_Done None \<Longrightarrow> handshake_ok Backcompat_Deny ex_lib (source_picker sopts) ex_auth (newTLSConfig () :: (X509Source sys, nat, unit) tls_Config)
         (client_admits std config s) (snd (present s)) s"
    by (auto simp: ex_live_env_def dial_options_def base_config_def)
  have ok: "handshake_ok Backcompat_Deny ex_lib None ex_auth (newTLSConfig () :: (X509Source sys, nat, unit) tls_Config)
      (client_admits (\<lambda>_ _. None) config s) (snd (present s)) s" if "ex_live s" for s
    using c(2) [of "\<lambda>_. False" "[configureX509Source ex_client_option]" s "\<lambda>_ _. None"] that
    by (simp add: ex_live_def ex_live_start)
  obtain s t where s: "ex_live s" "y_lastX s = Some ex_context" "\<not> y_called s"
    and t: "ex_live t" "y_called t" "watcher_step (delivered_context Backcompat_Deny ex_lib) (\<lambda>_. False) s t"
    by (rule ex_live_run)
  have "\<not> client_admits (\<lambda>_ _. None) config t [''leaf'']" using ok [OF t(1)] t(2) by (simp add: handshake_ok_def)
  then show ?thesis using ex_handshake [OF ok [OF s(1)] s(2,3)] c(1) t(2,3) by blast
qed

text \<open>
  C2: The same for a listener with mTLS and an \<open>X509Source\<close> and the clients that connect to it:
  after every update the configuration admits by the new context and presents the new SVID,
  without being replaced, and from the call of \<open>Close\<close> on it admits no client. This is for a handshake
  that the \<open>GetConfigForClient\<close> of the base configuration, if it has one, leaves alone; if it
  gives another configuration the handshake is that one's, and if it fails nobody is admitted.
\<close>
theorem workload_listen:
  fixes env :: "(X509Source sys, 'src, 'o, 'd, 'e, 'x, 'conn, 'l) tls_env"
  assumes "verify_anchored lib" and env: "\<And>s. te_deref env s h = src s"
    and listen: "out_result (NewListenerWithMode env lib inner (MTLSServerWithSource auth (Some h)) options) = Ok l"
  defines "conf \<equiv> base_config (te_zero env) (lc_baseTLSConf (listen_options options))"
  shows "\<exists>present. ls_sourceCloser l = None \<and> cfg_GetCertificate (snd (ls_inner l)) = Some present \<and>
    (\<forall>std pj sopts s hello. watcher_reach (delivered_context (te_charset env) lib) pj (NewX509Source_start sopts) s \<longrightarrow>
       y_new s = N_Done None \<longrightarrow>
       (case config_for conf s hello of
          Ok None \<Rightarrow> handshake_ok (te_charset env) lib (source_picker sopts) auth conf
            (server_admits std (snd (ls_inner l)) hello s) (snd (present s)) s
        | Ok (Some other) \<Rightarrow> \<forall>raw. server_admits std (snd (ls_inner l)) hello s raw \<longleftrightarrow> admits_client std other s raw
        | _ \<Rightarrow> \<forall>raw. \<not> server_admits std (snd (ls_inner l)) hello s raw))"
proof -
  let ?m = "MTLSServerWithSource auth (Some h) :: (X509Source sys, 'src, 'o) listenMode"
  obtain source closer config where r: "open_source env (lm_sourceUnneeded ?m) (lm_source ?m) (lm_options ?m) = Ok (source, closer)"
      "hook_server_mode (te_charset env) lib (bind_server_source env source ?m) (lc_tlsOptions (listen_options options)) conf = Ok config"
      "l = \<lparr>ls_inner = (inner, config), ls_sourceCloser = closer\<rparr>"
    using listen unfolding conf_def by (rule NewListenerWithMode_result)
  have "source = Some h" "closer = None"
    using r(1) by (simp_all add: open_source_Ok MTLSServerWithSource_def listenMode_of_def)
  moreover have m: "lm_mode ?m = mtlsServerMode" "lm_authorizer ?m = auth"
    by (simp_all add: MTLSServerWithSource_def listenMode_of_def)
  ultimately have "lm_mode ?m = mtlsServerMode \<or> lm_mode ?m = mtlsWebServerMode" and b:
      "lm_bundle (bind_server_source env source ?m) = Some (\<lambda>s. X509Source_GetX509BundleForTrustDomain (src s))"
      "lm_authorizer (bind_server_source env source ?m) = auth"
    by (simp_all add: bind_server_source_def source_bundle_def env)
  then have a: "server_admits std config hello s raw \<longleftrightarrow> (case config_for conf s hello of
      Ok None \<Rightarrow> spiffe_peer (te_charset env) lib (Some (\<lambda>s. X509Source_GetX509BundleForTrustDomain (src s))) auth conf s raw
    | Ok (Some other) \<Rightarrow> admits_client std other s raw
    | _ \<Rightarrow> False)" for std hello s raw
    using hook_server_mode_admits [OF r(2), of std hello s raw] unfolding b by simp
  have p: "cfg_GetCertificate config = Some (\<lambda>s. getTLSCertificate (X509Source_GetX509SVID (src s))
      (opt_trace (newOptions (lc_tlsOptions (listen_options options)))))"
    using hook_mode_presents(2) [OF r(2)] m \<open>source = Some h\<close>
    by (simp add: bind_server_source_def source_svid_def env)
  have "case config_for conf s hello of
      Ok None \<Rightarrow> handshake_ok (te_charset env) lib (source_picker sopts) auth conf
        (server_admits std config hello s) (snd (getTLSCertificate (X509Source_GetX509SVID (src s))
          (opt_trace (newOptions (lc_tlsOptions (listen_options options)))))) s
    | Ok (Some other) \<Rightarrow> \<forall>raw. server_admits std config hello s raw \<longleftrightarrow> admits_client std other s raw
    | _ \<Rightarrow> \<forall>raw. \<not> server_admits std config hello s raw"
    if run: "watcher_reach (delivered_context (te_charset env) lib) pj (NewX509Source_start sopts) s" "y_new s = N_Done None"
    for std pj sopts s hello
  proof (cases "config_for conf s hello = Ok None")
    case True
    then have "server_admits std config hello s raw \<longleftrightarrow> spiffe_peer (te_charset env) lib
        (Some (\<lambda>s. X509Source_GetX509BundleForTrustDomain (src s))) auth conf s raw" for raw
      by (simp add: a)
    from handshake_started [OF assms(1) run this refl] show ?thesis unfolding True by simp
  qed (simp add: a split: res.splits option.splits)
  note handshakes = this
  have l: "ls_sourceCloser l = None" "snd (ls_inner l) = config" using r(3) \<open>closer = None\<close> by simp_all
  show ?thesis unfolding l
    by (intro exI conjI allI impI) (rule refl, rule p, rule handshakes)
qed

theorem workload_listen_witness:
  "\<exists>(config :: (X509Source sys, nat, unit) tls_Config) present s t. cfg_GetCertificate config = Some present \<and>
     server_admits (\<lambda>_ _. None) config ''hello'' s [''leaf''] \<and> anchored_peer Backcompat_Deny ex_lib ex_context ex_auth [''leaf''] \<and>
     snd (present s) = Ok (svid_certificate (hd (xc_SVIDs ex_context))) \<and>
     watcher_step (delivered_context Backcompat_Deny ex_lib) (\<lambda>_. False) s t \<and> y_called t \<and>
     \<not> server_admits (\<lambda>_ _. None) config ''hello'' t [''leaf'']"
proof -
  obtain config :: "(X509Source sys, nat, unit) tls_Config" where
    "out_result (NewListenerWithMode ex_live_env ex_lib (3 :: nat) (MTLSServerWithSource ex_auth (Some ()))
      ([] :: (X509Source sys, nat, nat, unit) ListenOption list)) = Ok \<lparr>ls_inner = (3, config), ls_sourceCloser = None\<rparr>"
    by (simp add: NewListenerWithMode_def open_source_def MTLSServerWithSource_def listenMode_of_def ex_live_env_def Let_def
      hook_server_mode_def mode_numbers)
  from workload_listen [OF ex_lib_anchored _ this] obtain present
    where c: "cfg_GetCertificate config = Some present"
      "\<And>std pj (sopts :: ((nat, nat) x509SourceConfig \<Rightarrow> (nat, nat) x509SourceConfig) list) s hello. watcher_reach (delivered_context Backcompat_Deny ex_lib) pj (NewX509Source_start sopts) s \<Longrightarrow>
       y_new s = N_Done None \<Longrightarrow> handshake_ok Backcompat_Deny ex_lib (source_picker sopts) ex_auth (newTLSConfig () :: (X509Source sys, nat, unit) tls_Config)
         (server_admits std config hello s) (snd (present s)) s"
    by (simp add: ex_live_env_def listen_options_def base_config_def) blast
  have ok: "handshake_ok Backcompat_Deny ex_lib None ex_auth (newTLSConfig () :: (X509Source sys, nat, unit) tls_Config)
      (server_admits (\<lambda>_ _. None) config ''hello'' s) (snd (present s)) s" if "ex_live s" for s
    using c(2) [of "\<lambda>_. False" "[configureX509Source ex_client_option]" s "\<lambda>_ _. None"] that
    by (simp add: ex_live_def ex_live_start)
  obtain s t where s: "ex_live s" "y_lastX s = Some ex_context" "\<not> y_called s"
    and t: "ex_live t" "y_called t" "watcher_step (delivered_context Backcompat_Deny ex_lib) (\<lambda>_. False) s t"
    by (rule ex_live_run)
  have "\<not> server_admits (\<lambda>_ _. None) config ''hello'' t [''leaf'']" using ok [OF t(1)] t(2) by (simp add: handshake_ok_def)
  then show ?thesis using ex_handshake [OF ok [OF s(1)] s(2,3)] c(1) t(2,3) by blast
qed

text \<open>
  C3: From the Workload API to a token. A token that is accepted with a constructed \<open>JWTSource\<close> as
  the source of bundles was verified with the authority that the last JWT bundles delivered by the
  Workload API hold, for the trust domain of the token's subject, under the key ID of the token;
  the source was open; the token has not expired and is for one of the audiences.
\<close>
theorem workload_jwt:
  assumes "validate_checks lib"
    and run: "watcher_reach px (delivered_bundles cs unmarshal) (NewJWTSource_start sopts) s" "y_new s = N_Done None"
    and "jwtsvid_ParseAndValidate cs lib now token (JWTSource_GetJWTBundleForTrustDomain (src s)) audience = Ok svid"
  shows "\<not> jsrc_closed (src s) \<and> (\<exists>bundles b tok h hs a. y_lastJ s = Some bundles \<and> delivered_bundles cs unmarshal bundles \<and>
    jwtbundle_Set_Get bundles (ID_TrustDomain (js_ID svid)) = Some b \<and>
    lib_ParseSigned lib token allowedSignatureAlgorithms = Ok tok \<and> tok_Headers tok = h # hs \<and>
    jwtbundle_FindJWTAuthority b (hd_KeyID h) = Some a \<and> lib_Claims lib tok a = Ok (js_Claims svid)) \<and>
    now \<le> js_Expiry svid + 60 \<and> (audience \<noteq> [] \<longrightarrow> set audience \<inter> set (js_Audience svid) \<noteq> {})"
  using assms by (rule token_anchored)

theorem workload_jwt_witness:
  "\<exists>s svid b. watcher_reach (\<lambda>_. False) (delivered_bundles Backcompat_Deny ex_unmarshal)
       (NewJWTSource_start [configureJWTSource ex_client_option]) s \<and>
     jwtsvid_ParseAndValidate Backcompat_Deny jwt_ex_lib 90 ''tok'' (JWTSource_GetJWTBundleForTrustDomain (src s)) [''aud''] = Ok svid \<and>
     jwtbundle_Set_Get (the (y_lastJ s)) (ID_TrustDomain (js_ID svid)) = Some b"
proof -
  let ?j = "[(TrustDomain ''td'', jwt_ex_bundle)]"
  obtain s where s: "watcher_reach (\<lambda>_. False) (delivered_bundles Backcompat_Deny ex_unmarshal)
       (NewJWTSource_start [configureJWTSource ex_client_option]) s" "y_new s = N_Done None" "y_lastJ s = Some ?j"
    and get: "JWTSource_GetJWTBundleForTrustDomain (src s) (TrustDomain ''td'') = Ok jwt_ex_bundle"
    using ex_jwt_run by blast
  have f: "FromString Backcompat_Deny ''spiffe://td/w'' = Ok (mk_ID ''td'' ''/w'')" by code_simp
  let ?svid = "\<lparr>js_ID = mk_ID ''td'' ''/w'', js_Audience = [''aud''], js_Expiry = 100,
    js_Claims = [(''sub'', JString ''spiffe://td/w'')], js_Hint = [], js_token = ''tok''\<rparr>"
  have p: "jwtsvid_ParseAndValidate Backcompat_Deny jwt_ex_lib 90 ''tok''
      (JWTSource_GetJWTBundleForTrustDomain (src s)) [''aud''] = Ok ?svid"
    using f get
    by (simp add: jwtsvid_ParseAndValidate_def jwtsvid_parse_def jwt_ex_lib_def first_header_def
        jwtsvid_typ_forbidden_def HeaderType_def jwtsvid_verifyClaims_def jwt_ex_bundle_def jwtbundle_FindJWTAuthority_def)
  have v: "validate_checks jwt_ex_lib"
    by (auto simp: validate_checks_def jwt_ex_lib_def split: option.splits if_splits)
  obtain b where "jwtbundle_Set_Get ?j (ID_TrustDomain (js_ID ?svid)) = Some b"
    using workload_jwt [OF v s(1,2) p] s(3) by auto
  then show ?thesis using p s(1,3) by (intro exI [of _ s] exI [of _ ?svid] exI [of _ b]) simp
qed

text \<open>
  C4: The same for WIT-SVIDs. A token that is accepted with a constructed \<open>WITSource\<close> was verified with
  the authority that the last WIT bundles delivered by the Workload API hold, for the trust domain
  of the token's subject, under its key ID, while the source was open; it has not expired, and
  the key it is bound to is the public key of its own \<open>cnf.jwk\<close> claim.
\<close>
theorem workload_wit:
  assumes "validate_checks lib"
    and run: "wit_reach ps (\<lambda>b. \<exists>resp. parseWITBundles cs unmarshal resp = Ok b) owns s" "z_new s = W_Done None"
    and "witsvid_ParseAndValidate cs lib now token (WITSource_GetWITBundleForTrustDomain (z_s s)) = Ok svid"
  shows "\<not> wb_closed (wsrc_base (z_s s)) \<and> (\<exists>resp bundles b tok a m claims. z_lastB s = Some bundles \<and>
      parseWITBundles cs unmarshal resp = Ok bundles \<and> witbundle_Set_Get bundles (ID_TrustDomain (ws_ID svid)) = Some b \<and>
      lib_ParseSigned lib token allowedSignatureAlgorithms = Ok tok \<and>
      witbundle_FindWITAuthority b (ws_KeyID svid) = Some a \<and> lib_Claims lib tok a = Ok m \<and>
      lib_UnsafeClaimsMap lib tok = Ok claims \<and> extractCnfJWK lib claims = Ok (ws_PublicKey svid)) \<and>
    now \<le> ws_Expiry svid + 60"
proof -
  obtain tok h hs b a m claims where p: "lib_ParseSigned lib token allowedSignatureAlgorithms = Ok tok" "tok_Headers tok = h # hs"
    "WITSource_GetWITBundleForTrustDomain (z_s s) (ID_TrustDomain (ws_ID svid)) = Ok b"
    "witbundle_FindWITAuthority b (ws_KeyID svid) = Some a" "lib_Claims lib tok a = Ok m"
    "lib_UnsafeClaimsMap lib tok = Ok claims" "extractCnfJWK lib claims = Ok (ws_PublicKey svid)"
    "now \<le> ws_Expiry svid + 60"
    using assms(1,4) by (rule witsvid_ParseAndValidate_checked)
  obtain bundles where "\<not> wb_closed (wsrc_base (z_s s))" "z_lastB s = Some bundles"
    "\<exists>resp. parseWITBundles cs unmarshal resp = Ok bundles" "witbundle_Set_Get bundles (ID_TrustDomain (ws_ID svid)) = Some b"
    using run p(3) by (rule WITSource_bundle_delivered)
  then show ?thesis using p(1,4-8) by (elim exE) (intro conjI exI; assumption)
qed

theorem workload_wit_witness:
  "\<exists>s svid b. wit_reach (\<lambda>ss. ss = [ex_wit_svid]) (\<lambda>b. \<exists>resp. parseWITBundles Backcompat_Deny ex_unmarshal resp = Ok b) True s \<and>
     witsvid_ParseAndValidate Backcompat_Deny wit_ex_lib 90 ''tok'' (WITSource_GetWITBundleForTrustDomain (z_s s)) = Ok svid \<and>
     witbundle_Set_Get (the (z_lastB s)) (ID_TrustDomain (ws_ID svid)) = Some b"
proof -
  let ?b = "[(TrustDomain ''td'', wit_ex_bundle)]"
  have td: "TrustDomainFromString Backcompat_Deny ''td'' = Ok (TrustDomain ''td'')" by code_simp
  have "parseWITBundles Backcompat_Deny ex_unmarshal [(''td'', ''a'')] = Ok ?b"
    by (simp add: parseWITBundles_def td witbundle_Parse_def ex_unmarshal_def jwks_list_def
        witbundle_AddWITAuthority_def zero_jwk_def witbundle_NewSet_def witbundle_New_def wit_ex_bundle_def)
  then have d: "\<exists>resp. parseWITBundles Backcompat_Deny ex_unmarshal resp = Ok ?b"
    by (rule exI [where x = "[(''td'', ''a'')]"])
  obtain s where s: "wit_reach (\<lambda>ss. ss = [ex_wit_svid]) (\<lambda>b. \<exists>resp. parseWITBundles Backcompat_Deny ex_unmarshal resp = Ok b) True s"
      "z_new s = W_Done None" "z_lastB s = Some ?b" "\<not> wb_closed (wsrc_base (z_s s))"
    using wit_source_run [of "\<lambda>ss. ss = [ex_wit_svid]" "[ex_wit_svid]"
      "\<lambda>b. \<exists>resp. parseWITBundles Backcompat_Deny ex_unmarshal resp = Ok b", OF refl d] by (elim exE conjE) (rule that)
  have get: "WITSource_GetWITBundleForTrustDomain (z_s s) (TrustDomain ''td'') = Ok wit_ex_bundle"
    using wit_reach_inv [OF s(1)] s(2-4)
    by (auto simp: wit_rel_def WITSource_GetWITBundleForTrustDomain_def WITSource_checkClosed_def
        witbundle_Set_GetWITBundleForTrustDomain_def)
  have f: "FromString Backcompat_Deny ''spiffe://td/w'' = Ok (mk_ID ''td'' ''/w'')" by code_simp
  let ?svid = "\<lparr>ws_ID = mk_ID ''td'' ''/w'', ws_Expiry = 100, ws_PublicKey = Ed25519_PublicKey ''pop'',
    ws_KeyID = ''k1'', ws_PrivateKey = None, ws_Hint = [], ws_token = ''tok''\<rparr>"
  have p: "witsvid_ParseAndValidate Backcompat_Deny wit_ex_lib 90 ''tok'' (WITSource_GetWITBundleForTrustDomain (z_s s)) = Ok ?svid"
    using f get
    by (simp add: witsvid_ParseAndValidate_def witsvid_parse_def wit_ex_lib_def first_header_def
        witsvid_typ_def HeaderType_def witsvid_verifySignature_def wit_ex_bundle_def
        witbundle_FindWITAuthority_def extractCnfJWK_def allowedSignatureAlgorithms_def)
  have v: "validate_checks wit_ex_lib"
    by (auto simp: validate_checks_def wit_ex_lib_def split: option.splits if_splits)
  obtain b where "witbundle_Set_Get ?b (ID_TrustDomain (ws_ID ?svid)) = Some b"
    using workload_wit [OF v s(1,2) p] s(3) by auto
  then show ?thesis using p s(1,3) by (intro exI [of _ s] exI [of _ ?svid] exI [of _ b]) simp
qed

text \<open>
  C5: Nothing is served without a valid token. Run the token server of the examples, directly or
  behind the proxy, on a \<open>JWTSource\<close> that the Workload API feeds, and take the handler that it
  registers. In every state of the source a request gets one of two answers: 200, and then its
  \<open>Authorization\<close> header was \<open>Bearer\<close> and a token that has not expired, is for the server's audience
  and was verified with an authority of the last bundles delivered for the trust domain of its
  subject; or 401. It never panics.
\<close>
theorem example_server_guarded:
  assumes "validate_checks (ae_jose env)" "jose_no_panic (ae_jose env)" "parsed_has_header (ae_jose env)"
    and run: "watcher_reach px (delivered_bundles (ae_charset env) unmarshal) (NewJWTSource_start sopts) s" "y_new s = N_Done None"
    and deref: "\<And>js. ae_deref env s js = src s"
    and handles: "Did (Handles p h) \<in> set (fst (jwt_server_run env)) \<union> set (fst (proxied_server_run env))"
  shows "(\<exists>token svid. bearer_token req = Some token \<and> answer (h s req new_exchange) = Ok (Some 200, ''Success!!!'') \<and>
      anchored_token (ae_charset env) unmarshal (ae_jose env) (ae_now env s) token [''spiffe://example.org/server''] s svid) \<or>
    (\<exists>msg. answer (h s req new_exchange) = Ok (Some 401, msg))"
proof -
  obtain js where g: "answer (h s req new_exchange) =
      guarded_answer env \<lparr>au_jwtSource = js, au_audiences = [''spiffe://example.org/server'']\<rparr> s req"
    using token_server_handles [OF handles] by blast
  let ?v = "\<lambda>token. validated env \<lparr>au_jwtSource = js, au_audiences = [''spiffe://example.org/server'']\<rparr> s token"
  have v: "?v token = jwtsvid_ParseAndValidate (ae_charset env) (ae_jose env) (ae_now env s) token
      (JWTSource_GetJWTBundleForTrustDomain (src s)) [''spiffe://example.org/server'']" for token
    by (simp add: validated_def deref)
  have no_panic: "\<not> is_Panic (?v token)" for token
    unfolding v by (rule jwtsvid_ParseAndValidate_no_panic [OF assms(2,3) JWTSource_no_panic [OF run]])
  have ok: "anchored_token (ae_charset env) unmarshal (ae_jose env) (ae_now env s) token [''spiffe://example.org/server''] s svid"
    if "?v token = Ok svid" for token svid
    using token_anchored [OF assms(1) run that [unfolded v]] unfolding anchored_token_def by simp
  show ?thesis
  proof (cases "bearer_token req")
    case None
    then show ?thesis unfolding g guarded_answer_def by simp
  next
    case (Some token)
    show ?thesis
    proof (cases "?v token")
      case (Ok svid)
      then have "answer (h s req new_exchange) = Ok (Some 200, ''Success!!!'')" using Some unfolding g guarded_answer_def by simp
      then show ?thesis using Some ok [OF Ok] by blast
    next
      case (Err e)
      then show ?thesis using Some unfolding g guarded_answer_def by simp
    next
      case (Panic e)
      then show ?thesis using no_panic [of token] by simp
    qed
  qed
qed

theorem example_server_guarded_witness:
  "\<exists>s h req svid. watcher_reach (\<lambda>_. False) (delivered_bundles Backcompat_Deny ex_unmarshal)
       (NewJWTSource_start [configureJWTSource ex_client_option]) s \<and>
     Did (Handles ''/'' h) \<in> set (fst (jwt_server_run (ex_http_env src ex_client)
       :: ((unit, unit, string) handle, (JWTSource sys, unit, unit) http_act, unit) program)) \<and>
     answer (h s req new_exchange) = Ok (Some 200, ''Success!!!'') \<and>
     anchored_token Backcompat_Deny ex_unmarshal ex_jose 90 ''tok'' [''spiffe://example.org/server''] s svid"
proof -
  let ?env = "ex_http_env src ex_client :: (JWTSource sys, unit, string \<times> public_key, nat, unit,
    (unit, (unit, unit, unit) ClientOption) SourceOption, unit, unit, string) http_env"
  let ?req = "\<lparr>rq_Method = ''GET'', rq_URL = ''/'', rq_Header = [(''Authorization'', [''Bearer tok''])], rq_ctx = []\<rparr>"
  obtain s where s: "watcher_reach (\<lambda>_. False) (delivered_bundles Backcompat_Deny ex_unmarshal)
       (NewJWTSource_start [configureJWTSource ex_client_option]) s" "y_new s = N_Done None"
      "JWTSource_GetJWTBundleForTrustDomain (src s) (TrustDomain ''td'') = Ok jwt_ex_bundle"
    using ex_jwt_run by blast
  obtain h where h: "Did (Handles ''/'' h) \<in> set (fst (jwt_server_run ?env
       :: ((unit, unit, string) handle, (JWTSource sys, unit, unit) http_act, unit) program))"
    by (simp add: jwt_server_run_def ex_http_env_def Let_def)
  have env: "ae_charset ?env = Backcompat_Deny" "ae_jose ?env = ex_jose" "ae_now ?env s = 90" "\<And>js. ae_deref ?env s js = src s"
    by (simp_all add: ex_http_env_def)
  have b: "bearer_token ?req = Some ''tok''"
    by (rule bearer_token_header) (simp_all add: Header_Get_def graphic_def)
  have "answer (h s ?req new_exchange) = Ok (Some 200, ''Success!!!'')"
    using token_server_handles [OF UnI1 [OF h]] b ex_validated [where bundles = "JWTSource_GetJWTBundleForTrustDomain (src s)", OF s(3)]
    by (auto simp: guarded_answer_def validated_def env)
  moreover have "validate_checks ex_jose" "jose_no_panic ex_jose" "parsed_has_header ex_jose"
    by (auto simp: validate_checks_def jose_no_panic_def parsed_has_header_def ex_jose_def jwt_ex_lib_def
        split: option.splits if_splits)
  then have "(\<exists>token svid. bearer_token ?req = Some token \<and> answer (h s ?req new_exchange) = Ok (Some 200, ''Success!!!'') \<and>
      anchored_token Backcompat_Deny ex_unmarshal ex_jose 90 token [''spiffe://example.org/server''] s svid) \<or>
    (\<exists>msg. answer (h s ?req new_exchange) = Ok (Some 401, msg))"
    using example_server_guarded [of ?env, OF _ _ _ _ s(2) env(4) UnI1 [OF h]] s(1) unfolding env by blast
  ultimately obtain svid where "answer (h s ?req new_exchange) = Ok (Some 200, ''Success!!!'')"
    "anchored_token Backcompat_Deny ex_unmarshal ex_jose 90 ''tok'' [''spiffe://example.org/server''] s svid"
    using b by auto
  then show ?thesis using s(1) h by blast
qed

end
